(* ===== verification/Prelude.thy ===== *)
theory Prelude
  imports Main "HOL-Library.Word" "HOL-Library.List_Lexorder" "HOL-Library.Char_ord"
begin

text \<open>
  What every component of the development shares: the collections its automation runs on, and
  generic lemmas on sums, lists used as tables and sorted listings.

  \<^item> \<open>go_simps\<close> unfolds the sequencing of Go statements (theory Store).
  \<^item> \<open>row_simps\<close> holds the field-by-field facts of rows and domain models.
  \<^item> \<open>tri\<close> holds the Hoare rules of single repository operations.
\<close>

named_theorems go_simps
named_theorems row_simps
named_theorems tri

type_synonym byte = "8 word"

text \<open>A \<open>time.Time\<close> is its number of nanoseconds since the Unix epoch; a duration likewise.\<close>

type_synonym time = int

section \<open>Sums\<close>

fun is_Inr :: "'a + 'b \<Rightarrow> bool" where
  "is_Inr (Inr _) = True"
| "is_Inr (Inl _) = False"

lemma is_Inr_conv: "is_Inr r \<longleftrightarrow> (\<exists>x. r = Inr x)"
  by (cases r) auto

section \<open>Results\<close>

text \<open>Go's \<open>if err != nil { return err }\<close> on a plain result, and a loop that stops at an error.\<close>

definition bind_result :: "'e + 'a \<Rightarrow> ('a \<Rightarrow> 'e + 'b) \<Rightarrow> 'e + 'b" where
  "bind_result r f = (case r of Inl e \<Rightarrow> Inl e | Inr x \<Rightarrow> f x)"

lemma bind_result_simps [simp]:
  "bind_result (Inl e) f = Inl e" "bind_result (Inr x) f = f x"
  by (simp_all add: bind_result_def)

lemma bind_result_Inr_iff: "bind_result r f = Inr y \<longleftrightarrow> (\<exists>x. r = Inr x \<and> f x = Inr y)"
  by (cases r) auto

lemma bind_result_Inl_iff: "bind_result r f = Inl e \<longleftrightarrow> r = Inl e \<or> (\<exists>x. r = Inr x \<and> f x = Inl e)"
  by (cases r) auto

fun traverse :: "('a \<Rightarrow> 'e + 'b) \<Rightarrow> 'a list \<Rightarrow> 'e + 'b list" where
  "traverse f [] = Inr []"
| "traverse f (x # xs) = bind_result (f x) (\<lambda>y. bind_result (traverse f xs) (\<lambda>ys. Inr (y # ys)))"

lemma traverse_Inr_iff: "traverse f xs = Inr ys \<longleftrightarrow> list_all2 (\<lambda>x y. f x = Inr y) xs ys"
  by (induction xs arbitrary: ys) (auto simp: bind_result_Inr_iff list_all2_Cons1)

lemma traverse_Inl_D: "traverse f xs = Inl e \<Longrightarrow> \<exists>x \<in> set xs. f x = Inl e"
  by (induction xs) (auto simp: bind_result_Inl_iff)

lemma traverse_map_Inr: "(\<And>x. x \<in> set xs \<Longrightarrow> f x = Inr (g x)) \<Longrightarrow> traverse f xs = Inr (map g xs)"
  by (induction xs) auto

lemma traverse_length: "traverse f xs = Inr ys \<Longrightarrow> length ys = length xs"
  by (simp add: traverse_Inr_iff list_all2_lengthD)

lemma traverse_map: "traverse f (map g xs) = traverse (\<lambda>x. f (g x)) xs"
  by (induction xs) auto

text \<open>A loop whose steps are checks on the way to a conversion.\<close>

lemma traverse_checked_Inr:
  "(\<And>x. x \<in> set xs \<Longrightarrow> f x = (case chk x of Some e \<Rightarrow> Inl e | None \<Rightarrow> Inr (g x)))
     \<Longrightarrow> traverse f xs = Inr ys \<Longrightarrow> (\<forall>x \<in> set xs. chk x = None) \<and> ys = map g xs"
  by (induction xs arbitrary: ys) (auto simp: bind_result_Inr_iff split: option.splits)

lemma traverse_checked_Inl:
  "(\<And>x. x \<in> set xs \<Longrightarrow> f x = (case chk x of Some e \<Rightarrow> Inl e | None \<Rightarrow> Inr (g x)))
     \<Longrightarrow> traverse f xs = Inl e \<Longrightarrow> \<exists>x \<in> set xs. chk x = Some e"
  by (induction xs) (auto simp: bind_result_Inl_iff split: option.splits)

section \<open>Lists as tables\<close>

text \<open>
  A table of the database is the list of its rows.  A statement's \<open>WHERE\<close> clause is a
  predicate; \<open>UPDATE\<close>, \<open>DELETE\<close> and the affected row count are the functions below.
\<close>

definition update_where :: "('r \<Rightarrow> bool) \<Rightarrow> ('r \<Rightarrow> 'r) \<Rightarrow> 'r list \<Rightarrow> 'r list" where
  "update_where p f rs = map (\<lambda>r. if p r then f r else r) rs"

definition delete_where :: "('r \<Rightarrow> bool) \<Rightarrow> 'r list \<Rightarrow> 'r list" where
  "delete_where p rs = filter (\<lambda>r. \<not> p r) rs"

definition count_where :: "('r \<Rightarrow> bool) \<Rightarrow> 'r list \<Rightarrow> nat" where
  "count_where p rs = length (filter p rs)"

definition first_row :: "'r list \<Rightarrow> 'r option" where
  "first_row rs = (case rs of [] \<Rightarrow> None | r # _ \<Rightarrow> Some r)"

lemma first_row_simps [simp]:
  "first_row [] = None" "first_row (r # rs) = Some r"
  by (simp_all add: first_row_def)

lemma first_row_None_iff [simp]: "first_row rs = None \<longleftrightarrow> rs = []"
  by (cases rs) auto

lemma first_row_SomeD: "first_row rs = Some r \<Longrightarrow> r \<in> set rs"
  by (cases rs) auto

lemma first_row_filter_SomeD: "first_row (filter p rs) = Some r \<Longrightarrow> r \<in> set rs \<and> p r"
  by (metis first_row_SomeD mem_Collect_eq set_filter)

lemma set_update_where:
  "set (update_where p f rs) = f ` {r \<in> set rs. p r} \<union> {r \<in> set rs. \<not> p r}"
  by (auto simp: update_where_def)

lemma set_delete_where [simp]: "set (delete_where p rs) = {r \<in> set rs. \<not> p r}"
  by (auto simp: delete_where_def)

lemma count_where_zero_iff: "count_where p rs = 0 \<longleftrightarrow> (\<forall>r \<in> set rs. \<not> p r)"
  by (simp add: count_where_def filter_empty_conv)

lemma count_where_pos_iff: "0 < count_where p rs \<longleftrightarrow> (\<exists>r \<in> set rs. p r)"
  by (induction rs) (auto simp: count_where_def)

lemma update_where_id: "\<forall>r \<in> set rs. \<not> p r \<Longrightarrow> update_where p f rs = rs"
  by (induction rs) (auto simp: update_where_def)

lemma delete_where_id: "\<forall>r \<in> set rs. \<not> p r \<Longrightarrow> delete_where p rs = rs"
  by (induction rs) (auto simp: delete_where_def)

text \<open>A column that an \<open>UPDATE\<close> does not set keeps its values, and so its uniqueness.\<close>

lemma map_update_where:
  "(\<And>r. k (f r) = k r) \<Longrightarrow> map k (update_where p f rs) = map k rs"
  by (simp add: update_where_def)

lemma distinct_map_filter_rows: "distinct (map k rs) \<Longrightarrow> distinct (map k (filter p rs))"
  by (induction rs) auto

lemma distinct_map_delete_where: "distinct (map k rs) \<Longrightarrow> distinct (map k (delete_where p rs))"
  unfolding delete_where_def by (rule distinct_map_filter_rows)

lemma distinct_map_snoc:
  "distinct (map k (rs @ [r])) \<longleftrightarrow> distinct (map k rs) \<and> (\<forall>x \<in> set rs. k x \<noteq> k r)"
  by (auto simp: image_iff)

lemma distinct_map_key_eq:
  "distinct (map k rs) \<Longrightarrow> r \<in> set rs \<Longrightarrow> s \<in> set rs \<Longrightarrow> k r = k s \<Longrightarrow> r = s"
  by (meson distinct_map inj_onD)

text \<open>Under a unique key, the rows with that key are one row or none.\<close>

lemma filter_unique_key:
  "distinct (map k rs) \<Longrightarrow> r \<in> set rs \<Longrightarrow> filter (\<lambda>x. k x = k r) rs = [r]"
  by (induction rs) (auto simp: image_iff filter_empty_conv)

lemma first_row_unique_key:
  "distinct (map k rs) \<Longrightarrow> r \<in> set rs \<Longrightarrow> first_row (filter (\<lambda>x. k x = k r) rs) = Some r"
  by (simp add: filter_unique_key)

lemma count_where_le_one_key:
  "distinct (map k rs) \<Longrightarrow> (\<And>r. p r \<Longrightarrow> k r = v) \<Longrightarrow> count_where p rs \<le> 1"
proof (induction rs)
  case Nil
  then show ?case by (simp add: count_where_def)
next
  case (Cons a rs)
  show ?case
  proof (cases "p a")
    case True
    with Cons.prems have "\<forall>r \<in> set rs. \<not> p r" by (auto simp: image_iff)
    with True show ?thesis by (simp add: count_where_def filter_empty_conv)
  next
    case False
    with Cons show ?thesis by (simp add: count_where_def)
  qed
qed

section \<open>Sorted listings\<close>

lemma set_take_subset_rows: "x \<in> set (take n xs) \<Longrightarrow> x \<in> set xs"
  by (rule in_set_takeD)

lemma sorted_map_take: "sorted (map k xs) \<Longrightarrow> sorted (map k (take n xs))"
  by (simp add: take_map [symmetric] sorted_wrt_take)

end
