(* ===== verification/GoStrings.thy ===== *)
theory GoStrings
  imports Prelude
begin

text \<open>
  The part of Go's standard library on strings that the service uses.  A Go string is a sequence
  of bytes, as a HOL \<open>string\<close> is, so no decoding is hidden in the representation: where the
  code works on runes (\<open>strings.TrimSpace\<close>, \<open>utf8.RuneCountInString\<close>) the UTF-8 decoder
  of package unicode/utf8 is written out, invalid bytes included.  Also here: the encodings of
  encoding/hex and encoding/base64 that internal/identifier and internal/onetimetoken use.
\<close>

section \<open>UTF-8 (package unicode/utf8)\<close>

definition RuneError :: nat where
  "RuneError = 65533"

definition is_cont :: "nat \<Rightarrow> bool" where
  "is_cont b \<longleftrightarrow> 128 \<le> b \<and> b \<le> 191"

text \<open>The range of the second byte after a given first byte (Go's acceptRanges).\<close>

definition accept_lo :: "nat \<Rightarrow> nat" where
  "accept_lo b0 = (if b0 = 224 then 160 else if b0 = 240 then 144 else 128)"

definition accept_hi :: "nat \<Rightarrow> nat" where
  "accept_hi b0 = (if b0 = 237 then 159 else if b0 = 244 then 143 else 191)"

text \<open>\<open>DecodeRune\<close> answers the first rune and its width; an invalid byte is \<open>(RuneError, 1)\<close>.\<close>

definition DecodeRune :: "nat list \<Rightarrow> nat \<times> nat" where
  "DecodeRune p = (case p of
      [] \<Rightarrow> (RuneError, 0)
    | b0 # r \<Rightarrow>
        if b0 < 128 then (b0, 1)
        else if 194 \<le> b0 \<and> b0 \<le> 223 then
          (case r of
            b1 # _ \<Rightarrow> if is_cont b1 then ((b0 - 192) * 64 + (b1 - 128), 2) else (RuneError, 1)
          | [] \<Rightarrow> (RuneError, 1))
        else if 224 \<le> b0 \<and> b0 \<le> 239 then
          (case r of
            b1 # b2 # _ \<Rightarrow>
              if accept_lo b0 \<le> b1 \<and> b1 \<le> accept_hi b0 \<and> is_cont b2
              then ((b0 - 224) * 4096 + (b1 - 128) * 64 + (b2 - 128), 3) else (RuneError, 1)
          | _ \<Rightarrow> (RuneError, 1))
        else if 240 \<le> b0 \<and> b0 \<le> 244 then
          (case r of
            b1 # b2 # b3 # _ \<Rightarrow>
              if accept_lo b0 \<le> b1 \<and> b1 \<le> accept_hi b0 \<and> is_cont b2 \<and> is_cont b3
              then ((b0 - 240) * 262144 + (b1 - 128) * 4096 + (b2 - 128) * 64 + (b3 - 128), 4)
              else (RuneError, 1)
          | _ \<Rightarrow> (RuneError, 1))
        else (RuneError, 1))"

definition bytes_of :: "string \<Rightarrow> nat list" where
  "bytes_of s = map of_char s"

definition DecodeRuneInString :: "string \<Rightarrow> nat \<times> nat" where
  "DecodeRuneInString s = DecodeRune (bytes_of (take 4 s))"

lemma DecodeRune_take4: "DecodeRune (take 4 p) = DecodeRune p"
proof -
  consider "p = []" | a where "p = [a]" | a b where "p = [a, b]" | a b c where "p = [a, b, c]"
    | a b c d r where "p = a # b # c # d # r"
    by (metis list.exhaust)
  then show ?thesis by cases (simp_all add: DecodeRune_def numeral_eq_Suc)
qed

lemma DecodeRuneInString_eq: "DecodeRuneInString s = DecodeRune (bytes_of s)"
  by (metis DecodeRuneInString_def DecodeRune_take4 bytes_of_def take_map)

lemma DecodeRune_size_bounds:
  "p \<noteq> [] \<Longrightarrow> 1 \<le> snd (DecodeRune p) \<and> snd (DecodeRune p) \<le> length p"
  by (auto simp: DecodeRune_def split: list.splits)

lemma DecodeRuneInString_size:
  "s \<noteq> [] \<Longrightarrow> 1 \<le> snd (DecodeRuneInString s) \<and> snd (DecodeRuneInString s) \<le> length s"
  using DecodeRune_size_bounds [of "bytes_of s"]
  by (simp add: DecodeRuneInString_eq bytes_of_def)

text \<open>Go's \<open>[]rune(s)\<close>: the runes of a string, one \<open>RuneError\<close> per invalid byte.\<close>

function runes :: "string \<Rightarrow> nat list" where
  "runes s = (if s = [] then []
     else fst (DecodeRuneInString s) # runes (drop (snd (DecodeRuneInString s)) s))"
  by pat_completeness auto
termination
  by (relation "measure length") (use DecodeRuneInString_size in \<open>force simp: Suc_le_eq\<close>)+

declare runes.simps [simp del]

lemma runes_Nil [simp]: "runes [] = []"
  by (simp add: runes.simps)

definition RuneCountInString :: "string \<Rightarrow> nat" where
  "RuneCountInString s = length (runes s)"

lemma RuneCountInString_le_length: "RuneCountInString s \<le> length s"
proof (induction s rule: runes.induct)
  case (1 s)
  show ?case
  proof (cases "s = []")
    case True
    then show ?thesis by (simp add: RuneCountInString_def)
  next
    case False
    with 1 have "length (runes (drop (snd (DecodeRuneInString s)) s))
        \<le> length s - snd (DecodeRuneInString s)"
      by (simp add: RuneCountInString_def)
    with False DecodeRuneInString_size [OF False]
    have "Suc (length (runes (drop (snd (DecodeRuneInString s)) s))) \<le> length s"
      by linarith
    with False show ?thesis by (simp add: RuneCountInString_def runes.simps [of s])
  qed
qed

text \<open>On ASCII text the runes are the bytes.\<close>

lemma DecodeRuneInString_ascii:
  "of_char c < (128::nat) \<Longrightarrow> DecodeRuneInString (c # s) = (of_char c, 1)"
  by (simp add: DecodeRuneInString_eq bytes_of_def DecodeRune_def)

lemma runes_ascii: "\<forall>c \<in> set s. of_char c < (128::nat) \<Longrightarrow> runes s = bytes_of s"
  by (induction s) (simp_all add: runes.simps [of "_ # _"] DecodeRuneInString_ascii bytes_of_def)

section \<open>Trimming white space (package strings)\<close>

text \<open>unicode.IsSpace: the code points with the White_Space property.\<close>

definition IsSpace :: "nat \<Rightarrow> bool" where
  "IsSpace r \<longleftrightarrow> r \<in> {9, 10, 11, 12, 13, 32, 133, 160, 5760, 8232, 8233, 8239, 8287, 12288}
     \<or> (8192 \<le> r \<and> r \<le> 8202)"

function trim_left :: "string \<Rightarrow> string" where
  "trim_left s = (if s = [] then []
     else if IsSpace (fst (DecodeRuneInString s))
          then trim_left (drop (snd (DecodeRuneInString s)) s) else s)"
  by pat_completeness auto
termination
  by (relation "measure length") (use DecodeRuneInString_size in \<open>force simp: Suc_le_eq\<close>)+

declare trim_left.simps [simp del]

text \<open>
  utf8.DecodeLastRune: from the last byte back over at most four bytes to the nearest byte that can
  start a rune, which must decode to exactly the rest of the string.
\<close>

definition RuneStart :: "nat \<Rightarrow> bool" where
  "RuneStart b \<longleftrightarrow> \<not> is_cont b"

fun rune_start_before :: "nat list \<Rightarrow> nat \<Rightarrow> nat \<Rightarrow> nat" where
  "rune_start_before p lim 0 = 0"
| "rune_start_before p lim (Suc i) =
     (if Suc i \<le> lim then lim else if RuneStart (p ! i) then i else rune_start_before p lim i)"

definition DecodeLastRune :: "nat list \<Rightarrow> nat \<times> nat" where
  "DecodeLastRune p = (if p = [] then (RuneError, 0)
     else let end = length p; b = last p in
       if b < 128 then (b, 1)
       else let start = rune_start_before p (end - 4) (end - 1);
                (r, size) = DecodeRune (drop start p)
            in if start + size \<noteq> end then (RuneError, 1) else (r, size))"

lemma rune_start_before_le: "rune_start_before p lim i \<le> max i lim"
  by (induction i) auto

lemma DecodeLastRune_size:
  assumes "p \<noteq> []"
  shows "1 \<le> snd (DecodeLastRune p) \<and> snd (DecodeLastRune p) \<le> length p"
proof -
  let ?s = "rune_start_before p (length p - 4) (length p - 1)"
  have "?s \<le> max (length p - 1) (length p - 4)" by (rule rune_start_before_le)
  with assms have "?s < length p"
    by (metis diff_less length_greater_0_conv max_def order_le_less_trans zero_less_numeral zero_less_one)
  then have "drop ?s p \<noteq> []" by simp
  from DecodeRune_size_bounds [OF this] assms show ?thesis
    by (auto simp: DecodeLastRune_def Let_def split: prod.splits)
qed

function trim_right :: "string \<Rightarrow> string" where
  "trim_right s = (if s = [] then []
     else if IsSpace (fst (DecodeLastRune (bytes_of s)))
          then trim_right (take (length s - snd (DecodeLastRune (bytes_of s))) s) else s)"
  by pat_completeness auto
termination
proof (relation "measure length")
  fix s :: string
  assume "s \<noteq> []"
  with DecodeLastRune_size [of "bytes_of s"]
  show "(take (length s - snd (DecodeLastRune (bytes_of s))) s, s) \<in> measure length"
    by (simp add: bytes_of_def)
qed simp

declare trim_right.simps [simp del]

definition TrimSpace :: "string \<Rightarrow> string" where
  "TrimSpace s = trim_right (trim_left s)"

lemma trim_left_Nil [simp]: "trim_left [] = []"
  by (simp add: trim_left.simps)

lemma trim_right_Nil [simp]: "trim_right [] = []"
  by (simp add: trim_right.simps)

lemma trim_left_first:
  "trim_left s \<noteq> [] \<Longrightarrow> \<not> IsSpace (fst (DecodeRuneInString (trim_left s)))"
proof (induction s rule: trim_left.induct)
  case (1 s)
  then show ?case by (subst trim_left.simps, subst (asm) (2) trim_left.simps) (auto split: if_splits)
qed

lemma trim_right_last:
  "trim_right s \<noteq> [] \<Longrightarrow> \<not> IsSpace (fst (DecodeLastRune (bytes_of (trim_right s))))"
proof (induction s rule: trim_right.induct)
  case (1 s)
  then show ?case by (subst trim_right.simps, subst (asm) (2) trim_right.simps) (auto split: if_splits)
qed

lemma trim_left_fixed:
  "\<not> IsSpace (fst (DecodeRuneInString s)) \<Longrightarrow> trim_left s = s"
  by (cases "s = []") (simp_all add: trim_left.simps [of s])

lemma trim_right_fixed:
  "\<not> IsSpace (fst (DecodeLastRune (bytes_of s))) \<Longrightarrow> trim_right s = s"
  by (cases "s = []") (simp_all add: trim_right.simps [of s])

lemma trim_right_prefix: "\<exists>v. s = trim_right s @ v"
proof (induction s rule: trim_right.induct)
  case (1 s)
  let ?t = "take (length s - snd (DecodeLastRune (bytes_of s))) s"
  show ?case
  proof (cases "s = [] \<or> \<not> IsSpace (fst (DecodeLastRune (bytes_of s)))")
    case True
    then show ?thesis by (auto simp: trim_right.simps [of s])
  next
    case False
    with 1 obtain v where "?t = trim_right ?t @ v" by auto
    then have "s = trim_right ?t @ (v @ drop (length s - snd (DecodeLastRune (bytes_of s))) s)"
      by (metis append.assoc append_take_drop_id)
    with False show ?thesis by (metis trim_right.simps)
  qed
qed

text \<open>
  A rune that is white space is validly encoded, so what follows it does not change how it decodes.
  This is why cutting white space off the end cannot uncover white space at the front.
\<close>

lemma DecodeRune_valid_append:
  assumes "fst (DecodeRune u) \<noteq> RuneError"
  shows "DecodeRune (u @ v) = DecodeRune u"
proof -
  consider "u = []" | a where "u = [a]" | a b where "u = [a, b]" | a b c where "u = [a, b, c]"
    | a b c d r where "u = a # b # c # d # r"
    by (metis list.exhaust)
  then show ?thesis
    using assms by cases (simp_all add: DecodeRune_def Let_def split: if_splits)
qed

lemma not_IsSpace_RuneError: "\<not> IsSpace RuneError"
  by (simp add: IsSpace_def RuneError_def)

lemma DecodeRune_space_append:
  "IsSpace (fst (DecodeRune u)) \<Longrightarrow> DecodeRune (u @ v) = DecodeRune u"
  using DecodeRune_valid_append not_IsSpace_RuneError by metis

lemma trim_left_trim_right:
  assumes "\<not> IsSpace (fst (DecodeRuneInString s))"
  shows "trim_left (trim_right s) = trim_right s"
proof (rule trim_left_fixed)
  obtain v where v: "s = trim_right s @ v" using trim_right_prefix by blast
  have "DecodeRune (bytes_of s) = DecodeRune (bytes_of (trim_right s) @ bytes_of v)"
    by (subst v) (simp add: bytes_of_def)
  with assms show "\<not> IsSpace (fst (DecodeRuneInString (trim_right s)))"
    by (metis DecodeRuneInString_eq DecodeRune_space_append)
qed

lemma DecodeRuneInString_Nil: "fst (DecodeRuneInString []) = RuneError"
  by (simp add: DecodeRuneInString_def bytes_of_def DecodeRune_def)

lemma DecodeLastRune_Nil: "fst (DecodeLastRune []) = RuneError"
  by (simp add: DecodeLastRune_def)

lemma TrimSpace_first: "\<not> IsSpace (fst (DecodeRuneInString (TrimSpace s)))"
proof -
  have "\<not> IsSpace (fst (DecodeRuneInString (trim_left s)))"
    using trim_left_first [of s] DecodeRuneInString_Nil not_IsSpace_RuneError
    by (cases "trim_left s = []") auto
  note fixed = trim_left_trim_right [OF this]
  show ?thesis
    using trim_left_first [of "trim_right (trim_left s)"] fixed DecodeRuneInString_Nil
      not_IsSpace_RuneError
    by (cases "trim_right (trim_left s) = []") (auto simp: TrimSpace_def)
qed

lemma TrimSpace_last: "\<not> IsSpace (fst (DecodeLastRune (bytes_of (TrimSpace s))))"
  using trim_right_last [of "trim_left s"] DecodeLastRune_Nil not_IsSpace_RuneError
  by (cases "trim_right (trim_left s) = []") (auto simp: TrimSpace_def bytes_of_def)

lemma TrimSpace_idem [simp]: "TrimSpace (TrimSpace s) = TrimSpace s"
proof -
  have "trim_left (TrimSpace s) = TrimSpace s"
    by (rule trim_left_fixed [OF TrimSpace_first])
  then show ?thesis
    by (metis TrimSpace_def TrimSpace_last trim_right_fixed)
qed

lemma trimmed_no_blank: "TrimSpace s = s \<Longrightarrow> s \<noteq> [] \<Longrightarrow> List.last s \<noteq> CHR '' ''"
  using TrimSpace_last [of s]
  by (auto simp: DecodeLastRune_def bytes_of_def IsSpace_def last_map)

lemma TrimSpace_Nil [simp]: "TrimSpace [] = []"
  by (simp add: TrimSpace_def)

section \<open>Hexadecimal (package encoding/hex)\<close>

definition hextable :: string where
  "hextable = ''0123456789abcdef''"

definition hex_byte :: "byte \<Rightarrow> string" where
  "hex_byte b = [hextable ! (unat b div 16), hextable ! (unat b mod 16)]"

definition hex_EncodeToString :: "byte list \<Rightarrow> string" where
  "hex_EncodeToString bs = concat (map hex_byte bs)"

lemma length_hex_EncodeToString: "length (hex_EncodeToString bs) = 2 * length bs"
  by (induction bs) (simp_all add: hex_EncodeToString_def hex_byte_def)

lemma unat_byte_less: "unat (b :: byte) < 256"
  using unsigned_less [of b] by simp

lemma length_hextable: "length hextable = 16" and distinct_hextable: "distinct hextable"
  by (simp_all add: hextable_def)

lemma hextable_nth_in: "i < 16 \<Longrightarrow> hextable ! i \<in> set hextable"
  by (rule nth_mem) (simp add: length_hextable)

lemma set_hex_EncodeToString: "set (hex_EncodeToString bs) \<subseteq> set hextable"
proof -
  have "unat b div 16 < 16" for b :: byte
    using unat_byte_less [of b] by (simp add: less_mult_imp_div_less)
  then have "set (hex_byte b) \<subseteq> set hextable" for b
    by (auto simp: hex_byte_def hextable_nth_in)
  then show ?thesis by (auto simp: hex_EncodeToString_def)
qed

lemma hex_byte_inject: "hex_byte a = hex_byte b \<longleftrightarrow> a = b"
proof
  assume eq: "hex_byte a = hex_byte b"
  have "unat a div 16 < 16" "unat b div 16 < 16"
    using unat_byte_less [of a] unat_byte_less [of b] by (simp_all add: less_mult_imp_div_less)
  with eq have "unat a div 16 = unat b div 16" "unat a mod 16 = unat b mod 16"
    using nth_eq_iff_index_eq [OF distinct_hextable]
    by (simp_all add: hex_byte_def length_hextable)
  then have "unat a = unat b" by (metis div_mult_mod_eq)
  then show "a = b" by (rule word_unat_eq_iff [THEN iffD2])
qed simp

lemma hex_EncodeToString_inject:
  "hex_EncodeToString as = hex_EncodeToString bs \<longleftrightarrow> as = bs"
proof
  assume "hex_EncodeToString as = hex_EncodeToString bs"
  then show "as = bs"
  proof (induction as arbitrary: bs)
    case Nil
    then show ?case by (cases bs) (auto simp: hex_EncodeToString_def hex_byte_def)
  next
    case (Cons a as)
    then obtain b bs' where bs: "bs = b # bs'"
      by (cases bs) (auto simp: hex_EncodeToString_def hex_byte_def)
    from Cons.prems have "hex_byte a @ hex_EncodeToString as = hex_byte b @ hex_EncodeToString bs'"
      by (simp add: bs hex_EncodeToString_def)
    moreover have "length (hex_byte a) = length (hex_byte b)" by (simp add: hex_byte_def)
    ultimately have "hex_byte a = hex_byte b" "hex_EncodeToString as = hex_EncodeToString bs'"
      by simp_all
    with Cons.IH [of bs'] bs show ?case by (simp add: hex_byte_inject)
  qed
qed simp

section \<open>Base64 (package encoding/base64, RawURLEncoding)\<close>

definition encodeURL :: string where
  "encodeURL = ''ABCDEFGHIJKLMNOPQRSTUVWXYZabcdefghijklmnopqrstuvwxyz0123456789-_''"

fun RawURL_EncodeToString :: "byte list \<Rightarrow> string" where
  "RawURL_EncodeToString [] = []"
| "RawURL_EncodeToString [a] =
     (let n = unat a * 65536 in [encodeURL ! (n div 262144), encodeURL ! (n div 4096 mod 64)])"
| "RawURL_EncodeToString [a, b] =
     (let n = unat a * 65536 + unat b * 256
      in [encodeURL ! (n div 262144), encodeURL ! (n div 4096 mod 64), encodeURL ! (n div 64 mod 64)])"
| "RawURL_EncodeToString (a # b # c # bs) =
     (let n = unat a * 65536 + unat b * 256 + unat c
      in [encodeURL ! (n div 262144), encodeURL ! (n div 4096 mod 64),
          encodeURL ! (n div 64 mod 64), encodeURL ! (n mod 64)] @ RawURL_EncodeToString bs)"

lemma length_RawURL:
  "length (RawURL_EncodeToString bs) = 4 * (length bs div 3) +
     (if length bs mod 3 = 0 then 0 else Suc (length bs mod 3))"
proof (induction bs rule: RawURL_EncodeToString.induct)
  case (4 a b c bs)
  have "(3 + length bs) div 3 = Suc (length bs div 3)" by simp
  with 4 show ?case by (simp add: Let_def)
qed (simp_all add: Let_def)

text \<open>The alphabet of the encoding, and that the encoded bytes can be read back.\<close>

lemma length_encodeURL: "length encodeURL = 64" and distinct_encodeURL: "distinct encodeURL"
  by (simp_all add: encodeURL_def)

lemma encodeURL_nth_in: "i < 64 \<Longrightarrow> encodeURL ! i \<in> set encodeURL"
  by (rule nth_mem) (simp add: length_encodeURL)

lemma encodeURL_inject: "i < 64 \<Longrightarrow> j < 64 \<Longrightarrow> encodeURL ! i = encodeURL ! j \<longleftrightarrow> i = j"
  using nth_eq_iff_index_eq [OF distinct_encodeURL] by (simp add: length_encodeURL)

lemma sextet: "n < 16777216 \<Longrightarrow> n div 262144 < (64::nat)"
  by (rule less_mult_imp_div_less) simp

lemma set_RawURL: "set (RawURL_EncodeToString bs) \<subseteq> set encodeURL"
proof (induction bs rule: RawURL_EncodeToString.induct)
  case (4 a b c bs)
  then show ?case
    using unat_byte_less [of a] unat_byte_less [of b] unat_byte_less [of c]
    by (simp add: Let_def encodeURL_nth_in sextet)
next
  case (3 a b)
  then show ?case
    using unat_byte_less [of a] unat_byte_less [of b] by (simp add: Let_def encodeURL_nth_in sextet)
next
  case (2 a)
  then show ?case using unat_byte_less [of a] by (simp add: Let_def encodeURL_nth_in sextet)
qed simp

lemma div_mod_inject: "m div k = n div k \<Longrightarrow> m mod k = n mod k \<Longrightarrow> m = (n :: nat)"
  by (metis div_mult_mod_eq)

lemma sextets_inject:
  assumes "m div 262144 = n div (262144::nat)" "m div 4096 mod 64 = n div 4096 mod 64"
    and "m div 64 mod 64 = n div 64 mod 64" "m mod 64 = n mod 64"
  shows "m = n"
proof -
  have "k div 262144 = k div 64 div 64 div 64" "k div 4096 = k div 64 div 64" for k :: nat
    by (simp_all add: div_mult2_eq [symmetric])
  note eqs = assms [unfolded this]
  have "m div 64 div 64 = n div 64 div 64" by (rule div_mod_inject [OF eqs(1,2)])
  then have "m div 64 = n div 64" by (rule div_mod_inject [OF _ eqs(3)])
  then show ?thesis by (rule div_mod_inject [OF _ eqs(4)])
qed

lemma base256_inject:
  assumes "x * 256 + c = y * 256 + c'" and "c < 256" and "c' < (256 :: nat)"
  shows "x = y \<and> c = c'"
proof -
  have "x = (x * 256 + c) div 256" "y = (y * 256 + c') div 256" using assms(2,3) by simp_all
  with assms(1) have "x = y" by simp
  with assms(1) show ?thesis by simp
qed

lemma octets_inject:
  fixes a b c a' b' c' :: byte
  assumes "unat a * 65536 + unat b * 256 + unat c = unat a' * 65536 + unat b' * 256 + unat c'"
  shows "a = a' \<and> b = b' \<and> c = c'"
proof -
  from assms have "(unat a * 256 + unat b) * 256 + unat c = (unat a' * 256 + unat b') * 256 + unat c'" by simp
  then have ab: "unat a * 256 + unat b = unat a' * 256 + unat b'" and c: "unat c = unat c'"
    using base256_inject [OF _ unat_byte_less unat_byte_less] by blast+
  from base256_inject [OF ab unat_byte_less unat_byte_less] c show ?thesis by (simp add: word_unat_eq_iff)
qed

lemma RawURL_inject:
  "length as = length bs \<Longrightarrow> RawURL_EncodeToString as = RawURL_EncodeToString bs \<longleftrightarrow> as = bs"
proof (induction as arbitrary: bs rule: RawURL_EncodeToString.induct)
  case (2 a)
  then obtain a' where bs: "bs = [a']" by (auto simp: Suc_length_conv)
  have "a = a'" if "RawURL_EncodeToString [a] = RawURL_EncodeToString [a']"
    using that unat_byte_less [of a] unat_byte_less [of a']
      sextets_inject [of "unat a * 65536" "unat a' * 65536"] octets_inject [of a 0 0 a' 0 0]
    by (simp add: Let_def encodeURL_inject sextet)
  with bs show ?case by blast
next
  case (3 a b)
  then obtain a' b' where bs: "bs = [a', b']" by (metis length_0_conv length_Suc_conv)
  have "[a, b] = [a', b']" if "RawURL_EncodeToString [a, b] = RawURL_EncodeToString [a', b']"
    using that unat_byte_less [of a] unat_byte_less [of a'] unat_byte_less [of b] unat_byte_less [of b']
      sextets_inject [of "unat a * 65536 + unat b * 256" "unat a' * 65536 + unat b' * 256"] octets_inject [of a b 0 a' b' 0]
    by (simp add: Let_def encodeURL_inject sextet)
  with bs show ?case by blast
next
  case (4 a b c as)
  from 4(2) obtain a' b' c' bs' where bs: "bs = a' # b' # c' # bs'" and len: "length as = length bs'"
    by (cases bs; cases "tl bs"; cases "tl (tl bs)") auto
  have "a # b # c # as = bs" if eq: "RawURL_EncodeToString (a # b # c # as) = RawURL_EncodeToString bs"
  proof -
    let ?m = "unat a * 65536 + unat b * 256 + unat c" and ?n = "unat a' * 65536 + unat b' * 256 + unat c'"
    have bounds: "?m < 16777216" "?n < 16777216"
      using unat_byte_less [of a] unat_byte_less [of b] unat_byte_less [of c]
        unat_byte_less [of a'] unat_byte_less [of b'] unat_byte_less [of c'] by linarith+
    from eq have "RawURL_EncodeToString as = RawURL_EncodeToString bs'" and
      s: "encodeURL ! (?m div 262144) = encodeURL ! (?n div 262144)" "encodeURL ! (?m div 4096 mod 64) = encodeURL ! (?n div 4096 mod 64)"
        "encodeURL ! (?m div 64 mod 64) = encodeURL ! (?n div 64 mod 64)" "encodeURL ! (?m mod 64) = encodeURL ! (?n mod 64)"
      by (simp_all only: bs RawURL_EncodeToString.simps Let_def append_Cons append_Nil list.inject)
    then have "as = bs'" using 4 len by simp
    moreover have "?m = ?n"
      by (rule sextets_inject) (use s bounds in \<open>simp_all only: encodeURL_inject sextet mod_less_divisor zero_less_numeral\<close>)
    then have "a = a' \<and> b = b' \<and> c = c'" by (rule octets_inject)
    ultimately show ?thesis by (simp add: bs)
  qed
  then show ?case by blast
qed simp

end
