(* ===== verification/GoErrors.thy ===== *)
theory GoErrors
  imports Prelude
begin

text \<open>
  Go error values.  An error of the service is a sentinel (a package-level \<open>errors.New\<close>
  variable, compared by identity), an error of the PostgreSQL driver, a plain text, or one of these
  wrapped (\<open>fmt.Errorf\<close> with \<open>%w\<close>) or joined (\<open>errors.Join\<close>).  The callers only
  look at errors through \<open>errors.Is\<close>, \<open>errors.As\<close> and \<open>Error()\<close>, which are
  the functions below.  The sentinels are one datatype per package, so that two packages' variables
  of the same name stay different errors, as they are in Go.
\<close>

section \<open>The sentinels of each package\<close>

text \<open>internal/tenant/application\<close>

datatype tenant_app_error =
    ErrTenantNameRequired | ErrTenantContractPlanRequired | TA_ErrTenantIDRequired
  | ErrEventNameRequired | TA_ErrEventIDRequired | ErrEventStatusRequired | ErrSubdomainRequired
  | TA_ErrTenantPendingOwner | ErrOwnershipClaimTokenRequired | ErrOwnershipClaimRejected
  | ErrCreatorNotMember | TA_ErrPermissionDenied

text \<open>internal/tenant/repository\<close>

datatype tenant_repo_error =
    TR_ErrTenantNotFound | ErrTenantArchived | ErrTenantPublicIDExists | ErrTenantSubdomainExists
  | TR_ErrEventNotFound | ErrEventArchived | ErrEventPublicIDExists

text \<open>internal/tenant/domain\<close>

datatype tenant_domain_error =
    ErrTenantNotPendingOwner | ErrTenantAlreadyArchived | ErrInvalidEventStatusTransition
  | ErrInvalidSubdomain

text \<open>internal/tenant/infra/db\<close>

datatype tenant_db_error = ErrCreateEventNoRow | ErrUpdateEventNoRow

text \<open>internal/relation/application\<close>

datatype relation_app_error =
    RA_ErrTenantIDRequired | RA_ErrEventIDRequired | ErrUserIDRequired | ErrScopeRequired
  | ErrScopeAmbiguous | ErrFilterRequired | ErrFilterAmbiguous | RA_ErrTenantPendingOwner
  | ErrLastOwner | ErrInvitationIDRequired | ErrInvitationTokenRequired | ErrInvitationRejected
  | RA_ErrPermissionDenied

text \<open>internal/relation/repository\<close>

datatype relation_repo_error =
    ErrMembershipAlreadyExists | ErrMembershipNotFound | ErrEventRoleNotFound
  | ErrTenantMembershipRequired | RR_ErrTenantNotFound | RR_ErrEventNotFound
  | ErrInvitationNotFound | ErrInvitationPublicIDExists

text \<open>internal/relation/domain\<close>

datatype relation_domain_error =
    ErrRoleRequired | ErrRoleReserved | ErrRoleNotInvitable | ErrDisplayNameRequired
  | ErrDisplayNameTooLong | ErrInvitationNotPending

text \<open>internal/tenantctx\<close>

datatype tenantctx_error = ErrMissing | ErrSubjectMissing | ErrMismatch

text \<open>
  internal/infra/db and the standard library: \<open>context.Canceled\<close>,
  \<open>context.DeadlineExceeded\<close>, \<open>sql.ErrNoRows\<close>, \<open>sql.ErrTxDone\<close>.
\<close>

datatype sentinel =
    TenantApp tenant_app_error
  | TenantRepo tenant_repo_error
  | TenantDomain tenant_domain_error
  | TenantDb tenant_db_error
  | RelationApp relation_app_error
  | RelationRepo relation_repo_error
  | RelationDomain relation_domain_error
  | TenantCtx tenantctx_error
  | ErrTransactionAborted
  | ContextCanceled
  | ContextDeadlineExceeded
  | ErrNoRows
  | ErrTxDone

section \<open>Error values\<close>

text \<open>
  \<open>PgError code constraint text\<close> is the driver's \<open>*pgconn.PgError\<close>: its SQLSTATE, the
  violated constraint and its text.  \<open>Errorf format args\<close> is an error without a wrapped cause,
  kept as its format and arguments.
\<close>

datatype gerr =
    Sentinel sentinel
  | PgError string string string
  | Errorf string "string list"
  | Wrap string gerr
  | Join gerr gerr

text \<open>\<open>errors.Is\<close> with a sentinel as its target.\<close>

fun errors_Is :: "gerr \<Rightarrow> sentinel \<Rightarrow> bool" where
  "errors_Is (Sentinel s) t \<longleftrightarrow> s = t"
| "errors_Is (PgError _ _ _) t \<longleftrightarrow> False"
| "errors_Is (Errorf _ _) t \<longleftrightarrow> False"
| "errors_Is (Wrap _ e) t \<longleftrightarrow> errors_Is e t"
| "errors_Is (Join e1 e2) t \<longleftrightarrow> errors_Is e1 t \<or> errors_Is e2 t"

text \<open>\<open>errors.As\<close> with a \<open>*pgconn.PgError\<close>: the first one, depth first.\<close>

fun errors_As_Pg :: "gerr \<Rightarrow> (string \<times> string) option" where
  "errors_As_Pg (Sentinel _) = None"
| "errors_As_Pg (PgError code constraint _) = Some (code, constraint)"
| "errors_As_Pg (Errorf _ _) = None"
| "errors_As_Pg (Wrap _ e) = errors_As_Pg e"
| "errors_As_Pg (Join e1 e2) =
     (case errors_As_Pg e1 of None \<Rightarrow> errors_As_Pg e2 | Some p \<Rightarrow> Some p)"

section \<open>Error messages\<close>

fun tenant_repo_message :: "tenant_repo_error \<Rightarrow> string" where
  "tenant_repo_message TR_ErrTenantNotFound = ''tenant not found''"
| "tenant_repo_message ErrTenantArchived = ''tenant is archived''"
| "tenant_repo_message ErrTenantPublicIDExists = ''tenant public ID already exists''"
| "tenant_repo_message ErrTenantSubdomainExists = ''tenant subdomain already exists''"
| "tenant_repo_message TR_ErrEventNotFound = ''event not found''"
| "tenant_repo_message ErrEventArchived = ''event is archived''"
| "tenant_repo_message ErrEventPublicIDExists = ''event public ID already exists''"

fun tenant_app_message :: "tenant_app_error \<Rightarrow> string" where
  "tenant_app_message ErrTenantNameRequired = ''tenant name is required''"
| "tenant_app_message ErrTenantContractPlanRequired = ''tenant contract plan is required''"
| "tenant_app_message TA_ErrTenantIDRequired = ''tenant ID is required''"
| "tenant_app_message ErrEventNameRequired = ''event name is required''"
| "tenant_app_message TA_ErrEventIDRequired = ''event ID is required''"
| "tenant_app_message ErrEventStatusRequired = ''event status is required''"
| "tenant_app_message ErrSubdomainRequired = ''subdomain is required''"
| "tenant_app_message TA_ErrTenantPendingOwner = ''tenant is pending an owner''"
| "tenant_app_message ErrOwnershipClaimTokenRequired = ''ownership claim token is required''"
| "tenant_app_message ErrOwnershipClaimRejected = ''ownership claim rejected''"
| "tenant_app_message ErrCreatorNotMember = ''event creator does not belong to the tenant''"
| "tenant_app_message TA_ErrPermissionDenied = ''current permission denied''"

fun tenant_domain_message :: "tenant_domain_error \<Rightarrow> string" where
  "tenant_domain_message ErrTenantNotPendingOwner = ''tenant is not pending an owner''"
| "tenant_domain_message ErrTenantAlreadyArchived = ''tenant is already archived''"
| "tenant_domain_message ErrInvalidEventStatusTransition = ''invalid event status transition''"
| "tenant_domain_message ErrInvalidSubdomain = ''invalid subdomain''"

fun tenant_db_message :: "tenant_db_error \<Rightarrow> string" where
  "tenant_db_message ErrCreateEventNoRow = ''create event: no row inserted''"
| "tenant_db_message ErrUpdateEventNoRow = ''update event: no row updated''"

fun relation_app_message :: "relation_app_error \<Rightarrow> string" where
  "relation_app_message RA_ErrTenantIDRequired = ''tenant ID is required''"
| "relation_app_message RA_ErrEventIDRequired = ''event ID is required''"
| "relation_app_message ErrUserIDRequired = ''user ID is required''"
| "relation_app_message ErrScopeRequired = ''revoke scope is required''"
| "relation_app_message ErrScopeAmbiguous = ''revoke scope must name either a tenant or an event''"
| "relation_app_message ErrFilterRequired = ''list filter is required''"
| "relation_app_message ErrFilterAmbiguous = ''list filter must name either a tenant or a user''"
| "relation_app_message RA_ErrTenantPendingOwner = ''tenant is pending an owner''"
| "relation_app_message ErrLastOwner = ''the tenant must keep at least one owner''"
| "relation_app_message ErrInvitationIDRequired = ''invitation ID is required''"
| "relation_app_message ErrInvitationTokenRequired = ''invitation token is required''"
| "relation_app_message ErrInvitationRejected = ''invitation rejected''"
| "relation_app_message RA_ErrPermissionDenied = ''current permission denied''"

fun relation_repo_message :: "relation_repo_error \<Rightarrow> string" where
  "relation_repo_message ErrMembershipAlreadyExists = ''membership already exists''"
| "relation_repo_message ErrMembershipNotFound = ''membership not found''"
| "relation_repo_message ErrEventRoleNotFound = ''event role not found''"
| "relation_repo_message ErrTenantMembershipRequired =
     ''event role requires membership of the event's tenant''"
| "relation_repo_message RR_ErrTenantNotFound = ''tenant not found''"
| "relation_repo_message RR_ErrEventNotFound = ''event not found''"
| "relation_repo_message ErrInvitationNotFound = ''invitation not found''"
| "relation_repo_message ErrInvitationPublicIDExists = ''invitation public ID already exists''"

fun relation_domain_message :: "relation_domain_error \<Rightarrow> string" where
  "relation_domain_message ErrRoleRequired = ''role is required''"
| "relation_domain_message ErrRoleReserved = ''role is reserved and cannot be granted''"
| "relation_domain_message ErrRoleNotInvitable = ''invitations grant the staff role only''"
| "relation_domain_message ErrDisplayNameRequired = ''display name is required''"
| "relation_domain_message ErrDisplayNameTooLong = ''display name is too long''"
| "relation_domain_message ErrInvitationNotPending = ''invitation is accepted, revoked, or expired''"

fun tenantctx_message :: "tenantctx_error \<Rightarrow> string" where
  "tenantctx_message ErrMissing = ''tenant ID is missing from context''"
| "tenantctx_message ErrSubjectMissing = ''subject is missing from context''"
| "tenantctx_message ErrMismatch = ''tenant ID does not match context''"

fun sentinel_message :: "sentinel \<Rightarrow> string" where
  "sentinel_message (TenantApp e) = tenant_app_message e"
| "sentinel_message (TenantRepo e) = tenant_repo_message e"
| "sentinel_message (TenantDomain e) = tenant_domain_message e"
| "sentinel_message (TenantDb e) = tenant_db_message e"
| "sentinel_message (RelationApp e) = relation_app_message e"
| "sentinel_message (RelationRepo e) = relation_repo_message e"
| "sentinel_message (RelationDomain e) = relation_domain_message e"
| "sentinel_message (TenantCtx e) = tenantctx_message e"
| "sentinel_message ErrTransactionAborted = ''transaction aborted; retry''"
| "sentinel_message ContextCanceled = ''context canceled''"
| "sentinel_message ContextDeadlineExceeded = ''context deadline exceeded''"
| "sentinel_message ErrNoRows = ''sql: no rows in result set''"
| "sentinel_message ErrTxDone = ''sql: transaction has already been committed or rolled back''"

text \<open>
  The method \<open>Error()\<close>; \<open>errors.Join\<close> separates its parts with a newline.  \<open>None\<close>: the
  text holds an argument quoted with \<open>%q\<close>, whose rendering is not modelled.
\<close>

fun err_Error :: "gerr \<Rightarrow> string option" where
  "err_Error (Sentinel s) = Some (sentinel_message s)"
| "err_Error (PgError _ _ txt) = Some txt"
| "err_Error (Errorf fmt args) = (if args = [] then Some fmt else None)"
| "err_Error (Wrap prefix e) = map_option (\<lambda>m. prefix @ '': '' @ m) (err_Error e)"
| "err_Error (Join e1 e2) = (case (err_Error e1, err_Error e2) of
     (Some m1, Some m2) \<Rightarrow> Some (m1 @ [CHR 0x0A] @ m2) | _ \<Rightarrow> None)"

section \<open>Errors the database reports\<close>

definition unique_violation :: "string \<Rightarrow> gerr" where
  "unique_violation c = PgError ''23505'' c
     (''ERROR: duplicate key value violates unique constraint '' @ c @ '' (SQLSTATE 23505)'')"

definition foreign_key_violation :: "string \<Rightarrow> gerr" where
  "foreign_key_violation c = PgError ''23503'' c
     (''ERROR: insert or update violates foreign key constraint '' @ c @ '' (SQLSTATE 23503)'')"

definition check_violation :: "string \<Rightarrow> gerr" where
  "check_violation c = PgError ''23514'' c
     (''ERROR: new row violates check constraint '' @ c @ '' (SQLSTATE 23514)'')"

definition string_data_right_truncation :: gerr where
  "string_data_right_truncation = PgError ''22001'' []
     ''ERROR: value too long for type character varying (SQLSTATE 22001)''"

lemmas pg_error_defs =
  unique_violation_def foreign_key_violation_def check_violation_def string_data_right_truncation_def

section \<open>Sentinels that an error carries\<close>

fun sentinels_of :: "gerr \<Rightarrow> sentinel set" where
  "sentinels_of (Sentinel s) = {s}"
| "sentinels_of (PgError _ _ _) = {}"
| "sentinels_of (Errorf _ _) = {}"
| "sentinels_of (Wrap _ e) = sentinels_of e"
| "sentinels_of (Join e1 e2) = sentinels_of e1 \<union> sentinels_of e2"

lemma errors_Is_iff_sentinels_of: "errors_Is e t \<longleftrightarrow> t \<in> sentinels_of e"
  by (induction e) auto

lemma errors_Is_pg [simp]:
  "\<not> errors_Is (unique_violation c) t" "\<not> errors_Is (foreign_key_violation c) t"
  "\<not> errors_Is (check_violation c) t" "\<not> errors_Is string_data_right_truncation t"
  by (simp_all add: pg_error_defs)

lemma errors_As_pg [simp]:
  "errors_As_Pg (unique_violation c) = Some (''23505'', c)"
  "errors_As_Pg (foreign_key_violation c) = Some (''23503'', c)"
  "errors_As_Pg (check_violation c) = Some (''23514'', c)"
  "errors_As_Pg string_data_right_truncation = Some (''22001'', [])"
  by (simp_all add: pg_error_defs)

end
