(* ===== verification/TenantContext.thy ===== *)
theory TenantContext
  imports GoStrings GoErrors
begin

text \<open>
  internal/tenantctx/tenantctx.go: the facts about the caller that a request context carries, and
  the tenant boundary checks.  The context is a record of the three values the service stores on it:
  the verified claims of the internal JWT (put there by the third-party interceptor, hence data of
  the model), the tenant a transport bound without a JWT, and whether a database transaction
  travels with it (infra/db/transaction.go).
\<close>

record claims =
  cl_Subject :: string
  cl_TenantPublicID :: string

record ctx =
  ctx_claims :: "claims option"
  ctx_binding :: "string option"
  ctx_tx :: bool

definition SubjectFromContext :: "ctx \<Rightarrow> string option" where
  "SubjectFromContext c = (case ctx_claims c of
      None \<Rightarrow> None
    | Some cl \<Rightarrow> let subject = TrimSpace (cl_Subject cl) in if subject = [] then None else Some subject)"

definition WithTenantPublicID :: "ctx \<Rightarrow> string \<Rightarrow> ctx" where
  "WithTenantPublicID c tenantPublicID = c\<lparr>ctx_binding := Some tenantPublicID\<rparr>"

definition bound_tenant :: "ctx \<Rightarrow> string option" where
  "bound_tenant c = (case ctx_binding c of
      None \<Rightarrow> None
    | Some b \<Rightarrow> let bound = TrimSpace b in if bound = [] then None else Some bound)"

definition TenantPublicIDFromContext :: "ctx \<Rightarrow> string option" where
  "TenantPublicIDFromContext c = (case ctx_claims c of
      None \<Rightarrow> bound_tenant c
    | Some cl \<Rightarrow> let tenantPublicID = TrimSpace (cl_TenantPublicID cl)
                in if tenantPublicID \<noteq> [] then Some tenantPublicID else bound_tenant c)"

text \<open>Both checks answer the error, if any: \<open>Ensure\<close> fails closed, \<open>VerifyOwnership\<close> open.\<close>

definition Ensure :: "ctx \<Rightarrow> string \<Rightarrow> gerr option" where
  "Ensure c tenantPublicID = (case TenantPublicIDFromContext c of
      None \<Rightarrow> Some (Sentinel (TenantCtx ErrMissing))
    | Some t \<Rightarrow> if t = [] then Some (Sentinel (TenantCtx ErrMissing))
               else if t \<noteq> tenantPublicID then Some (Sentinel (TenantCtx ErrMismatch))
               else None)"

definition VerifyOwnership :: "ctx \<Rightarrow> string \<Rightarrow> gerr option" where
  "VerifyOwnership c tenantPublicID = (case TenantPublicIDFromContext c of
      None \<Rightarrow> None
    | Some t \<Rightarrow> if t = [] then None
               else if t \<noteq> tenantPublicID then Some (Sentinel (TenantCtx ErrMismatch))
               else None)"

section \<open>Lemmas\<close>

lemma TenantPublicIDFromContext_trimmed:
  "TenantPublicIDFromContext c = Some t \<Longrightarrow> t \<noteq> [] \<and> TrimSpace t = t"
  by (auto simp: TenantPublicIDFromContext_def bound_tenant_def Let_def split: option.splits if_splits)

lemma SubjectFromContext_trimmed:
  "SubjectFromContext c = Some s \<Longrightarrow> s \<noteq> [] \<and> TrimSpace s = s"
  by (auto simp: SubjectFromContext_def Let_def split: option.splits if_splits)

lemma Ensure_None_iff: "Ensure c t = None \<longleftrightarrow> TenantPublicIDFromContext c = Some t"
  by (auto simp: Ensure_def dest: TenantPublicIDFromContext_trimmed split: option.splits)

lemma VerifyOwnership_None_iff:
  "VerifyOwnership c t = None \<longleftrightarrow> TenantPublicIDFromContext c \<in> {None, Some t}"
  by (auto simp: VerifyOwnership_def dest: TenantPublicIDFromContext_trimmed split: option.splits)

lemma Ensure_implies_VerifyOwnership: "Ensure c t = None \<Longrightarrow> VerifyOwnership c t = None"
  by (simp add: Ensure_None_iff VerifyOwnership_None_iff)

lemma VerifyOwnership_errors:
  "VerifyOwnership c t = Some e \<Longrightarrow> e = Sentinel (TenantCtx ErrMismatch)"
  by (auto simp: VerifyOwnership_def split: option.splits if_splits)

text \<open>The checks do not see the transaction that travels with the context.\<close>

lemma bound_tenant_tx [simp]: "bound_tenant (c\<lparr>ctx_tx := b\<rparr>) = bound_tenant c"
  by (simp add: bound_tenant_def)

lemma SubjectFromContext_tx [simp]: "SubjectFromContext (c\<lparr>ctx_tx := b\<rparr>) = SubjectFromContext c"
  by (simp add: SubjectFromContext_def)

lemma TenantPublicIDFromContext_tx [simp]:
  "TenantPublicIDFromContext (c\<lparr>ctx_tx := b\<rparr>) = TenantPublicIDFromContext c"
  unfolding TenantPublicIDFromContext_def bound_tenant_tx by simp

lemma tenant_checks_tx [simp]:
  "Ensure (c\<lparr>ctx_tx := b\<rparr>) t = Ensure c t"
  "VerifyOwnership (c\<lparr>ctx_tx := b\<rparr>) t = VerifyOwnership c t"
  by (simp_all add: Ensure_def VerifyOwnership_def)

text \<open>A tenant claim of a verified token takes precedence over any binding.\<close>

lemma claim_overrides_binding:
  "ctx_claims c = Some cl \<Longrightarrow> TrimSpace (cl_TenantPublicID cl) \<noteq> []
     \<Longrightarrow> TenantPublicIDFromContext (WithTenantPublicID c t) = TenantPublicIDFromContext c"
  by (simp add: WithTenantPublicID_def TenantPublicIDFromContext_def Let_def)

end
