(* ===== verification/OneTimeToken.thy ===== *)
theory OneTimeToken
  imports GoStrings
begin

text \<open>
  internal/onetimetoken and internal/identifier: the one-time tokens and public identifiers as
  functions of the random bytes they are drawn from.  SHA-256 (crypto/sha256) is written out on
  32-bit words, so a token's persisted hash is a computed value here and not a parameter.
\<close>

unbundle bit_operations_syntax

section \<open>SHA-256 (package crypto/sha256)\<close>

type_synonym word32 = "32 word"

text \<open>
  The constants of FIPS 180-4 are the first 32 bits of the fractional parts of the cube roots of the
  first 64 primes and of the square roots of the first 8; they are computed here as the integer roots
  of \<open>p * 2 ^ 96\<close> and \<open>p * 2 ^ 64\<close>, found bit by bit, and truncated to the word.
\<close>

fun root_bits :: "nat \<Rightarrow> nat \<Rightarrow> nat \<Rightarrow> nat \<Rightarrow> nat" where
  "root_bits k n 0 r = r"
| "root_bits k n (Suc b) r = root_bits k n b (if (r + 2 ^ b) ^ k \<le> n then r + 2 ^ b else r)"

definition small_primes :: "nat list" where
  "small_primes =
    [2, 3, 5, 7, 11, 13, 17, 19, 23, 29, 31, 37, 41, 43, 47, 53, 59, 61, 67, 71, 73, 79,
     83, 89, 97, 101, 103, 107, 109, 113, 127, 131, 137, 139, 149, 151, 157, 163, 167, 173, 179, 181, 191, 193,
     197, 199, 211, 223, 227, 229, 233, 239, 241, 251, 257, 263, 269, 271, 277, 281, 283, 293, 307, 311]"

definition sha256_K :: "word32 list" where
  "sha256_K = map (\<lambda>p. word_of_nat (root_bits 3 (p * 2 ^ 96) 36 0)) small_primes"

definition sha256_init :: "word32 list" where
  "sha256_init = map (\<lambda>p. word_of_nat (root_bits 2 (p * 2 ^ 64) 36 0)) (take 8 small_primes)"

text \<open>The search finds the integer root, when it starts with enough bits.\<close>

lemma root_bits_bounds:
  assumes "0 < k" and "r ^ k \<le> n" and "n < (r + 2 ^ b) ^ k"
  shows "root_bits k n b r ^ k \<le> n \<and> n < Suc (root_bits k n b r) ^ k"
  using assms(2,3) by (induction k n b r rule: root_bits.induct) (simp_all add: mult_2 add.assoc)

lemma length_sha256_init [simp]: "length sha256_init = 8"
  by (simp add: sha256_init_def small_primes_def)

definition rotr32 :: "nat \<Rightarrow> word32 \<Rightarrow> word32" where
  "rotr32 n x = drop_bit n x OR push_bit (32 - n) x"

definition big_endian32 :: "byte list \<Rightarrow> word32" where
  "big_endian32 bs = foldl (\<lambda>acc b. push_bit 8 acc OR ucast b) 0 bs"

text \<open>Padding: a one bit, zeros up to 56 modulo 64, then the bit length on eight bytes.\<close>

definition sha256_pad :: "byte list \<Rightarrow> byte list" where
  "sha256_pad bs =
     bs @ [0x80] @ replicate ((119 - length bs mod 64) mod 64) 0
        @ map (\<lambda>i. word_of_nat (8 * length bs div 256 ^ (7 - i))) [0..<8]"

text \<open>The message schedule is kept newest first.\<close>

definition sha256_schedule_step :: "word32 list \<Rightarrow> word32 list" where
  "sha256_schedule_step w =
     (let s0 = rotr32 7 (w ! 14) XOR rotr32 18 (w ! 14) XOR drop_bit 3 (w ! 14);
          s1 = rotr32 17 (w ! 1) XOR rotr32 19 (w ! 1) XOR drop_bit 10 (w ! 1)
      in (w ! 15 + s0 + w ! 6 + s1) # w)"

fun sha256_words :: "nat \<Rightarrow> byte list \<Rightarrow> word32 list" where
  "sha256_words 0 bs = []"
| "sha256_words (Suc n) bs = big_endian32 (take 4 bs) # sha256_words n (drop 4 bs)"

definition sha256_schedule :: "byte list \<Rightarrow> word32 list" where
  "sha256_schedule block = rev ((sha256_schedule_step ^^ 48) (rev (sha256_words 16 block)))"

fun sha256_round :: "word32 list \<Rightarrow> word32 \<times> word32 \<Rightarrow> word32 list" where
  "sha256_round [a, b, c, d, e, f, g, h] (k, w) =
     (let t1 = h + (rotr32 6 e XOR rotr32 11 e XOR rotr32 25 e) + ((e AND f) XOR (NOT e AND g)) + k + w;
          t2 = (rotr32 2 a XOR rotr32 13 a XOR rotr32 22 a) + ((a AND b) XOR (a AND c) XOR (b AND c))
      in [t1 + t2, a, b, c, d + t1, e, f, g])"
| "sha256_round st _ = st"

definition sha256_block :: "word32 list \<Rightarrow> byte list \<Rightarrow> word32 list" where
  "sha256_block st block =
     map2 (+) st (foldl sha256_round st (zip sha256_K (sha256_schedule block)))"

fun sha256_blocks :: "nat \<Rightarrow> word32 list \<Rightarrow> byte list \<Rightarrow> word32 list" where
  "sha256_blocks 0 st bs = st"
| "sha256_blocks (Suc n) st bs = sha256_blocks n (sha256_block st (take 64 bs)) (drop 64 bs)"

definition word32_bytes :: "word32 \<Rightarrow> byte list" where
  "word32_bytes x = [ucast (drop_bit 24 x), ucast (drop_bit 16 x), ucast (drop_bit 8 x), ucast x]"

definition sha256_Sum256 :: "byte list \<Rightarrow> byte list" where
  "sha256_Sum256 bs =
     (let p = sha256_pad bs
      in concat (map word32_bytes (sha256_blocks (length p div 64) sha256_init p)))"

lemma length_sha256_round: "length st = 8 \<Longrightarrow> length (sha256_round st kw) = 8"
  by (cases "(st, kw)" rule: sha256_round.cases) (simp_all add: Let_def)

lemma length_foldl_sha256_round: "length st = 8 \<Longrightarrow> length (foldl sha256_round st kws) = 8"
  by (induction kws arbitrary: st) (simp_all add: length_sha256_round)

lemma length_sha256_blocks: "length st = 8 \<Longrightarrow> length (sha256_blocks n st bs) = 8"
  by (induction n st bs rule: sha256_blocks.induct)
    (simp_all add: sha256_block_def length_foldl_sha256_round)

lemma length_concat_word32_bytes: "length (concat (map word32_bytes ws)) = 4 * length ws"
  by (induction ws) (simp_all add: word32_bytes_def)

lemma length_sha256_Sum256 [simp]: "length (sha256_Sum256 bs) = 32"
  by (simp add: sha256_Sum256_def Let_def length_concat_word32_bytes length_sha256_blocks)

section \<open>One-time tokens (internal/onetimetoken/token.go)\<close>

definition tokenBytes :: nat where
  "tokenBytes = 32"

text \<open>\<open>Hash\<close> is Go's \<open>[32]byte\<close>; the hash of a pending claim or invitation.\<close>

type_synonym token_hash = "byte list"

definition HashOf :: "string \<Rightarrow> token_hash" where
  "HashOf token = sha256_Sum256 (map of_char token)"

text \<open>
  What \<open>New\<close> makes of the random bytes: the plaintext is their URL-safe base64 form and is returned
  next to the hash to persist.
\<close>

definition token_of :: "byte list \<Rightarrow> string \<times> token_hash" where
  "token_of raw = (let token = RawURL_EncodeToString raw in (token, HashOf token))"

text \<open>\<open>subtle.ConstantTimeCompare\<close> answers 1 when two slices of equal length agree.\<close>

definition ConstantTimeCompare :: "byte list \<Rightarrow> byte list \<Rightarrow> int" where
  "ConstantTimeCompare x y = (if length x \<noteq> length y then 0
     else if foldl (OR) (0::byte) (map2 (XOR) x y) = 0 then 1 else 0)"

definition Matches :: "token_hash \<Rightarrow> string \<Rightarrow> bool" where
  "Matches h token \<longleftrightarrow> ConstantTimeCompare h (HashOf token) = 1"

lemma length_HashOf [simp]: "length (HashOf token) = 32"
  by (simp add: HashOf_def)

lemma or_eq_0_iff: "(a OR b :: byte) = 0 \<longleftrightarrow> a = 0 \<and> b = 0"
  by (metis or.left_neutral or.right_neutral word_bw_comms(2) word_bw_same(2) word_ao_absorbs(1) and_zero_eq)

lemma xor_eq_0_iff: "(a XOR b :: byte) = 0 \<longleftrightarrow> a = b"
  by (metis xor.left_neutral xor.right_neutral word_bw_assocs(3) xor_self_eq)

lemma foldl_or_eq_0: "foldl (OR) (z :: byte) xs = 0 \<longleftrightarrow> z = 0 \<and> (\<forall>x \<in> set xs. x = 0)"
  by (induction xs arbitrary: z) (auto simp: or_eq_0_iff)

lemma map2_xor_zero:
  "length x = length y \<Longrightarrow> (\<forall>z \<in> set (map2 (XOR) x y). z = (0 :: byte)) \<longleftrightarrow> x = y"
  by (induction x y rule: list_induct2) (auto simp: xor_eq_0_iff)

lemma ConstantTimeCompare_eq: "ConstantTimeCompare x y = 1 \<longleftrightarrow> x = y"
  using map2_xor_zero [of x y] by (auto simp: ConstantTimeCompare_def foldl_or_eq_0)

text \<open>
  The constant-time comparison decides equality of the digests: a token matches a stored hash
  exactly when its digest is that hash.
\<close>

lemma Matches_iff: "Matches h token \<longleftrightarrow> h = HashOf token"
  by (simp add: Matches_def ConstantTimeCompare_eq)

section \<open>Identifiers (internal/identifier/identifier.go)\<close>

text \<open>
  A public ID is the hexadecimal form of eight random bytes; drawing them, and the third-party UUID
  generator behind \<open>NewUUIDv7\<close>, are effects (theory Store).
\<close>

definition public_id_of :: "byte list \<Rightarrow> string" where
  "public_id_of bs = hex_EncodeToString bs"

lemma length_public_id_of: "length bs = 8 \<Longrightarrow> length (public_id_of bs) = 16"
  by (simp add: public_id_of_def length_hex_EncodeToString)

end
