(* ===== verification/Store.thy ===== *)
theory Store
  imports TenantContext OneTimeToken
begin

text \<open>
  The database of the service and the effects of a Go call on it.

  \<^item> The tables are lists of rows, with the constraints of migrations/*.up.sql: a table whose new
    contents violate a constraint makes the statement fail with that constraint's PostgreSQL error
    and leaves the database as it was, and deletions cascade along the foreign keys.
  \<^item> A call is a function of the environment and the world.  The world holds the committed database,
    the view of the open transaction, if any, and the log.  The environment holds what the service
    does not control, indexed by the number of interactions so far: the clocks, the random
    sources, and the failures of the database connection.  A failure carries the error the driver
    reports and whether the server had carried out the statement (or the commit) before the answer
    was lost.  Every theorem that quantifies over the environment therefore covers every pattern
    of failures.
  \<^item> Row locks and advisory locks have no effect in a run that is not interleaved with another one.
\<close>

section \<open>Tables\<close>

record tenant_row =
  tr_id :: string
  tr_public_id :: string
  tr_name :: string
  tr_contract_plan :: string
  tr_ownership_state :: string
  tr_subdomain :: "string option"
  tr_archived :: bool
  tr_claim_hash :: "byte list option"
  tr_claim_expires :: "time option"

record event_row =
  evr_id :: string
  evr_public_id :: string
  evr_tenant_id :: string
  evr_tenant_public_id :: string
  evr_name :: string
  evr_status :: string

record membership_row =
  mr_tenant_id :: string
  mr_user_id :: string
  mr_tenant_role :: string
  mr_display_name :: string
  mr_joined_at :: time

record event_role_row =
  rr_event_id :: string
  rr_tenant_id :: string
  rr_user_id :: string
  rr_role :: string

record invitation_row =
  ir_id :: string
  ir_public_id :: string
  ir_tenant_id :: string
  ir_tenant_role :: string
  ir_display_name :: string
  ir_token_hash :: "byte list"
  ir_expires_at :: time
  ir_created_at :: time
  ir_accepted_at :: "time option"
  ir_accepted_by :: "string option"
  ir_revoked_at :: "time option"

record db =
  tenants :: "tenant_row list"
  events :: "event_row list"
  memberships :: "membership_row list"
  event_roles :: "event_role_row list"
  invitations :: "invitation_row list"

definition empty_db :: db where
  "empty_db = \<lparr>tenants = [], events = [], memberships = [], event_roles = [], invitations = []\<rparr>"

subsection \<open>Column types\<close>

text \<open>\<open>TIMESTAMPTZ\<close> keeps microseconds; the driver drops the rest.\<close>

definition pg_time :: "time \<Rightarrow> time" where
  "pg_time t = t div 1000 * 1000"

lemma pg_time_le: "pg_time t \<le> t"
  by (simp add: pg_time_def minus_mod_eq_div_mult [symmetric])

lemma pg_time_idem [simp]: "pg_time (pg_time t) = pg_time t"
  by (simp add: pg_time_def)

lemma pg_time_le_iff: "pg_time s \<le> pg_time t \<longleftrightarrow> pg_time s \<le> t"
proof
  assume "pg_time s \<le> t"
  then have "s div 1000 \<le> t div 1000"
    using zdiv_mono1 [of "pg_time s" t 1000] by (simp add: pg_time_def)
  then show "pg_time s \<le> pg_time t" by (simp add: pg_time_def)
qed (use pg_time_le [of t] in simp)

lemma pg_time_less_iff: "pg_time t < pg_time s \<longleftrightarrow> t < pg_time s"
  using pg_time_le_iff [of s t] by (simp add: not_le [symmetric])

text \<open>
  \<open>VARCHAR(n)\<close> counts characters.  A longer text is an error unless what exceeds the limit is
  blanks, which PostgreSQL cuts off.
\<close>

fun take_runes :: "nat \<Rightarrow> string \<Rightarrow> string" where
  "take_runes 0 s = []"
| "take_runes (Suc n) s = (if s = [] then []
     else let k = snd (DecodeRuneInString s) in take k s @ take_runes n (drop k s))"

definition varchar :: "nat \<Rightarrow> string \<Rightarrow> gerr + string" where
  "varchar n s =
     (if RuneCountInString s \<le> n then Inr s
      else let kept = take_runes n s
           in if list_all (\<lambda>ch. ch = CHR '' '') (drop (length kept) s) then Inr kept
              else Inl string_data_right_truncation)"

lemma varchar_short: "RuneCountInString s \<le> n \<Longrightarrow> varchar n s = Inr s"
  by (simp add: varchar_def)

lemma take_runes_prefix: "\<exists>k. take_runes n s = take k s"
proof (induction n arbitrary: s)
  case (Suc n)
  let ?k = "snd (DecodeRuneInString s)"
  obtain j where j: "take_runes n (drop ?k s) = take j (drop ?k s)" using Suc [of "drop ?k s"] by auto
  show ?case
  proof (cases "s = []")
    case False
    with j have "take_runes (Suc n) s = take (?k + j) s" by (simp add: Let_def take_add)
    then show ?thesis by blast
  qed simp
qed simp

text \<open>A text that does not end in a blank is stored as it is or refused.\<close>

lemma varchar_no_blank:
  assumes "varchar n s = Inr s'" and "s \<noteq> [] \<Longrightarrow> List.last s \<noteq> CHR '' ''"
  shows "s' = s"
proof (cases "RuneCountInString s \<le> n")
  case False
  obtain k where k: "take_runes n s = take k s" using take_runes_prefix by blast
  show ?thesis
  proof (cases "k < List.length s")
    case True
    then have "drop k s \<noteq> []" "s \<noteq> []" by auto
    then have "List.last s \<in> set (drop k s)" by (metis last_drop last_in_set True)
    with assms(2) \<open>s \<noteq> []\<close> have "\<not> list_all (\<lambda>ch. ch = CHR '' '') (drop k s)"
      unfolding list_all_iff by blast
    moreover have "List.length (take k s) = k" using True by simp
    ultimately have "varchar n s = Inl string_data_right_truncation"
      unfolding varchar_def Let_def k using False by simp
    with assms(1) show ?thesis by simp
  next
    case False
    then have "take k s = s" by simp
    with assms(1) \<open>\<not> RuneCountInString s \<le> n\<close> show ?thesis
      unfolding varchar_def Let_def k by simp
  qed
qed (use assms(1) in \<open>simp add: varchar_def\<close>)

subsection \<open>Constraints\<close>

definition tenant_claim_ok :: "tenant_row \<Rightarrow> bool" where
  "tenant_claim_ok r \<longleftrightarrow>
     tr_ownership_state r = ''pending_owner'' \<and> tr_claim_hash r \<noteq> None \<and> tr_claim_expires r \<noteq> None
     \<or> tr_ownership_state r = ''owned'' \<and> tr_claim_hash r = None \<and> tr_claim_expires r = None"

definition tenants_violation :: "tenant_row list \<Rightarrow> gerr option" where
  "tenants_violation ts =
     (if \<not> list_all tenant_claim_ok ts then Some (check_violation ''tenants_ownership_claim_check'')
      else if \<not> list_all (\<lambda>r. tr_ownership_state r \<in> set [''pending_owner'', ''owned'']) ts
           then Some (check_violation ''tenants_ownership_state_check'')
      else if \<not> list_all (\<lambda>r. (tr_ownership_state r = ''owned'') = (tr_subdomain r \<noteq> None)) ts
           then Some (check_violation ''tenants_subdomain_check'')
      else if \<not> distinct (map tr_id ts) then Some (unique_violation ''tenants_pkey'')
      else if \<not> distinct (map tr_public_id ts) then Some (unique_violation ''tenants_public_id_key'')
      else if \<not> distinct (map tr_subdomain (filter (\<lambda>r. tr_subdomain r \<noteq> None) ts))
           then Some (unique_violation ''tenants_subdomain_key'')
      else None)"

definition events_violation :: "tenant_row list \<Rightarrow> event_row list \<Rightarrow> gerr option" where
  "events_violation ts es =
     (if \<not> distinct (map evr_id es) then Some (unique_violation ''events_pkey'')
      else if \<not> distinct (map evr_public_id es) then Some (unique_violation ''events_public_id_key'')
      else if \<not> list_all (\<lambda>e. list_ex (\<lambda>t. tr_id t = evr_tenant_id e) ts) es
           then Some (foreign_key_violation ''events_tenant_id_fkey'')
      else None)"

text \<open>\<open>btrim\<close> strips blanks only, unlike the trimming of the display name's parser.\<close>

definition display_name_check :: "string \<Rightarrow> bool" where
  "display_name_check s \<longleftrightarrow> \<not> list_all (\<lambda>ch. ch = CHR '' '') s \<and> RuneCountInString s \<le> 64"

definition memberships_violation :: "tenant_row list \<Rightarrow> membership_row list \<Rightarrow> gerr option" where
  "memberships_violation ts ms =
     (if \<not> list_all (\<lambda>m. display_name_check (mr_display_name m)) ms
      then Some (check_violation ''tenant_memberships_display_name_check'')
      else if \<not> list_all (\<lambda>m. mr_tenant_role m \<in> set [''owner'', ''staff'']) ms
           then Some (check_violation ''tenant_memberships_tenant_role_check'')
      else if \<not> distinct (map (\<lambda>m. (mr_tenant_id m, mr_user_id m)) ms)
           then Some (unique_violation ''tenant_memberships_pkey'')
      else if \<not> list_all (\<lambda>m. list_ex (\<lambda>t. tr_id t = mr_tenant_id m) ts) ms
           then Some (foreign_key_violation ''tenant_memberships_tenant_id_fkey'')
      else None)"

definition event_roles_violation ::
    "event_row list \<Rightarrow> membership_row list \<Rightarrow> event_role_row list \<Rightarrow> gerr option" where
  "event_roles_violation es ms rs =
     (if \<not> list_all (\<lambda>r. rr_role r \<in> set [''owner'', ''staff'']) rs
      then Some (check_violation ''event_roles_role_check'')
      else if \<not> distinct (map (\<lambda>r. (rr_event_id r, rr_user_id r)) rs)
           then Some (unique_violation ''event_roles_pkey'')
      else if \<not> list_all (\<lambda>r. list_ex (\<lambda>e. evr_id e = rr_event_id r \<and> evr_tenant_id e = rr_tenant_id r) es) rs
           then Some (foreign_key_violation ''event_roles_event_fkey'')
      else if \<not> list_all (\<lambda>r. list_ex (\<lambda>m. mr_tenant_id m = rr_tenant_id r \<and> mr_user_id m = rr_user_id r) ms) rs
           then Some (foreign_key_violation ''event_roles_membership_fkey'')
      else None)"

definition invitations_violation :: "tenant_row list \<Rightarrow> invitation_row list \<Rightarrow> gerr option" where
  "invitations_violation ts is =
     (if \<not> list_all (\<lambda>i. (ir_accepted_at i = None) = (ir_accepted_by i = None)) is
      then Some (check_violation ''tenant_invitations_accepted_check'')
      else if \<not> list_all (\<lambda>i. ir_accepted_at i = None \<or> ir_revoked_at i = None) is
           then Some (check_violation ''tenant_invitations_closed_check'')
      else if \<not> list_all (\<lambda>i. display_name_check (ir_display_name i)) is
           then Some (check_violation ''tenant_invitations_display_name_check'')
      else if \<not> list_all (\<lambda>i. ir_tenant_role i = ''staff'') is
           then Some (check_violation ''tenant_invitations_tenant_role_check'')
      else if \<not> distinct (map ir_id is) then Some (unique_violation ''tenant_invitations_pkey'')
      else if \<not> distinct (map ir_public_id is)
           then Some (unique_violation ''tenant_invitations_public_id_key'')
      else if \<not> distinct (map ir_token_hash is)
           then Some (unique_violation ''tenant_invitations_token_hash_key'')
      else if \<not> list_all (\<lambda>i. list_ex (\<lambda>t. tr_id t = ir_tenant_id i) ts) is
           then Some (foreign_key_violation ''tenant_invitations_tenant_id_fkey'')
      else None)"

text \<open>The database satisfies every declared constraint.\<close>

definition schema_ok :: "db \<Rightarrow> bool" where
  "schema_ok d \<longleftrightarrow>
     tenants_violation (tenants d) = None
     \<and> events_violation (tenants d) (events d) = None
     \<and> memberships_violation (tenants d) (memberships d) = None
     \<and> event_roles_violation (events d) (memberships d) (event_roles d) = None
     \<and> invitations_violation (tenants d) (invitations d) = None"

subsection \<open>Storing a table's new contents\<close>

definition put_tenants :: "tenant_row list \<Rightarrow> db \<Rightarrow> gerr + db" where
  "put_tenants ts d =
     (case tenants_violation ts of Some e \<Rightarrow> Inl e | None \<Rightarrow> Inr (d\<lparr>tenants := ts\<rparr>))"

definition put_events :: "event_row list \<Rightarrow> db \<Rightarrow> gerr + db" where
  "put_events es d =
     (case events_violation (tenants d) es of Some e \<Rightarrow> Inl e | None \<Rightarrow> Inr (d\<lparr>events := es\<rparr>))"

definition put_memberships :: "membership_row list \<Rightarrow> db \<Rightarrow> gerr + db" where
  "put_memberships ms d =
     (case memberships_violation (tenants d) ms of
       Some e \<Rightarrow> Inl e | None \<Rightarrow> Inr (d\<lparr>memberships := ms\<rparr>))"

definition put_event_roles :: "event_role_row list \<Rightarrow> db \<Rightarrow> gerr + db" where
  "put_event_roles rs d =
     (case event_roles_violation (events d) (memberships d) rs of
       Some e \<Rightarrow> Inl e | None \<Rightarrow> Inr (d\<lparr>event_roles := rs\<rparr>))"

definition put_invitations :: "invitation_row list \<Rightarrow> db \<Rightarrow> gerr + db" where
  "put_invitations is d =
     (case invitations_violation (tenants d) is of
       Some e \<Rightarrow> Inl e | None \<Rightarrow> Inr (d\<lparr>invitations := is\<rparr>))"

text \<open>\<open>ON DELETE CASCADE\<close>: from tenants to all else, from memberships to event roles.\<close>

definition delete_memberships :: "(membership_row \<Rightarrow> bool) \<Rightarrow> db \<Rightarrow> db" where
  "delete_memberships p d =
     (let gone = filter p (memberships d)
      in d\<lparr>memberships := delete_where p (memberships d),
           event_roles := delete_where (\<lambda>r. list_ex (\<lambda>m. mr_tenant_id m = rr_tenant_id r
             \<and> mr_user_id m = rr_user_id r) gone) (event_roles d)\<rparr>)"

definition delete_tenants :: "(tenant_row \<Rightarrow> bool) \<Rightarrow> db \<Rightarrow> db" where
  "delete_tenants p d =
     (let gone = map tr_id (filter p (tenants d))
      in \<lparr>tenants = delete_where p (tenants d),
          events = delete_where (\<lambda>e. evr_tenant_id e \<in> set gone) (events d),
          memberships = delete_where (\<lambda>m. mr_tenant_id m \<in> set gone) (memberships d),
          event_roles = delete_where (\<lambda>r. rr_tenant_id r \<in> set gone) (event_roles d),
          invitations = delete_where (\<lambda>i. ir_tenant_id i \<in> set gone) (invitations d)\<rparr>)"

section \<open>The world and the environment\<close>

text \<open>
  What a broken interaction reports: an error of the server, a plain error of the driver or of a
  random source, or one of the errors that \<open>database/sql\<close> passes through.  None of them is an error
  of the service, nor \<open>sql.ErrNoRows\<close>.
\<close>

datatype fault =
    FaultServer string string string
  | FaultDriver string
  | FaultCanceled
  | FaultDeadline
  | FaultTxDone

fun fault_err :: "fault \<Rightarrow> gerr" where
  "fault_err (FaultServer code constraint txt) = PgError code constraint txt"
| "fault_err (FaultDriver txt) = Errorf txt []"
| "fault_err FaultCanceled = Sentinel ContextCanceled"
| "fault_err FaultDeadline = Sentinel ContextDeadlineExceeded"
| "fault_err FaultTxDone = Sentinel ErrTxDone"

lemma errors_Is_fault_err:
  "errors_Is (fault_err f) s \<longleftrightarrow> f = FaultCanceled \<and> s = ContextCanceled
     \<or> f = FaultDeadline \<and> s = ContextDeadlineExceeded \<or> f = FaultTxDone \<and> s = ErrTxDone"
  by (cases f) auto

lemma fault_err_foreign [simp]:
  "\<not> errors_Is (fault_err f) ErrNoRows" "\<not> errors_Is (fault_err f) (TenantApp a)"
  "\<not> errors_Is (fault_err f) (TenantRepo b)" "\<not> errors_Is (fault_err f) (TenantDomain g)"
  "\<not> errors_Is (fault_err f) (TenantDb h)" "\<not> errors_Is (fault_err f) (RelationApp i)"
  "\<not> errors_Is (fault_err f) (RelationRepo j)" "\<not> errors_Is (fault_err f) (RelationDomain k)"
  "\<not> errors_Is (fault_err f) (TenantCtx l)"
  by (simp_all add: errors_Is_fault_err)

record world =
  w_db :: db
  w_tx :: "db option"
  w_step :: nat
  w_log :: "(string \<times> gerr) list"

record env =
  e_clock :: "nat \<Rightarrow> time"
  e_dbclock :: "nat \<Rightarrow> time"
  e_uuid :: "nat \<Rightarrow> fault + string"
  e_rand :: "nat \<Rightarrow> fault + (nat \<Rightarrow> byte)"
  e_fault :: "nat \<Rightarrow> (fault \<times> bool) option"

type_synonym 'a go = "env \<Rightarrow> world \<Rightarrow> (gerr + 'a) \<times> world"

definition tick :: "world \<Rightarrow> world" where
  "tick w = w\<lparr>w_step := Suc (w_step w)\<rparr>"

text \<open>
  Sequencing.  \<open>and_then\<close> is Go's \<open>if err != nil { return err }\<close>; \<open>attempt\<close> hands the error to
  the code that follows, for a caller that looks at it.
\<close>

definition ret :: "'a \<Rightarrow> 'a go" where
  "ret x = (\<lambda>E w. (Inr x, w))"

definition fail :: "gerr \<Rightarrow> 'a go" where
  "fail e = (\<lambda>E w. (Inl e, w))"

definition and_then :: "'a go \<Rightarrow> ('a \<Rightarrow> 'b go) \<Rightarrow> 'b go" where
  "and_then m f = (\<lambda>E w. case m E w of
      (Inl e, w') \<Rightarrow> (Inl e, w')
    | (Inr x, w') \<Rightarrow> f x E w')"

definition attempt :: "'a go \<Rightarrow> (gerr + 'a) go" where
  "attempt m = (\<lambda>E w. case m E w of (r, w') \<Rightarrow> (Inr r, w'))"

definition of_result :: "gerr + 'a \<Rightarrow> 'a go" where
  "of_result r = (case r of Inl e \<Rightarrow> fail e | Inr x \<Rightarrow> ret x)"

text \<open>A check that answers an error, if any.\<close>

definition require :: "gerr option \<Rightarrow> unit go" where
  "require r = (case r of Some e \<Rightarrow> fail e | None \<Rightarrow> ret ())"

definition guard :: "bool \<Rightarrow> gerr \<Rightarrow> unit go" where
  "guard ok e = (if ok then ret () else fail e)"

text \<open>\<open>fmt.Errorf\<close> with \<open>%w\<close> around the error of a call.\<close>

definition wrap_err :: "string \<Rightarrow> 'a go \<Rightarrow> 'a go" where
  "wrap_err prefix m = (\<lambda>E w. case m E w of
      (Inl e, w') \<Rightarrow> (Inl (Wrap prefix e), w')
    | (Inr x, w') \<Rightarrow> (Inr x, w'))"

definition wrap_result :: "string \<Rightarrow> gerr + 'a \<Rightarrow> gerr + 'a" where
  "wrap_result prefix r = (case r of Inl e \<Rightarrow> Inl (Wrap prefix e) | Inr x \<Rightarrow> Inr x)"

lemma wrap_result_Inr_iff [simp]: "wrap_result prefix r = Inr x \<longleftrightarrow> r = Inr x"
  by (cases r) (auto simp: wrap_result_def)

definition map_err :: "(gerr \<Rightarrow> gerr) \<Rightarrow> 'a go \<Rightarrow> 'a go" where
  "map_err f m = (\<lambda>E w. case m E w of
      (Inl e, w') \<Rightarrow> (Inl (f e), w')
    | (Inr x, w') \<Rightarrow> (Inr x, w'))"

lemmas go_defs = ret_def fail_def and_then_def attempt_def of_result_def require_def guard_def
  wrap_err_def map_err_def

section \<open>Clocks and random sources\<close>

definition now_go :: "time go" where
  "now_go = (\<lambda>E w. (Inr (e_clock E (w_step w)), tick w))"

definition NewUUIDv7 :: "string go" where
  "NewUUIDv7 = (\<lambda>E w. case e_uuid E (w_step w) of
      Inl f \<Rightarrow> (Inl (Wrap ''generate UUIDv7'' (fault_err f)), tick w)
    | Inr s \<Rightarrow> (Inr s, tick w))"

definition rand_Read :: "nat \<Rightarrow> byte list go" where
  "rand_Read n = (\<lambda>E w. case e_rand E (w_step w) of
      Inl f \<Rightarrow> (Inl (fault_err f), tick w)
    | Inr f \<Rightarrow> (Inr (map f [0..<n]), tick w))"

definition NewPublicID :: "string go" where
  "NewPublicID = and_then (wrap_err ''generate public ID'' (rand_Read 8)) (\<lambda>bs. ret (public_id_of bs))"

definition onetimetoken_New :: "(string \<times> token_hash) go" where
  "onetimetoken_New =
     and_then (wrap_err ''generate one-time token'' (rand_Read tokenBytes)) (\<lambda>raw. ret (token_of raw))"

section \<open>Statements\<close>

text \<open>
  \<open>infradb.Executor\<close>: a statement made with a context that carries a transaction sees and changes
  that transaction's view, any other the committed database.
\<close>

definition view :: "ctx \<Rightarrow> world \<Rightarrow> db option" where
  "view c w = (if ctx_tx c then w_tx w else Some (w_db w))"

definition set_view :: "ctx \<Rightarrow> db \<Rightarrow> world \<Rightarrow> world" where
  "set_view c d w = (if ctx_tx c then w\<lparr>w_tx := Some d\<rparr> else w\<lparr>w_db := d\<rparr>)"

definition stmt :: "ctx \<Rightarrow> (time \<Rightarrow> db \<Rightarrow> gerr + 'a \<times> db) \<Rightarrow> 'a go" where
  "stmt c q = (\<lambda>E w.
     let n = w_step w in
     case view c w of
       None \<Rightarrow> (Inl (Sentinel ErrTxDone), tick w)
     | Some d \<Rightarrow>
         (case e_fault E n of
           Some (f, applied) \<Rightarrow>
             (Inl (fault_err f), if applied then (case q (pg_time (e_dbclock E n)) d of
                 Inr (x, d') \<Rightarrow> set_view c d' (tick w) | Inl e \<Rightarrow> tick w) else tick w)
         | None \<Rightarrow>
             (case q (pg_time (e_dbclock E n)) d of
               Inl e \<Rightarrow> (Inl e, tick w)
             | Inr (x, d') \<Rightarrow> (Inr x, set_view c d' (tick w)))))"

definition query :: "ctx \<Rightarrow> (db \<Rightarrow> gerr + 'a) \<Rightarrow> 'a go" where
  "query c f = stmt c (\<lambda>_ d. case f d of Inl e \<Rightarrow> Inl e | Inr x \<Rightarrow> Inr (x, d))"

text \<open>A statement that changes the database and answers nothing, and one that answers the affected rows.\<close>

definition exec_sql :: "ctx \<Rightarrow> (time \<Rightarrow> db \<Rightarrow> gerr + db) \<Rightarrow> unit go" where
  "exec_sql c f = stmt c (\<lambda>t d. bind_result (f t d) (\<lambda>d'. Inr ((), d')))"

definition exec_count :: "ctx \<Rightarrow> (time \<Rightarrow> db \<Rightarrow> gerr + nat \<times> db) \<Rightarrow> nat go" where
  "exec_count c f = stmt c f"

text \<open>\<open>sqlx.GetContext\<close>: the first row of a result, or \<open>sql.ErrNoRows\<close>.\<close>

definition GetContext :: "ctx \<Rightarrow> (db \<Rightarrow> 'r list) \<Rightarrow> 'r go" where
  "GetContext c rows = query c (\<lambda>d. case first_row (rows d) of
      None \<Rightarrow> Inl (Sentinel ErrNoRows) | Some r \<Rightarrow> Inr r)"

definition SelectContext :: "ctx \<Rightarrow> (db \<Rightarrow> 'r list) \<Rightarrow> 'r list go" where
  "SelectContext c rows = query c (\<lambda>d. Inr (rows d))"

text \<open>\<open>ExecContext\<close> answers a result whose \<open>RowsAffected\<close> may fail in turn.\<close>

definition RowsAffected :: "ctx \<Rightarrow> nat \<Rightarrow> nat go" where
  "RowsAffected c n = query c (\<lambda>_. Inr n)"

section \<open>Transactions (internal/infra/db/transaction.go)\<close>

definition isTransactionAbort :: "gerr \<Rightarrow> bool" where
  "isTransactionAbort e = (case errors_As_Pg e of
      None \<Rightarrow> False
    | Some (code, _) \<Rightarrow> code = ''40001'' \<or> code = ''40P01'')"

definition begin_tx :: "unit go" where
  "begin_tx = (\<lambda>E w. case e_fault E (w_step w) of
      Some (f, _) \<Rightarrow> (Inl (Wrap ''begin transaction'' (fault_err f)), tick w)
    | None \<Rightarrow> (Inr (), (tick w)\<lparr>w_tx := Some (w_db w)\<rparr>))"

definition rollback_tx :: "env \<Rightarrow> world \<Rightarrow> gerr option \<times> world" where
  "rollback_tx E w = (map_option (\<lambda>f. fault_err (fst f)) (e_fault E (w_step w)), (tick w)\<lparr>w_tx := None\<rparr>)"

text \<open>A commit whose answer is lost may or may not have happened.\<close>

definition commit_tx :: "env \<Rightarrow> world \<Rightarrow> gerr option \<times> world" where
  "commit_tx E w =
     (let committed = (case w_tx w of Some d \<Rightarrow> d | None \<Rightarrow> w_db w)
      in case e_fault E (w_step w) of
          Some (f, applied) \<Rightarrow>
            (Some (fault_err f), (tick w)\<lparr>w_db := (if applied then committed else w_db w), w_tx := None\<rparr>)
        | None \<Rightarrow> (None, (tick w)\<lparr>w_db := committed, w_tx := None\<rparr>))"

definition RunInTransaction :: "ctx \<Rightarrow> (ctx \<Rightarrow> 'a go) \<Rightarrow> 'a go" where
  "RunInTransaction c fn =
     (if ctx_tx c then fn c
      else and_then begin_tx (\<lambda>_ E w.
        case fn (c\<lparr>ctx_tx := True\<rparr>) E w of
          (Inl err, w1) \<Rightarrow>
            (let err1 = (if isTransactionAbort err then Join err (Sentinel ErrTransactionAborted) else err)
             in case rollback_tx E w1 of
                  (Some rollbackErr, w2) \<Rightarrow> (Inl (Join err1 (Wrap ''rollback transaction'' rollbackErr)), w2)
                | (None, w2) \<Rightarrow> (Inl err1, w2))
        | (Inr x, w1) \<Rightarrow>
            (case commit_tx E w1 of
              (Some err, w2) \<Rightarrow> (Inl (Wrap ''commit transaction'' err), w2)
            | (None, w2) \<Rightarrow> (Inr x, w2))))"

end
