(* ===== verification/Schema.thy ===== *)
theory Schema
  imports Store
begin

text \<open>
  The constraints of the schema as logical facts, and their preservation: a statement that replaces
  a table keeps the whole schema when it keeps the keys that other tables refer to, and the
  cascading deletions keep it always.
\<close>

lemma violation_step: "(if b then Some e else r) = None \<longleftrightarrow> \<not> b \<and> r = None"
  by simp

lemma tenants_ok_iff:
  "tenants_violation ts = None \<longleftrightarrow>
     (\<forall>r \<in> set ts. tenant_claim_ok r)
     \<and> (\<forall>r \<in> set ts. (tr_ownership_state r = ''owned'') = (tr_subdomain r \<noteq> None))
     \<and> distinct (map tr_id ts) \<and> distinct (map tr_public_id ts)
     \<and> distinct (map tr_subdomain (filter (\<lambda>r. tr_subdomain r \<noteq> None) ts))"
  unfolding tenants_violation_def violation_step
  by (auto simp: list_all_iff tenant_claim_ok_def)

lemma events_ok_iff:
  "events_violation ts es = None \<longleftrightarrow>
     distinct (map evr_id es) \<and> distinct (map evr_public_id es)
     \<and> (\<forall>e \<in> set es. evr_tenant_id e \<in> tr_id ` set ts)"
  unfolding events_violation_def violation_step
  by (auto simp: list_all_iff list_ex_iff image_iff) metis+

lemma memberships_ok_iff:
  "memberships_violation ts ms = None \<longleftrightarrow>
     (\<forall>m \<in> set ms. display_name_check (mr_display_name m))
     \<and> (\<forall>m \<in> set ms. mr_tenant_role m = ''owner'' \<or> mr_tenant_role m = ''staff'')
     \<and> distinct (map (\<lambda>m. (mr_tenant_id m, mr_user_id m)) ms)
     \<and> (\<forall>m \<in> set ms. mr_tenant_id m \<in> tr_id ` set ts)"
  unfolding memberships_violation_def violation_step
  by (auto simp: list_all_iff list_ex_iff image_iff) metis+

lemma event_roles_ok_iff:
  "event_roles_violation es ms rs = None \<longleftrightarrow>
     (\<forall>r \<in> set rs. rr_role r = ''owner'' \<or> rr_role r = ''staff'')
     \<and> distinct (map (\<lambda>r. (rr_event_id r, rr_user_id r)) rs)
     \<and> (\<forall>r \<in> set rs. (rr_event_id r, rr_tenant_id r) \<in> (\<lambda>e. (evr_id e, evr_tenant_id e)) ` set es)
     \<and> (\<forall>r \<in> set rs. (rr_tenant_id r, rr_user_id r) \<in> (\<lambda>m. (mr_tenant_id m, mr_user_id m)) ` set ms)"
  unfolding event_roles_violation_def violation_step
  by (auto simp: list_all_iff list_ex_iff image_iff) metis+

lemma invitations_ok_iff:
  "invitations_violation ts is = None \<longleftrightarrow>
     (\<forall>i \<in> set is. (ir_accepted_at i = None) = (ir_accepted_by i = None))
     \<and> (\<forall>i \<in> set is. ir_accepted_at i = None \<or> ir_revoked_at i = None)
     \<and> (\<forall>i \<in> set is. display_name_check (ir_display_name i))
     \<and> (\<forall>i \<in> set is. ir_tenant_role i = ''staff'')
     \<and> distinct (map ir_id is) \<and> distinct (map ir_public_id is) \<and> distinct (map ir_token_hash is)
     \<and> (\<forall>i \<in> set is. ir_tenant_id i \<in> tr_id ` set ts)"
  unfolding invitations_violation_def violation_step
  by (auto simp: list_all_iff list_ex_iff image_iff) metis+

lemmas table_ok_iffs =
  tenants_ok_iff events_ok_iff memberships_ok_iff event_roles_ok_iff invitations_ok_iff

section \<open>Projections\<close>

lemma schema_okD:
  assumes "schema_ok d"
  shows "tenants_violation (tenants d) = None" "events_violation (tenants d) (events d) = None"
    "memberships_violation (tenants d) (memberships d) = None"
    "event_roles_violation (events d) (memberships d) (event_roles d) = None"
    "invitations_violation (tenants d) (invitations d) = None"
  using assms by (simp_all add: schema_ok_def)

lemma schema_keys:
  assumes "schema_ok d"
  shows "distinct (map tr_id (tenants d))" "distinct (map tr_public_id (tenants d))"
    "distinct (map evr_id (events d))" "distinct (map evr_public_id (events d))"
    "distinct (map (\<lambda>m. (mr_tenant_id m, mr_user_id m)) (memberships d))"
    "distinct (map (\<lambda>r. (rr_event_id r, rr_user_id r)) (event_roles d))"
    "distinct (map ir_id (invitations d))" "distinct (map ir_token_hash (invitations d))"
  using assms by (simp_all add: schema_ok_def table_ok_iffs)

lemma schema_tenant_key:
  assumes "schema_ok d" and "r \<in> set (tenants d)" and "s \<in> set (tenants d)"
  shows "tr_id r = tr_id s \<longleftrightarrow> r = s" "tr_public_id r = tr_public_id s \<longleftrightarrow> r = s"
  using assms schema_keys(1,2) [of d] by (blast intro: distinct_map_key_eq)+

lemma schema_membership_key:
  assumes "schema_ok d" and "m \<in> set (memberships d)" and "n \<in> set (memberships d)"
    and "mr_tenant_id m = mr_tenant_id n" and "mr_user_id m = mr_user_id n"
  shows "m = n"
  using schema_keys(5) [OF assms(1)] assms(2-)
  by (intro distinct_map_key_eq [where k = "\<lambda>m. (mr_tenant_id m, mr_user_id m)"]) auto

lemma schema_tenant_state:
  assumes "schema_ok d" and "r \<in> set (tenants d)"
  shows "tr_ownership_state r = ''owned'' \<and> (\<exists>s. tr_subdomain r = Some s)
           \<and> tr_claim_hash r = None \<and> tr_claim_expires r = None
      \<or> tr_ownership_state r = ''pending_owner'' \<and> tr_subdomain r = None
           \<and> (\<exists>h x. tr_claim_hash r = Some h \<and> tr_claim_expires r = Some x)"
proof -
  have "tenant_claim_ok r" and "(tr_ownership_state r = ''owned'') = (tr_subdomain r \<noteq> None)"
    using assms by (simp_all add: schema_ok_def tenants_ok_iff)
  then show ?thesis by (cases "tr_subdomain r") (auto simp: tenant_claim_ok_def)
qed

section \<open>Statements that replace a table\<close>

lemma put_tenants_Inr: "put_tenants ts d = Inr d' \<longleftrightarrow> tenants_violation ts = None \<and> d' = d\<lparr>tenants := ts\<rparr>"
  by (auto simp: put_tenants_def split: option.splits)

lemma put_events_Inr:
  "put_events es d = Inr d' \<longleftrightarrow> events_violation (tenants d) es = None \<and> d' = d\<lparr>events := es\<rparr>"
  by (auto simp: put_events_def split: option.splits)

lemma put_memberships_Inr:
  "put_memberships ms d = Inr d' \<longleftrightarrow> memberships_violation (tenants d) ms = None \<and> d' = d\<lparr>memberships := ms\<rparr>"
  by (auto simp: put_memberships_def split: option.splits)

lemma put_event_roles_Inr:
  "put_event_roles rs d = Inr d' \<longleftrightarrow>
     event_roles_violation (events d) (memberships d) rs = None \<and> d' = d\<lparr>event_roles := rs\<rparr>"
  by (auto simp: put_event_roles_def split: option.splits)

lemma put_invitations_Inr:
  "put_invitations is d = Inr d' \<longleftrightarrow> invitations_violation (tenants d) is = None \<and> d' = d\<lparr>invitations := is\<rparr>"
  by (auto simp: put_invitations_def split: option.splits)

lemmas put_Inr = put_tenants_Inr put_events_Inr put_memberships_Inr put_event_roles_Inr put_invitations_Inr

lemma put_Inl:
  "put_tenants ts d = Inl e \<longleftrightarrow> tenants_violation ts = Some e"
  "put_events es d = Inl e \<longleftrightarrow> events_violation (tenants d) es = Some e"
  "put_memberships ms d = Inl e \<longleftrightarrow> memberships_violation (tenants d) ms = Some e"
  "put_event_roles rs d = Inl e \<longleftrightarrow> event_roles_violation (events d) (memberships d) rs = Some e"
  "put_invitations is d = Inl e \<longleftrightarrow> invitations_violation (tenants d) is = Some e"
  by (auto simp: put_tenants_def put_events_def put_memberships_def put_event_roles_def
      put_invitations_def split: option.splits)

lemma schema_put_tenants:
  assumes "schema_ok d" and "put_tenants ts d = Inr d'" and "tr_id ` set (tenants d) \<subseteq> tr_id ` set ts"
  shows "schema_ok d'"
  using assms unfolding schema_ok_def put_Inr events_ok_iff memberships_ok_iff invitations_ok_iff
  by auto

lemma schema_put_events:
  assumes "schema_ok d" and "put_events es d = Inr d'"
    and "(\<lambda>e. (evr_id e, evr_tenant_id e)) ` set (events d) \<subseteq> (\<lambda>e. (evr_id e, evr_tenant_id e)) ` set es"
  shows "schema_ok d'"
  using assms unfolding schema_ok_def put_Inr event_roles_ok_iff by auto

lemma schema_put_memberships:
  assumes "schema_ok d" and "put_memberships ms d = Inr d'"
    and "(\<lambda>m. (mr_tenant_id m, mr_user_id m)) ` set (memberships d)
      \<subseteq> (\<lambda>m. (mr_tenant_id m, mr_user_id m)) ` set ms"
  shows "schema_ok d'"
  using assms unfolding schema_ok_def put_Inr event_roles_ok_iff by auto

lemma schema_put_event_roles: "schema_ok d \<Longrightarrow> put_event_roles rs d = Inr d' \<Longrightarrow> schema_ok d'"
  unfolding schema_ok_def put_Inr by auto

lemma schema_put_invitations: "schema_ok d \<Longrightarrow> put_invitations is d = Inr d' \<Longrightarrow> schema_ok d'"
  unfolding schema_ok_def put_Inr by auto

section \<open>Cascading deletions\<close>

lemma delete_memberships_simps [simp]:
  "tenants (delete_memberships p d) = tenants d" "events (delete_memberships p d) = events d"
  "invitations (delete_memberships p d) = invitations d"
  "memberships (delete_memberships p d) = delete_where p (memberships d)"
  by (simp_all add: delete_memberships_def Let_def)

lemma schema_delete_memberships:
  assumes "schema_ok d" shows "schema_ok (delete_memberships p d)"
proof -
  have "event_roles_violation (events d) (delete_where p (memberships d))
      (event_roles (delete_memberships p d)) = None"
    using assms by (auto simp: schema_ok_def event_roles_ok_iff delete_memberships_def Let_def
        list_ex_iff image_iff intro: distinct_map_delete_where) metis
  moreover have "memberships_violation (tenants d) (delete_where p (memberships d)) = None"
    using assms by (auto simp: schema_ok_def memberships_ok_iff intro: distinct_map_delete_where)
  ultimately show ?thesis using assms by (simp add: schema_ok_def)
qed

lemma delete_tenants_simps [simp]:
  "tenants (delete_tenants p d) = delete_where p (tenants d)"
  by (simp add: delete_tenants_def Let_def)

lemma distinct_map_filter_conj:
  "distinct (map k (filter q rs)) \<Longrightarrow> distinct (map k (filter (\<lambda>x. p x \<and> q x) rs))"
  by (induction rs) (auto split: if_splits)

lemma schema_delete_tenants:
  assumes ok: "schema_ok d" shows "schema_ok (delete_tenants p d)"
proof -
  let ?gone = "tr_id ` set (filter p (tenants d))"
  have kept: "x \<in> tr_id ` set (delete_where p (tenants d))"
    if "x \<in> tr_id ` set (tenants d)" "x \<notin> ?gone" for x
    using that by auto
  have "tenants_violation (delete_where p (tenants d)) = None"
    using ok by (auto simp: schema_ok_def tenants_ok_iff delete_where_def
        intro: distinct_map_filter_rows distinct_map_filter_conj)
  moreover have "events_violation (delete_where p (tenants d)) (events (delete_tenants p d)) = None"
    using ok kept unfolding schema_ok_def events_ok_iff
    by (auto simp: delete_tenants_def Let_def intro!: distinct_map_delete_where)
  moreover have "memberships_violation (delete_where p (tenants d)) (memberships (delete_tenants p d)) = None"
    using ok kept unfolding schema_ok_def memberships_ok_iff
    by (auto simp: delete_tenants_def Let_def intro!: distinct_map_delete_where)
  moreover have "invitations_violation (delete_where p (tenants d)) (invitations (delete_tenants p d)) = None"
    using ok kept unfolding schema_ok_def invitations_ok_iff
    by (auto simp: delete_tenants_def Let_def intro!: distinct_map_delete_where)
  moreover have "event_roles_violation (events (delete_tenants p d)) (memberships (delete_tenants p d))
      (event_roles (delete_tenants p d)) = None"
    using ok unfolding schema_ok_def event_roles_ok_iff
    by (auto simp: delete_tenants_def Let_def image_iff intro!: distinct_map_delete_where) metis+
  ultimately show ?thesis by (simp add: schema_ok_def)
qed

lemma schema_empty_db: "schema_ok empty_db"
  by (simp add: schema_ok_def empty_db_def table_ok_iffs)

end
