(* ===== verification/Hoare.thy ===== *)
theory Hoare
  imports Store
begin

text \<open>
  A program logic for calls on the store.  \<open>runs E c d m Q R\<close>: run in environment \<open>E\<close> from a world
  whose database, as the context \<open>c\<close> sees it, is \<open>d\<close>, the call \<open>m\<close> ends in one whose database \<open>d'\<close>
  satisfies \<open>Q x d'\<close> when it returns \<open>x\<close> and \<open>R e d'\<close> when it returns the error \<open>e\<close>; a call inside a
  transaction leaves the committed database alone, and one outside leaves no transaction open.

  The rules, in the collection \<open>tri\<close>, run a call symbolically: each takes the first operation of the
  call away and leaves one goal per outcome.  An environment is \<open>healthy\<close> when nothing in it ever
  fails; every rule names the outcomes that need an unhealthy one.
\<close>

definition healthy :: "env \<Rightarrow> bool" where
  "healthy E \<longleftrightarrow> (\<forall>n. e_fault E n = None \<and> is_Inr (e_uuid E n) \<and> is_Inr (e_rand E n))"

definition frame :: "ctx \<Rightarrow> world \<Rightarrow> world \<Rightarrow> bool" where
  "frame c w w' \<longleftrightarrow> (if ctx_tx c then w_db w' = w_db w else w_tx w = None \<longrightarrow> w_tx w' = None)"

definition runs ::
    "env \<Rightarrow> ctx \<Rightarrow> db \<Rightarrow> 'a go \<Rightarrow> ('a \<Rightarrow> db \<Rightarrow> bool) \<Rightarrow> (gerr \<Rightarrow> db \<Rightarrow> bool) \<Rightarrow> bool" where
  "runs E c d m Q R \<longleftrightarrow>
     (\<forall>w. view c w = Some d \<longrightarrow>
       (\<exists>d'. view c (snd (m E w)) = Some d' \<and> frame c w (snd (m E w)) \<and>
         (case fst (m E w) of Inl e \<Rightarrow> R e d' | Inr x \<Rightarrow> Q x d')))"

lemma runsI:
  assumes "\<And>w. view c w = Some d \<Longrightarrow> \<exists>d'. view c (snd (m E w)) = Some d' \<and> frame c w (snd (m E w)) \<and>
         (case fst (m E w) of Inl e \<Rightarrow> R e d' | Inr x \<Rightarrow> Q x d')"
  shows "runs E c d m Q R"
  using assms by (simp add: runs_def)

lemma runsE:
  assumes "runs E c d m Q R" and "view c w = Some d" and "m E w = (r, w')"
  obtains d' where "view c w' = Some d'" and "frame c w w'"
    and "case r of Inl e \<Rightarrow> R e d' | Inr x \<Rightarrow> Q x d'"
  using assms by (fastforce simp: runs_def)

lemma frame_refl [simp]: "frame c w w"
  by (simp add: frame_def)

lemma frame_trans: "frame c w1 w2 \<Longrightarrow> frame c w2 w3 \<Longrightarrow> frame c w1 w3"
  by (simp add: frame_def split: if_splits)

lemma view_tick [simp]: "view c (tick w) = view c w"
  by (simp add: view_def tick_def)

lemma view_set_view [simp]: "view c (set_view c d w) = Some d"
  by (simp add: view_def set_view_def)

lemma frame_tick [simp]: "frame c w (tick w)"
  by (simp add: frame_def tick_def)

lemma frame_set_view [simp]: "frame c w (set_view c d (tick w))"
  by (simp add: frame_def set_view_def tick_def)

lemma faulty: "e_fault E n = Some f \<Longrightarrow> \<not> healthy E"
  unfolding healthy_def by (metis option.distinct(1))

lemma uuid_error: "e_uuid E n = Inl e \<Longrightarrow> \<not> healthy E"
  unfolding healthy_def by (metis is_Inr.simps(2))

lemma rand_error: "e_rand E n = Inl e \<Longrightarrow> \<not> healthy E"
  unfolding healthy_def by (metis is_Inr.simps(2))

section \<open>Structural rules\<close>

lemma runs_conseq:
  assumes run: "runs E c d m Q R" and Q: "\<And>x d. Q x d \<Longrightarrow> Q' x d" and R: "\<And>e d. R e d \<Longrightarrow> R' e d"
  shows "runs E c d m Q' R'"
proof (rule runsI)
  fix w assume w: "view c w = Some d"
  obtain r w' where m: "m E w = (r, w')" by (cases "m E w") auto
  from run w m obtain d' where "view c w' = Some d'" "frame c w w'"
    "case r of Inl e \<Rightarrow> R e d' | Inr x \<Rightarrow> Q x d'" by (rule runsE)
  with m Q R show "\<exists>d'. view c (snd (m E w)) = Some d' \<and> frame c w (snd (m E w)) \<and>
      (case fst (m E w) of Inl e \<Rightarrow> R' e d' | Inr x \<Rightarrow> Q' x d')"
    by (cases r) auto
qed

lemma runs_ret [tri]: "Q x d \<Longrightarrow> runs E c d (ret x) Q R"
  by (simp add: runs_def ret_def)

lemma runs_fail [tri]: "R e d \<Longrightarrow> runs E c d (fail e) Q R"
  by (simp add: runs_def fail_def)

lemma runs_and_then [tri]:
  assumes run: "runs E c d m (\<lambda>x d'. runs E c d' (f x) Q R) R"
  shows "runs E c d (and_then m f) Q R"
proof (rule runsI)
  fix w assume w: "view c w = Some d"
  obtain r w1 where m: "m E w = (r, w1)" by (cases "m E w") auto
  from run w m obtain d1 where d1: "view c w1 = Some d1" "frame c w w1"
    "case r of Inl e \<Rightarrow> R e d1 | Inr x \<Rightarrow> runs E c d1 (f x) Q R" by (rule runsE)
  show "\<exists>d'. view c (snd (and_then m f E w)) = Some d' \<and> frame c w (snd (and_then m f E w)) \<and>
      (case fst (and_then m f E w) of Inl e \<Rightarrow> R e d' | Inr x \<Rightarrow> Q x d')"
  proof (cases r)
    case (Inl e)
    with d1 m show ?thesis by (simp add: and_then_def)
  next
    case (Inr x)
    obtain r2 w2 where f: "f x E w1 = (r2, w2)" by (cases "f x E w1") auto
    from Inr d1(3) have "runs E c d1 (f x) Q R" by simp
    from this d1(1) f obtain d2 where "view c w2 = Some d2" "frame c w1 w2"
      "case r2 of Inl e \<Rightarrow> R e d2 | Inr y \<Rightarrow> Q y d2" by (rule runsE)
    with d1(2) m f Inr show ?thesis by (auto simp: and_then_def intro: frame_trans)
  qed
qed

lemma runs_attempt [tri]:
  assumes "runs E c d m (\<lambda>x. Q (Inr x)) (\<lambda>e. Q (Inl e))"
  shows "runs E c d (attempt m) Q R"
proof (rule runsI)
  fix w assume w: "view c w = Some d"
  obtain r w' where m: "m E w = (r, w')" by (cases "m E w") auto
  from assms w m obtain d' where "view c w' = Some d'" "frame c w w'"
    "case r of Inl e \<Rightarrow> Q (Inl e) d' | Inr x \<Rightarrow> Q (Inr x) d'" by (rule runsE)
  with m show "\<exists>d'. view c (snd (attempt m E w)) = Some d' \<and> frame c w (snd (attempt m E w)) \<and>
      (case fst (attempt m E w) of Inl e \<Rightarrow> R e d' | Inr x \<Rightarrow> Q x d')"
    by (cases r) (auto simp: attempt_def)
qed

lemma runs_map_err [tri]:
  assumes "runs E c d m Q (\<lambda>e. R (f e))"
  shows "runs E c d (map_err f m) Q R"
proof (rule runsI)
  fix w assume w: "view c w = Some d"
  obtain r w' where m: "m E w = (r, w')" by (cases "m E w") auto
  from assms w m obtain d' where "view c w' = Some d'" "frame c w w'"
    "case r of Inl e \<Rightarrow> R (f e) d' | Inr x \<Rightarrow> Q x d'" by (rule runsE)
  with m show "\<exists>d'. view c (snd (map_err f m E w)) = Some d' \<and> frame c w (snd (map_err f m E w)) \<and>
      (case fst (map_err f m E w) of Inl e \<Rightarrow> R e d' | Inr x \<Rightarrow> Q x d')"
    by (cases r) (auto simp: map_err_def)
qed

lemma wrap_err_map_err: "wrap_err s m = map_err (Wrap s) m"
  by (simp add: wrap_err_def map_err_def)

lemma runs_wrap_err [tri]: "runs E c d m Q (\<lambda>e. R (Wrap s e)) \<Longrightarrow> runs E c d (wrap_err s m) Q R"
  unfolding wrap_err_map_err by (rule runs_map_err)

lemma runs_of_result [tri]:
  "(\<And>x. r = Inr x \<Longrightarrow> Q x d) \<Longrightarrow> (\<And>e. r = Inl e \<Longrightarrow> R e d) \<Longrightarrow> runs E c d (of_result r) Q R"
  by (cases r) (auto simp: of_result_def intro: tri)

lemma runs_require [tri]:
  "(r = None \<Longrightarrow> Q () d) \<Longrightarrow> (\<And>e. r = Some e \<Longrightarrow> R e d) \<Longrightarrow> runs E c d (require r) Q R"
  by (cases r) (auto simp: require_def intro: tri)

lemma runs_guard [tri]:
  "(ok \<Longrightarrow> Q () d) \<Longrightarrow> (\<not> ok \<Longrightarrow> R e d) \<Longrightarrow> runs E c d (guard ok e) Q R"
  by (auto simp: guard_def intro: tri)

lemma runs_if [tri]:
  "(b \<Longrightarrow> runs E c d m Q R) \<Longrightarrow> (\<not> b \<Longrightarrow> runs E c d n Q R) \<Longrightarrow> runs E c d (if b then m else n) Q R"
  by simp

lemma runs_case_sum [tri]:
  "(\<And>e. r = Inl e \<Longrightarrow> runs E c d (m e) Q R) \<Longrightarrow> (\<And>x. r = Inr x \<Longrightarrow> runs E c d (n x) Q R)
     \<Longrightarrow> runs E c d (case r of Inl e \<Rightarrow> m e | Inr x \<Rightarrow> n x) Q R"
  by (simp split: sum.split)

lemma runs_case_option [tri]:
  "(r = None \<Longrightarrow> runs E c d m Q R) \<Longrightarrow> (\<And>x. r = Some x \<Longrightarrow> runs E c d (n x) Q R)
     \<Longrightarrow> runs E c d (case r of None \<Rightarrow> m | Some x \<Rightarrow> n x) Q R"
  by (simp split: option.split)

lemma runs_case_prod [tri]:
  "(\<And>x y. r = (x, y) \<Longrightarrow> runs E c d (m x y) Q R) \<Longrightarrow> runs E c d (case r of (x, y) \<Rightarrow> m x y) Q R"
  by (simp split: prod.split)

section \<open>Clocks and random sources\<close>

lemma view_w_step [simp]: "view c (w\<lparr>w_step := n\<rparr>) = view c w"
  by (simp add: view_def)

lemma runs_now_go [tri]: "(\<And>n. Q (e_clock E n) d) \<Longrightarrow> runs E c d now_go Q R"
  by (simp add: runs_def now_go_def)

lemma runs_NewUUIDv7 [tri]:
  assumes "\<And>n x. e_uuid E n = Inr x \<Longrightarrow> Q x d"
    and "\<And>f. \<not> healthy E \<Longrightarrow> R (Wrap ''generate UUIDv7'' (fault_err f)) d"
  shows "runs E c d NewUUIDv7 Q R"
proof (rule runsI)
  fix w assume "view c w = Some d"
  then show "\<exists>d'. view c (snd (NewUUIDv7 E w)) = Some d' \<and> frame c w (snd (NewUUIDv7 E w)) \<and>
      (case fst (NewUUIDv7 E w) of Inl e \<Rightarrow> R e d' | Inr x \<Rightarrow> Q x d')"
  proof (cases "e_uuid E (w_step w)")
    case (Inl e)
    with assms(2) [OF uuid_error [OF Inl]] \<open>view c w = Some d\<close> show ?thesis by (simp add: NewUUIDv7_def)
  qed (simp add: NewUUIDv7_def assms(1))
qed

text \<open>Bytes that the random source has given.\<close>

definition drawn :: "env \<Rightarrow> nat \<Rightarrow> byte list \<Rightarrow> bool" where
  "drawn E n bs \<longleftrightarrow> (\<exists>k f. e_rand E k = Inr f \<and> bs = map f [0..<n])"

lemma runs_rand_Read [tri]:
  assumes "\<And>bs. length bs = n \<Longrightarrow> drawn E n bs \<Longrightarrow> Q bs d" and "\<And>f. \<not> healthy E \<Longrightarrow> R (fault_err f) d"
  shows "runs E c d (rand_Read n) Q R"
proof (rule runsI)
  fix w assume "view c w = Some d"
  then show "\<exists>d'. view c (snd (rand_Read n E w)) = Some d' \<and> frame c w (snd (rand_Read n E w)) \<and>
      (case fst (rand_Read n E w) of Inl e \<Rightarrow> R e d' | Inr x \<Rightarrow> Q x d')"
  proof (cases "e_rand E (w_step w)")
    case (Inl e)
    with assms(2) [OF rand_error [OF Inl]] \<open>view c w = Some d\<close> show ?thesis by (simp add: rand_Read_def)
  next
    case (Inr f)
    with assms(1) [of "map f [0..<n]"] \<open>view c w = Some d\<close> show ?thesis by (auto simp: rand_Read_def drawn_def)
  qed
qed

lemma runs_NewPublicID [tri]:
  "(\<And>bs. length bs = 8 \<Longrightarrow> drawn E 8 bs \<Longrightarrow> Q (public_id_of bs) d) \<Longrightarrow> (\<And>f. \<not> healthy E \<Longrightarrow> R (Wrap ''generate public ID'' (fault_err f)) d)
     \<Longrightarrow> runs E c d NewPublicID Q R"
  unfolding NewPublicID_def by (intro tri)

lemma runs_onetimetoken_New [tri]:
  "(\<And>bs. length bs = tokenBytes \<Longrightarrow> drawn E tokenBytes bs \<Longrightarrow> Q (token_of bs) d) \<Longrightarrow> (\<And>f. \<not> healthy E \<Longrightarrow> R (Wrap ''generate one-time token'' (fault_err f)) d)
     \<Longrightarrow> runs E c d onetimetoken_New Q R"
  unfolding onetimetoken_New_def by (intro tri)

section \<open>Statements\<close>

lemma runs_stmt:
  assumes ok: "\<And>t x d'. q t d = Inr (x, d') \<Longrightarrow> pg_time t = t \<Longrightarrow> Q x d'"
    and err: "\<And>t e. q t d = Inl e \<Longrightarrow> R e d"
    and lost: "\<And>t x d' f. q t d = Inr (x, d') \<Longrightarrow> pg_time t = t \<Longrightarrow> \<not> healthy E \<Longrightarrow> R (fault_err f) d'"
    and broken: "\<And>f. \<not> healthy E \<Longrightarrow> R (fault_err f) d"
  shows "runs E c d (stmt c q) Q R"
proof (rule runsI)
  fix w assume w: "view c w = Some d"
  let ?t = "pg_time (e_dbclock E (w_step w))"
  have t: "pg_time ?t = ?t" by simp
  show "\<exists>d'. view c (snd (stmt c q E w)) = Some d' \<and> frame c w (snd (stmt c q E w)) \<and>
      (case fst (stmt c q E w) of Inl e \<Rightarrow> R e d' | Inr x \<Rightarrow> Q x d')"
  proof (cases "q ?t d")
    case (Inl e)
    with w err broken faulty show ?thesis by (auto simp: stmt_def Let_def split: option.split)
  next
    case (Inr xd)
    then obtain x d' where q: "q ?t d = Inr (x, d')" by (cases xd) auto
    with w ok [OF q t] lost [OF q t] broken faulty show ?thesis
      by (auto simp: stmt_def Let_def split: option.split)
  qed
qed

lemma runs_query [tri]:
  assumes "\<And>x. f d = Inr x \<Longrightarrow> Q x d" and "\<And>e. f d = Inl e \<Longrightarrow> R e d" and "\<And>f. \<not> healthy E \<Longrightarrow> R (fault_err f) d"
  shows "runs E c d (query c f) Q R"
  unfolding query_def by (rule runs_stmt) (auto simp: assms split: sum.splits)

lemma runs_GetContext [tri]:
  assumes "\<And>r. first_row (rows d) = Some r \<Longrightarrow> Q r d"
    and "first_row (rows d) = None \<Longrightarrow> R (Sentinel ErrNoRows) d" and "\<And>f. \<not> healthy E \<Longrightarrow> R (fault_err f) d"
  shows "runs E c d (GetContext c rows) Q R"
  unfolding GetContext_def by (rule runs_query) (auto simp: assms split: option.splits)

lemma runs_SelectContext [tri]:
  "Q (rows d) d \<Longrightarrow> (\<And>f. \<not> healthy E \<Longrightarrow> R (fault_err f) d) \<Longrightarrow> runs E c d (SelectContext c rows) Q R"
  unfolding SelectContext_def by (rule runs_query) auto

lemma runs_RowsAffected [tri]:
  "Q n d \<Longrightarrow> (\<And>f. \<not> healthy E \<Longrightarrow> R (fault_err f) d) \<Longrightarrow> runs E c d (RowsAffected c n) Q R"
  unfolding RowsAffected_def by (rule runs_query) auto

lemma runs_exec_sql [tri]:
  assumes "\<And>t d'. f t d = Inr d' \<Longrightarrow> pg_time t = t \<Longrightarrow> Q () d'"
    and "\<And>t e. f t d = Inl e \<Longrightarrow> R e d"
    and "\<And>t d' x. f t d = Inr d' \<Longrightarrow> pg_time t = t \<Longrightarrow> \<not> healthy E \<Longrightarrow> R (fault_err x) d'"
    and "\<And>f. \<not> healthy E \<Longrightarrow> R (fault_err f) d"
  shows "runs E c d (exec_sql c f) Q R"
  unfolding exec_sql_def
  by (rule runs_stmt) (auto simp: assms bind_result_Inr_iff bind_result_Inl_iff)

lemma runs_exec_count [tri]:
  assumes "\<And>t n d'. f t d = Inr (n, d') \<Longrightarrow> pg_time t = t \<Longrightarrow> Q n d'"
    and "\<And>t e. f t d = Inl e \<Longrightarrow> R e d"
    and "\<And>t n d' x. f t d = Inr (n, d') \<Longrightarrow> pg_time t = t \<Longrightarrow> \<not> healthy E \<Longrightarrow> R (fault_err x) d'"
    and "\<And>f. \<not> healthy E \<Longrightarrow> R (fault_err f) d"
  shows "runs E c d (exec_count c f) Q R"
  unfolding exec_count_def by (rule runs_stmt) (auto simp: assms)

section \<open>Transactions\<close>

definition abort_mark :: "gerr \<Rightarrow> gerr" where
  "abort_mark e = (if isTransactionAbort e then Join e (Sentinel ErrTransactionAborted) else e)"

lemma RunInTransaction_joins: "ctx_tx c \<Longrightarrow> RunInTransaction c fn = fn c"
  by (simp add: RunInTransaction_def)

text \<open>
  A transaction started here leaves the database as it was when its body fails, and as the body
  left it when the body returns and the commit takes effect.
\<close>

lemma runs_RunInTransaction:
  assumes nt: "\<not> ctx_tx c"
    and body: "runs E (c\<lparr>ctx_tx := True\<rparr>) d (fn (c\<lparr>ctx_tx := True\<rparr>))
      (\<lambda>x d'. Q x d' \<and> (\<not> healthy E \<longrightarrow> (\<forall>e. R e d')))
      (\<lambda>e d'. R (abort_mark e) d)"
    and broken: "\<And>e. \<not> healthy E \<Longrightarrow> R e d"
  shows "runs E c d (RunInTransaction c fn) Q R"
proof (rule runsI)
  fix w assume w: "view c w = Some d"
  have d: "w_db w = d" using w nt by (simp add: view_def)
  let ?c = "c\<lparr>ctx_tx := True\<rparr>"
  let ?w = "(tick w)\<lparr>w_tx := Some (w_db w)\<rparr>"
  show "\<exists>d'. view c (snd (RunInTransaction c fn E w)) = Some d' \<and> frame c w (snd (RunInTransaction c fn E w)) \<and>
      (case fst (RunInTransaction c fn E w) of Inl e \<Rightarrow> R e d' | Inr x \<Rightarrow> Q x d')"
  proof (cases "e_fault E (w_step w)")
    case (Some f)
    with nt d broken [OF faulty [OF Some]] show ?thesis
      by (cases f) (simp add: RunInTransaction_def begin_tx_def and_then_def view_def tick_def frame_def)
  next
    case None
    obtain r w1 where run: "fn ?c E ?w = (r, w1)" by (cases "fn ?c E ?w") auto
    have "view ?c ?w = Some d" by (simp add: view_def d)
    from body this run obtain d1 where d1: "view ?c w1 = Some d1" "frame ?c ?w w1"
      "case r of Inl e \<Rightarrow> R (abort_mark e) d | Inr x \<Rightarrow> Q x d1 \<and> (\<not> healthy E \<longrightarrow> (\<forall>e. R e d1))"
      by (rule runsE)
    then have tx: "w_tx w1 = Some d1" and db: "w_db w1 = d"
      using d by (simp_all add: view_def frame_def tick_def)
    show ?thesis
    proof (cases r)
      case (Inl err)
      with None nt run db d1 faulty broken show ?thesis
        by (auto simp: RunInTransaction_def begin_tx_def and_then_def rollback_tx_def tick_def Let_def
            view_def frame_def abort_mark_def split: option.split)
    next
      case (Inr x)
      with None nt run db tx d1 faulty broken show ?thesis
        by (auto simp: RunInTransaction_def begin_tx_def and_then_def commit_tx_def tick_def Let_def
            view_def frame_def split: option.split)
    qed
  qed
qed

text \<open>
  The same, in the form the use cases rest on: all or nothing.  Whatever fails in the body or around
  it, the database is the old one; only a commit whose answer was lost may have taken effect, and
  then it is one the body completed.  A healthy environment reports the body's error.
\<close>

definition all_or_nothing ::
    "env \<Rightarrow> db \<Rightarrow> ('a \<Rightarrow> db \<Rightarrow> bool) \<Rightarrow> (gerr \<Rightarrow> bool) \<Rightarrow> gerr \<Rightarrow> db \<Rightarrow> bool" where
  "all_or_nothing E d Q Z e d' \<longleftrightarrow>
     (d' = d \<or> \<not> healthy E \<and> (\<exists>x. Q x d')) \<and> (healthy E \<longrightarrow> (\<exists>e0. e = abort_mark e0 \<and> Z e0))"

lemma runs_atomic:
  assumes "\<not> ctx_tx c"
    and "runs E (c\<lparr>ctx_tx := True\<rparr>) d (fn (c\<lparr>ctx_tx := True\<rparr>)) Q (\<lambda>e _. Z e)"
  shows "runs E c d (RunInTransaction c fn) Q (all_or_nothing E d Q Z)"
  by (rule runs_RunInTransaction [OF assms(1)], rule runs_conseq [OF assms(2)])
    (auto simp: all_or_nothing_def)

lemma all_or_nothing_mono:
  "all_or_nothing E d Q Z e d' \<Longrightarrow> (\<And>x. Q x d' \<Longrightarrow> Q' x d') \<Longrightarrow> (\<And>e. Z e \<Longrightarrow> Z' e)
     \<Longrightarrow> all_or_nothing E d Q' Z' e d'"
  by (auto simp: all_or_nothing_def)

text \<open>What a rule says of a run that starts outside any transaction.\<close>

lemma runs_db:
  assumes "runs E c d m Q R" and "\<not> ctx_tx c" and "w_db w = d" and "m E w = (r, w')"
  shows "case r of Inl e \<Rightarrow> R e (w_db w') | Inr x \<Rightarrow> Q x (w_db w')"
proof -
  from assms(2,3) have "view c w = Some d" by (simp add: view_def)
  from assms(1) this assms(4) obtain d' where "view c w' = Some d'"
    "case r of Inl e \<Rightarrow> R e d' | Inr x \<Rightarrow> Q x d'" by (rule runsE)
  with assms(2) show ?thesis by (simp add: view_def split: sum.splits)
qed

lemma runs_tx_None:
  assumes "runs E c d m Q R" and "\<not> ctx_tx c" and "w_db w = d" and "w_tx w = None"
  shows "w_tx (snd (m E w)) = None"
proof -
  obtain r w' where m: "m E w = (r, w')" by (cases "m E w") auto
  from assms(2,3) have "view c w = Some d" by (simp add: view_def)
  from assms(1) this m obtain d' where "frame c w w'" by (rule runsE)
  with assms(2,4) m show ?thesis by (simp add: frame_def)
qed

end
