(* ===== verification/Enums.thy ===== *)
theory Enums
  imports GoErrors
begin

text \<open>
  Go's enumerated constants.  An enum of the service is a \<open>uint8\<close>, so every value from 0 to 255
  is a value of the type and the declared constants are some of them: the model keeps the eight bit
  word.  The String methods that stringer generated are modelled from their name and index tables,
  the parsers as the loop over the declared values.  The locale \<open>stringer_enum\<close> states once what
  a table must satisfy for parsing and printing to be inverse, and every enum interprets it; the
  locale \<open>wire_enum\<close> does the same for the conversions to and from the protobuf enums.
\<close>

type_synonym enum8 = "8 word"

section \<open>Decimal numbers (strconv.FormatInt)\<close>

fun FormatNat :: "nat \<Rightarrow> string" where
  "FormatNat n = (if n < 10 then [char_of (48 + n)] else FormatNat (n div 10) @ [char_of (48 + n mod 10)])"

declare FormatNat.simps [simp del]

section \<open>String methods generated by stringer\<close>

definition go_slice :: "'a list \<Rightarrow> nat \<Rightarrow> nat \<Rightarrow> 'a list" where
  "go_slice s a b = take (b - a) (drop a s)"

definition stringer :: "string \<Rightarrow> string \<Rightarrow> nat list \<Rightarrow> enum8 \<Rightarrow> string" where
  "stringer type_name names index i =
     (let idx = unat i
      in if length index - 1 \<le> idx then type_name @ ''('' @ FormatNat idx @ '')''
         else go_slice names (index ! idx) (index ! Suc idx))"

text \<open>The parsers' loop \<open>for v := 0; v <= last; v++\<close>, answering the first value that prints as \<open>s\<close>.\<close>

definition enum_values :: "enum8 \<Rightarrow> enum8 list" where
  "enum_values final = map word_of_nat [0..<Suc (unat final)]"

definition parse_enum :: "(enum8 \<Rightarrow> string) \<Rightarrow> enum8 \<Rightarrow> string \<Rightarrow> enum8 option" where
  "parse_enum to_string final s = find (\<lambda>v. to_string v = s) (enum_values final)"

lemma find_SomeD: "find p xs = Some v \<Longrightarrow> v \<in> set xs \<and> p v"
  by (auto simp: find_Some_iff)

lemma set_enum_values: "set (enum_values final) = {v. v \<le> final}"
proof -
  have "v \<in> set (enum_values final) \<longleftrightarrow> v \<le> final" for v
  proof
    assume "v \<in> set (enum_values final)"
    then obtain n where n: "n < Suc (unat final)" and v: "v = word_of_nat n"
      unfolding enum_values_def set_map set_upt by auto
    from n show "v \<le> final" by (simp add: v word_le_nat_alt unat_of_nat)
  next
    assume "v \<le> final"
    then have "unat v < Suc (unat final)" by (simp add: word_le_nat_alt less_Suc_eq_le)
    then have "word_of_nat (unat v) \<in> set (enum_values final)"
      unfolding enum_values_def set_map set_upt by (intro imageI) simp
    then show "v \<in> set (enum_values final)" by simp
  qed
  then show ?thesis by blast
qed

locale stringer_enum =
  fixes to_string :: "enum8 \<Rightarrow> string"
    and final :: enum8
  assumes names_distinct:
    "v \<le> final \<Longrightarrow> u \<le> final \<Longrightarrow> to_string v = to_string u \<Longrightarrow> v = u"
begin

lemma parse_Some_iff: "parse_enum to_string final s = Some v \<longleftrightarrow> v \<le> final \<and> to_string v = s"
proof
  assume "parse_enum to_string final s = Some v"
  then show "v \<le> final \<and> to_string v = s"
    by (auto simp: parse_enum_def set_enum_values dest: find_SomeD)
next
  assume v: "v \<le> final \<and> to_string v = s"
  then have "parse_enum to_string final s \<noteq> None"
    by (auto simp: parse_enum_def find_None_iff set_enum_values)
  then obtain u where u: "parse_enum to_string final s = Some u" by auto
  then have "u \<le> final \<and> to_string u = s"
    by (auto simp: parse_enum_def set_enum_values dest: find_SomeD)
  with v u names_distinct show "parse_enum to_string final s = Some v" by auto
qed

lemma parse_print: "v \<le> final \<Longrightarrow> parse_enum to_string final (to_string v) = Some v"
  by (simp add: parse_Some_iff)

lemma parse_None_iff: "parse_enum to_string final s = None \<longleftrightarrow> (\<forall>v \<le> final. to_string v \<noteq> s)"
  by (auto simp: parse_enum_def find_None_iff set_enum_values)

end

section \<open>Conversions to the wire\<close>

text \<open>
  A protobuf enum is an \<open>int32\<close> with its own constants.  A conversion to the wire and the one back
  agree on the declared values, and a value that is not declared becomes the unspecified one.
\<close>

type_synonym enum32 = "32 word"

locale wire_enum =
  fixes to_wire :: "enum8 \<Rightarrow> enum32"
    and from_wire :: "enum32 \<Rightarrow> enum8"
    and final :: enum8
  assumes from_to: "v \<le> final \<Longrightarrow> from_wire (to_wire v) = v"
    and from_declared: "from_wire x \<le> final"
    and undeclared: "final < v \<Longrightarrow> to_wire v = to_wire 0"
begin

lemma to_wire_inj: "v \<le> final \<Longrightarrow> u \<le> final \<Longrightarrow> to_wire v = to_wire u \<Longrightarrow> v = u"
  by (metis from_to)

lemma normalise: "from_wire (to_wire v) = (if v \<le> final then v else 0)"
proof (cases "v \<le> final")
  case False
  have "from_wire (to_wire 0) = 0" by (rule from_to) simp
  with False undeclared [of v] show ?thesis by (simp add: not_le [symmetric] del: not_le)
qed (simp add: from_to)

end

end
