(* ===== verification/TenantDomain.thy ===== *)
theory TenantDomain
  imports Enums OneTimeToken
begin

text \<open>
  internal/tenant/domain: the lifecycle of an event, the ownership state of a tenant, the pending
  ownership claim and the subdomain rules.  The regular expressions of subdomain.go are kept as
  expressions and matched by a backtracking matcher over the runes of the input; the lemma
  \<open>ParseSubdomain_iff\<close> is the rule they state, in plain terms.
\<close>

section \<open>Event status (event.go, event_enum_string.go)\<close>

type_synonym event_status = enum8

definition EventStatusUnspecified :: event_status where "EventStatusUnspecified = 0"
definition EventStatusDraft :: event_status where "EventStatusDraft = 1"
definition EventStatusOpen :: event_status where "EventStatusOpen = 2"
definition EventStatusLocked :: event_status where "EventStatusLocked = 3"
definition EventStatusClosed :: event_status where "EventStatusClosed = 4"
definition EventStatusArchived :: event_status where "EventStatusArchived = 5"

lemmas event_status_defs =
  EventStatusUnspecified_def EventStatusDraft_def EventStatusOpen_def EventStatusLocked_def
  EventStatusClosed_def EventStatusArchived_def

definition EventStatus_String :: "event_status \<Rightarrow> string" where
  "EventStatus_String i =
     stringer ''EventStatus'' ''unspecifieddraftopenlockedclosedarchived'' [0, 11, 16, 20, 26, 32, 40] i"

definition ParseEventStatus :: "string \<Rightarrow> gerr + event_status" where
  "ParseEventStatus s = (case parse_enum EventStatus_String EventStatusArchived s of
      Some st \<Rightarrow> Inr st
    | None \<Rightarrow> Inl (Errorf ''invalid event status %q'' [s]))"

text \<open>An eight bit value up to a small bound is one of finitely many constants.\<close>

lemma enum8_le_cases:
  "(v :: enum8) \<le> 5 \<longleftrightarrow> v = 0 \<or> v = 1 \<or> v = 2 \<or> v = 3 \<or> v = 4 \<or> v = 5"
  "(v :: enum8) \<le> 3 \<longleftrightarrow> v = 0 \<or> v = 1 \<or> v = 2 \<or> v = 3"
  "(v :: enum8) \<le> 2 \<longleftrightarrow> v = 0 \<or> v = 1 \<or> v = 2"
proof -
  have 5: "v \<in> {0, 1, 2, 3, 4, 5}" if "v \<le> 5"
  proof -
    from that have "unat v \<le> 5" by (simp add: word_le_nat_alt)
    then show ?thesis by (simp add: word_unat_eq_iff) arith
  qed
  from 5 show "v \<le> 5 \<longleftrightarrow> v = 0 \<or> v = 1 \<or> v = 2 \<or> v = 3 \<or> v = 4 \<or> v = 5" by auto
  have "v \<le> 3 \<Longrightarrow> v \<le> 5" "v \<le> 2 \<Longrightarrow> v \<le> 5" by (auto elim: order_trans)
  with 5 show "v \<le> 3 \<longleftrightarrow> v = 0 \<or> v = 1 \<or> v = 2 \<or> v = 3" "v \<le> 2 \<longleftrightarrow> v = 0 \<or> v = 1 \<or> v = 2"
    by auto
qed

lemma EventStatus_String_simps [simp]:
  "EventStatus_String 0 = ''unspecified''" "EventStatus_String 1 = ''draft''"
  "EventStatus_String 2 = ''open''" "EventStatus_String 3 = ''locked''"
  "EventStatus_String 4 = ''closed''" "EventStatus_String 5 = ''archived''"
  by (simp_all add: EventStatus_String_def stringer_def go_slice_def Let_def)

interpretation event_status: stringer_enum EventStatus_String EventStatusArchived
  by unfold_locales (auto simp: event_status_defs enum8_le_cases)

lemma ParseEventStatus_Inr_iff:
  "ParseEventStatus s = Inr st \<longleftrightarrow> st \<le> EventStatusArchived \<and> EventStatus_String st = s"
  by (auto simp: ParseEventStatus_def event_status.parse_Some_iff [symmetric] split: option.splits)

lemma ParseEventStatus_String:
  "st \<le> EventStatusArchived \<Longrightarrow> ParseEventStatus (EventStatus_String st) = Inr st"
  by (simp add: ParseEventStatus_Inr_iff)

section \<open>Events (event.go)\<close>

record event =
  ev_id :: string
  ev_publicID :: string
  ev_tenantID :: string
  ev_tenantPublicID :: string
  ev_name :: string
  ev_status :: event_status

definition NewEvent :: "string \<Rightarrow> string \<Rightarrow> string \<Rightarrow> string \<Rightarrow> string \<Rightarrow> event_status \<Rightarrow> event" where
  "NewEvent eventID publicID tenantID tenantPublicID name status =
     \<lparr>ev_id = eventID, ev_publicID = publicID, ev_tenantID = tenantID, ev_tenantPublicID = tenantPublicID,
      ev_name = name, ev_status = status\<rparr>"

definition canTransitionEventStatus :: "event_status \<Rightarrow> event_status \<Rightarrow> bool" where
  "canTransitionEventStatus from to =
     (if from = EventStatusUnspecified then False
      else if from = EventStatusDraft then to = EventStatusOpen \<or> to = EventStatusArchived
      else if from = EventStatusOpen then to = EventStatusLocked
      else if from = EventStatusLocked then to = EventStatusClosed \<or> to = EventStatusOpen
      else if from = EventStatusClosed then to = EventStatusArchived \<or> to = EventStatusOpen
      else if from = EventStatusArchived then to = EventStatusClosed
      else False)"

definition TransitionTo :: "event \<Rightarrow> event_status \<Rightarrow> gerr + event" where
  "TransitionTo e status =
     (if \<not> canTransitionEventStatus (ev_status e) status
      then Inl (Sentinel (TenantDomain ErrInvalidEventStatusTransition))
      else Inr (e\<lparr>ev_status := status\<rparr>))"

text \<open>The transition table of the specification, as the relation it draws.\<close>

inductive event_step :: "event_status \<Rightarrow> event_status \<Rightarrow> bool" where
  opened: "event_step EventStatusDraft EventStatusOpen"
| discarded: "event_step EventStatusDraft EventStatusArchived"
| locked: "event_step EventStatusOpen EventStatusLocked"
| unlocked: "event_step EventStatusLocked EventStatusOpen"
| closed: "event_step EventStatusLocked EventStatusClosed"
| reopened: "event_step EventStatusClosed EventStatusOpen"
| archived: "event_step EventStatusClosed EventStatusArchived"
| unarchived: "event_step EventStatusArchived EventStatusClosed"

inductive_simps event_step_iff: "event_step from to"

lemma canTransition_iff_step: "canTransitionEventStatus from to \<longleftrightarrow> event_step from to"
  by (auto simp: canTransitionEventStatus_def event_step_iff event_status_defs)

lemma event_step_declared:
  "event_step from to \<Longrightarrow> from \<le> EventStatusArchived \<and> to \<le> EventStatusArchived
     \<and> from \<noteq> EventStatusUnspecified \<and> to \<noteq> EventStatusUnspecified \<and> from \<noteq> to"
  by (erule event_step.cases) (simp_all add: event_status_defs)

lemma TransitionTo_Inr_iff:
  "TransitionTo e status = Inr e' \<longleftrightarrow> event_step (ev_status e) status \<and> e' = e\<lparr>ev_status := status\<rparr>"
  by (auto simp: TransitionTo_def canTransition_iff_step)

lemma event_step_never_draft: "event_step\<^sup>*\<^sup>* from to \<Longrightarrow> from \<noteq> EventStatusDraft \<Longrightarrow> to \<noteq> EventStatusDraft"
  by (induction rule: rtranclp_induct) (auto simp: event_step_iff event_status_defs)

section \<open>Tenant ownership (tenant.go, tenant_enum_string.go, ownership.go)\<close>

type_synonym ownership_state = enum8

definition TenantOwnershipStateUnspecified :: ownership_state where
  "TenantOwnershipStateUnspecified = 0"
definition TenantOwnershipStatePendingOwner :: ownership_state where
  "TenantOwnershipStatePendingOwner = 1"
definition TenantOwnershipStateOwned :: ownership_state where
  "TenantOwnershipStateOwned = 2"

lemmas ownership_state_defs =
  TenantOwnershipStateUnspecified_def TenantOwnershipStatePendingOwner_def
  TenantOwnershipStateOwned_def

definition TenantOwnershipState_String :: "ownership_state \<Rightarrow> string" where
  "TenantOwnershipState_String i =
     stringer ''TenantOwnershipState'' ''unspecifiedpending_ownerowned'' [0, 11, 24, 29] i"

definition ParseTenantOwnershipState :: "string \<Rightarrow> gerr + ownership_state" where
  "ParseTenantOwnershipState s =
     (case parse_enum TenantOwnershipState_String TenantOwnershipStateOwned s of
       Some st \<Rightarrow> Inr st
     | None \<Rightarrow> Inl (Errorf ''invalid tenant ownership state %q'' [s]))"

lemma TenantOwnershipState_String_simps [simp]:
  "TenantOwnershipState_String 0 = ''unspecified''"
  "TenantOwnershipState_String 1 = ''pending_owner''"
  "TenantOwnershipState_String 2 = ''owned''"
  by (simp_all add: TenantOwnershipState_String_def stringer_def go_slice_def Let_def)

interpretation ownership_state: stringer_enum TenantOwnershipState_String TenantOwnershipStateOwned
  by unfold_locales (auto simp: ownership_state_defs enum8_le_cases)

lemma ParseTenantOwnershipState_Inr_iff:
  "ParseTenantOwnershipState s = Inr st
     \<longleftrightarrow> st \<le> TenantOwnershipStateOwned \<and> TenantOwnershipState_String st = s"
  by (auto simp: ParseTenantOwnershipState_def ownership_state.parse_Some_iff [symmetric]
      split: option.splits)

lemma ParseTenantOwnershipState_simps [simp]:
  "ParseTenantOwnershipState ''pending_owner'' = Inr TenantOwnershipStatePendingOwner"
  "ParseTenantOwnershipState ''owned'' = Inr TenantOwnershipStateOwned"
  by (simp_all add: ParseTenantOwnershipState_Inr_iff ownership_state_defs)

record ownership_claim =
  oc_TokenHash :: token_hash
  oc_ExpiresAt :: time

definition claim_Expired :: "ownership_claim \<Rightarrow> time \<Rightarrow> bool" where
  "claim_Expired c now \<longleftrightarrow> \<not> now < oc_ExpiresAt c"

section \<open>Subdomains (subdomain.go)\<close>

subsection \<open>Regular expressions (package regexp)\<close>

text \<open>
  The expressions the service compiles: character classes (as ranges of code points), any rune but a
  newline, concatenation, alternation, an optional part and a counted repetition of a class.  The
  matcher answers every rest that a match from the start can leave, so \<open>^r$\<close> matches when the
  empty rest is among them and \<open>^r\<close> when there is any.
\<close>

type_synonym char_class = "(nat \<times> nat) list"

datatype re =
    Chr char_class
  | AnyRune
  | Seq re re
  | Alt re re
  | Opt re
  | Rep char_class nat "nat option"

datatype pattern = Whole re | Prefix re

definition in_class :: "char_class \<Rightarrow> nat \<Rightarrow> bool" where
  "in_class rs c \<longleftrightarrow> list_ex (\<lambda>(a, b). a \<le> c \<and> c \<le> b) rs"

fun rep_rests :: "char_class \<Rightarrow> nat \<Rightarrow> nat option \<Rightarrow> nat list \<Rightarrow> nat list list" where
  "rep_rests rs lo hi [] = (if lo = 0 then [[]] else [])"
| "rep_rests rs lo hi (c # cs) =
     (if lo = 0 then [c # cs] else []) @
     (if hi \<noteq> Some 0 \<and> in_class rs c
      then rep_rests rs (lo - 1) (map_option (\<lambda>n. n - 1) hi) cs else [])"

fun re_rests :: "re \<Rightarrow> nat list \<Rightarrow> nat list list" where
  "re_rests (Chr rs) xs = (case xs of [] \<Rightarrow> [] | c # cs \<Rightarrow> if in_class rs c then [cs] else [])"
| "re_rests AnyRune xs = (case xs of [] \<Rightarrow> [] | c # cs \<Rightarrow> if c \<noteq> 10 then [cs] else [])"
| "re_rests (Seq r q) xs = concat (map (re_rests q) (re_rests r xs))"
| "re_rests (Alt r q) xs = re_rests r xs @ re_rests q xs"
| "re_rests (Opt r) xs = re_rests r xs @ [xs]"
| "re_rests (Rep rs lo hi) xs = rep_rests rs lo hi xs"

fun MatchString :: "pattern \<Rightarrow> string \<Rightarrow> bool" where
  "MatchString (Whole r) s \<longleftrightarrow> [] \<in> set (re_rests r (runes s))"
| "MatchString (Prefix r) s \<longleftrightarrow> re_rests r (runes s) \<noteq> []"

fun re_literal :: "string \<Rightarrow> re" where
  "re_literal [] = Rep [] 0 (Some 0)"
| "re_literal [c] = Chr [(of_char c, of_char c)]"
| "re_literal (c # cs) = Seq (Chr [(of_char c, of_char c)]) (re_literal cs)"

definition cls_alnum :: char_class where "cls_alnum = [(97, 122), (48, 57)]"
definition cls_alnum_hyphen :: char_class where "cls_alnum_hyphen = [(97, 122), (48, 57), (45, 45)]"
definition cls_hex :: char_class where "cls_hex = [(48, 57), (97, 102)]"
definition cls_digit :: char_class where "cls_digit = [(48, 57)]"

text \<open>\<^verbatim>\<open>^[a-z0-9]([a-z0-9-]{0,61}[a-z0-9])?$\<close>\<close>

definition subdomainPattern :: pattern where
  "subdomainPattern =
     Whole (Seq (Chr cls_alnum) (Opt (Seq (Rep cls_alnum_hyphen 0 (Some 61)) (Chr cls_alnum))))"

text \<open>\<^verbatim>\<open>^[0-9a-f]{16}$\<close>, \<^verbatim>\<open>^..--\<close>, \<^verbatim>\<open>^(www|api|admin|auth)$\<close> and \<^verbatim>\<open>^s[0-9]+$\<close>\<close>

definition rejectedSubdomainPatterns :: "pattern list" where
  "rejectedSubdomainPatterns =
     [Whole (Rep cls_hex 16 (Some 16)),
      Prefix (Seq AnyRune (Seq AnyRune (re_literal ''--''))),
      Whole (Alt (re_literal ''www'') (Alt (re_literal ''api'')
              (Alt (re_literal ''admin'') (re_literal ''auth'')))),
      Whole (Seq (re_literal ''s'') (Rep cls_digit 1 None))]"

datatype subdomain = Subdomain (sd_value: string)

definition ParseSubdomain :: "string \<Rightarrow> gerr + subdomain" where
  "ParseSubdomain s =
     (if \<not> MatchString subdomainPattern s then Inl (Sentinel (TenantDomain ErrInvalidSubdomain))
      else if list_ex (\<lambda>rejected. MatchString rejected s) rejectedSubdomainPatterns
           then Inl (Sentinel (TenantDomain ErrInvalidSubdomain))
      else Inr (Subdomain s))"

subsection \<open>What the expressions accept\<close>

lemma ex_le_Suc_iff: "(\<exists>k \<le> n + Suc 0. P k) \<longleftrightarrow> P 0 \<or> (\<exists>k \<le> n. P (Suc k))"
proof
  assume "\<exists>k \<le> n + Suc 0. P k"
  then obtain k where "k \<le> n + Suc 0" "P k" by blast
  then show "P 0 \<or> (\<exists>k \<le> n. P (Suc k))" by (cases k) auto
qed auto

lemma rep_rests_iff:
  "ys \<in> set (rep_rests rs lo hi xs) \<longleftrightarrow>
     (\<exists>k \<le> length xs. ys = drop k xs \<and> lo \<le> k \<and> (\<forall>n. hi = Some n \<longrightarrow> k \<le> n)
        \<and> (\<forall>c \<in> set (take k xs). in_class rs c))"
proof (induction xs arbitrary: lo hi)
  case Nil
  then show ?case by auto
next
  case (Cons c cs)
  let ?P = "\<lambda>k. ys = drop k (c # cs) \<and> lo \<le> k \<and> (\<forall>n. hi = Some n \<longrightarrow> k \<le> n)
    \<and> (\<forall>d \<in> set (take k (c # cs)). in_class rs d)"
  have split: "(\<exists>k \<le> length (c # cs). ?P k) \<longleftrightarrow> ?P 0 \<or> (\<exists>k \<le> length cs. ?P (Suc k))"
    unfolding list.size by (rule ex_le_Suc_iff)
  have step: "?P (Suc k) \<longleftrightarrow> hi \<noteq> Some 0 \<and> in_class rs c \<and> ys = drop k cs \<and> lo - 1 \<le> k
      \<and> (\<forall>n. map_option (\<lambda>n. n - 1) hi = Some n \<longrightarrow> k \<le> n)
      \<and> (\<forall>d \<in> set (take k cs). in_class rs d)" for k
  proof -
    have "lo \<le> Suc k \<longleftrightarrow> lo - 1 \<le> k" by arith
    moreover have "(\<forall>n. hi = Some n \<longrightarrow> Suc k \<le> n) \<longleftrightarrow>
        hi \<noteq> Some 0 \<and> (\<forall>n. map_option (\<lambda>n. n - 1) hi = Some n \<longrightarrow> k \<le> n)"
    proof (cases hi)
      case (Some m)
      have "Suc k \<le> m \<longleftrightarrow> m \<noteq> 0 \<and> k \<le> m - 1" by arith
      with Some show ?thesis by simp
    qed simp
    ultimately show ?thesis by (simp only: drop_Suc_Cons take_Suc_Cons list.set ball_simps) blast
  qed
  show ?case unfolding split step
    by (simp add: Cons.IH) blast
qed

lemma re_literal_rests:
  "ys \<in> set (re_rests (re_literal s) xs) \<longleftrightarrow> xs = bytes_of s @ ys"
proof (induction s arbitrary: xs rule: re_literal.induct)
  case 1
  show ?case by (auto simp: rep_rests_iff bytes_of_def)
next
  case (2 c)
  show ?case by (cases xs) (auto simp: in_class_def bytes_of_def)
next
  case (3 c d cs)
  have "ys \<in> set (re_rests (re_literal (c # d # cs)) xs) \<longleftrightarrow>
      (\<exists>zs. xs = of_char c # zs \<and> ys \<in> set (re_rests (re_literal (d # cs)) zs))"
    by (cases xs) (auto simp: in_class_def)
  also have "\<dots> \<longleftrightarrow> xs = bytes_of (c # d # cs) @ ys"
    by (simp only: 3) (simp add: bytes_of_def)
  finally show ?case .
qed

text \<open>A string whose runes are all ASCII is ASCII: the decoder has no overlong forms.\<close>

lemma DecodeRune_non_ascii: "p \<noteq> [] \<Longrightarrow> 128 \<le> hd p \<Longrightarrow> 128 \<le> fst (DecodeRune p)"
proof -
  assume p: "p \<noteq> []" "128 \<le> hd p"
  have two: "194 \<le> b \<Longrightarrow> 128 \<le> (b - 192) * 64 + x" for b x :: nat by arith
  have lo: "128 \<le> accept_lo b" for b
    by (simp add: accept_lo_def)
  have lo2: "accept_lo 224 = 160" "accept_lo 240 = 144"
    by (simp_all add: accept_lo_def)
  have three: "224 \<le> b \<Longrightarrow> accept_lo b \<le> c \<Longrightarrow> b \<le> 239 \<Longrightarrow> 128 \<le> (b - 224) * 4096 + (c - 128) * 64 + x"
    for b c x :: nat using lo [of b] lo2 by (cases "b = 224") (simp, arith)
  have four: "240 \<le> b \<Longrightarrow> accept_lo b \<le> c \<Longrightarrow> 128 \<le> (b - 240) * 262144 + (c - 128) * 4096 + x + y"
    for b c x y :: nat using lo [of b] lo2 by (cases "b = 240") (simp, arith)
  show ?thesis
    using p two three four by (auto simp: DecodeRune_def RuneError_def split: list.splits)
qed

lemma DecodeRune_ascii_only:
  assumes "p \<noteq> []" and "fst (DecodeRune p) < 128"
  shows "hd p < 128 \<and> DecodeRune p = (hd p, 1)"
proof -
  have "hd p < 128" using DecodeRune_non_ascii [OF assms(1)] assms(2) by linarith
  with assms(1) show ?thesis by (cases p) (simp_all add: DecodeRune_def)
qed

lemma runes_ascii_only: "\<forall>r \<in> set (runes s). r < 128 \<Longrightarrow> runes s = bytes_of s"
proof (induction s rule: runes.induct)
  case (1 s)
  show ?case
  proof (cases s)
    case Nil
    then show ?thesis by (simp add: bytes_of_def)
  next
    case (Cons c t)
    have "fst (DecodeRuneInString s) < 128"
      using "1.prems" Cons by (subst (asm) runes.simps) simp
    then have d: "DecodeRuneInString s = (of_char c, 1)"
      using DecodeRune_ascii_only [of "bytes_of s"] Cons
      by (simp add: DecodeRuneInString_eq bytes_of_def)
    with "1.prems" Cons have "\<forall>r \<in> set (runes t). r < 128"
      by (subst (asm) runes.simps) simp
    with "1.IH" Cons d have "runes t = bytes_of t" by simp
    with d Cons show ?thesis by (subst runes.simps) (simp add: bytes_of_def)
  qed
qed

definition is_alnum :: "char \<Rightarrow> bool" where
  "is_alnum c \<longleftrightarrow> in_class cls_alnum (of_char c)"

definition is_alnum_hyphen :: "char \<Rightarrow> bool" where
  "is_alnum_hyphen c \<longleftrightarrow> in_class cls_alnum_hyphen (of_char c)"

definition is_hex :: "char \<Rightarrow> bool" where
  "is_hex c \<longleftrightarrow> in_class cls_hex (of_char c)"

definition is_digit :: "char \<Rightarrow> bool" where
  "is_digit c \<longleftrightarrow> in_class cls_digit (of_char c)"

text \<open>The shape of a label: 1 to 63 letters, digits and hyphens, no hyphen at either end.\<close>

definition label_shape :: "string \<Rightarrow> bool" where
  "label_shape s \<longleftrightarrow> s \<noteq> [] \<and> length s \<le> 63 \<and> list_all is_alnum_hyphen s
     \<and> is_alnum (hd s) \<and> is_alnum (List.last s)"

definition reserved_label :: "string \<Rightarrow> bool" where
  "reserved_label s \<longleftrightarrow>
     length s = 16 \<and> list_all is_hex s
     \<or> 4 \<le> length s \<and> s ! 2 = CHR ''-'' \<and> s ! 3 = CHR ''-''
     \<or> s \<in> set [''www'', ''api'', ''admin'', ''auth'']
     \<or> 2 \<le> length s \<and> hd s = CHR ''s'' \<and> list_all is_digit (tl s)"

lemma in_class_simps:
  "in_class cls_alnum c \<longleftrightarrow> 97 \<le> c \<and> c \<le> 122 \<or> 48 \<le> c \<and> c \<le> 57"
  "in_class cls_alnum_hyphen c \<longleftrightarrow> 97 \<le> c \<and> c \<le> 122 \<or> 48 \<le> c \<and> c \<le> 57 \<or> c = 45"
  "in_class cls_hex c \<longleftrightarrow> 48 \<le> c \<and> c \<le> 57 \<or> 97 \<le> c \<and> c \<le> 102"
  "in_class cls_digit c \<longleftrightarrow> 48 \<le> c \<and> c \<le> 57"
  by (auto simp: in_class_def cls_alnum_def cls_alnum_hyphen_def cls_hex_def cls_digit_def)

definition re_label :: re where
  "re_label = Seq (Chr cls_alnum) (Opt (Seq (Rep cls_alnum_hyphen 0 (Some 61)) (Chr cls_alnum)))"

lemma rep_then_class_end:
  "(\<exists>ys \<in> set (rep_rests cls_alnum_hyphen 0 (Some 61) cs). \<exists>d. ys = [d] \<and> in_class cls_alnum d) \<longleftrightarrow>
     cs \<noteq> [] \<and> length cs \<le> 62 \<and> (\<forall>c \<in> set cs. in_class cls_alnum_hyphen c)
     \<and> in_class cls_alnum (List.last cs)" (is "?L \<longleftrightarrow> ?R")
proof
  assume ?L
  then obtain k d where k: "k \<le> length cs" "[d] = drop k cs" "k \<le> 61" "in_class cls_alnum d"
    "\<forall>c \<in> set (take k cs). in_class cls_alnum_hyphen c"
    by (auto simp: rep_rests_iff)
  then have "cs = take k cs @ [d]" by (metis append_take_drop_id)
  with k obtain us where "cs = us @ [d]" "length us \<le> 61" "\<forall>c \<in> set us. in_class cls_alnum_hyphen c"
    by (metis length_take min.absorb2)
  with k(4) show ?R by (auto simp: in_class_simps)
next
  assume R: ?R
  then obtain us d where cs: "cs = us @ [d]" by (metis append_butlast_last_id)
  with R have "[d] \<in> set (rep_rests cls_alnum_hyphen 0 (Some 61) cs)"
    by (auto simp: rep_rests_iff intro!: exI [of _ "length us"])
  with R cs show ?L by auto
qed

lemma Chr_rests_end: "[] \<in> set (re_rests (Chr rs) ys) \<longleftrightarrow> (\<exists>d. ys = [d] \<and> in_class rs d)"
  by (cases ys) auto

lemma re_label_whole:
  "[] \<in> set (re_rests re_label xs) \<longleftrightarrow> xs \<noteq> [] \<and> length xs \<le> 63
     \<and> (\<forall>c \<in> set xs. in_class cls_alnum_hyphen c)
     \<and> in_class cls_alnum (hd xs) \<and> in_class cls_alnum (List.last xs)"
proof (cases xs)
  case Nil
  then show ?thesis by (simp add: re_label_def)
next
  case (Cons c cs)
  have "[] \<in> set (re_rests (Opt (Seq (Rep cls_alnum_hyphen 0 (Some 61)) (Chr cls_alnum))) cs) \<longleftrightarrow>
      cs = [] \<or> (\<exists>ys \<in> set (rep_rests cls_alnum_hyphen 0 (Some 61) cs). \<exists>d. ys = [d] \<and> in_class cls_alnum d)"
    by (simp add: Chr_rests_end del: re_rests.simps(1)) blast
  then have "[] \<in> set (re_rests re_label xs) \<longleftrightarrow> in_class cls_alnum c \<and>
      (cs = [] \<or> cs \<noteq> [] \<and> length cs \<le> 62 \<and> (\<forall>c \<in> set cs. in_class cls_alnum_hyphen c)
        \<and> in_class cls_alnum (List.last cs))"
    unfolding rep_then_class_end by (simp add: re_label_def Cons)
  moreover have "in_class cls_alnum c \<Longrightarrow> in_class cls_alnum_hyphen c" for c
    by (auto simp: in_class_simps)
  ultimately show ?thesis using Cons by auto
qed

lemma bytes_of_simps [simp]:
  "bytes_of [] = []" "bytes_of (c # s) = of_char c # bytes_of s" "length (bytes_of s) = length s"
  "bytes_of s = [] \<longleftrightarrow> s = []"
  by (simp_all add: bytes_of_def)

lemma bytes_of_inject: "bytes_of s = bytes_of t \<longleftrightarrow> s = t"
  by (metis bytes_of_def inj_map_eq_map inj_def of_char_eq_iff)

lemma subdomainPattern_iff: "MatchString subdomainPattern s \<longleftrightarrow> label_shape s"
proof -
  have m: "MatchString subdomainPattern s \<longleftrightarrow> [] \<in> set (re_rests re_label (runes s))"
    by (simp add: subdomainPattern_def re_label_def)
  have ascii: "runes s = bytes_of s"
    if "MatchString subdomainPattern s \<or> label_shape s"
    using that
  proof
    assume "MatchString subdomainPattern s"
    then have "\<forall>c \<in> set (runes s). in_class cls_alnum_hyphen c" by (simp add: m re_label_whole)
    then have "\<forall>r \<in> set (runes s). r < 128" by (auto simp: in_class_simps)
    then show ?thesis by (rule runes_ascii_only)
  next
    assume "label_shape s"
    then have "\<forall>c \<in> set s. of_char c < (128::nat)"
      by (auto simp: label_shape_def list_all_iff is_alnum_hyphen_def in_class_simps)
    then show ?thesis by (rule runes_ascii)
  qed
  have "[] \<in> set (re_rests re_label (bytes_of s)) \<longleftrightarrow> label_shape s"
    by (cases "s = []")
      (auto simp: re_label_whole label_shape_def list_all_iff is_alnum_def is_alnum_hyphen_def
        bytes_of_def hd_map last_map)
  with m ascii show ?thesis by metis
qed

lemma rejected_iff:
  assumes "label_shape s"
  shows "list_ex (\<lambda>p. MatchString p s) rejectedSubdomainPatterns \<longleftrightarrow> reserved_label s"
proof -
  have "\<forall>c \<in> set s. of_char c < (128::nat)"
    using assms by (auto simp: label_shape_def list_all_iff is_alnum_hyphen_def in_class_simps)
  then have r: "runes s = bytes_of s" by (rule runes_ascii)
  have nl: "\<forall>c \<in> set (bytes_of s). c \<noteq> 10"
    using assms by (auto simp: label_shape_def list_all_iff is_alnum_hyphen_def in_class_simps bytes_of_def)
  have hex: "MatchString (Whole (Rep cls_hex 16 (Some 16))) s \<longleftrightarrow> length s = 16 \<and> list_all is_hex s"
    by (auto simp: r rep_rests_iff list_all_iff is_hex_def bytes_of_def intro!: exI [of _ 16])
  have any: "ys \<in> set (re_rests AnyRune xs) \<longleftrightarrow> (\<exists>c. xs = c # ys \<and> c \<noteq> 10)" for ys xs
    by (cases xs) auto
  have idna: "MatchString (Prefix (Seq AnyRune (Seq AnyRune (re_literal ''--'')))) s
      \<longleftrightarrow> 4 \<le> length s \<and> s ! 2 = CHR ''-'' \<and> s ! 3 = CHR ''-''"
  proof -
    have ne: "xs \<noteq> [] \<longleftrightarrow> (\<exists>x. x \<in> set xs)" for xs :: "nat list list" by (cases xs) auto
    have "re_rests (Seq AnyRune (Seq AnyRune (re_literal ''--''))) (bytes_of s) \<noteq> []
        \<longleftrightarrow> (\<exists>a b ys. bytes_of s = a # b # 45 # 45 # ys)"
      using nl unfolding ne
      by (simp add: any re_literal_rests Bex_def del: re_literal.simps re_rests.simps(2)) auto
    also have "\<dots> \<longleftrightarrow> (\<exists>a b t. s = a # b # ''--'' @ t)"
    proof
      assume "\<exists>a b ys. bytes_of s = a # b # 45 # 45 # ys"
      then obtain a b c d t where "s = a # b # c # d # t" "of_char c = (45::nat)" "of_char d = (45::nat)"
        by (auto simp: bytes_of_def map_eq_Cons_conv)
      moreover have "of_char c = (of_char CHR ''-'' :: nat) \<longleftrightarrow> c = CHR ''-''" for c :: char
        by (rule of_char_eq_iff)
      ultimately show "\<exists>a b t. s = a # b # ''--'' @ t" by simp
    qed auto
    also have "\<dots> \<longleftrightarrow> 4 \<le> length s \<and> s ! 2 = CHR ''-'' \<and> s ! 3 = CHR ''-''"
      by (auto simp: numeral_eq_Suc Suc_le_length_iff)
    finally show ?thesis by (simp add: r)
  qed
  have words: "MatchString (Whole (Alt (re_literal ''www'') (Alt (re_literal ''api'')
        (Alt (re_literal ''admin'') (re_literal ''auth''))))) s
      \<longleftrightarrow> s \<in> set [''www'', ''api'', ''admin'', ''auth'']"
    by (auto simp: r re_literal_rests bytes_of_inject simp del: re_literal.simps bytes_of_simps)
  have slot: "MatchString (Whole (Seq (re_literal ''s'') (Rep cls_digit 1 None))) s
      \<longleftrightarrow> 2 \<le> length s \<and> hd s = CHR ''s'' \<and> list_all is_digit (tl s)"
  proof (cases s)
    case Nil
    then show ?thesis by (simp add: r)
  next
    case (Cons c t)
    have "of_char c = (of_char CHR ''s'' :: nat) \<longleftrightarrow> c = CHR ''s''" by (rule of_char_eq_iff)
    then have "of_char c = (115::nat) \<longleftrightarrow> c = CHR ''s''" by simp
    moreover have "[] \<in> set (rep_rests cls_digit 1 None (bytes_of t)) \<longleftrightarrow> t \<noteq> [] \<and> list_all is_digit t"
      by (auto simp: rep_rests_iff list_all_iff is_digit_def bytes_of_def Suc_le_eq
          intro!: exI [of _ "length t"])
    moreover have "MatchString (Whole (Seq (re_literal ''s'') (Rep cls_digit 1 None))) s
        \<longleftrightarrow> of_char c = (115::nat) \<and> [] \<in> set (rep_rests cls_digit 1 None (bytes_of t))"
      using r [unfolded Cons] by (auto simp: Cons in_class_def)
    ultimately show ?thesis using Cons by (cases t) auto
  qed
  show ?thesis
    unfolding rejectedSubdomainPatterns_def reserved_label_def list_ex_Nil_iff list_ex_Cons_iff hex idna words slot
    by (simp only: simp_thms disj_assoc)
qed

lemma ParseSubdomain_iff:
  "ParseSubdomain s =
     (if label_shape s \<and> \<not> reserved_label s then Inr (Subdomain s)
      else Inl (Sentinel (TenantDomain ErrInvalidSubdomain)))"
  by (simp add: ParseSubdomain_def subdomainPattern_iff rejected_iff)

section \<open>Tenants (tenant.go)\<close>

record tenant =
  t_id :: string
  t_publicID :: string
  t_name :: string
  t_contractPlan :: string
  t_ownershipState :: ownership_state
  t_subdomain :: subdomain
  t_archived :: bool

definition NewTenant ::
    "string \<Rightarrow> string \<Rightarrow> string \<Rightarrow> string \<Rightarrow> ownership_state \<Rightarrow> subdomain \<Rightarrow> bool \<Rightarrow> tenant" where
  "NewTenant tenantID publicID name contractPlan ownershipState sub archived =
     \<lparr>t_id = tenantID, t_publicID = publicID, t_name = name, t_contractPlan = contractPlan,
      t_ownershipState = ownershipState, t_subdomain = sub, t_archived = archived\<rparr>"

definition Owned :: "tenant \<Rightarrow> bool" where
  "Owned t \<longleftrightarrow> t_ownershipState t = TenantOwnershipStateOwned"

definition ClaimOwnership :: "tenant \<Rightarrow> subdomain \<Rightarrow> gerr + tenant" where
  "ClaimOwnership t sub =
     (if t_ownershipState t \<noteq> TenantOwnershipStatePendingOwner
      then Inl (Sentinel (TenantDomain ErrTenantNotPendingOwner))
      else Inr (t\<lparr>t_ownershipState := TenantOwnershipStateOwned, t_subdomain := sub\<rparr>))"

definition ChangeContractPlan :: "tenant \<Rightarrow> string \<Rightarrow> tenant" where
  "ChangeContractPlan t plan = t\<lparr>t_contractPlan := plan\<rparr>"

definition tenant_Archive :: "tenant \<Rightarrow> gerr + tenant" where
  "tenant_Archive t =
     (if t_archived t then Inl (Sentinel (TenantDomain ErrTenantAlreadyArchived))
      else Inr (t\<lparr>t_archived := True\<rparr>))"

lemma ClaimOwnership_Inr_iff:
  "ClaimOwnership t sub = Inr t' \<longleftrightarrow> t_ownershipState t = TenantOwnershipStatePendingOwner
     \<and> t' = t\<lparr>t_ownershipState := TenantOwnershipStateOwned, t_subdomain := sub\<rparr>"
  by (auto simp: ClaimOwnership_def)

lemma tenant_Archive_Inr_iff:
  "tenant_Archive t = Inr t' \<longleftrightarrow> \<not> t_archived t \<and> t' = t\<lparr>t_archived := True\<rparr>"
  by (auto simp: tenant_Archive_def)

text \<open>Ownership is gained once: a claimed tenant cannot be claimed again, whatever else happens to it.\<close>

lemma ClaimOwnership_once:
  "ClaimOwnership t sub = Inr t' \<Longrightarrow> Owned t' \<and> (\<forall>sub'. \<not> is_Inr (ClaimOwnership t' sub'))"
  by (auto simp: ClaimOwnership_def Owned_def ownership_state_defs split: if_splits)

end
