(* ===== verification/TenantDb.thy ===== *)
theory TenantDb
  imports Schema Hoare TenantDomain
begin

text \<open>
  internal/tenant/infra/db: the PostgreSQL repository of tenants and their events.  Each SQL
  statement is a definition on the database (\<open>sql_...\<close>), each method of the repository a call that
  makes the statements of the source and maps their errors.  The rules of the methods, in the
  collection \<open>tri\<close>, say what a method does to the database and when it fails.
\<close>

section \<open>Rows\<close>

definition nullableSubdomain :: "subdomain \<Rightarrow> string option" where
  "nullableSubdomain sub = (if sd_value sub \<noteq> [] then Some (sd_value sub) else None)"

definition tenantRow_domain :: "ctx \<Rightarrow> tenant_row \<Rightarrow> gerr + tenant" where
  "tenantRow_domain c r =
     bind_result (wrap_result ''parse tenant ownership state'' (ParseTenantOwnershipState (tr_ownership_state r)))
     (\<lambda>ownershipState. bind_result
        (case tr_subdomain r of
          None \<Rightarrow> Inr (Subdomain [])
        | Some s \<Rightarrow> wrap_result ''parse tenant subdomain'' (ParseSubdomain s))
     (\<lambda>sub. case VerifyOwnership c (tr_public_id r) of
          Some e \<Rightarrow> Inl e
        | None \<Rightarrow> Inr (NewTenant (tr_id r) (tr_public_id r) (tr_name r) (tr_contract_plan r)
            ownershipState sub (tr_archived r))))"

text \<open>\<open>copy\<close> into the 32 bytes of a hash, and Go's zero time (January 1, year 1).\<close>

definition copy_hash :: "byte list \<Rightarrow> token_hash" where
  "copy_hash bs = take 32 bs @ replicate (32 - List.length bs) 0"

definition zero_time :: time where
  "zero_time = -62135596800000000000"

definition tenantClaimRow_claim :: "tenant_row \<Rightarrow> ownership_claim" where
  "tenantClaimRow_claim r =
     \<lparr>oc_TokenHash = copy_hash (case tr_claim_hash r of None \<Rightarrow> [] | Some h \<Rightarrow> h),
      oc_ExpiresAt = (case tr_claim_expires r of None \<Rightarrow> zero_time | Some t \<Rightarrow> t)\<rparr>"

definition eventRow_domain :: "ctx \<Rightarrow> event_row \<Rightarrow> gerr + event" where
  "eventRow_domain c r =
     bind_result (wrap_result ''parse event status'' (ParseEventStatus (evr_status r)))
     (\<lambda>status. case VerifyOwnership c (evr_tenant_public_id r) of
        Some e \<Rightarrow> Inl e
      | None \<Rightarrow> Inr (NewEvent (evr_id r) (evr_public_id r) (evr_tenant_id r) (evr_tenant_public_id r)
          (evr_name r) status))"

section \<open>Statements\<close>

definition sql_insert_tenant :: "tenant_row \<Rightarrow> db \<Rightarrow> gerr + db" where
  "sql_insert_tenant r d =
     bind_result (varchar 16 (tr_public_id r)) (\<lambda>public_id.
     bind_result (varchar 255 (tr_name r)) (\<lambda>name.
     bind_result (varchar 255 (tr_contract_plan r)) (\<lambda>contract_plan.
       put_tenants (tenants d @ [r\<lparr>tr_public_id := public_id, tr_name := name,
         tr_contract_plan := contract_plan\<rparr>]) d)))"

definition sql_delete_expired_pending :: "time \<Rightarrow> db \<Rightarrow> gerr + nat \<times> db" where
  "sql_delete_expired_pending now d =
     (let expired = (\<lambda>r. tr_ownership_state r = TenantOwnershipState_String TenantOwnershipStatePendingOwner
          \<and> (case tr_claim_expires r of None \<Rightarrow> False | Some x \<Rightarrow> x \<le> pg_time now))
      in Inr (count_where expired (tenants d), delete_tenants expired d))"

definition sql_mark_tenant_owned :: "string \<Rightarrow> string option \<Rightarrow> db \<Rightarrow> gerr + nat \<times> db" where
  "sql_mark_tenant_owned tenantID sub d =
     (let pending = (\<lambda>r. tr_id r = tenantID
          \<and> tr_ownership_state r = TenantOwnershipState_String TenantOwnershipStatePendingOwner)
      in bind_result (put_tenants (update_where pending
           (\<lambda>r. r\<lparr>tr_ownership_state := TenantOwnershipState_String TenantOwnershipStateOwned,
                tr_subdomain := sub, tr_claim_hash := None, tr_claim_expires := None\<rparr>) (tenants d)) d)
         (\<lambda>d'. Inr (count_where pending (tenants d), d')))"

definition sql_update_tenant :: "string \<Rightarrow> string \<Rightarrow> bool \<Rightarrow> db \<Rightarrow> gerr + nat \<times> db" where
  "sql_update_tenant tenantID contractPlan archived d =
     bind_result (varchar 255 contractPlan) (\<lambda>plan.
     bind_result (put_tenants (update_where (\<lambda>r. tr_id r = tenantID)
         (\<lambda>r. r\<lparr>tr_contract_plan := plan, tr_archived := archived\<rparr>) (tenants d)) d)
       (\<lambda>d'. Inr (count_where (\<lambda>r. tr_id r = tenantID) (tenants d), d')))"

text \<open>
  PostgreSQL converts the constant values of a write to the type of their column while it plans the
  statement, so a text that is too long is an error whether or not the condition finds a row.
\<close>

definition sql_insert_event :: "event_row \<Rightarrow> db \<Rightarrow> gerr + nat \<times> db" where
  "sql_insert_event r d =
     bind_result (varchar 16 (evr_public_id r)) (\<lambda>public_id.
     bind_result (varchar 255 (evr_name r)) (\<lambda>name.
       let hosts = filter (\<lambda>t. tr_id t = evr_tenant_id r \<and> \<not> tr_archived t) (tenants d)
       in bind_result (put_events (events d
              @ map (\<lambda>_. r\<lparr>evr_public_id := public_id, evr_name := name\<rparr>) hosts) d)
            (\<lambda>d'. Inr (List.length hosts, d'))))"

definition sql_update_event :: "string \<Rightarrow> string \<Rightarrow> string \<Rightarrow> db \<Rightarrow> gerr + nat \<times> db" where
  "sql_update_event eventID name status d =
     bind_result (varchar 255 name) (\<lambda>name.
       let writable = (\<lambda>e. evr_id e = eventID
            \<and> list_ex (\<lambda>t. tr_id t = evr_tenant_id e \<and> \<not> tr_archived t) (tenants d))
       in bind_result (put_events (update_where writable (\<lambda>e. e\<lparr>evr_name := name, evr_status := status\<rparr>)
              (events d)) d)
            (\<lambda>d'. Inr (count_where writable (events d), d')))"

definition sql_select_events :: "string \<Rightarrow> bool \<Rightarrow> string \<Rightarrow> nat \<Rightarrow> db \<Rightarrow> event_row list" where
  "sql_select_events tenantID includeArchived archived limit d =
     take limit (sort_key evr_id
       (filter (\<lambda>e. evr_tenant_id e = tenantID \<and> (includeArchived \<or> evr_status e \<noteq> archived)) (events d)))"

section \<open>Errors\<close>

definition mapTenantConstraintError :: "gerr \<Rightarrow> gerr" where
  "mapTenantConstraintError err = (case errors_As_Pg err of
      None \<Rightarrow> err
    | Some (code, constraint) \<Rightarrow>
        if code \<noteq> ''23505'' then err
        else if constraint = ''tenants_public_id_key'' then Sentinel (TenantRepo ErrTenantPublicIDExists)
        else if constraint = ''tenants_subdomain_key'' then Sentinel (TenantRepo ErrTenantSubdomainExists)
        else err)"

definition mapEventConstraintError :: "gerr \<Rightarrow> gerr" where
  "mapEventConstraintError err = (case errors_As_Pg err of
      None \<Rightarrow> err
    | Some (code, constraint) \<Rightarrow>
        if code = ''23505'' \<and> constraint = ''events_public_id_key''
        then Sentinel (TenantRepo ErrEventPublicIDExists) else err)"

text \<open>\<open>if errors.Is(err, sql.ErrNoRows) { return notFound }\<close>\<close>

definition no_rows :: "gerr \<Rightarrow> (gerr \<Rightarrow> gerr) \<Rightarrow> gerr \<Rightarrow> gerr" where
  "no_rows notFound other err = (if errors_Is err ErrNoRows then notFound else other err)"

lemma no_rows_ErrNoRows [simp]: "no_rows notFound other (Sentinel ErrNoRows) = notFound"
  by (simp add: no_rows_def)

lemma no_rows_fault_err [simp]: "no_rows notFound other (fault_err f) = other (fault_err f)"
  by (simp add: no_rows_def)

section \<open>Tenants (tenant.go)\<close>

definition tenant_values :: "tenant \<Rightarrow> tenant_row" where
  "tenant_values t =
     \<lparr>tr_id = t_id t, tr_public_id = t_publicID t, tr_name = t_name t, tr_contract_plan = t_contractPlan t,
      tr_ownership_state = TenantOwnershipState_String (t_ownershipState t), tr_subdomain = None,
      tr_archived = t_archived t, tr_claim_hash = None, tr_claim_expires = None\<rparr>"

definition TenantRepo_CreateTenant :: "ctx \<Rightarrow> tenant \<Rightarrow> unit go" where
  "TenantRepo_CreateTenant c t = map_err mapTenantConstraintError (exec_sql c
     (\<lambda>_. sql_insert_tenant ((tenant_values t)\<lparr>tr_subdomain := nullableSubdomain (t_subdomain t)\<rparr>)))"

definition TenantRepo_CreatePendingTenant :: "ctx \<Rightarrow> tenant \<Rightarrow> ownership_claim \<Rightarrow> unit go" where
  "TenantRepo_CreatePendingTenant c t claim =
     (if t_ownershipState t \<noteq> TenantOwnershipStatePendingOwner
      then fail (Wrap ''create pending tenant'' (Sentinel (TenantDomain ErrTenantNotPendingOwner)))
      else map_err mapTenantConstraintError (exec_sql c
        (\<lambda>_. sql_insert_tenant ((tenant_values t)\<lparr>tr_claim_hash := Some (oc_TokenHash claim),
           tr_claim_expires := Some (pg_time (oc_ExpiresAt claim))\<rparr>))))"

definition TenantRepo_DeleteExpiredPendingTenants :: "ctx \<Rightarrow> time \<Rightarrow> nat go" where
  "TenantRepo_DeleteExpiredPendingTenants c now =
     and_then (wrap_err ''delete expired pending tenants'' (exec_count c (\<lambda>_. sql_delete_expired_pending now)))
       (\<lambda>n. wrap_err ''get deleted pending tenant row count'' (RowsAffected c n))"

definition TenantRepo_FindTenantByPublicIDForUpdate :: "ctx \<Rightarrow> string \<Rightarrow> (tenant \<times> ownership_claim) go" where
  "TenantRepo_FindTenantByPublicIDForUpdate c publicID =
     and_then (map_err (no_rows (Sentinel (TenantRepo TR_ErrTenantNotFound)) (\<lambda>e. e))
         (GetContext c (\<lambda>d. filter (\<lambda>r. tr_public_id r = publicID) (tenants d))))
       (\<lambda>row. and_then (of_result (tenantRow_domain c row)) (\<lambda>t. ret (t, tenantClaimRow_claim row)))"

definition TenantRepo_MarkTenantOwned :: "ctx \<Rightarrow> tenant \<Rightarrow> unit go" where
  "TenantRepo_MarkTenantOwned c t =
     (if t_ownershipState t \<noteq> TenantOwnershipStateOwned
      then fail (Wrap ''mark tenant owned'' (Sentinel (TenantDomain ErrTenantNotPendingOwner)))
      else and_then (map_err (\<lambda>e. Wrap ''mark tenant owned'' (mapTenantConstraintError e))
          (exec_count c (\<lambda>_. sql_mark_tenant_owned (t_id t) (nullableSubdomain (t_subdomain t)))))
        (\<lambda>n. and_then (wrap_err ''get marked tenant row count'' (RowsAffected c n))
        (\<lambda>rows. guard (rows \<noteq> 0) (Sentinel (TenantDomain ErrTenantNotPendingOwner)))))"

definition TenantRepo_UpdateTenant :: "ctx \<Rightarrow> tenant \<Rightarrow> unit go" where
  "TenantRepo_UpdateTenant c t =
     and_then (wrap_err ''update tenant'' (exec_count c
         (\<lambda>_. sql_update_tenant (t_id t) (t_contractPlan t) (t_archived t))))
       (\<lambda>n. and_then (wrap_err ''get updated tenant row count'' (RowsAffected c n))
       (\<lambda>rows. guard (rows \<noteq> 0) (Sentinel (TenantRepo TR_ErrTenantNotFound))))"

definition TenantRepo_findTenant :: "ctx \<Rightarrow> (tenant_row \<Rightarrow> bool) \<Rightarrow> tenant go" where
  "TenantRepo_findTenant c p =
     and_then (map_err (no_rows (Sentinel (TenantRepo TR_ErrTenantNotFound)) (\<lambda>e. e))
         (GetContext c (\<lambda>d. filter p (tenants d))))
       (\<lambda>row. of_result (tenantRow_domain c row))"

definition TenantRepo_FindTenantByID :: "ctx \<Rightarrow> string \<Rightarrow> tenant go" where
  "TenantRepo_FindTenantByID c tenantID = TenantRepo_findTenant c (\<lambda>r. tr_id r = tenantID)"

definition TenantRepo_FindTenantByPublicID :: "ctx \<Rightarrow> string \<Rightarrow> tenant go" where
  "TenantRepo_FindTenantByPublicID c publicID = TenantRepo_findTenant c (\<lambda>r. tr_public_id r = publicID)"

definition TenantRepo_FindTenantPublicIDBySubdomain :: "ctx \<Rightarrow> string \<Rightarrow> string go" where
  "TenantRepo_FindTenantPublicIDBySubdomain c sub =
     map_err (no_rows (Sentinel (TenantRepo TR_ErrTenantNotFound)) (\<lambda>e. e))
       (GetContext c (\<lambda>d. map tr_public_id (filter (\<lambda>r. tr_subdomain r = Some sub) (tenants d))))"

section \<open>Events (event.go)\<close>

definition MaxListEvents :: nat where
  "MaxListEvents = 1000"

record list_events_filter =
  lf_IncludeArchived :: bool
  lf_Limit :: int

definition TenantRepo_findEvent :: "ctx \<Rightarrow> (event_row \<Rightarrow> bool) \<Rightarrow> event go" where
  "TenantRepo_findEvent c p =
     and_then (map_err (no_rows (Sentinel (TenantRepo TR_ErrEventNotFound)) (\<lambda>e. e))
         (GetContext c (\<lambda>d. filter p (events d))))
       (\<lambda>row. of_result (eventRow_domain c row))"

definition TenantRepo_FindEventByPublicID :: "ctx \<Rightarrow> string \<Rightarrow> event go" where
  "TenantRepo_FindEventByPublicID c publicID = TenantRepo_findEvent c (\<lambda>e. evr_public_id e = publicID)"

definition TenantRepo_findEventByID :: "ctx \<Rightarrow> string \<Rightarrow> event go" where
  "TenantRepo_findEventByID c eventID = TenantRepo_findEvent c (\<lambda>e. evr_id e = eventID)"

definition TenantRepo_CreateEvent :: "ctx \<Rightarrow> event \<Rightarrow> unit go" where
  "TenantRepo_CreateEvent c e =
     and_then (map_err mapEventConstraintError (exec_count c
         (\<lambda>_. sql_insert_event \<lparr>evr_id = ev_id e, evr_public_id = ev_publicID e, evr_tenant_id = ev_tenantID e,
            evr_tenant_public_id = ev_tenantPublicID e, evr_name = ev_name e,
            evr_status = EventStatus_String (ev_status e)\<rparr>)))
     (\<lambda>n. and_then (wrap_err ''get created event row count'' (RowsAffected c n))
     (\<lambda>rows. if rows \<noteq> 0 then ret ()
        else and_then (TenantRepo_FindTenantByID c (ev_tenantID e))
        (\<lambda>t. if t_archived t then fail (Sentinel (TenantRepo ErrTenantArchived))
             else fail (Sentinel (TenantDb ErrCreateEventNoRow)))))"

definition TenantRepo_ListEventsByTenantID :: "ctx \<Rightarrow> string \<Rightarrow> list_events_filter \<Rightarrow> event list go" where
  "TenantRepo_ListEventsByTenantID c tenantID flt =
     (let limit = (if lf_Limit flt \<le> 0 then MaxListEvents else nat (lf_Limit flt))
      in and_then (SelectContext c (sql_select_events tenantID (lf_IncludeArchived flt)
             (EventStatus_String EventStatusArchived) limit))
           (\<lambda>rows. of_result (traverse (eventRow_domain c) rows)))"

definition TenantRepo_UpdateEvent :: "ctx \<Rightarrow> event \<Rightarrow> unit go" where
  "TenantRepo_UpdateEvent c e =
     and_then (exec_count c (\<lambda>_. sql_update_event (ev_id e) (ev_name e) (EventStatus_String (ev_status e))))
     (\<lambda>n. and_then (wrap_err ''get updated event row count'' (RowsAffected c n))
     (\<lambda>rows. if rows \<noteq> 0 then ret ()
        else and_then (TenantRepo_findEventByID c (ev_id e))
        (\<lambda>stored. and_then (TenantRepo_FindTenantByID c (ev_tenantID stored))
        (\<lambda>t. if t_archived t then fail (Sentinel (TenantRepo ErrTenantArchived))
             else fail (Sentinel (TenantDb ErrUpdateEventNoRow))))))"

definition TenantRepo_WithinTransaction :: "ctx \<Rightarrow> (ctx \<Rightarrow> 'a go) \<Rightarrow> 'a go" where
  "TenantRepo_WithinTransaction c fn = RunInTransaction c fn"

section \<open>Rules of the lookups\<close>

lemma first_row_filterE:
  assumes "first_row (filter p rs) = Some r" obtains "r \<in> set rs" and "p r"
  using first_row_filter_SomeD [OF assms] by blast

lemma runs_lookup:
  assumes found: "\<And>r x. r \<in> set (table d) \<Longrightarrow> p r \<Longrightarrow> conv r = Inr x \<Longrightarrow> Q x d"
    and bad: "\<And>r e. r \<in> set (table d) \<Longrightarrow> p r \<Longrightarrow> conv r = Inl e \<Longrightarrow> R e d"
    and missing: "(\<And>r. r \<in> set (table d) \<Longrightarrow> \<not> p r) \<Longrightarrow> R notFound d"
    and broken: "\<And>f. \<not> healthy E \<Longrightarrow> R (fault_err f) d"
  shows "runs E c d (and_then (map_err (no_rows notFound (\<lambda>e. e)) (GetContext c (\<lambda>d. filter p (table d))))
    (\<lambda>row. of_result (conv row))) Q R"
  by (intro tri)
    (auto elim!: first_row_filterE intro: assms simp: filter_empty_conv)

lemma runs_findTenant [tri]:
  assumes "\<And>r t. r \<in> set (tenants d) \<Longrightarrow> p r \<Longrightarrow> tenantRow_domain c r = Inr t \<Longrightarrow> Q t d"
    and "\<And>r e. r \<in> set (tenants d) \<Longrightarrow> p r \<Longrightarrow> tenantRow_domain c r = Inl e \<Longrightarrow> R e d"
    and "(\<And>r. r \<in> set (tenants d) \<Longrightarrow> \<not> p r) \<Longrightarrow> R (Sentinel (TenantRepo TR_ErrTenantNotFound)) d"
    and "\<And>f. \<not> healthy E \<Longrightarrow> R (fault_err f) d"
  shows "runs E c d (TenantRepo_findTenant c p) Q R"
  unfolding TenantRepo_findTenant_def by (rule runs_lookup) (use assms in auto)

lemma runs_FindTenantByID [tri]:
  assumes "\<And>r t. r \<in> set (tenants d) \<Longrightarrow> tr_id r = i \<Longrightarrow> tenantRow_domain c r = Inr t \<Longrightarrow> Q t d"
    and "\<And>r e. r \<in> set (tenants d) \<Longrightarrow> tr_id r = i \<Longrightarrow> tenantRow_domain c r = Inl e \<Longrightarrow> R e d"
    and "(\<And>r. r \<in> set (tenants d) \<Longrightarrow> tr_id r \<noteq> i) \<Longrightarrow> R (Sentinel (TenantRepo TR_ErrTenantNotFound)) d"
    and "\<And>f. \<not> healthy E \<Longrightarrow> R (fault_err f) d"
  shows "runs E c d (TenantRepo_FindTenantByID c i) Q R"
  unfolding TenantRepo_FindTenantByID_def by (rule runs_findTenant) (use assms in auto)

lemma runs_FindTenantByPublicID [tri]:
  assumes "\<And>r t. r \<in> set (tenants d) \<Longrightarrow> tr_public_id r = i \<Longrightarrow> tenantRow_domain c r = Inr t \<Longrightarrow> Q t d"
    and "\<And>r e. r \<in> set (tenants d) \<Longrightarrow> tr_public_id r = i \<Longrightarrow> tenantRow_domain c r = Inl e \<Longrightarrow> R e d"
    and "(\<And>r. r \<in> set (tenants d) \<Longrightarrow> tr_public_id r \<noteq> i) \<Longrightarrow> R (Sentinel (TenantRepo TR_ErrTenantNotFound)) d"
    and "\<And>f. \<not> healthy E \<Longrightarrow> R (fault_err f) d"
  shows "runs E c d (TenantRepo_FindTenantByPublicID c i) Q R"
  unfolding TenantRepo_FindTenantByPublicID_def by (rule runs_findTenant) (use assms in auto)

lemma runs_FindTenantByPublicIDForUpdate [tri]:
  assumes "\<And>r t. r \<in> set (tenants d) \<Longrightarrow> tr_public_id r = i \<Longrightarrow> tenantRow_domain c r = Inr t
      \<Longrightarrow> Q (t, tenantClaimRow_claim r) d"
    and "\<And>r e. r \<in> set (tenants d) \<Longrightarrow> tr_public_id r = i \<Longrightarrow> tenantRow_domain c r = Inl e \<Longrightarrow> R e d"
    and "(\<And>r. r \<in> set (tenants d) \<Longrightarrow> tr_public_id r \<noteq> i) \<Longrightarrow> R (Sentinel (TenantRepo TR_ErrTenantNotFound)) d"
    and "\<And>f. \<not> healthy E \<Longrightarrow> R (fault_err f) d"
  shows "runs E c d (TenantRepo_FindTenantByPublicIDForUpdate c i) Q R"
  unfolding TenantRepo_FindTenantByPublicIDForUpdate_def
  by (intro tri) (auto elim!: first_row_filterE intro: assms simp: filter_empty_conv)

lemma runs_findEvent [tri]:
  assumes "\<And>r x. r \<in> set (events d) \<Longrightarrow> p r \<Longrightarrow> eventRow_domain c r = Inr x \<Longrightarrow> Q x d"
    and "\<And>r e. r \<in> set (events d) \<Longrightarrow> p r \<Longrightarrow> eventRow_domain c r = Inl e \<Longrightarrow> R e d"
    and "(\<And>r. r \<in> set (events d) \<Longrightarrow> \<not> p r) \<Longrightarrow> R (Sentinel (TenantRepo TR_ErrEventNotFound)) d"
    and "\<And>f. \<not> healthy E \<Longrightarrow> R (fault_err f) d"
  shows "runs E c d (TenantRepo_findEvent c p) Q R"
  unfolding TenantRepo_findEvent_def by (rule runs_lookup) (use assms in auto)

lemma runs_FindEventByPublicID [tri]:
  assumes "\<And>r x. r \<in> set (events d) \<Longrightarrow> evr_public_id r = i \<Longrightarrow> eventRow_domain c r = Inr x \<Longrightarrow> Q x d"
    and "\<And>r e. r \<in> set (events d) \<Longrightarrow> evr_public_id r = i \<Longrightarrow> eventRow_domain c r = Inl e \<Longrightarrow> R e d"
    and "(\<And>r. r \<in> set (events d) \<Longrightarrow> evr_public_id r \<noteq> i) \<Longrightarrow> R (Sentinel (TenantRepo TR_ErrEventNotFound)) d"
    and "\<And>f. \<not> healthy E \<Longrightarrow> R (fault_err f) d"
  shows "runs E c d (TenantRepo_FindEventByPublicID c i) Q R"
  unfolding TenantRepo_FindEventByPublicID_def by (rule runs_findEvent) (use assms in auto)

lemma runs_findEventByID [tri]:
  assumes "\<And>r x. r \<in> set (events d) \<Longrightarrow> evr_id r = i \<Longrightarrow> eventRow_domain c r = Inr x \<Longrightarrow> Q x d"
    and "\<And>r e. r \<in> set (events d) \<Longrightarrow> evr_id r = i \<Longrightarrow> eventRow_domain c r = Inl e \<Longrightarrow> R e d"
    and "(\<And>r. r \<in> set (events d) \<Longrightarrow> evr_id r \<noteq> i) \<Longrightarrow> R (Sentinel (TenantRepo TR_ErrEventNotFound)) d"
    and "\<And>f. \<not> healthy E \<Longrightarrow> R (fault_err f) d"
  shows "runs E c d (TenantRepo_findEventByID c i) Q R"
  unfolding TenantRepo_findEventByID_def by (rule runs_findEvent) (use assms in auto)

lemma runs_FindTenantPublicIDBySubdomain [tri]:
  assumes "\<And>r. r \<in> set (tenants d) \<Longrightarrow> tr_subdomain r = Some s \<Longrightarrow> Q (tr_public_id r) d"
    and "(\<And>r. r \<in> set (tenants d) \<Longrightarrow> tr_subdomain r \<noteq> Some s) \<Longrightarrow> R (Sentinel (TenantRepo TR_ErrTenantNotFound)) d"
    and "\<And>f. \<not> healthy E \<Longrightarrow> R (fault_err f) d"
  shows "runs E c d (TenantRepo_FindTenantPublicIDBySubdomain c s) Q R"
  unfolding TenantRepo_FindTenantPublicIDBySubdomain_def
  by (intro tri) (use assms in \<open>auto dest!: first_row_SomeD simp: filter_empty_conv\<close>)

end
