(* ===== verification/RelationDomain.thy ===== *)
theory RelationDomain
  imports Enums OneTimeToken
begin

text \<open>
  internal/relation/domain: roles and what they grant, display names, memberships and invitations.
\<close>

section \<open>Roles (role.go, role_enum_string.go, permission.go)\<close>

type_synonym role = enum8

definition RoleUnspecified :: role where "RoleUnspecified = 0"
definition RoleOwner :: role where "RoleOwner = 1"
definition RoleStaff :: role where "RoleStaff = 2"
definition RoleAdmin :: role where "RoleAdmin = 3"

lemmas role_defs = RoleUnspecified_def RoleOwner_def RoleStaff_def RoleAdmin_def

definition Role_String :: "role \<Rightarrow> string" where
  "Role_String i = stringer ''Role'' ''unspecifiedownerstaffadmin'' [0, 11, 16, 21, 26] i"

definition ParseRole :: "string \<Rightarrow> gerr + role" where
  "ParseRole s = (case parse_enum Role_String RoleAdmin s of
      Some r \<Rightarrow> Inr r
    | None \<Rightarrow> Inl (Errorf ''invalid role %q'' [s]))"

lemma role_le_cases: "(v :: role) \<le> 3 \<longleftrightarrow> v = 0 \<or> v = 1 \<or> v = 2 \<or> v = 3"
proof
  assume "v \<le> 3"
  then have "unat v \<le> 3" by (simp add: word_le_nat_alt)
  then show "v = 0 \<or> v = 1 \<or> v = 2 \<or> v = 3" by (simp add: word_unat_eq_iff) arith
qed auto

lemma Role_String_simps [simp]:
  "Role_String 0 = ''unspecified''" "Role_String 1 = ''owner''" "Role_String 2 = ''staff''"
  "Role_String 3 = ''admin''"
  by (simp_all add: Role_String_def stringer_def go_slice_def Let_def)

interpretation role: stringer_enum Role_String RoleAdmin
  by unfold_locales (auto simp: role_defs role_le_cases)

lemma ParseRole_Inr_iff: "ParseRole s = Inr r \<longleftrightarrow> r \<le> RoleAdmin \<and> Role_String r = s"
  by (auto simp: ParseRole_def role.parse_Some_iff [symmetric] split: option.splits)

lemma ParseRole_simps [simp]:
  "ParseRole ''owner'' = Inr RoleOwner" "ParseRole ''staff'' = Inr RoleStaff"
  by (simp_all add: ParseRole_Inr_iff role_defs)

definition Grantable :: "role \<Rightarrow> gerr option" where
  "Grantable r =
     (if r = RoleOwner \<or> r = RoleStaff then None
      else if r = RoleAdmin then Some (Sentinel (RelationDomain ErrRoleReserved))
      else if r = RoleUnspecified then Some (Sentinel (RelationDomain ErrRoleRequired))
      else Some (Errorf (''invalid role '' @ FormatNat (unat r)) []))"

definition Invitable :: "role \<Rightarrow> gerr option" where
  "Invitable r = (if r \<noteq> RoleStaff then Some (Sentinel (RelationDomain ErrRoleNotInvitable)) else None)"

definition ScopeTenantRead :: string where "ScopeTenantRead = ''tenant.read''"
definition ScopeTenantWrite :: string where "ScopeTenantWrite = ''tenant.write''"
definition ScopeEventsRead :: string where "ScopeEventsRead = ''events.read''"
definition ScopeEventsManage :: string where "ScopeEventsManage = ''events.manage''"
definition ScopeEventsOperate :: string where "ScopeEventsOperate = ''events.operate''"
definition ScopeEventsReport :: string where "ScopeEventsReport = ''events.report''"

lemmas scope_defs =
  ScopeTenantRead_def ScopeTenantWrite_def ScopeEventsRead_def ScopeEventsManage_def
  ScopeEventsOperate_def ScopeEventsReport_def

definition memberScopes :: "string list" where
  "memberScopes =
     [ScopeTenantRead, ScopeEventsRead, ScopeEventsManage, ScopeEventsOperate, ScopeEventsReport]"

definition adminScopes :: "string list" where
  "adminScopes = [ScopeTenantWrite]"

definition Grants :: "role \<Rightarrow> string \<Rightarrow> bool" where
  "Grants r scope =
     (if r = RoleOwner \<or> r = RoleAdmin then scope \<in> set memberScopes \<or> scope \<in> set adminScopes
      else if r = RoleStaff then scope \<in> set memberScopes
      else if r = RoleUnspecified then False
      else False)"

lemma Grantable_None_iff: "Grantable r = None \<longleftrightarrow> r = RoleOwner \<or> r = RoleStaff"
  by (auto simp: Grantable_def)

text \<open>Only a role that administers the tenant issues its write scope; no stored role but owner does.\<close>

lemma Grants_tenant_write_iff: "Grants r ScopeTenantWrite \<longleftrightarrow> r = RoleOwner \<or> r = RoleAdmin"
  by (auto simp: Grants_def memberScopes_def adminScopes_def scope_defs role_defs)

lemma Grants_admin_owner: "Grants RoleAdmin scope = Grants RoleOwner scope"
  by (simp add: Grants_def role_defs)

lemma Grants_staff_subset: "Grants RoleStaff scope \<Longrightarrow> Grants RoleOwner scope"
  by (auto simp: Grants_def role_defs split: if_splits)

lemma Grants_undeclared: "RoleAdmin < r \<Longrightarrow> \<not> Grants r scope"
  by (auto simp: Grants_def role_defs)

section \<open>Display names (display_name.go)\<close>

definition maxDisplayNameLength :: nat where
  "maxDisplayNameLength = 64"

datatype display_name = DisplayName (dn_value: string)

definition ParseDisplayName :: "string \<Rightarrow> gerr + display_name" where
  "ParseDisplayName s =
     (let trimmed = TrimSpace s
      in if trimmed = [] then Inl (Sentinel (RelationDomain ErrDisplayNameRequired))
         else if maxDisplayNameLength < RuneCountInString trimmed
              then Inl (Sentinel (RelationDomain ErrDisplayNameTooLong))
         else Inr (DisplayName trimmed))"

lemma ParseDisplayName_Inr_iff:
  "ParseDisplayName s = Inr n \<longleftrightarrow>
     n = DisplayName (TrimSpace s) \<and> TrimSpace s \<noteq> [] \<and> RuneCountInString (TrimSpace s) \<le> 64"
  by (auto simp: ParseDisplayName_def Let_def maxDisplayNameLength_def)

text \<open>What was parsed once parses again to itself, so a stored display name always reads back.\<close>

lemma ParseDisplayName_stable:
  "ParseDisplayName s = Inr n \<Longrightarrow> ParseDisplayName (dn_value n) = Inr n"
  by (auto simp: ParseDisplayName_Inr_iff)

section \<open>Memberships (membership.go)\<close>

record event_role =
  er_eventID :: string
  er_eventPublicID :: string
  er_role :: role

definition NewEventRole :: "string \<Rightarrow> string \<Rightarrow> role \<Rightarrow> event_role" where
  "NewEventRole eventID eventPublicID r =
     \<lparr>er_eventID = eventID, er_eventPublicID = eventPublicID, er_role = r\<rparr>"

record membership =
  m_userID :: string
  m_tenantID :: string
  m_tenantPublicID :: string
  m_tenantRole :: role
  m_displayName :: display_name
  m_joinedAt :: time
  m_eventRoles :: "event_role list"

definition NewMembership ::
    "string \<Rightarrow> string \<Rightarrow> string \<Rightarrow> role \<Rightarrow> display_name \<Rightarrow> time \<Rightarrow> event_role list \<Rightarrow> membership" where
  "NewMembership userID tenantID tenantPublicID tenantRole displayName joinedAt eventRoles =
     \<lparr>m_userID = userID, m_tenantID = tenantID, m_tenantPublicID = tenantPublicID,
      m_tenantRole = tenantRole, m_displayName = displayName, m_joinedAt = joinedAt,
      m_eventRoles = eventRoles\<rparr>"

section \<open>Invitations (invitation.go)\<close>

type_synonym invitation_state = enum8

definition InvitationPending :: invitation_state where "InvitationPending = 0"
definition InvitationAccepted :: invitation_state where "InvitationAccepted = 1"
definition InvitationRevoked :: invitation_state where "InvitationRevoked = 2"

lemmas invitation_state_defs = InvitationPending_def InvitationAccepted_def InvitationRevoked_def

definition InvitationState_String :: "invitation_state \<Rightarrow> string" where
  "InvitationState_String i = stringer ''InvitationState'' ''PendingAcceptedRevoked'' [0, 7, 15, 22] i"

lemma InvitationState_String_simps [simp]:
  "InvitationState_String 0 = ''Pending''" "InvitationState_String 1 = ''Accepted''" "InvitationState_String 2 = ''Revoked''"
  by (simp_all add: InvitationState_String_def stringer_def go_slice_def Let_def)

lemma invitation_state_le_cases: "(v :: invitation_state) \<le> 2 \<longleftrightarrow> v = 0 \<or> v = 1 \<or> v = 2"
proof
  assume "v \<le> 2"
  then have "unat v \<le> 2" by (simp add: word_le_nat_alt)
  then show "v = 0 \<or> v = 1 \<or> v = 2" by (simp add: word_unat_eq_iff) arith
qed auto

interpretation invitation_state: stringer_enum InvitationState_String InvitationRevoked
  by unfold_locales (auto simp: invitation_state_defs invitation_state_le_cases)

record invitation =
  i_id :: string
  i_publicID :: string
  i_tenantID :: string
  i_tenantPublicID :: string
  i_role :: role
  i_displayName :: display_name
  i_expiresAt :: time
  i_state :: invitation_state

definition NewInvitation ::
    "string \<Rightarrow> string \<Rightarrow> string \<Rightarrow> string \<Rightarrow> role \<Rightarrow> display_name \<Rightarrow> time \<Rightarrow> invitation_state \<Rightarrow> invitation" where
  "NewInvitation invitationID publicID tenantID tenantPublicID r displayName expiresAt state =
     \<lparr>i_id = invitationID, i_publicID = publicID, i_tenantID = tenantID,
      i_tenantPublicID = tenantPublicID, i_role = r, i_displayName = displayName,
      i_expiresAt = expiresAt, i_state = state\<rparr>"

definition invitation_Open :: "invitation \<Rightarrow> time \<Rightarrow> bool" where
  "invitation_Open i now \<longleftrightarrow> i_state i = InvitationPending \<and> now < i_expiresAt i"

definition invitation_close :: "invitation \<Rightarrow> time \<Rightarrow> invitation_state \<Rightarrow> gerr + invitation" where
  "invitation_close i now state =
     (if \<not> invitation_Open i now then Inl (Sentinel (RelationDomain ErrInvitationNotPending))
      else Inr (i\<lparr>i_state := state\<rparr>))"

definition invitation_Accept :: "invitation \<Rightarrow> time \<Rightarrow> gerr + invitation" where
  "invitation_Accept i now = invitation_close i now InvitationAccepted"

definition invitation_Revoke :: "invitation \<Rightarrow> time \<Rightarrow> gerr + invitation" where
  "invitation_Revoke i now = invitation_close i now InvitationRevoked"

lemma invitation_Accept_Inr_iff:
  "invitation_Accept i now = Inr i' \<longleftrightarrow> invitation_Open i now \<and> i' = i\<lparr>i_state := InvitationAccepted\<rparr>"
  by (auto simp: invitation_Accept_def invitation_close_def)

lemma invitation_Revoke_Inr_iff:
  "invitation_Revoke i now = Inr i' \<longleftrightarrow> invitation_Open i now \<and> i' = i\<lparr>i_state := InvitationRevoked\<rparr>"
  by (auto simp: invitation_Revoke_def invitation_close_def)

text \<open>An invitation leaves the open state once and for good.\<close>

lemma invitation_closed_for_good:
  "invitation_close i now st = Inr i' \<Longrightarrow> st \<noteq> InvitationPending \<Longrightarrow> \<not> invitation_Open i' later"
  by (auto simp: invitation_close_def invitation_Open_def split: if_splits)

lemma invitation_expiry_monotone:
  "\<not> invitation_Open i now \<Longrightarrow> now \<le> later \<Longrightarrow> \<not> invitation_Open i later"
  by (auto simp: invitation_Open_def)

end
