(* ===== verification/MembershipDb.thy ===== *)
theory MembershipDb
  imports Schema Hoare RelationDomain "HOL-Library.Product_Lexorder"
begin

text \<open>
  internal/relation/infra/db/membership.go: the PostgreSQL repository of memberships and roles.
  \<open>ORDER BY\<close> on user IDs compares bytes (the C collation).
\<close>

section \<open>Statements\<close>

definition sql_insert_membership :: "time \<Rightarrow> string \<Rightarrow> string \<Rightarrow> string \<Rightarrow> string \<Rightarrow> db \<Rightarrow> gerr + db" where
  "sql_insert_membership now tenantID userID tenantRole displayName d =
     bind_result (varchar 255 userID) (\<lambda>user_id.
     bind_result (varchar 64 displayName) (\<lambda>display_name.
       put_memberships (memberships d @ [\<lparr>mr_tenant_id = tenantID, mr_user_id = user_id,
         mr_tenant_role = tenantRole, mr_display_name = display_name, mr_joined_at = now\<rparr>]) d))"

definition is_membership :: "string \<Rightarrow> string \<Rightarrow> membership_row \<Rightarrow> bool" where
  "is_membership tenantID userID m \<longleftrightarrow> mr_tenant_id m = tenantID \<and> mr_user_id m = userID"

definition sql_update_tenant_role :: "string \<Rightarrow> string \<Rightarrow> string \<Rightarrow> db \<Rightarrow> gerr + nat \<times> db" where
  "sql_update_tenant_role tenantID userID tenantRole d =
     bind_result (put_memberships (update_where (is_membership tenantID userID)
         (\<lambda>m. m\<lparr>mr_tenant_role := tenantRole\<rparr>) (memberships d)) d)
       (\<lambda>d'. Inr (count_where (is_membership tenantID userID) (memberships d), d'))"

definition sql_delete_membership :: "string \<Rightarrow> string \<Rightarrow> db \<Rightarrow> gerr + nat \<times> db" where
  "sql_delete_membership tenantID userID d =
     Inr (count_where (is_membership tenantID userID) (memberships d),
          delete_memberships (is_membership tenantID userID) d)"

definition is_event_role :: "string \<Rightarrow> string \<Rightarrow> event_role_row \<Rightarrow> bool" where
  "is_event_role eventID userID r \<longleftrightarrow> rr_event_id r = eventID \<and> rr_user_id r = userID"

text \<open>
  \<open>INSERT ... SELECT ... ON CONFLICT (event_id, user_id) DO UPDATE SET role ... RETURNING tenant_id\<close>:
  the rows to insert are the events with that ID, each inserted or, when the key is taken, updated.
\<close>

definition upsert_event_role :: "event_role_row \<Rightarrow> event_role_row list \<Rightarrow> event_role_row list" where
  "upsert_event_role r rs =
     (let same = is_event_role (rr_event_id r) (rr_user_id r)
      in if list_ex same rs then update_where same (\<lambda>x. x\<lparr>rr_role := rr_role r\<rparr>) rs else rs @ [r])"

definition returned_tenant :: "event_role_row \<Rightarrow> event_role_row list \<Rightarrow> string" where
  "returned_tenant r rs = (case first_row (filter (is_event_role (rr_event_id r) (rr_user_id r)) rs) of
      None \<Rightarrow> rr_tenant_id r | Some x \<Rightarrow> rr_tenant_id x)"

definition sql_upsert_event_role :: "string \<Rightarrow> string \<Rightarrow> string \<Rightarrow> db \<Rightarrow> gerr + string list \<times> db" where
  "sql_upsert_event_role eventID userID r d =
     bind_result (varchar 255 userID) (\<lambda>user_id.
       let new = map (\<lambda>e. \<lparr>rr_event_id = evr_id e, rr_tenant_id = evr_tenant_id e, rr_user_id = user_id,
             rr_role = r\<rparr>) (filter (\<lambda>e. evr_id e = eventID) (events d))
       in bind_result (put_event_roles (fold upsert_event_role new (event_roles d)) d)
            (\<lambda>d'. Inr (map (\<lambda>x. returned_tenant x (event_roles d)) new, d')))"

definition sql_delete_event_role :: "string \<Rightarrow> string \<Rightarrow> db \<Rightarrow> gerr + nat \<times> db" where
  "sql_delete_event_role eventID userID d =
     Inr (count_where (is_event_role eventID userID) (event_roles d),
          d\<lparr>event_roles := delete_where (is_event_role eventID userID) (event_roles d)\<rparr>)"

definition sql_count_owners :: "string \<Rightarrow> db \<Rightarrow> nat" where
  "sql_count_owners tenantID d =
     count_where (\<lambda>m. mr_tenant_id m = tenantID \<and> mr_tenant_role m = Role_String RoleOwner) (memberships d)"

text \<open>The two queries of a listing; the filter applies to the membership in both.\<close>

record membership_join =
  mj_tenant_id :: string
  mj_tenant_public_id :: string
  mj_user_id :: string
  mj_tenant_role :: string
  mj_display_name :: string
  mj_joined_at :: time

record event_role_join =
  ej_tenant_id :: string
  ej_user_id :: string
  ej_event_id :: string
  ej_event_public_id :: string
  ej_role :: string

definition join_membership :: "membership_row \<Rightarrow> tenant_row \<Rightarrow> membership_join" where
  "join_membership m t =
     \<lparr>mj_tenant_id = mr_tenant_id m, mj_tenant_public_id = tr_public_id t, mj_user_id = mr_user_id m,
      mj_tenant_role = mr_tenant_role m, mj_display_name = mr_display_name m, mj_joined_at = mr_joined_at m\<rparr>"

definition sql_select_memberships :: "(membership_row \<Rightarrow> bool) \<Rightarrow> db \<Rightarrow> membership_join list" where
  "sql_select_memberships p d =
     sort_key (\<lambda>j. (mj_tenant_id j, mj_joined_at j, mj_user_id j))
       (concat (map (\<lambda>m. map (join_membership m) (filter (\<lambda>t. tr_id t = mr_tenant_id m) (tenants d)))
         (filter p (memberships d))))"

definition join_event_role :: "event_role_row \<Rightarrow> membership_row \<Rightarrow> event_row \<Rightarrow> event_role_join" where
  "join_event_role r m e =
     \<lparr>ej_tenant_id = mr_tenant_id m, ej_user_id = mr_user_id m, ej_event_id = rr_event_id r,
      ej_event_public_id = evr_public_id e, ej_role = rr_role r\<rparr>"

definition sql_select_event_roles :: "(membership_row \<Rightarrow> bool) \<Rightarrow> db \<Rightarrow> event_role_join list" where
  "sql_select_event_roles p d =
     sort_key ej_event_id
       (concat (map (\<lambda>r. concat (map (\<lambda>m. map (join_event_role r m)
            (filter (\<lambda>e. evr_id e = rr_event_id r) (events d)))
          (filter (\<lambda>m. p m \<and> mr_tenant_id m = rr_tenant_id r \<and> mr_user_id m = rr_user_id r) (memberships d))))
        (event_roles d)))"

section \<open>Errors\<close>

definition expectOneRow :: "ctx \<Rightarrow> nat \<Rightarrow> gerr \<Rightarrow> unit go" where
  "expectOneRow c affected notFound =
     and_then (wrap_err ''get affected row count'' (RowsAffected c affected)) (\<lambda>rows. guard (rows \<noteq> 0) notFound)"

definition mapMembershipConstraintError :: "gerr \<Rightarrow> gerr" where
  "mapMembershipConstraintError err = (case errors_As_Pg err of
      None \<Rightarrow> err
    | Some (_, constraint) \<Rightarrow>
        if constraint = ''tenant_memberships_pkey'' then Sentinel (RelationRepo ErrMembershipAlreadyExists)
        else if constraint = ''tenant_memberships_tenant_id_fkey'' then Sentinel (RelationRepo RR_ErrTenantNotFound)
        else if constraint = ''event_roles_membership_fkey'' then Sentinel (RelationRepo ErrTenantMembershipRequired)
        else if constraint = ''event_roles_event_fkey'' then Sentinel (RelationRepo RR_ErrEventNotFound)
        else err)"

text \<open>\<open>if errors.Is(err, sql.ErrNoRows) { return notFound }\<close>\<close>

definition absent_or :: "relation_repo_error \<Rightarrow> (gerr \<Rightarrow> gerr) \<Rightarrow> gerr \<Rightarrow> gerr" where
  "absent_or notFound other err =
     (if errors_Is err ErrNoRows then Sentinel (RelationRepo notFound) else other err)"

lemma absent_or_ErrNoRows [simp]: "absent_or notFound other (Sentinel ErrNoRows) = Sentinel (RelationRepo notFound)"
  by (simp add: absent_or_def)

lemma absent_or_fault_err [simp]: "absent_or notFound other (fault_err f) = other (fault_err f)"
  by (simp add: absent_or_def)

section \<open>Listing\<close>

definition eventRoleRow_domain :: "event_role_join \<Rightarrow> gerr + (string \<times> string) \<times> event_role" where
  "eventRoleRow_domain j =
     bind_result (wrap_result ''parse event role'' (ParseRole (ej_role j)))
       (\<lambda>r. Inr ((ej_tenant_id j, ej_user_id j), NewEventRole (ej_event_id j) (ej_event_public_id j) r))"

text \<open>\<open>eventRoles[key]\<close>: the roles appended under a key, in the order they were appended.\<close>

definition event_roles_at :: "((string \<times> string) \<times> event_role) list \<Rightarrow> string \<times> string \<Rightarrow> event_role list" where
  "event_roles_at entries key = map snd (filter (\<lambda>e. fst e = key) entries)"

definition membershipRow_domain ::
    "ctx \<Rightarrow> ((string \<times> string) \<times> event_role) list \<Rightarrow> membership_join \<Rightarrow> gerr + membership" where
  "membershipRow_domain c entries j = (case VerifyOwnership c (mj_tenant_public_id j) of
      Some e \<Rightarrow> Inl e
    | None \<Rightarrow>
        bind_result (wrap_result ''parse tenant role'' (ParseRole (mj_tenant_role j))) (\<lambda>r.
        bind_result (wrap_result ''parse display name'' (ParseDisplayName (mj_display_name j))) (\<lambda>displayName.
          Inr (NewMembership (mj_user_id j) (mj_tenant_id j) (mj_tenant_public_id j) r displayName
            (mj_joined_at j) (event_roles_at entries (mj_tenant_id j, mj_user_id j))))))"

definition MembershipRepo_listMemberships :: "ctx \<Rightarrow> (membership_row \<Rightarrow> bool) \<Rightarrow> membership list go" where
  "MembershipRepo_listMemberships c p =
     and_then (wrap_err ''list memberships'' (SelectContext c (sql_select_memberships p))) (\<lambda>rows.
       if rows = [] then ret []
       else and_then (wrap_err ''list event roles'' (SelectContext c (sql_select_event_roles p))) (\<lambda>roleRows.
         and_then (of_result (traverse eventRoleRow_domain roleRows)) (\<lambda>entries.
           of_result (traverse (membershipRow_domain c entries) rows))))"

definition MembershipRepo_ListMembershipsByTenant :: "ctx \<Rightarrow> string \<Rightarrow> membership list go" where
  "MembershipRepo_ListMembershipsByTenant c tenantID =
     MembershipRepo_listMemberships c (\<lambda>m. mr_tenant_id m = tenantID)"

definition MembershipRepo_FindMembership :: "ctx \<Rightarrow> string \<Rightarrow> string \<Rightarrow> membership go" where
  "MembershipRepo_FindMembership c tenantID userID =
     and_then (MembershipRepo_listMemberships c (is_membership tenantID userID)) (\<lambda>ms.
       case ms of [] \<Rightarrow> fail (Sentinel (RelationRepo ErrMembershipNotFound)) | m # _ \<Rightarrow> ret m)"

section \<open>The repository's other methods\<close>

definition MembershipRepo_WithinTransaction :: "ctx \<Rightarrow> (ctx \<Rightarrow> 'a go) \<Rightarrow> 'a go" where
  "MembershipRepo_WithinTransaction c fn = RunInTransaction c fn"

definition MembershipRepo_AddTenantMember ::
    "ctx \<Rightarrow> string \<Rightarrow> string \<Rightarrow> role \<Rightarrow> display_name \<Rightarrow> membership go" where
  "MembershipRepo_AddTenantMember c tenantID userID r displayName =
     and_then (require (Grantable r)) (\<lambda>_.
     and_then (map_err mapMembershipConstraintError (exec_sql c
         (\<lambda>now. sql_insert_membership now tenantID userID (Role_String r) (dn_value displayName)))) (\<lambda>_.
       MembershipRepo_FindMembership c tenantID userID))"

definition MembershipRepo_AddOwner :: "ctx \<Rightarrow> string \<Rightarrow> string \<Rightarrow> display_name \<Rightarrow> unit go" where
  "MembershipRepo_AddOwner c tenantID userID displayName =
     and_then (MembershipRepo_AddTenantMember c tenantID userID RoleOwner displayName) (\<lambda>_. ret ())"

definition MembershipRepo_ChangeTenantRole :: "ctx \<Rightarrow> string \<Rightarrow> string \<Rightarrow> role \<Rightarrow> membership go" where
  "MembershipRepo_ChangeTenantRole c tenantID userID r =
     and_then (require (Grantable r)) (\<lambda>_.
     and_then (wrap_err ''change tenant role'' (exec_count c
         (\<lambda>_. sql_update_tenant_role tenantID userID (Role_String r)))) (\<lambda>n.
     and_then (expectOneRow c n (Sentinel (RelationRepo ErrMembershipNotFound))) (\<lambda>_.
       MembershipRepo_FindMembership c tenantID userID)))"

definition MembershipRepo_GrantEventRole :: "ctx \<Rightarrow> string \<Rightarrow> string \<Rightarrow> role \<Rightarrow> membership go" where
  "MembershipRepo_GrantEventRole c eventID userID r =
     and_then (require (Grantable r)) (\<lambda>_.
     and_then (map_err (absent_or RR_ErrEventNotFound mapMembershipConstraintError)
         (stmt c (\<lambda>_ d. bind_result (sql_upsert_event_role eventID userID (Role_String r) d)
           (\<lambda>(returned, d'). Inr (returned, d'))))) (\<lambda>returned.
     and_then (of_result (case first_row returned of
         None \<Rightarrow> Inl (Sentinel (RelationRepo RR_ErrEventNotFound)) | Some t \<Rightarrow> Inr t)) (\<lambda>tenantID.
       MembershipRepo_FindMembership c tenantID userID)))"

definition MembershipRepo_RevokeTenantMembership :: "ctx \<Rightarrow> string \<Rightarrow> string \<Rightarrow> unit go" where
  "MembershipRepo_RevokeTenantMembership c tenantID userID =
     and_then (wrap_err ''revoke tenant membership'' (exec_count c (\<lambda>_. sql_delete_membership tenantID userID)))
       (\<lambda>n. expectOneRow c n (Sentinel (RelationRepo ErrMembershipNotFound)))"

definition MembershipRepo_RevokeEventRole :: "ctx \<Rightarrow> string \<Rightarrow> string \<Rightarrow> unit go" where
  "MembershipRepo_RevokeEventRole c eventID userID =
     and_then (wrap_err ''revoke event role'' (exec_count c (\<lambda>_. sql_delete_event_role eventID userID)))
       (\<lambda>n. expectOneRow c n (Sentinel (RelationRepo ErrEventRoleNotFound)))"

text \<open>The advisory lock changes no row.\<close>

definition MembershipRepo_LockTenantMemberships :: "ctx \<Rightarrow> string \<Rightarrow> unit go" where
  "MembershipRepo_LockTenantMemberships c tenantID =
     wrap_err ''lock tenant memberships'' (exec_sql c (\<lambda>_ d. Inr d))"

definition MembershipRepo_FindTenantRoleForShare :: "ctx \<Rightarrow> string \<Rightarrow> string \<Rightarrow> role go" where
  "MembershipRepo_FindTenantRoleForShare c tenantID userID =
     and_then (map_err (absent_or ErrMembershipNotFound (Wrap ''find tenant role''))
         (GetContext c (\<lambda>d. map mr_tenant_role (filter (is_membership tenantID userID) (memberships d)))))
       (\<lambda>r. of_result (wrap_result ''parse tenant role'' (ParseRole r)))"

definition MembershipRepo_CountTenantOwners :: "ctx \<Rightarrow> string \<Rightarrow> nat go" where
  "MembershipRepo_CountTenantOwners c tenantID =
     wrap_err ''count tenant owners'' (query c (\<lambda>d. Inr (sql_count_owners tenantID d)))"

end
