(* ===== verification/InvitationDb.thy ===== *)
theory InvitationDb
  imports MembershipDb
begin

text \<open>internal/relation/infra/db/invitation.go: the PostgreSQL repository of invitations.\<close>

section \<open>Statements\<close>

definition sql_insert_invitation :: "invitation_row \<Rightarrow> db \<Rightarrow> gerr + db" where
  "sql_insert_invitation r d =
     bind_result (varchar 16 (ir_public_id r)) (\<lambda>public_id.
     bind_result (varchar 64 (ir_display_name r)) (\<lambda>display_name.
       put_invitations (invitations d @ [r\<lparr>ir_public_id := public_id, ir_display_name := display_name\<rparr>]) d))"

definition sql_accept_invitation :: "string \<Rightarrow> string \<Rightarrow> time \<Rightarrow> db \<Rightarrow> gerr + nat \<times> db" where
  "sql_accept_invitation invitationID userID at d =
     bind_result (varchar 255 userID) (\<lambda>user_id.
     bind_result (put_invitations (update_where (\<lambda>i. ir_id i = invitationID)
         (\<lambda>i. i\<lparr>ir_accepted_at := Some (pg_time at), ir_accepted_by := Some user_id\<rparr>) (invitations d)) d)
       (\<lambda>d'. Inr (count_where (\<lambda>i. ir_id i = invitationID) (invitations d), d')))"

definition sql_revoke_invitation :: "string \<Rightarrow> time \<Rightarrow> db \<Rightarrow> gerr + nat \<times> db" where
  "sql_revoke_invitation invitationID at d =
     bind_result (put_invitations (update_where (\<lambda>i. ir_id i = invitationID)
         (\<lambda>i. i\<lparr>ir_revoked_at := Some (pg_time at)\<rparr>) (invitations d)) d)
       (\<lambda>d'. Inr (count_where (\<lambda>i. ir_id i = invitationID) (invitations d), d'))"

record invitation_join =
  ij_id :: string
  ij_public_id :: string
  ij_tenant_id :: string
  ij_tenant_public_id :: string
  ij_tenant_role :: string
  ij_display_name :: string
  ij_expires_at :: time
  ij_accepted :: bool
  ij_revoked :: bool

definition join_invitation :: "invitation_row \<Rightarrow> tenant_row \<Rightarrow> invitation_join" where
  "join_invitation i t =
     \<lparr>ij_id = ir_id i, ij_public_id = ir_public_id i, ij_tenant_id = ir_tenant_id i,
      ij_tenant_public_id = tr_public_id t, ij_tenant_role = ir_tenant_role i,
      ij_display_name = ir_display_name i, ij_expires_at = ir_expires_at i,
      ij_accepted = (ir_accepted_at i \<noteq> None), ij_revoked = (ir_revoked_at i \<noteq> None)\<rparr>"

definition invitationSelect :: "invitation_row list \<Rightarrow> db \<Rightarrow> invitation_join list" where
  "invitationSelect is d =
     concat (map (\<lambda>i. map (join_invitation i) (filter (\<lambda>t. tr_id t = ir_tenant_id i) (tenants d))) is)"

definition sql_select_open_invitations :: "string \<Rightarrow> time \<Rightarrow> db \<Rightarrow> invitation_join list" where
  "sql_select_open_invitations tenantID now d =
     invitationSelect (sort_key (\<lambda>i. (ir_created_at i, ir_id i))
       (filter (\<lambda>i. ir_tenant_id i = tenantID \<and> ir_accepted_at i = None \<and> ir_revoked_at i = None
          \<and> pg_time now < ir_expires_at i) (invitations d))) d"

section \<open>The repository\<close>

definition invitationRow_domain :: "invitation_join \<Rightarrow> gerr + invitation" where
  "invitationRow_domain j =
     bind_result (wrap_result ''parse invitation role'' (ParseRole (ij_tenant_role j))) (\<lambda>r.
     bind_result (wrap_result ''parse invitation display name'' (ParseDisplayName (ij_display_name j))) (\<lambda>displayName.
       let state = (if ij_accepted j then InvitationAccepted
                    else if ij_revoked j then InvitationRevoked else InvitationPending)
       in Inr (NewInvitation (ij_id j) (ij_public_id j) (ij_tenant_id j) (ij_tenant_public_id j) r displayName
            (ij_expires_at j) state)))"

definition InvitationRepo_CreateInvitation :: "ctx \<Rightarrow> invitation \<Rightarrow> token_hash \<Rightarrow> unit go" where
  "InvitationRepo_CreateInvitation c i tokenHash =
     map_err (\<lambda>err. if errors_As_Pg err = Some (''23505'', ''tenant_invitations_public_id_key'')
        then Sentinel (RelationRepo ErrInvitationPublicIDExists) else Wrap ''create invitation'' err)
     (exec_sql c (\<lambda>now. sql_insert_invitation
        \<lparr>ir_id = i_id i, ir_public_id = i_publicID i, ir_tenant_id = i_tenantID i,
         ir_tenant_role = Role_String (i_role i), ir_display_name = dn_value (i_displayName i),
         ir_token_hash = tokenHash, ir_expires_at = pg_time (i_expiresAt i), ir_created_at = now,
         ir_accepted_at = None, ir_accepted_by = None, ir_revoked_at = None\<rparr>))"

definition InvitationRepo_ListOpenInvitations :: "ctx \<Rightarrow> string \<Rightarrow> time \<Rightarrow> invitation list go" where
  "InvitationRepo_ListOpenInvitations c tenantID now =
     and_then (wrap_err ''list invitations'' (SelectContext c (sql_select_open_invitations tenantID now)))
       (\<lambda>rows. of_result (traverse invitationRow_domain rows))"

definition InvitationRepo_findInvitation :: "ctx \<Rightarrow> (invitation_row \<Rightarrow> bool) \<Rightarrow> invitation go" where
  "InvitationRepo_findInvitation c p =
     and_then (map_err (absent_or ErrInvitationNotFound (Wrap ''find invitation''))
         (GetContext c (\<lambda>d. invitationSelect (filter p (invitations d)) d)))
       (\<lambda>row. of_result (invitationRow_domain row))"

definition InvitationRepo_FindInvitationForUpdate :: "ctx \<Rightarrow> string \<Rightarrow> string \<Rightarrow> invitation go" where
  "InvitationRepo_FindInvitationForUpdate c tenantID publicID =
     InvitationRepo_findInvitation c (\<lambda>i. ir_tenant_id i = tenantID \<and> ir_public_id i = publicID)"

definition InvitationRepo_FindInvitationByTokenForUpdate :: "ctx \<Rightarrow> string \<Rightarrow> token_hash \<Rightarrow> invitation go" where
  "InvitationRepo_FindInvitationByTokenForUpdate c tenantID tokenHash =
     InvitationRepo_findInvitation c (\<lambda>i. ir_tenant_id i = tenantID \<and> ir_token_hash i = tokenHash)"

definition InvitationRepo_MarkInvitationAccepted :: "ctx \<Rightarrow> string \<Rightarrow> string \<Rightarrow> time \<Rightarrow> unit go" where
  "InvitationRepo_MarkInvitationAccepted c invitationID userID at =
     and_then (wrap_err ''mark invitation accepted'' (exec_count c (\<lambda>_. sql_accept_invitation invitationID userID at)))
       (\<lambda>n. expectOneRow c n (Sentinel (RelationRepo ErrInvitationNotFound)))"

definition InvitationRepo_MarkInvitationRevoked :: "ctx \<Rightarrow> string \<Rightarrow> time \<Rightarrow> unit go" where
  "InvitationRepo_MarkInvitationRevoked c invitationID at =
     and_then (wrap_err ''mark invitation revoked'' (exec_count c (\<lambda>_. sql_revoke_invitation invitationID at)))
       (\<lambda>n. expectOneRow c n (Sentinel (RelationRepo ErrInvitationNotFound)))"

end
