(* ===== verification/Authorizer.thy ===== *)
theory Authorizer
  imports InvitationDb
begin

text \<open>
  internal/relation/application/authorizer.go: the current permission of the authenticated subject,
  read from the memberships.  \<open>current_role\<close> and \<open>holds\<close> are its specification; the locale
  \<open>permission_checker\<close> is the contract of the tenant side's port of the same purpose
  (tenant/application/permission.go), which the authorizer's model interprets.
\<close>

definition Authorizer_CurrentRole :: "ctx \<Rightarrow> string \<Rightarrow> (role \<times> bool) go" where
  "Authorizer_CurrentRole c tenantID = (case SubjectFromContext c of
      None \<Rightarrow> fail (Sentinel (TenantCtx ErrSubjectMissing))
    | Some subject \<Rightarrow>
        and_then (attempt (MembershipRepo_FindTenantRoleForShare c tenantID subject)) (\<lambda>found.
          case found of
            Inl err \<Rightarrow> if errors_Is err (RelationRepo ErrMembershipNotFound) then ret (RoleUnspecified, False)
                       else fail err
          | Inr r \<Rightarrow> ret (r, True)))"

definition Authorizer_Allowed :: "ctx \<Rightarrow> string \<Rightarrow> string \<Rightarrow> bool go" where
  "Authorizer_Allowed c tenantID scope =
     and_then (Authorizer_CurrentRole c tenantID) (\<lambda>(r, member).
       if \<not> member then ret False else ret (Grants r scope))"

definition Authorizer_Require :: "ctx \<Rightarrow> string \<Rightarrow> string \<Rightarrow> unit go" where
  "Authorizer_Require c tenantID scope =
     and_then (Authorizer_Allowed c tenantID scope)
       (\<lambda>allowed. guard allowed (Sentinel (RelationApp RA_ErrPermissionDenied)))"

section \<open>Specification\<close>

text \<open>The role a user holds in a tenant, by the memberships of the database.\<close>

definition current_role :: "db \<Rightarrow> string \<Rightarrow> string \<Rightarrow> role option" where
  "current_role d tenantID userID = (case first_row (filter (is_membership tenantID userID) (memberships d)) of
      None \<Rightarrow> None
    | Some m \<Rightarrow> if mr_tenant_role m = ''owner'' then Some RoleOwner else Some RoleStaff)"

definition holds :: "db \<Rightarrow> ctx \<Rightarrow> string \<Rightarrow> string \<Rightarrow> bool" where
  "holds d c tenantID scope \<longleftrightarrow>
     (\<exists>subject r. SubjectFromContext c = Some subject \<and> current_role d tenantID subject = Some r \<and> Grants r scope)"

lemma current_role_declared: "current_role d t u = Some r \<Longrightarrow> r = RoleOwner \<or> r = RoleStaff"
  by (auto simp: current_role_def split: option.splits if_splits)

lemma current_role_None_iff:
  "current_role d t u = None \<longleftrightarrow> (\<forall>m \<in> set (memberships d). \<not> is_membership t u m)"
  by (auto simp: current_role_def filter_empty_conv dest: first_row_filter_SomeD split: option.splits)

lemma stored_role_parses:
  assumes "schema_ok d" and "m \<in> set (memberships d)"
  shows "ParseRole (mr_tenant_role m)
    = Inr (if mr_tenant_role m = ''owner'' then RoleOwner else RoleStaff)"
  using assms by (auto simp: schema_ok_def memberships_ok_iff)

lemma runs_FindTenantRoleForShare:
  assumes ok: "schema_ok d"
    and found: "\<And>r. current_role d t u = Some r \<Longrightarrow> Q r d"
    and missing: "current_role d t u = None \<Longrightarrow> R (Sentinel (RelationRepo ErrMembershipNotFound)) d"
    and broken: "\<And>f. \<not> healthy E \<Longrightarrow> R (Wrap ''find tenant role'' (fault_err f)) d"
  shows "runs E c d (MembershipRepo_FindTenantRoleForShare c t u) Q R"
  unfolding MembershipRepo_FindTenantRoleForShare_def
proof (intro tri, goal_cases)
  case (1 r x)
  then obtain m where m: "first_row (filter (is_membership t u) (memberships d)) = Some m"
    and r: "r = mr_tenant_role m"
    by (cases "filter (is_membership t u) (memberships d)") auto
  from m have "m \<in> set (memberships d)" by (blast dest: first_row_filter_SomeD)
  from stored_role_parses [OF ok this] 1 r m found show ?case
    by (simp add: current_role_def split: if_splits)
next
  case (2 r e)
  then obtain m where "m \<in> set (memberships d)" "r = mr_tenant_role m"
    using first_row_SomeD [OF 2(1)] by auto
  with stored_role_parses [OF ok] 2 show ?case by (simp add: wrap_result_def)
next
  case 3
  then show ?case using missing by (simp add: current_role_def)
next
  case (4 f)
  then show ?case using broken by simp
qed

lemma runs_CurrentRole:
  assumes ok: "schema_ok d"
    and "SubjectFromContext c = None \<Longrightarrow> R (Sentinel (TenantCtx ErrSubjectMissing)) d"
    and "\<And>u r. SubjectFromContext c = Some u \<Longrightarrow> current_role d t u = Some r \<Longrightarrow> Q (r, True) d"
    and "\<And>u. SubjectFromContext c = Some u \<Longrightarrow> current_role d t u = None \<Longrightarrow> Q (RoleUnspecified, False) d"
    and "\<And>f. \<not> healthy E \<Longrightarrow> R (Wrap ''find tenant role'' (fault_err f)) d"
  shows "runs E c d (Authorizer_CurrentRole c t) Q R"
  unfolding Authorizer_CurrentRole_def
  using assms by (auto intro!: tri runs_FindTenantRoleForShare [OF ok])

lemma runs_Allowed:
  assumes ok: "schema_ok d"
    and "SubjectFromContext c = None \<Longrightarrow> R (Sentinel (TenantCtx ErrSubjectMissing)) d"
    and "SubjectFromContext c \<noteq> None \<Longrightarrow> Q (holds d c t scope) d"
    and "\<And>f. \<not> healthy E \<Longrightarrow> R (Wrap ''find tenant role'' (fault_err f)) d"
  shows "runs E c d (Authorizer_Allowed c t scope) Q R"
  unfolding Authorizer_Allowed_def
  using assms by (auto intro!: tri runs_CurrentRole [OF ok] simp: holds_def)

lemma runs_Require:
  assumes ok: "schema_ok d"
    and "SubjectFromContext c = None \<Longrightarrow> R (Sentinel (TenantCtx ErrSubjectMissing)) d"
    and "holds d c t scope \<Longrightarrow> Q () d"
    and "SubjectFromContext c \<noteq> None \<Longrightarrow> \<not> holds d c t scope
      \<Longrightarrow> R (Sentinel (RelationApp RA_ErrPermissionDenied)) d"
    and "\<And>f. \<not> healthy E \<Longrightarrow> R (Wrap ''find tenant role'' (fault_err f)) d"
  shows "runs E c d (Authorizer_Require c t scope) Q R"
  unfolding Authorizer_Require_def
  using assms by (auto intro!: tri runs_Allowed [OF ok])

lemma holds_tx [simp]: "holds d (c\<lparr>ctx_tx := b\<rparr>) t scope = holds d c t scope"
  by (simp add: holds_def)

text \<open>Of the stored roles only the owner's grants the scope of administrative writes.\<close>

lemma holds_tenant_write_iff:
  "holds d c t ScopeTenantWrite \<longleftrightarrow>
     (\<exists>u. SubjectFromContext c = Some u \<and> current_role d t u = Some RoleOwner)"
proof -
  have "current_role d t u \<noteq> Some RoleAdmin" for u
    using current_role_declared [of d t u RoleAdmin] by (auto simp: role_defs)
  then show ?thesis by (auto simp: holds_def Grants_tenant_write_iff)
qed

section \<open>The port of the tenant side\<close>

text \<open>
  What a use case of the tenant side relies on: the checks change nothing, and what they answer is
  what the memberships say.
\<close>

locale permission_checker =
  fixes Allowed :: "ctx \<Rightarrow> string \<Rightarrow> string \<Rightarrow> bool go"
    and CurrentRole :: "ctx \<Rightarrow> string \<Rightarrow> (role \<times> bool) go"
  assumes Allowed: "schema_ok d \<Longrightarrow> runs E c d (Allowed c t scope)
      (\<lambda>b d'. d' = d \<and> SubjectFromContext c \<noteq> None \<and> b = holds d c t scope)
      (\<lambda>e d'. d' = d \<and> (SubjectFromContext c = None \<and> e = Sentinel (TenantCtx ErrSubjectMissing)
         \<or> \<not> healthy E))"
    and CurrentRole: "schema_ok d \<Longrightarrow> runs E c d (CurrentRole c t)
      (\<lambda>(r, member) d'. d' = d \<and> (\<exists>u. SubjectFromContext c = Some u
         \<and> (if member then current_role d t u = Some r else current_role d t u = None)))
      (\<lambda>e d'. d' = d \<and> (SubjectFromContext c = None \<and> e = Sentinel (TenantCtx ErrSubjectMissing)
         \<or> \<not> healthy E))"
begin

lemma runs_port_Allowed:
  assumes "schema_ok d"
    and "SubjectFromContext c = None \<Longrightarrow> R (Sentinel (TenantCtx ErrSubjectMissing)) d"
    and "SubjectFromContext c \<noteq> None \<Longrightarrow> Q (holds d c t scope) d"
    and "\<And>e. \<not> healthy E \<Longrightarrow> R e d"
  shows "runs E c d (Allowed c t scope) Q R"
  by (rule runs_conseq [OF Allowed [OF assms(1)]]) (use assms(2-) in auto)

lemma runs_port_CurrentRole:
  assumes "schema_ok d"
    and "SubjectFromContext c = None \<Longrightarrow> R (Sentinel (TenantCtx ErrSubjectMissing)) d"
    and "\<And>u r. SubjectFromContext c = Some u \<Longrightarrow> current_role d t u = Some r \<Longrightarrow> Q (r, True) d"
    and "\<And>u r. SubjectFromContext c = Some u \<Longrightarrow> current_role d t u = None \<Longrightarrow> Q (r, False) d"
    and "\<And>e. \<not> healthy E \<Longrightarrow> R e d"
  shows "runs E c d (CurrentRole c t) Q R"
  by (rule runs_conseq [OF CurrentRole [OF assms(1)]]) (use assms(2-) in \<open>auto split: if_splits\<close>)

end

interpretation authorizer: permission_checker Authorizer_Allowed Authorizer_CurrentRole
proof
  fix d E c t scope
  assume ok: "schema_ok d"
  show "runs E c d (Authorizer_Allowed c t scope)
      (\<lambda>b d'. d' = d \<and> SubjectFromContext c \<noteq> None \<and> b = holds d c t scope)
      (\<lambda>e d'. d' = d \<and> (SubjectFromContext c = None \<and> e = Sentinel (TenantCtx ErrSubjectMissing)
         \<or> \<not> healthy E))"
    by (rule runs_Allowed [OF ok]) auto
  show "runs E c d (Authorizer_CurrentRole c t)
      (\<lambda>(r, member) d'. d' = d \<and> (\<exists>u. SubjectFromContext c = Some u
         \<and> (if member then current_role d t u = Some r else current_role d t u = None)))
      (\<lambda>e d'. d' = d \<and> (SubjectFromContext c = None \<and> e = Sentinel (TenantCtx ErrSubjectMissing)
         \<or> \<not> healthy E))"
    by (rule runs_CurrentRole [OF ok]) auto
qed

end
