(* ===== verification/Integrity.thy ===== *)
theory Integrity
  imports TenantDb Authorizer
begin

text \<open>
  What the service keeps true of its database beyond the schema: an owned tenant has an owner among
  its memberships, a tenant that waits for its owner has neither members, events nor invitations,
  every stored text that is parsed on reading parses, and an event carries its tenant's public ID.
  Each statement of the repositories preserves it, under the side conditions the use cases
  establish.  \<open>integrity_but T\<close> exempts the tenants \<open>T\<close> from the emptiness of a pending tenant, for
  the claim of a tenant, which records the owner before it changes the tenant's state.
\<close>

definition has_owner :: "db \<Rightarrow> string \<Rightarrow> bool" where
  "has_owner d tenantID \<longleftrightarrow>
     list_ex (\<lambda>m. mr_tenant_id m = tenantID \<and> mr_tenant_role m = ''owner'') (memberships d)"

definition no_rows_of :: "db \<Rightarrow> string \<Rightarrow> bool" where
  "no_rows_of d tenantID \<longleftrightarrow>
     list_all (\<lambda>m. mr_tenant_id m \<noteq> tenantID) (memberships d)
     \<and> list_all (\<lambda>e. evr_tenant_id e \<noteq> tenantID) (events d)
     \<and> list_all (\<lambda>i. ir_tenant_id i \<noteq> tenantID) (invitations d)"

definition is_owned :: "tenant_row \<Rightarrow> bool" where
  "is_owned t \<longleftrightarrow> tr_ownership_state t = ''owned''"

definition tenant_texts_ok :: "tenant_row \<Rightarrow> bool" where
  "tenant_texts_ok t \<longleftrightarrow>
     (case tr_subdomain t of None \<Rightarrow> True | Some s \<Rightarrow> is_Inr (ParseSubdomain s))
     \<and> (case tr_claim_hash t of None \<Rightarrow> True | Some h \<Rightarrow> List.length h = 32)"

definition display_name_ok :: "string \<Rightarrow> bool" where
  "display_name_ok s \<longleftrightarrow> ParseDisplayName s = Inr (DisplayName s)"

definition event_row_ok :: "db \<Rightarrow> event_row \<Rightarrow> bool" where
  "event_row_ok d e \<longleftrightarrow> is_Inr (ParseEventStatus (evr_status e))
     \<and> list_ex (\<lambda>t. tr_id t = evr_tenant_id e \<and> tr_public_id t = evr_tenant_public_id e) (tenants d)"

definition integrity_but :: "string set \<Rightarrow> db \<Rightarrow> bool" where
  "integrity_but T d \<longleftrightarrow> schema_ok d
     \<and> (\<forall>t \<in> set (tenants d). tenant_texts_ok t)
     \<and> (\<forall>t \<in> set (tenants d). is_owned t \<longrightarrow> has_owner d (tr_id t))
     \<and> (\<forall>t \<in> set (tenants d). \<not> is_owned t \<longrightarrow> tr_id t \<notin> T \<longrightarrow> no_rows_of d (tr_id t))
     \<and> (\<forall>e \<in> set (events d). event_row_ok d e)
     \<and> (\<forall>m \<in> set (memberships d). display_name_ok (mr_display_name m))
     \<and> (\<forall>i \<in> set (invitations d). display_name_ok (ir_display_name i))"

definition integrity :: "db \<Rightarrow> bool" where
  "integrity d \<longleftrightarrow> integrity_but {} d"

lemma integrity_schema: "integrity d \<Longrightarrow> schema_ok d" "integrity_but T d \<Longrightarrow> schema_ok d"
  by (simp_all add: integrity_def integrity_but_def)

lemma integrity_mono: "integrity_but T d \<Longrightarrow> T \<subseteq> S \<Longrightarrow> integrity_but S d"
  unfolding integrity_but_def by blast

lemma integrity_empty_db: "integrity empty_db"
  using schema_empty_db by (simp add: integrity_def integrity_but_def empty_db_def)

lemma integrityD:
  assumes "integrity_but T d"
  shows "\<And>t. t \<in> set (tenants d) \<Longrightarrow> tenant_texts_ok t"
    "\<And>t. t \<in> set (tenants d) \<Longrightarrow> is_owned t \<Longrightarrow> has_owner d (tr_id t)"
    "\<And>t. t \<in> set (tenants d) \<Longrightarrow> \<not> is_owned t \<Longrightarrow> tr_id t \<notin> T \<Longrightarrow> no_rows_of d (tr_id t)"
    "\<And>e. e \<in> set (events d) \<Longrightarrow> event_row_ok d e"
    "\<And>m. m \<in> set (memberships d) \<Longrightarrow> display_name_ok (mr_display_name m)"
    "\<And>i. i \<in> set (invitations d) \<Longrightarrow> display_name_ok (ir_display_name i)"
  using assms by (simp_all add: integrity_but_def)

lemma integrity_butI:
  assumes "schema_ok d" and "\<And>t. t \<in> set (tenants d) \<Longrightarrow> tenant_texts_ok t"
    and "\<And>t. t \<in> set (tenants d) \<Longrightarrow> is_owned t \<Longrightarrow> has_owner d (tr_id t)"
    and "\<And>t. t \<in> set (tenants d) \<Longrightarrow> \<not> is_owned t \<Longrightarrow> tr_id t \<notin> T \<Longrightarrow> no_rows_of d (tr_id t)"
    and "\<And>e. e \<in> set (events d) \<Longrightarrow> event_row_ok d e"
    and "\<And>m. m \<in> set (memberships d) \<Longrightarrow> display_name_ok (mr_display_name m)"
    and "\<And>i. i \<in> set (invitations d) \<Longrightarrow> display_name_ok (ir_display_name i)"
  shows "integrity_but T d"
  using assms by (simp add: integrity_but_def)

section \<open>Tenants\<close>

lemma varchar_Inr_short: "varchar n s = Inr s' \<Longrightarrow> RuneCountInString s \<le> n \<Longrightarrow> s' = s"
  by (simp add: varchar_def)

lemma foreign_rows:
  assumes "schema_ok d" and "tid \<notin> tr_id ` set (tenants d)"
  shows "no_rows_of d tid"
  using assms by (auto simp: no_rows_of_def list_all_iff schema_ok_def events_ok_iff memberships_ok_iff
      invitations_ok_iff)

lemma integrity_insert_pending:
  assumes i: "integrity d" and run: "sql_insert_tenant r d = Inr d'"
    and r: "tr_ownership_state r = ''pending_owner''" "tr_subdomain r = None"
      "tr_claim_hash r = Some h" "List.length h = 32"
  shows "integrity d'"
proof -
  have ok: "schema_ok d" by (rule integrity_schema(1) [OF i])
  from run obtain r' where put: "put_tenants (tenants d @ [r']) d = Inr d'"
    and r': "tr_ownership_state r' = ''pending_owner''" "tr_subdomain r' = None" "tr_claim_hash r' = Some h"
      "tr_id r' = tr_id r"
    using r by (auto simp: sql_insert_tenant_def bind_result_Inr_iff)
  from put have d': "d' = d\<lparr>tenants := tenants d @ [r']\<rparr>"
    and v: "tenants_violation (tenants d @ [r']) = None" by (simp_all add: put_Inr)
  from v have "distinct (map tr_id (tenants d @ [r']))" by (simp add: tenants_ok_iff)
  then have fresh: "tr_id r' \<notin> tr_id ` set (tenants d)" by auto
  have "schema_ok d'" by (rule schema_put_tenants [OF ok put]) auto
  moreover have "no_rows_of d (tr_id r')" by (rule foreign_rows [OF ok fresh])
  ultimately show ?thesis
    using i r' r(4) unfolding integrity_def
    by (auto simp: d' integrity_but_def tenant_texts_ok_def is_owned_def has_owner_def no_rows_of_def
        event_row_ok_def)
qed

lemma integrity_delete_tenants:
  assumes i: "integrity d" and p: "\<And>t. p t \<Longrightarrow> \<not> is_owned t"
  shows "integrity (delete_tenants p d)"
  unfolding integrity_def
proof (rule integrity_butI)
  let ?d = "delete_tenants p d"
  note D = integrityD [OF i [unfolded integrity_def]]
  have ok: "schema_ok d" by (rule integrity_schema(1) [OF i])
  have kept: "tr_id t \<notin> tr_id ` set (filter p (tenants d))" if "t \<in> set (tenants d)" "\<not> p t" for t
    using that schema_tenant_key(1) [OF ok] by auto
  show "schema_ok ?d" by (rule schema_delete_tenants [OF ok])
  show "tenant_texts_ok t" if "t \<in> set (tenants ?d)" for t using that D(1) by simp
  show "has_owner ?d (tr_id t)" if "t \<in> set (tenants ?d)" "is_owned t" for t
  proof -
    from that D(2) [of t] obtain m where "m \<in> set (memberships d)" "mr_tenant_id m = tr_id t"
      "mr_tenant_role m = ''owner''" by (auto simp: has_owner_def list_ex_iff)
    with that kept [of t] show ?thesis
      unfolding has_owner_def list_ex_iff by (intro bexI [of _ m]) (auto simp: delete_tenants_def Let_def)
  qed
  show "no_rows_of ?d (tr_id t)" if "t \<in> set (tenants ?d)" "\<not> is_owned t" for t
    using that D(3) [of t] by (auto simp: no_rows_of_def list_all_iff delete_tenants_def Let_def)
  show "event_row_ok ?d e" if "e \<in> set (events ?d)" for e
  proof -
    have e: "e \<in> set (events d)" "evr_tenant_id e \<notin> tr_id ` set (filter p (tenants d))"
      using that by (auto simp: delete_tenants_def Let_def)
    with D(4) obtain t where "t \<in> set (tenants d)" "tr_id t = evr_tenant_id e"
      "tr_public_id t = evr_tenant_public_id e" "is_Inr (ParseEventStatus (evr_status e))"
      by (auto simp: event_row_ok_def list_ex_iff)
    moreover from this e(2) have "\<not> p t" by (metis (mono_tags) image_eqI mem_Collect_eq set_filter)
    ultimately show ?thesis
      unfolding event_row_ok_def list_ex_iff by (intro conjI bexI [of _ t]) simp_all
  qed
  show "display_name_ok (mr_display_name m)" if "m \<in> set (memberships ?d)" for m
    using that D(5) by (auto simp: delete_tenants_def Let_def)
  show "display_name_ok (ir_display_name j)" if "j \<in> set (invitations ?d)" for j
    using that D(6) by (auto simp: delete_tenants_def Let_def)
qed

lemma integrity_sweep:
  assumes "integrity d" and "sql_delete_expired_pending now d = Inr (n, d')"
  shows "integrity d'"
proof -
  have "integrity (delete_tenants (\<lambda>r. tr_ownership_state r = ''pending_owner''
      \<and> (case tr_claim_expires r of None \<Rightarrow> False | Some x \<Rightarrow> x \<le> pg_time now)) d)"
    by (rule integrity_delete_tenants [OF assms(1)]) (auto simp: is_owned_def)
  then show ?thesis using assms(2)
    by (auto simp: sql_delete_expired_pending_def Let_def ownership_state_defs)
qed

text \<open>An update of the tenants that keeps their identifiers.\<close>

lemma integrity_update_tenants:
  assumes i: "integrity_but T d" and put: "put_tenants (update_where p f (tenants d)) d = Inr d'"
    and ids: "\<And>t. tr_id (f t) = tr_id t" "\<And>t. tr_public_id (f t) = tr_public_id t"
    and texts: "\<And>t. t \<in> set (tenants d) \<Longrightarrow> p t \<Longrightarrow> tenant_texts_ok (f t)"
    and owned: "\<And>t. t \<in> set (tenants d) \<Longrightarrow> p t \<Longrightarrow> is_owned (f t) \<Longrightarrow> has_owner d (tr_id t)"
    and pending: "\<And>t. t \<in> set (tenants d) \<Longrightarrow> p t \<Longrightarrow> \<not> is_owned (f t) \<Longrightarrow> tr_id t \<notin> S \<Longrightarrow> no_rows_of d (tr_id t)"
    and others: "\<And>t. t \<in> set (tenants d) \<Longrightarrow> \<not> p t \<Longrightarrow> tr_id t \<in> T \<Longrightarrow> is_owned t \<or> tr_id t \<in> S"
  shows "integrity_but S d'"
proof (rule integrity_butI)
  note D = integrityD [OF i]
  from put have d': "d' = d\<lparr>tenants := update_where p f (tenants d)\<rparr>" by (simp add: put_Inr)
  have rows: "\<exists>s \<in> set (tenants d). tr_id t = tr_id s \<and> tr_public_id t = tr_public_id s
      \<and> (p s \<and> t = f s \<or> \<not> p s \<and> t = s)" if "t \<in> set (tenants d')" for t
    using that ids by (auto simp: d' set_update_where)
  have id_set: "tr_id ` set (update_where p f (tenants d)) = tr_id ` set (tenants d)"
    by (metis map_update_where ids(1) set_map)
  show "schema_ok d'" by (rule schema_put_tenants [OF integrity_schema(2) [OF i] put]) (simp add: id_set)
  show "tenant_texts_ok t" if "t \<in> set (tenants d')" for t
    using rows [OF that] texts D(1) by auto
  show "has_owner d' (tr_id t)" if "t \<in> set (tenants d')" "is_owned t" for t
  proof -
    from rows [OF that(1)] that(2) owned D(2) have "has_owner d (tr_id t)" by auto
    then show ?thesis by (simp add: d' has_owner_def)
  qed
  show "no_rows_of d' (tr_id t)" if "t \<in> set (tenants d')" "\<not> is_owned t" "tr_id t \<notin> S" for t
  proof -
    from rows [OF that(1)] that(2,3) pending others D(3) have "no_rows_of d (tr_id t)" by metis
    then show ?thesis by (simp add: d' no_rows_of_def)
  qed
  show "event_row_ok d' e" if "e \<in> set (events d')" for e
  proof -
    from that D(4) [of e] obtain t where t: "t \<in> set (tenants d)" "tr_id t = evr_tenant_id e"
      "tr_public_id t = evr_tenant_public_id e" "is_Inr (ParseEventStatus (evr_status e))"
      by (auto simp: d' event_row_ok_def list_ex_iff)
    from t(1) have "(if p t then f t else t) \<in> set (tenants d')" by (auto simp: d' update_where_def)
    moreover have "tr_id (if p t then f t else t) = evr_tenant_id e
        \<and> tr_public_id (if p t then f t else t) = evr_tenant_public_id e" using t ids by simp
    ultimately show ?thesis using t(4) unfolding event_row_ok_def list_ex_iff by blast
  qed
qed (use integrityD [OF i] put in \<open>auto simp: put_Inr\<close>)

lemma integrity_mark_owned:
  assumes i: "integrity_but {tid} d" and run: "sql_mark_tenant_owned tid sub d = Inr (n, d')"
    and sub: "sub = Some s" "is_Inr (ParseSubdomain s)" and own: "has_owner d tid"
  shows "integrity d'"
proof -
  let ?f = "\<lambda>r. r\<lparr>tr_ownership_state := ''owned'', tr_subdomain := sub,
      tr_claim_hash := None, tr_claim_expires := None\<rparr>"
  let ?p = "\<lambda>r. tr_id r = tid \<and> tr_ownership_state r = ''pending_owner''"
  have put: "put_tenants (update_where ?p ?f (tenants d)) d = Inr d'"
    using run by (simp add: sql_mark_tenant_owned_def ownership_state_defs Let_def bind_result_Inr_iff)
  have state: "is_owned t \<or> tr_ownership_state t = ''pending_owner''" if "t \<in> set (tenants d)" for t
    using schema_tenant_state [OF integrity_schema(2) [OF i] that] by (auto simp: is_owned_def)
  show ?thesis unfolding integrity_def
    by (rule integrity_update_tenants [OF i put])
      (use sub own state in \<open>auto simp: tenant_texts_ok_def is_owned_def\<close>)
qed

lemma integrity_update_tenant:
  assumes i: "integrity d" and run: "sql_update_tenant tid plan arch d = Inr (n, d')"
  shows "integrity d'"
proof -
  note D = integrityD [OF i [unfolded integrity_def]]
  from run obtain pl where put: "put_tenants (update_where (\<lambda>r. tr_id r = tid)
      (\<lambda>r. r\<lparr>tr_contract_plan := pl, tr_archived := arch\<rparr>) (tenants d)) d = Inr d'"
    by (auto simp: sql_update_tenant_def bind_result_Inr_iff)
  show ?thesis unfolding integrity_def
    by (rule integrity_update_tenants [OF i [unfolded integrity_def] put])
      (use D in \<open>auto simp: tenant_texts_ok_def is_owned_def\<close>)
qed

section \<open>Events\<close>

lemma integrity_events:
  assumes i: "integrity d" and put: "put_events es d = Inr d'"
    and keys: "(\<lambda>e. (evr_id e, evr_tenant_id e)) ` set (events d) \<subseteq> (\<lambda>e. (evr_id e, evr_tenant_id e)) ` set es"
    and rows: "\<And>e. e \<in> set es \<Longrightarrow> event_row_ok d e"
    and hosts: "\<And>e t. e \<in> set es \<Longrightarrow> t \<in> set (tenants d) \<Longrightarrow> tr_id t = evr_tenant_id e \<Longrightarrow> is_owned t"
  shows "integrity d'"
proof -
  note D = integrityD [OF i [unfolded integrity_def]]
  from put have d': "d' = d\<lparr>events := es\<rparr>" by (simp add: put_Inr)
  have "schema_ok d'" by (rule schema_put_events [OF integrity_schema(1) [OF i] put keys])
  moreover have "no_rows_of d' (tr_id t)" if "t \<in> set (tenants d)" "\<not> is_owned t" for t
    using D(3) [OF that] hosts that by (auto simp: d' no_rows_of_def list_all_iff)
  ultimately show ?thesis using D rows
    by (auto simp: integrity_def integrity_but_def d' has_owner_def event_row_ok_def)
qed

lemma event_host_owned:
  assumes "integrity d" and "e \<in> set (events d)" and "t \<in> set (tenants d)" and "tr_id t = evr_tenant_id e"
  shows "is_owned t"
  using integrityD(3) [OF assms(1) [unfolded integrity_def] assms(3)] assms(2,4)
  by (auto simp: no_rows_of_def list_all_iff)

lemma integrity_insert_event:
  assumes i: "integrity d" and run: "sql_insert_event r d = Inr (n, d')"
    and st: "is_Inr (ParseEventStatus (evr_status r))"
    and t: "t \<in> set (tenants d)" "is_owned t" "evr_tenant_id r = tr_id t" "evr_tenant_public_id r = tr_public_id t"
  shows "integrity d'"
proof -
  note D = integrityD [OF i [unfolded integrity_def]]
  from run obtain pid name and hosts :: "tenant_row list" where
    put: "put_events (events d @ map (\<lambda>_. r\<lparr>evr_public_id := pid, evr_name := name\<rparr>) hosts) d = Inr d'"
    by (auto simp: sql_insert_event_def bind_result_Inr_iff Let_def)
  define es where "es = map (\<lambda>_ :: tenant_row. r\<lparr>evr_public_id := pid, evr_name := name\<rparr>) hosts"
  have es: "evr_status e = evr_status r \<and> evr_tenant_id e = evr_tenant_id r
      \<and> evr_tenant_public_id e = evr_tenant_public_id r" if "e \<in> set es" for e
    using that by (auto simp: es_def)
  have same: "s = t" if "s \<in> set (tenants d)" "tr_id s = tr_id t" for s
    using schema_tenant_key(1) [OF integrity_schema(1) [OF i] that(1) t(1)] that(2) by simp
  show ?thesis
  proof (rule integrity_events [OF i put [folded es_def]])
    show "event_row_ok d e" if "e \<in> set (events d @ es)" for e
      using that es D(4) st t by (auto simp: event_row_ok_def list_ex_iff)
    show "is_owned s" if "e \<in> set (events d @ es)" "s \<in> set (tenants d)" "tr_id s = evr_tenant_id e" for e s
    proof (cases "e \<in> set es")
      case True
      with es that t have "tr_id s = tr_id t" by simp
      with same that t(2) show ?thesis by blast
    qed (use that event_host_owned [OF i] in auto)
  qed auto
qed

lemma integrity_update_event:
  assumes i: "integrity d" and run: "sql_update_event eid name st d = Inr (n, d')"
    and st: "is_Inr (ParseEventStatus st)"
  shows "integrity d'"
proof -
  note D = integrityD [OF i [unfolded integrity_def]]
  from run obtain nm p where put: "put_events (update_where p
      (\<lambda>e. e\<lparr>evr_name := nm, evr_status := st\<rparr>) (events d)) d = Inr d'"
    by (auto simp: sql_update_event_def bind_result_Inr_iff Let_def)
  show ?thesis
  proof (rule integrity_events [OF i put])
    show "(\<lambda>e. (evr_id e, evr_tenant_id e)) ` set (events d)
      \<subseteq> (\<lambda>e. (evr_id e, evr_tenant_id e)) ` set (update_where p (\<lambda>e. e\<lparr>evr_name := nm, evr_status := st\<rparr>) (events d))"
      unfolding set_map [symmetric] by (simp add: map_update_where)
  qed (use D(4) st event_host_owned [OF i] in \<open>auto simp: set_update_where event_row_ok_def\<close>)
qed

section \<open>Memberships and roles\<close>

lemma display_name_ok_parsed: "ParseDisplayName s = Inr n \<Longrightarrow> display_name_ok (dn_value n)"
  using ParseDisplayName_stable [of s n] by (cases n) (simp add: display_name_ok_def)

lemma display_name_ok_short: "display_name_ok s \<Longrightarrow> RuneCountInString s \<le> 64"
  unfolding display_name_ok_def ParseDisplayName_Inr_iff by (metis display_name.inject)

lemma integrity_memberships:
  assumes i: "integrity_but T d" and put: "put_memberships ms d = Inr d'"
    and keys: "(\<lambda>m. (mr_tenant_id m, mr_user_id m)) ` set (memberships d)
      \<subseteq> (\<lambda>m. (mr_tenant_id m, mr_user_id m)) ` set ms"
    and names: "\<And>m. m \<in> set ms \<Longrightarrow> display_name_ok (mr_display_name m)"
    and owners: "\<And>t. t \<in> set (tenants d) \<Longrightarrow> is_owned t \<Longrightarrow> has_owner d (tr_id t)
      \<Longrightarrow> \<exists>m \<in> set ms. mr_tenant_id m = tr_id t \<and> mr_tenant_role m = ''owner''"
    and hosts: "\<And>m t. m \<in> set ms \<Longrightarrow> t \<in> set (tenants d) \<Longrightarrow> tr_id t = mr_tenant_id m
      \<Longrightarrow> is_owned t \<or> tr_id t \<in> S"
    and S: "T \<subseteq> S"
  shows "integrity_but S d'"
proof -
  note D = integrityD [OF i]
  from put have d': "d' = d\<lparr>memberships := ms\<rparr>" by (simp add: put_Inr)
  have "schema_ok d'" by (rule schema_put_memberships [OF integrity_schema(2) [OF i] put keys])
  moreover have "no_rows_of d' (tr_id t)" if "t \<in> set (tenants d)" "\<not> is_owned t" "tr_id t \<notin> S" for t
  proof -
    have "no_rows_of d (tr_id t)" by (rule D(3)) (use that S in auto)
    then show ?thesis using hosts [OF _ that(1)] that by (fastforce simp: d' no_rows_of_def list_all_iff)
  qed
  moreover have "has_owner d' (tr_id t)" if "t \<in> set (tenants d)" "is_owned t" for t
    using owners [OF that D(2) [OF that]] by (auto simp: d' has_owner_def list_ex_iff)
  ultimately show ?thesis using D names
    by (auto simp: integrity_but_def d' event_row_ok_def)
qed

lemma membership_host_owned:
  assumes "integrity d" and "m \<in> set (memberships d)" and "t \<in> set (tenants d)" and "tr_id t = mr_tenant_id m"
  shows "is_owned t"
  using integrityD(3) [OF assms(1) [unfolded integrity_def] assms(3)] assms(2,4)
  by (auto simp: no_rows_of_def list_all_iff)

lemma insert_membership_cases:
  assumes "sql_insert_membership now tid u r n d = Inr d'" and "display_name_ok n"
  obtains u' where "varchar 255 u = Inr u'"
    and "put_memberships (memberships d @ [\<lparr>mr_tenant_id = tid, mr_user_id = u', mr_tenant_role = r,
      mr_display_name = n, mr_joined_at = now\<rparr>]) d = Inr d'"
  using assms(1) varchar_short [OF display_name_ok_short [OF assms(2)]]
  by (auto simp: sql_insert_membership_def bind_result_Inr_iff)

lemma integrity_insert_membership:
  assumes i: "integrity d" and run: "sql_insert_membership now tid u r n d = Inr d'"
    and n: "display_name_ok n"
    and T: "\<And>t. t \<in> set (tenants d) \<Longrightarrow> tr_id t = tid \<Longrightarrow> is_owned t \<or> tid \<in> T"
  shows "integrity_but T d'"
proof -
  note D = integrityD [OF i [unfolded integrity_def]]
  from run n obtain u' where put: "put_memberships (memberships d @ [\<lparr>mr_tenant_id = tid, mr_user_id = u',
      mr_tenant_role = r, mr_display_name = n, mr_joined_at = now\<rparr>]) d = Inr d'"
    by (rule insert_membership_cases)
  show ?thesis
    by (rule integrity_memberships [OF i [unfolded integrity_def] put])
      (use n T D(5) membership_host_owned [OF i] in \<open>auto simp: has_owner_def list_ex_iff\<close>)
qed

text \<open>Another owner than the user, by the count the use cases make.\<close>

definition owner_besides :: "db \<Rightarrow> string \<Rightarrow> string \<Rightarrow> bool" where
  "owner_besides d tid u \<longleftrightarrow>
     list_ex (\<lambda>m. mr_tenant_id m = tid \<and> mr_tenant_role m = ''owner'' \<and> mr_user_id m \<noteq> u) (memberships d)"

lemma two_rows_two_keys:
  assumes "distinct (map k rs)" and "1 < count_where p rs"
  shows "\<exists>r \<in> set rs. p r \<and> k r \<noteq> v"
proof (rule ccontr)
  assume "\<not> (\<exists>r \<in> set rs. p r \<and> k r \<noteq> v)"
  then have "count_where (\<lambda>r. p r \<and> k r = v) rs = count_where p rs"
    unfolding count_where_def by (intro arg_cong [where f = List.length] filter_cong) auto
  moreover have "count_where (\<lambda>r. p r \<and> k r = v) rs \<le> 1"
    by (rule count_where_le_one_key [OF assms(1)]) auto
  ultimately show False using assms(2) by simp
qed

lemma owner_besides_counted:
  assumes ok: "schema_ok d" and two: "1 < sql_count_owners tid d"
  shows "owner_besides d tid u"
proof -
  have "\<exists>m \<in> set (memberships d). (mr_tenant_id m = tid \<and> mr_tenant_role m = ''owner'')
      \<and> (mr_tenant_id m, mr_user_id m) \<noteq> (tid, u)"
    by (rule two_rows_two_keys [OF schema_keys(5) [OF ok]])
      (use two in \<open>simp add: sql_count_owners_def role_defs\<close>)
  then show ?thesis by (auto simp: owner_besides_def list_ex_iff)
qed

lemma owner_besides_other:
  assumes ok: "schema_ok d" and own: "has_owner d tid" and r: "current_role d tid u \<noteq> Some RoleOwner"
  shows "owner_besides d tid u"
proof -
  from own obtain m where m: "m \<in> set (memberships d)" "mr_tenant_id m = tid" "mr_tenant_role m = ''owner''"
    by (auto simp: has_owner_def list_ex_iff)
  have "mr_user_id m \<noteq> u"
  proof
    assume "mr_user_id m = u"
    with m have mem: "m \<in> set (filter (is_membership tid u) (memberships d))" by (simp add: is_membership_def)
    then obtain x where x: "first_row (filter (is_membership tid u) (memberships d)) = Some x"
      by (cases "filter (is_membership tid u) (memberships d)") auto
    then have "x \<in> set (memberships d)" "is_membership tid u x" by (auto dest: first_row_filter_SomeD)
    with mem have "x = m"
      by (intro schema_membership_key [OF ok]) (auto simp: is_membership_def)
    with x m(3) r show False by (simp add: current_role_def)
  qed
  with m show ?thesis by (auto simp: owner_besides_def list_ex_iff)
qed

lemma integrity_update_role:
  assumes i: "integrity d" and run: "sql_update_tenant_role tid u r d = Inr (n, d')"
    and r: "r = ''owner'' \<or> owner_besides d tid u"
  shows "integrity d'"
proof -
  note D = integrityD [OF i [unfolded integrity_def]]
  let ?ms = "update_where (is_membership tid u) (\<lambda>m. m\<lparr>mr_tenant_role := r\<rparr>) (memberships d)"
  from run have put: "put_memberships ?ms d = Inr d'"
    by (auto simp: sql_update_tenant_role_def bind_result_Inr_iff)
  have "\<exists>m \<in> set ?ms. mr_tenant_id m = tr_id t \<and> mr_tenant_role m = ''owner''"
    if own: "has_owner d (tr_id t)" for t
  proof -
    from own obtain m where m: "m \<in> set (memberships d)" "mr_tenant_id m = tr_id t" "mr_tenant_role m = ''owner''"
      by (auto simp: has_owner_def list_ex_iff)
    show ?thesis
    proof (cases "is_membership tid u m \<and> r \<noteq> ''owner''")
      case False
      with m show ?thesis
        by (intro bexI [of _ "if is_membership tid u m then m\<lparr>mr_tenant_role := r\<rparr> else m"])
          (auto simp: update_where_def)
    next
      case True
      with r obtain x where "x \<in> set (memberships d)" "mr_tenant_id x = tid" "mr_tenant_role x = ''owner''"
        "mr_user_id x \<noteq> u" by (auto simp: owner_besides_def list_ex_iff)
      with True m show ?thesis by (intro bexI [of _ x]) (auto simp: set_update_where is_membership_def)
    qed
  qed
  then show ?thesis unfolding integrity_def
  proof (intro integrity_memberships [OF i [unfolded integrity_def] put])
    show "(\<lambda>m. (mr_tenant_id m, mr_user_id m)) ` set (memberships d) \<subseteq> (\<lambda>m. (mr_tenant_id m, mr_user_id m)) ` set ?ms"
      unfolding set_map [symmetric] by (simp add: map_update_where)
  qed (use D(5) membership_host_owned [OF i] in \<open>auto simp: set_update_where\<close>)
qed

lemma integrity_delete_membership:
  assumes i: "integrity d" and run: "sql_delete_membership tid u d = Inr (n, d')"
    and other: "owner_besides d tid u \<or> \<not> (\<exists>m \<in> set (memberships d). is_membership tid u m)"
  shows "integrity d'"
proof -
  note D = integrityD [OF i [unfolded integrity_def]]
  have d': "d' = delete_memberships (is_membership tid u) d"
    using run by (simp add: sql_delete_membership_def)
  have "schema_ok d'" unfolding d' by (rule schema_delete_memberships [OF integrity_schema(1) [OF i]])
  moreover have "has_owner d' (tr_id t)" if t: "t \<in> set (tenants d)" "is_owned t" for t
  proof -
    from D(2) [OF t] obtain m where m: "m \<in> set (memberships d)" "mr_tenant_id m = tr_id t"
      "mr_tenant_role m = ''owner''" by (auto simp: has_owner_def list_ex_iff)
    show ?thesis
    proof (cases "is_membership tid u m")
      case False
      with m show ?thesis by (auto simp: d' has_owner_def list_ex_iff)
    next
      case True
      with other m obtain x where "x \<in> set (memberships d)" "mr_tenant_id x = tid" "mr_tenant_role x = ''owner''"
        "mr_user_id x \<noteq> u" by (auto simp: owner_besides_def list_ex_iff)
      with True m show ?thesis by (auto simp: d' has_owner_def list_ex_iff is_membership_def)
    qed
  qed
  moreover have "no_rows_of d' x" if "no_rows_of d x" for x
    using that by (auto simp: d' no_rows_of_def list_all_iff)
  ultimately show ?thesis using D
    by (auto simp: integrity_def integrity_but_def d' event_row_ok_def)
qed

lemma integrity_event_roles:
  assumes "integrity d" and "schema_ok (d\<lparr>event_roles := rs\<rparr>)"
  shows "integrity (d\<lparr>event_roles := rs\<rparr>)"
  using assms unfolding integrity_def integrity_but_def
  by (auto simp: has_owner_def no_rows_of_def event_row_ok_def)

lemma integrity_upsert_event_role:
  assumes i: "integrity d" and run: "sql_upsert_event_role eid u r d = Inr (x, d')"
  shows "integrity d'"
proof -
  from run obtain rs where put: "put_event_roles rs d = Inr d'"
    by (auto simp: sql_upsert_event_role_def bind_result_Inr_iff Let_def)
  then have "d' = d\<lparr>event_roles := rs\<rparr>" by (simp add: put_Inr)
  with schema_put_event_roles [OF integrity_schema(1) [OF i] put] i show ?thesis
    by (auto intro: integrity_event_roles)
qed

lemma integrity_delete_event_role:
  assumes i: "integrity d" and run: "sql_delete_event_role eid u d = Inr (n, d')"
  shows "integrity d'"
proof -
  have d': "d' = d\<lparr>event_roles := delete_where (is_event_role eid u) (event_roles d)\<rparr>"
    using run by (simp add: sql_delete_event_role_def)
  have "schema_ok d'" using integrity_schema(1) [OF i]
    by (auto simp: d' schema_ok_def event_roles_ok_iff intro: distinct_map_delete_where)
  with i show ?thesis by (auto simp: d' intro: integrity_event_roles)
qed

section \<open>Invitations\<close>

lemma integrity_invitations:
  assumes i: "integrity d" and put: "put_invitations is d = Inr d'"
    and names: "\<And>j. j \<in> set is \<Longrightarrow> display_name_ok (ir_display_name j)"
    and hosts: "\<And>j t. j \<in> set is \<Longrightarrow> t \<in> set (tenants d) \<Longrightarrow> tr_id t = ir_tenant_id j \<Longrightarrow> is_owned t"
  shows "integrity d'"
proof -
  note D = integrityD [OF i [unfolded integrity_def]]
  from put have d': "d' = d\<lparr>invitations := is\<rparr>" by (simp add: put_Inr)
  have "schema_ok d'" by (rule schema_put_invitations [OF integrity_schema(1) [OF i] put])
  moreover have "no_rows_of d' (tr_id t)" if "t \<in> set (tenants d)" "\<not> is_owned t" for t
    using D(3) [OF that] hosts that by (auto simp: d' no_rows_of_def list_all_iff)
  ultimately show ?thesis using D names
    by (auto simp: integrity_def integrity_but_def d' has_owner_def event_row_ok_def)
qed

lemma invitation_host_owned:
  assumes "integrity d" and "j \<in> set (invitations d)" and "t \<in> set (tenants d)" and "tr_id t = ir_tenant_id j"
  shows "is_owned t"
  using integrityD(3) [OF assms(1) [unfolded integrity_def] assms(3)] assms(2,4)
  by (auto simp: no_rows_of_def list_all_iff)

lemma integrity_insert_invitation:
  assumes i: "integrity d" and run: "sql_insert_invitation r d = Inr d'"
    and n: "display_name_ok (ir_display_name r)"
    and host: "\<And>t. t \<in> set (tenants d) \<Longrightarrow> tr_id t = ir_tenant_id r \<Longrightarrow> is_owned t"
  shows "integrity d'"
proof -
  from run obtain p where put: "put_invitations (invitations d @ [r\<lparr>ir_public_id := p\<rparr>]) d = Inr d'"
    using varchar_short [OF display_name_ok_short [OF n]]
    by (auto simp: sql_insert_invitation_def bind_result_Inr_iff)
  show ?thesis
    by (rule integrity_invitations [OF i put])
      (use integrityD(6) [OF i [unfolded integrity_def]] n host invitation_host_owned [OF i] in auto)
qed

lemma integrity_update_invitations:
  assumes i: "integrity d" and put: "put_invitations (update_where p f (invitations d)) d = Inr d'"
    and f: "\<And>j. ir_display_name (f j) = ir_display_name j" "\<And>j. ir_tenant_id (f j) = ir_tenant_id j"
  shows "integrity d'"
  by (rule integrity_invitations [OF i put])
    (use integrityD(6) [OF i [unfolded integrity_def]] f invitation_host_owned [OF i]
      in \<open>auto simp: set_update_where\<close>)

lemma integrity_accept_invitation:
  "integrity d \<Longrightarrow> sql_accept_invitation j u at d = Inr (n, d') \<Longrightarrow> integrity d'"
  by (auto simp: sql_accept_invitation_def bind_result_Inr_iff elim: integrity_update_invitations)

lemma integrity_revoke_invitation:
  "integrity d \<Longrightarrow> sql_revoke_invitation j at d = Inr (n, d') \<Longrightarrow> integrity d'"
  by (auto simp: sql_revoke_invitation_def bind_result_Inr_iff elim: integrity_update_invitations)

lemmas integrity_statements =
  integrity_sweep integrity_update_tenant integrity_upsert_event_role integrity_delete_event_role
  integrity_accept_invitation integrity_revoke_invitation

end
