(* ===== verification/Listings.thy ===== *)
theory Listings
  imports Integrity
begin

text \<open>
  What the repositories read.  On a database with integrity every row is read as the domain value
  below, and the listing of memberships, two joined queries and a grouping in the code, is the
  direct description \<open>members_of\<close>: each membership with the event roles of that member.
\<close>

section \<open>Tenants and events\<close>

definition tenant_of :: "tenant_row \<Rightarrow> tenant" where
  "tenant_of r =
     \<lparr>t_id = tr_id r, t_publicID = tr_public_id r, t_name = tr_name r, t_contractPlan = tr_contract_plan r,
      t_ownershipState = (if is_owned r then TenantOwnershipStateOwned else TenantOwnershipStatePendingOwner),
      t_subdomain = Subdomain (case tr_subdomain r of None \<Rightarrow> [] | Some s \<Rightarrow> s),
      t_archived = tr_archived r\<rparr>"

definition status_of :: "string \<Rightarrow> event_status" where
  "status_of s = (case ParseEventStatus s of Inr st \<Rightarrow> st | Inl _ \<Rightarrow> EventStatusUnspecified)"

definition event_of :: "event_row \<Rightarrow> event" where
  "event_of r =
     \<lparr>ev_id = evr_id r, ev_publicID = evr_public_id r, ev_tenantID = evr_tenant_id r,
      ev_tenantPublicID = evr_tenant_public_id r, ev_name = evr_name r, ev_status = status_of (evr_status r)\<rparr>"

lemma tenant_of_simps [simp]:
  "t_id (tenant_of r) = tr_id r" "t_publicID (tenant_of r) = tr_public_id r"
  "t_archived (tenant_of r) = tr_archived r" "t_contractPlan (tenant_of r) = tr_contract_plan r"
  "t_name (tenant_of r) = tr_name r" "Owned (tenant_of r) = is_owned r"
  "t_ownershipState (tenant_of r) = TenantOwnershipStatePendingOwner \<longleftrightarrow> \<not> is_owned r"
  by (simp_all add: tenant_of_def Owned_def ownership_state_defs)

lemma event_of_simps [simp]:
  "ev_id (event_of r) = evr_id r" "ev_publicID (event_of r) = evr_public_id r"
  "ev_tenantID (event_of r) = evr_tenant_id r" "ev_tenantPublicID (event_of r) = evr_tenant_public_id r"
  "ev_name (event_of r) = evr_name r" "ev_status (event_of r) = status_of (evr_status r)"
  by (simp_all add: event_of_def)

lemma ParseSubdomain_value: "ParseSubdomain s = Inr x \<Longrightarrow> x = Subdomain s"
  by (auto simp: ParseSubdomain_iff split: if_splits)

lemma tenantRow_domain_ok:
  assumes i: "integrity_but T d" and r: "r \<in> set (tenants d)"
  shows "tenantRow_domain c r = (case VerifyOwnership c (tr_public_id r) of
      Some e \<Rightarrow> Inl e | None \<Rightarrow> Inr (tenant_of r))"
proof -
  have texts: "tenant_texts_ok r" by (rule integrityD(1) [OF i r])
  have "(\<exists>s. tr_ownership_state r = ''owned'' \<and> tr_subdomain r = Some s)
      \<or> tr_ownership_state r = ''pending_owner'' \<and> tr_subdomain r = None"
    using schema_tenant_state [OF integrity_schema(2) [OF i] r] by blast
  then consider (owned) s where "tr_ownership_state r = ''owned''" "tr_subdomain r = Some s"
    | (pending) "tr_ownership_state r = ''pending_owner''" "tr_subdomain r = None"
    by (elim disjE exE conjE) assumption+
  then show ?thesis
  proof cases
    case owned
    with texts obtain x where x: "ParseSubdomain s = Inr x" by (auto simp: tenant_texts_ok_def is_Inr_conv)
    with ParseSubdomain_value [OF x] owned show ?thesis
      by (simp add: tenantRow_domain_def wrap_result_def tenant_of_def is_owned_def NewTenant_def split: option.split)
  next
    case pending
    then show ?thesis
      by (simp add: tenantRow_domain_def wrap_result_def tenant_of_def is_owned_def NewTenant_def split: option.split)
  qed
qed

lemma eventRow_domain_ok:
  assumes "integrity d" and "e \<in> set (events d)"
  shows "eventRow_domain c e = (case VerifyOwnership c (evr_tenant_public_id e) of
      Some x \<Rightarrow> Inl x | None \<Rightarrow> Inr (event_of e))"
proof -
  have "is_Inr (ParseEventStatus (evr_status e))"
    using integrityD(4) [OF assms(1) [unfolded integrity_def] assms(2)] by (simp add: event_row_ok_def)
  then show ?thesis
    by (auto simp: eventRow_domain_def is_Inr_conv event_of_def status_of_def NewEvent_def wrap_result_def
        split: option.split)
qed

lemma status_of_String: "st \<le> EventStatusArchived \<Longrightarrow> status_of (EventStatus_String st) = st"
  by (simp add: status_of_def ParseEventStatus_String)

lemma String_status_of: "is_Inr (ParseEventStatus s) \<Longrightarrow> EventStatus_String (status_of s) = s
    \<and> status_of s \<le> EventStatusArchived"
  by (metis ParseEventStatus_Inr_iff is_Inr_conv status_of_String)

section \<open>Memberships\<close>

definition role_of :: "string \<Rightarrow> role" where
  "role_of s = (if s = ''owner'' then RoleOwner else RoleStaff)"

definition event_public_id :: "db \<Rightarrow> string \<Rightarrow> string" where
  "event_public_id d eventID = (case first_row (filter (\<lambda>e. evr_id e = eventID) (events d)) of
      None \<Rightarrow> [] | Some e \<Rightarrow> evr_public_id e)"

definition tenant_public_id :: "db \<Rightarrow> string \<Rightarrow> string" where
  "tenant_public_id d tenantID = (case first_row (filter (\<lambda>t. tr_id t = tenantID) (tenants d)) of
      None \<Rightarrow> [] | Some t \<Rightarrow> tr_public_id t)"

definition roles_of_member :: "db \<Rightarrow> string \<Rightarrow> string \<Rightarrow> event_role list" where
  "roles_of_member d tenantID userID =
     map (\<lambda>r. NewEventRole (rr_event_id r) (event_public_id d (rr_event_id r)) (role_of (rr_role r)))
       (sort_key rr_event_id
         (filter (\<lambda>r. rr_tenant_id r = tenantID \<and> rr_user_id r = userID) (event_roles d)))"

definition membership_of :: "db \<Rightarrow> membership_row \<Rightarrow> membership" where
  "membership_of d m =
     NewMembership (mr_user_id m) (mr_tenant_id m) (tenant_public_id d (mr_tenant_id m))
       (role_of (mr_tenant_role m)) (DisplayName (mr_display_name m)) (mr_joined_at m)
       (roles_of_member d (mr_tenant_id m) (mr_user_id m))"

definition members_of :: "db \<Rightarrow> (membership_row \<Rightarrow> bool) \<Rightarrow> membership list" where
  "members_of d p = map (membership_of d)
     (sort_key (\<lambda>m. (mr_tenant_id m, mr_joined_at m, mr_user_id m)) (filter p (memberships d)))"

text \<open>A join against a table with a unique key is a map over the rows that refer to it.\<close>

lemma join_unique:
  assumes "distinct (map k table)" and "x \<in> set table" and "k x = v"
  shows "map f (filter (\<lambda>t. k t = v) table) = [f x]"
proof -
  have "filter (\<lambda>t. k t = k x) table = [x]" by (rule filter_unique_key [OF assms(1,2)])
  with assms(3) show ?thesis by simp
qed

lemma concat_singletons: "(\<And>x. x \<in> set xs \<Longrightarrow> f x = [g x]) \<Longrightarrow> concat (map f xs) = map g xs"
  by (induction xs) auto

lemma concat_guarded:
  "(\<And>x. x \<in> set xs \<Longrightarrow> f x = (if q x then [g x] else [])) \<Longrightarrow> concat (map f xs) = map g (filter q xs)"
  by (induction xs) auto

lemma sort_key_map: "sort_key k (map f xs) = map f (sort_key (\<lambda>x. k (f x)) xs)"
proof -
  have "insort_key k (f x) (map f ys) = map f (insort_key (\<lambda>x. k (f x)) x ys)" for x ys
    by (induction ys) auto
  then show ?thesis by (induction xs) auto
qed

lemma tenant_public_id_row:
  assumes "schema_ok d" and "t \<in> set (tenants d)"
  shows "tenant_public_id d (tr_id t) = tr_public_id t"
  using filter_unique_key [OF schema_keys(1) [OF assms(1)] assms(2)] by (simp add: tenant_public_id_def)

lemma event_public_id_row:
  assumes "schema_ok d" and "e \<in> set (events d)"
  shows "event_public_id d (evr_id e) = evr_public_id e"
  using filter_unique_key [OF schema_keys(3) [OF assms(1)] assms(2)] by (simp add: event_public_id_def)

definition membership_joined :: "db \<Rightarrow> membership_row \<Rightarrow> membership_join" where
  "membership_joined d m =
     \<lparr>mj_tenant_id = mr_tenant_id m, mj_tenant_public_id = tenant_public_id d (mr_tenant_id m),
      mj_user_id = mr_user_id m, mj_tenant_role = mr_tenant_role m, mj_display_name = mr_display_name m,
      mj_joined_at = mr_joined_at m\<rparr>"

lemma membership_join_row:
  assumes ok: "schema_ok d" and m: "m \<in> set (memberships d)"
  shows "map (join_membership m) (filter (\<lambda>t. tr_id t = mr_tenant_id m) (tenants d)) = [membership_joined d m]"
proof -
  from ok m obtain t where t: "t \<in> set (tenants d)" "tr_id t = mr_tenant_id m"
    by (auto simp: schema_ok_def memberships_ok_iff image_iff)
  with tenant_public_id_row [OF ok t(1)] show ?thesis
    by (simp add: join_unique [OF schema_keys(1) [OF ok]] join_membership_def membership_joined_def)
qed

lemma select_memberships_rows:
  assumes ok: "schema_ok d"
  shows "sql_select_memberships p d = map (membership_joined d)
    (sort_key (\<lambda>m. (mr_tenant_id m, mr_joined_at m, mr_user_id m)) (filter p (memberships d)))"
proof -
  have "concat (map (\<lambda>m. map (join_membership m) (filter (\<lambda>t. tr_id t = mr_tenant_id m) (tenants d)))
      (filter p (memberships d))) = map (membership_joined d) (filter p (memberships d))"
    by (rule concat_singletons) (simp add: membership_join_row [OF ok])
  then show ?thesis by (simp add: sql_select_memberships_def sort_key_map membership_joined_def)
qed

definition event_role_joined :: "db \<Rightarrow> event_role_row \<Rightarrow> event_role_join" where
  "event_role_joined d r =
     \<lparr>ej_tenant_id = rr_tenant_id r, ej_user_id = rr_user_id r, ej_event_id = rr_event_id r,
      ej_event_public_id = event_public_id d (rr_event_id r), ej_role = rr_role r\<rparr>"

definition of_member :: "db \<Rightarrow> (membership_row \<Rightarrow> bool) \<Rightarrow> event_role_row \<Rightarrow> bool" where
  "of_member d p r \<longleftrightarrow> (\<exists>m \<in> set (memberships d). p m \<and> mr_tenant_id m = rr_tenant_id r \<and> mr_user_id m = rr_user_id r)"

lemma event_role_join_row:
  assumes ok: "schema_ok d" and r: "r \<in> set (event_roles d)"
  shows "concat (map (\<lambda>m. map (join_event_role r m) (filter (\<lambda>e. evr_id e = rr_event_id r) (events d)))
      (filter (\<lambda>m. p m \<and> mr_tenant_id m = rr_tenant_id r \<and> mr_user_id m = rr_user_id r) (memberships d)))
    = (if of_member d p r then [event_role_joined d r] else [])"
proof -
  from ok r obtain e where e: "e \<in> set (events d)" "evr_id e = rr_event_id r"
    by (auto simp: schema_ok_def event_roles_ok_iff image_iff)
  have E: "map (join_event_role r m) (filter (\<lambda>e. evr_id e = rr_event_id r) (events d)) = [join_event_role r m e]" for m
    by (rule join_unique [OF schema_keys(3) [OF ok] e])
  from ok r obtain m where m: "m \<in> set (memberships d)" "mr_tenant_id m = rr_tenant_id r" "mr_user_id m = rr_user_id r"
    by (auto simp: schema_ok_def event_roles_ok_iff image_iff)
  have "filter (\<lambda>m. (mr_tenant_id m, mr_user_id m) = (rr_tenant_id r, rr_user_id r)) (memberships d) = [m]"
    using filter_unique_key [OF schema_keys(5) [OF ok] m(1)] m by simp
  then have "filter p (filter (\<lambda>m. mr_tenant_id m = rr_tenant_id r \<and> mr_user_id m = rr_user_id r) (memberships d))
      = filter p [m]" by simp
  then have "filter (\<lambda>m. p m \<and> mr_tenant_id m = rr_tenant_id r \<and> mr_user_id m = rr_user_id r) (memberships d)
      = (if p m then [m] else [])" by (simp add: conj_commute)
  moreover have "of_member d p r = p m"
    using m schema_membership_key [OF ok, of m] unfolding of_member_def by metis
  moreover have "join_event_role r m e = event_role_joined d r"
    using event_public_id_row [OF ok e(1)] e m by (simp add: join_event_role_def event_role_joined_def)
  ultimately show ?thesis by (simp add: E)
qed

lemma select_event_roles_rows:
  assumes ok: "schema_ok d"
  shows "sql_select_event_roles p d = map (event_role_joined d)
    (sort_key rr_event_id (filter (of_member d p) (event_roles d)))"
proof -
  have "concat (map (\<lambda>r. concat (map (\<lambda>m. map (join_event_role r m) (filter (\<lambda>e. evr_id e = rr_event_id r) (events d)))
      (filter (\<lambda>m. p m \<and> mr_tenant_id m = rr_tenant_id r \<and> mr_user_id m = rr_user_id r) (memberships d))))
      (event_roles d)) = map (event_role_joined d) (filter (of_member d p) (event_roles d))"
    by (rule concat_guarded) (simp add: event_role_join_row [OF ok])
  then show ?thesis by (simp add: sql_select_event_roles_def sort_key_map event_role_joined_def)
qed

lemma stored_role_of:
  "s = ''owner'' \<or> s = ''staff'' \<Longrightarrow> ParseRole s = Inr (role_of s)"
  by (auto simp: role_of_def)

definition role_entry :: "db \<Rightarrow> event_role_row \<Rightarrow> (string \<times> string) \<times> event_role" where
  "role_entry d r = ((rr_tenant_id r, rr_user_id r),
     NewEventRole (rr_event_id r) (event_public_id d (rr_event_id r)) (role_of (rr_role r)))"

lemma traverse_event_roles:
  assumes ok: "schema_ok d" and rs: "set rs \<subseteq> set (event_roles d)"
  shows "traverse eventRoleRow_domain (map (event_role_joined d) rs) = Inr (map (role_entry d) rs)"
proof -
  have "eventRoleRow_domain (event_role_joined d r) = Inr (role_entry d r)" if "r \<in> set rs" for r
  proof -
    have "rr_role r = ''owner'' \<or> rr_role r = ''staff''"
      using ok rs that by (auto simp: schema_ok_def event_roles_ok_iff)
    then show ?thesis
      using stored_role_of [of "rr_role r"] by (simp add: eventRoleRow_domain_def event_role_joined_def
          role_entry_def wrap_result_def)
  qed
  then show ?thesis by (induction rs) auto
qed

text \<open>Grouping the second query's rows by member gives that member's roles.\<close>

lemma grouped_roles:
  assumes m: "m \<in> set (memberships d)" "p m"
  shows "event_roles_at (map (role_entry d) (sort_key rr_event_id (filter (of_member d p) (event_roles d))))
      (mr_tenant_id m, mr_user_id m)
    = roles_of_member d (mr_tenant_id m) (mr_user_id m)"
proof -
  let ?key = "\<lambda>r. rr_tenant_id r = mr_tenant_id m \<and> rr_user_id r = mr_user_id m"
  have "filter ?key (filter (of_member d p) (event_roles d)) = filter ?key (event_roles d)"
    using m by (auto simp: of_member_def intro!: filter_cong)
  then have "filter ?key (sort_key rr_event_id (filter (of_member d p) (event_roles d)))
      = sort_key rr_event_id (filter ?key (event_roles d))"
    by (simp add: filter_sort)
  then show ?thesis
    by (simp add: event_roles_at_def filter_map comp_def role_entry_def roles_of_member_def conj_commute)
qed

lemma membershipRow_ok:
  assumes i: "integrity_but T d" and m: "m \<in> set (memberships d)" "p m"
  shows "membershipRow_domain c
      (map (role_entry d) (sort_key rr_event_id (filter (of_member d p) (event_roles d)))) (membership_joined d m)
    = (case VerifyOwnership c (tenant_public_id d (mr_tenant_id m)) of
        Some e \<Rightarrow> Inl e | None \<Rightarrow> Inr (membership_of d m))"
proof -
  have "mr_tenant_role m = ''owner'' \<or> mr_tenant_role m = ''staff''"
    using integrity_schema(2) [OF i] m by (auto simp: schema_ok_def memberships_ok_iff)
  moreover have "ParseDisplayName (mr_display_name m) = Inr (DisplayName (mr_display_name m))"
    using integrityD(5) [OF i m(1)] by (simp add: display_name_ok_def)
  ultimately show ?thesis
    using stored_role_of [of "mr_tenant_role m"] grouped_roles [where p = p, OF m]
    by (simp add: membershipRow_domain_def membership_joined_def wrap_result_def membership_of_def split: option.split)
qed

text \<open>
  The rule of a listing: all the members, unless one of them is of a tenant the caller may not see.
\<close>

lemma runs_listMemberships:
  assumes i: "integrity_but T d"
    and seen: "(\<And>m. m \<in> set (memberships d) \<Longrightarrow> p m \<Longrightarrow> VerifyOwnership c (tenant_public_id d (mr_tenant_id m)) = None)
      \<Longrightarrow> Q (members_of d p) d"
    and foreign: "\<And>m e. m \<in> set (memberships d) \<Longrightarrow> p m
      \<Longrightarrow> VerifyOwnership c (tenant_public_id d (mr_tenant_id m)) = Some e \<Longrightarrow> R e d"
    and broken: "\<And>f s. \<not> healthy E \<Longrightarrow> R (Wrap s (fault_err f)) d"
  shows "runs E c d (MembershipRepo_listMemberships c p) Q R"
proof -
  let ?ms = "sort_key (\<lambda>m. (mr_tenant_id m, mr_joined_at m, mr_user_id m)) (filter p (memberships d))"
  let ?rs = "sort_key rr_event_id (filter (of_member d p) (event_roles d))"
  let ?f = "\<lambda>m. membershipRow_domain c (map (role_entry d) ?rs) (membership_joined d m)"
  let ?chk = "\<lambda>m. VerifyOwnership c (tenant_public_id d (mr_tenant_id m))"
  have ok: "schema_ok d" by (rule integrity_schema(2) [OF i])
  have roles: "traverse eventRoleRow_domain (map (event_role_joined d) ?rs) = Inr (map (role_entry d) ?rs)"
    by (rule traverse_event_roles [OF ok]) auto
  have row: "?f m = (case ?chk m of Some e \<Rightarrow> Inl e | None \<Rightarrow> Inr (membership_of d m))" if "m \<in> set ?ms" for m
    using membershipRow_ok [OF i, of m p] that by simp
  have map_f: "traverse (membershipRow_domain c (map (role_entry d) ?rs)) (map (membership_joined d) ?ms)
      = traverse ?f ?ms" by (rule traverse_map)
  have found: "Q ys d" if "traverse ?f ?ms = Inr ys" for ys
    using traverse_checked_Inr [OF row that] seen by (simp add: members_of_def)
  have failed: "R e d" if "traverse ?f ?ms = Inl e" for e
    using traverse_checked_Inl [OF row that] foreign by auto
  have none: "Q [] d" if "?ms = []"
  proof -
    from that have "filter p (memberships d) = []" by (metis set_empty set_sort)
    with seen show ?thesis by (simp add: members_of_def filter_empty_conv)
  qed
  show ?thesis
    unfolding MembershipRepo_listMemberships_def
    by (intro tri)
      (use broken none found failed in
        \<open>auto simp: select_memberships_rows [OF ok] select_event_roles_rows [OF ok] roles map_f\<close>)
qed

text \<open>One membership, by its key.\<close>

lemma members_of_one:
  assumes ok: "schema_ok d" and m: "m \<in> set (memberships d)"
  shows "members_of d (is_membership (mr_tenant_id m) (mr_user_id m)) = [membership_of d m]"
proof -
  have "filter (\<lambda>x. (mr_tenant_id x, mr_user_id x) = (mr_tenant_id m, mr_user_id m)) (memberships d) = [m]"
    by (rule filter_unique_key [OF schema_keys(5) [OF ok] m])
  then have "filter (is_membership (mr_tenant_id m) (mr_user_id m)) (memberships d) = [m]"
    unfolding is_membership_def prod.inject .
  then show ?thesis by (simp add: members_of_def)
qed

lemma runs_FindMembership:
  assumes i: "integrity_but T d"
    and found: "\<And>m. m \<in> set (memberships d) \<Longrightarrow> mr_tenant_id m = t \<Longrightarrow> mr_user_id m = u
      \<Longrightarrow> VerifyOwnership c (tenant_public_id d t) = None \<Longrightarrow> Q (membership_of d m) d"
    and missing: "(\<And>m. m \<in> set (memberships d) \<Longrightarrow> \<not> is_membership t u m)
      \<Longrightarrow> R (Sentinel (RelationRepo ErrMembershipNotFound)) d"
    and foreign: "\<And>e. VerifyOwnership c (tenant_public_id d t) = Some e \<Longrightarrow> R e d"
    and broken: "\<And>f s. \<not> healthy E \<Longrightarrow> R (Wrap s (fault_err f)) d"
  shows "runs E c d (MembershipRepo_FindMembership c t u) Q R"
  unfolding MembershipRepo_FindMembership_def
proof (rule runs_and_then, rule runs_listMemberships [OF i], goal_cases)
  case 1
  have ok: "schema_ok d" by (rule integrity_schema(2) [OF i])
  show ?case
  proof (cases "members_of d (is_membership t u)")
    case Nil
    then have "set (filter (is_membership t u) (memberships d)) = {}"
      unfolding members_of_def map_is_Nil_conv by (metis set_empty set_sort)
    then have "\<not> is_membership t u m" if "m \<in> set (memberships d)" for m
      using that by (simp add: filter_empty_conv)
    from missing [OF this] show ?thesis unfolding Nil by (simp add: runs_fail)
  next
    case (Cons x xs)
    have "x \<in> set (members_of d (is_membership t u))" by (simp add: Cons)
    then obtain m where m: "m \<in> set (memberships d)" "is_membership t u m"
      by (auto simp: members_of_def)
    then have key: "mr_tenant_id m = t" "mr_user_id m = u" by (simp_all add: is_membership_def)
    with members_of_one [OF ok m(1)] have "members_of d (is_membership t u) = [membership_of d m]" by simp
    moreover have "Q (membership_of d m) d"
      by (rule found [OF m(1) key]) (use 1 [OF m] key in simp)
    ultimately show ?thesis by (simp add: runs_ret)
  qed
next
  case (2 m e)
  then show ?case using foreign by (simp add: is_membership_def)
next
  case (3 f s)
  then show ?case by (rule broken)
qed

section \<open>Invitations\<close>

definition invitation_of :: "db \<Rightarrow> invitation_row \<Rightarrow> invitation" where
  "invitation_of d i =
     NewInvitation (ir_id i) (ir_public_id i) (ir_tenant_id i) (tenant_public_id d (ir_tenant_id i))
       RoleStaff (DisplayName (ir_display_name i)) (ir_expires_at i)
       (if ir_accepted_at i \<noteq> None then InvitationAccepted
        else if ir_revoked_at i \<noteq> None then InvitationRevoked else InvitationPending)"

definition invitation_row_open :: "time \<Rightarrow> invitation_row \<Rightarrow> bool" where
  "invitation_row_open now i \<longleftrightarrow> ir_accepted_at i = None \<and> ir_revoked_at i = None \<and> now < ir_expires_at i"

lemma invitation_of_simps [simp]:
  "i_id (invitation_of d i) = ir_id i" "i_role (invitation_of d i) = RoleStaff"
  "i_displayName (invitation_of d i) = DisplayName (ir_display_name i)"
  "i_publicID (invitation_of d i) = ir_public_id i" "i_tenantID (invitation_of d i) = ir_tenant_id i"
  by (simp_all add: invitation_of_def NewInvitation_def)

lemma invitation_Open_of [simp]: "invitation_Open (invitation_of d i) now = invitation_row_open now i"
  by (simp add: invitation_of_def NewInvitation_def invitation_Open_def invitation_row_open_def invitation_state_defs)

definition invitation_joined :: "db \<Rightarrow> invitation_row \<Rightarrow> invitation_join" where
  "invitation_joined d i =
     \<lparr>ij_id = ir_id i, ij_public_id = ir_public_id i, ij_tenant_id = ir_tenant_id i,
      ij_tenant_public_id = tenant_public_id d (ir_tenant_id i), ij_tenant_role = ir_tenant_role i,
      ij_display_name = ir_display_name i, ij_expires_at = ir_expires_at i,
      ij_accepted = (ir_accepted_at i \<noteq> None), ij_revoked = (ir_revoked_at i \<noteq> None)\<rparr>"

lemma invitationSelect_rows:
  assumes ok: "schema_ok d" and sub: "set is \<subseteq> set (invitations d)"
  shows "invitationSelect is d = map (invitation_joined d) is"
  unfolding invitationSelect_def
proof (rule concat_singletons)
  fix i assume "i \<in> set is"
  with sub have "i \<in> set (invitations d)" by auto
  with ok obtain t where t: "t \<in> set (tenants d)" "tr_id t = ir_tenant_id i"
    by (auto simp: schema_ok_def invitations_ok_iff image_iff)
  with tenant_public_id_row [OF ok t(1)]
  show "map (join_invitation i) (filter (\<lambda>t. tr_id t = ir_tenant_id i) (tenants d)) = [invitation_joined d i]"
    by (simp add: join_unique [OF schema_keys(1) [OF ok]] join_invitation_def invitation_joined_def)
qed

lemma invitationRow_ok:
  assumes i: "integrity d" and j: "j \<in> set (invitations d)"
  shows "invitationRow_domain (invitation_joined d j) = Inr (invitation_of d j)"
proof -
  have "ir_tenant_role j = ''staff''"
    using integrity_schema(1) [OF i] j by (auto simp: schema_ok_def invitations_ok_iff)
  moreover have "ParseDisplayName (ir_display_name j) = Inr (DisplayName (ir_display_name j))"
    using integrityD(6) [OF i [unfolded integrity_def] j] by (simp add: display_name_ok_def)
  ultimately show ?thesis
    by (simp add: invitationRow_domain_def invitation_joined_def invitation_of_def wrap_result_def)
qed

lemma runs_findInvitation:
  assumes i: "integrity d"
    and found: "\<And>j. j \<in> set (invitations d) \<Longrightarrow> p j \<Longrightarrow> Q (invitation_of d j) d"
    and missing: "(\<And>j. j \<in> set (invitations d) \<Longrightarrow> \<not> p j) \<Longrightarrow> R (Sentinel (RelationRepo ErrInvitationNotFound)) d"
    and broken: "\<And>f. \<not> healthy E \<Longrightarrow> R (Wrap ''find invitation'' (fault_err f)) d"
  shows "runs E c d (InvitationRepo_findInvitation c p) Q R"
proof -
  have rows: "invitationSelect (filter p (invitations d)) d = map (invitation_joined d) (filter p (invitations d))"
    by (rule invitationSelect_rows [OF integrity_schema(1) [OF i]]) auto
  show ?thesis
    unfolding InvitationRepo_findInvitation_def
  proof (intro tri, goal_cases)
    case (1 r x)
    then obtain j where "first_row (filter p (invitations d)) = Some j" "r = invitation_joined d j"
      unfolding rows by (cases "filter p (invitations d)") auto
    with 1 found invitationRow_ok [OF i] show ?case by (metis Inr_inject first_row_filter_SomeD)
  next
    case (2 r e)
    then obtain j where "first_row (filter p (invitations d)) = Some j" "r = invitation_joined d j"
      unfolding rows by (cases "filter p (invitations d)") auto
    with 2 invitationRow_ok [OF i] show ?case by (metis Inl_Inr_False first_row_filter_SomeD)
  qed (use missing broken in \<open>auto simp: rows filter_empty_conv\<close>)
qed

definition open_invitations :: "db \<Rightarrow> string \<Rightarrow> time \<Rightarrow> invitation list" where
  "open_invitations d tenantID now = map (invitation_of d)
     (sort_key (\<lambda>i. (ir_created_at i, ir_id i))
       (filter (\<lambda>i. ir_tenant_id i = tenantID \<and> invitation_row_open (pg_time now) i) (invitations d)))"

lemma runs_ListOpenInvitations:
  assumes i: "integrity d" and found: "Q (open_invitations d t now) d"
    and broken: "\<And>f. \<not> healthy E \<Longrightarrow> R (Wrap ''list invitations'' (fault_err f)) d"
  shows "runs E c d (InvitationRepo_ListOpenInvitations c t now) Q R"
proof -
  let ?is = "sort_key (\<lambda>i. (ir_created_at i, ir_id i))
      (filter (\<lambda>i. ir_tenant_id i = t \<and> invitation_row_open (pg_time now) i) (invitations d))"
  have "sql_select_open_invitations t now d = map (invitation_joined d) ?is"
    using invitationSelect_rows [OF integrity_schema(1) [OF i], of ?is]
    by (auto simp: sql_select_open_invitations_def invitation_row_open_def)
  moreover have "traverse invitationRow_domain (map (invitation_joined d) ?is) = Inr (map (invitation_of d) ?is)"
    unfolding traverse_map by (rule traverse_map_Inr) (simp add: invitationRow_ok [OF i])
  ultimately show ?thesis
    unfolding InvitationRepo_ListOpenInvitations_def
    by (intro tri) (use found broken in \<open>auto simp: open_invitations_def\<close>)
qed

section \<open>Event listings\<close>

definition listed_events :: "db \<Rightarrow> string \<Rightarrow> bool \<Rightarrow> event_row list" where
  "listed_events d tenantID includeArchived =
     take MaxListEvents (sort_key evr_id
       (filter (\<lambda>e. evr_tenant_id e = tenantID \<and> (includeArchived \<or> evr_status e \<noteq> ''archived'')) (events d)))"

lemma runs_ListEventsByTenantID:
  assumes i: "integrity d"
    and limit: "lf_Limit flt = int MaxListEvents"
    and found: "(\<And>e. e \<in> set (listed_events d t (lf_IncludeArchived flt))
        \<Longrightarrow> VerifyOwnership c (evr_tenant_public_id e) = None)
      \<Longrightarrow> Q (map event_of (listed_events d t (lf_IncludeArchived flt))) d"
    and foreign: "\<And>e x. e \<in> set (listed_events d t (lf_IncludeArchived flt))
        \<Longrightarrow> VerifyOwnership c (evr_tenant_public_id e) = Some x \<Longrightarrow> R x d"
    and broken: "\<And>f. \<not> healthy E \<Longrightarrow> R (fault_err f) d"
  shows "runs E c d (TenantRepo_ListEventsByTenantID c t flt) Q R"
proof -
  let ?es = "listed_events d t (lf_IncludeArchived flt)"
  have sub: "set ?es \<subseteq> set (events d)"
    by (auto simp: listed_events_def dest: in_set_takeD)
  have rows: "sql_select_events t (lf_IncludeArchived flt) (EventStatus_String EventStatusArchived)
      (if lf_Limit flt \<le> 0 then MaxListEvents else nat (lf_Limit flt)) d = ?es"
    using limit by (simp add: sql_select_events_def listed_events_def event_status_defs)
  have row: "eventRow_domain c e = (case VerifyOwnership c (evr_tenant_public_id e) of
      Some x \<Rightarrow> Inl x | None \<Rightarrow> Inr (event_of e))" if "e \<in> set ?es" for e
    using eventRow_domain_ok [OF i] that sub by blast
  have "Q ys d" if "traverse (eventRow_domain c) ?es = Inr ys" for ys
    using traverse_checked_Inr [OF row that] found by simp
  moreover have "R x d" if "traverse (eventRow_domain c) ?es = Inl x" for x
    using traverse_checked_Inl [OF row that] foreign by auto
  ultimately show ?thesis
    unfolding TenantRepo_ListEventsByTenantID_def Let_def
    by (intro tri) (use broken in \<open>auto simp: rows\<close>)
qed

end
