(* ===== verification/TenantService.thy ===== *)
theory TenantService
  imports Listings
begin

text \<open>
  internal/tenant/application: the use cases of the tenant context.  The two ports to the relation
  side (membership.go, permission.go) and the configured time to live are the fields of the service;
  \<open>production_service\<close> is the wiring of cmd/server/main.go.
\<close>

definition ScopeTenantWrite_tenant :: string where
  "ScopeTenantWrite_tenant = ''tenant.write''"

definition DefaultOwnershipClaimTTL :: int where
  "DefaultOwnershipClaimTTL = 3600 * 1000000000"

record tenant_service =
  ts_AddOwner :: "ctx \<Rightarrow> string \<Rightarrow> string \<Rightarrow> display_name \<Rightarrow> unit go"
  ts_GrantEventRole :: "ctx \<Rightarrow> string \<Rightarrow> string \<Rightarrow> role \<Rightarrow> membership go"
  ts_Allowed :: "ctx \<Rightarrow> string \<Rightarrow> string \<Rightarrow> bool go"
  ts_CurrentRole :: "ctx \<Rightarrow> string \<Rightarrow> (role \<times> bool) go"
  ts_ownershipClaimTTL :: int

definition NewTenantService :: "int option \<Rightarrow> tenant_service" where
  "NewTenantService ttl =
     \<lparr>ts_AddOwner = MembershipRepo_AddOwner, ts_GrantEventRole = MembershipRepo_GrantEventRole,
      ts_Allowed = Authorizer_Allowed, ts_CurrentRole = Authorizer_CurrentRole,
      ts_ownershipClaimTTL = (case ttl of None \<Rightarrow> DefaultOwnershipClaimTTL | Some x \<Rightarrow> x)\<rparr>"

section \<open>Onboarding\<close>

record start_registration_input =
  sri_Name :: string
  sri_ContractPlan :: string

record tenant_registration =
  reg_Tenant :: tenant
  reg_ClaimToken :: string
  reg_ExpiresAt :: time

definition TenantService_StartTenantRegistration ::
    "tenant_service \<Rightarrow> ctx \<Rightarrow> start_registration_input \<Rightarrow> tenant_registration go" where
  "TenantService_StartTenantRegistration s c input =
     and_then (guard (sri_Name input \<noteq> []) (Sentinel (TenantApp ErrTenantNameRequired))) (\<lambda>_.
     and_then (guard (sri_ContractPlan input \<noteq> []) (Sentinel (TenantApp ErrTenantContractPlanRequired))) (\<lambda>_.
     and_then now_go (\<lambda>now.
     and_then (wrap_err ''sweep expired pending tenants'' (TenantRepo_DeleteExpiredPendingTenants c now)) (\<lambda>_.
     and_then NewUUIDv7 (\<lambda>tenantID.
     and_then NewPublicID (\<lambda>publicID.
     and_then onetimetoken_New (\<lambda>(claimToken, tokenHash).
       let t = NewTenant tenantID publicID (sri_Name input) (sri_ContractPlan input)
                 TenantOwnershipStatePendingOwner (Subdomain []) False;
           claim = \<lparr>oc_TokenHash = tokenHash, oc_ExpiresAt = now + ts_ownershipClaimTTL s\<rparr>
       in and_then (TenantRepo_CreatePendingTenant c t claim) (\<lambda>_.
            ret \<lparr>reg_Tenant = t, reg_ClaimToken = claimToken, reg_ExpiresAt = oc_ExpiresAt claim\<rparr>))))))))"

record claim_ownership_input =
  coi_TenantPublicID :: string
  coi_ClaimToken :: string
  coi_Subdomain :: string
  coi_DisplayName :: string

definition claim_tx ::
    "tenant_service \<Rightarrow> claim_ownership_input \<Rightarrow> subdomain \<Rightarrow> display_name \<Rightarrow> string \<Rightarrow> ctx \<Rightarrow> tenant go" where
  "claim_tx s input sub displayName subject c =
     and_then (TenantRepo_FindTenantByPublicIDForUpdate c (coi_TenantPublicID input)) (\<lambda>(t, claim).
     and_then now_go (\<lambda>now.
       let tokenMatches = Matches (oc_TokenHash claim) (coi_ClaimToken input);
           pending = (t_ownershipState t = TenantOwnershipStatePendingOwner);
           expired = claim_Expired claim now
       in if \<not> pending \<or> expired \<or> \<not> tokenMatches
          then fail (Sentinel (TenantApp ErrOwnershipClaimRejected))
          else and_then (of_result (ClaimOwnership t sub)) (\<lambda>owned.
            and_then (wrap_err ''add owner membership'' (ts_AddOwner s c (t_id t) subject displayName)) (\<lambda>_.
            and_then (TenantRepo_MarkTenantOwned c owned) (\<lambda>_. ret owned)))))"

definition TenantService_ClaimTenantOwnership ::
    "tenant_service \<Rightarrow> ctx \<Rightarrow> claim_ownership_input \<Rightarrow> tenant go" where
  "TenantService_ClaimTenantOwnership s c input =
     and_then (guard (coi_TenantPublicID input \<noteq> []) (Sentinel (TenantApp TA_ErrTenantIDRequired))) (\<lambda>_.
     and_then (guard (coi_ClaimToken input \<noteq> []) (Sentinel (TenantApp ErrOwnershipClaimTokenRequired))) (\<lambda>_.
     and_then (of_result (ParseSubdomain (coi_Subdomain input))) (\<lambda>sub.
     and_then (of_result (ParseDisplayName (coi_DisplayName input))) (\<lambda>displayName.
       case SubjectFromContext c of
         None \<Rightarrow> fail (Sentinel (TenantCtx ErrSubjectMissing))
       | Some subject \<Rightarrow>
           TenantRepo_WithinTransaction c (claim_tx s input sub displayName subject)))))"

definition TenantService_ResolveTenantSubdomain :: "tenant_service \<Rightarrow> ctx \<Rightarrow> string \<Rightarrow> string go" where
  "TenantService_ResolveTenantSubdomain s c sub =
     and_then (guard (sub \<noteq> []) (Sentinel (TenantApp ErrSubdomainRequired))) (\<lambda>_.
       TenantRepo_FindTenantPublicIDBySubdomain c sub)"

section \<open>Administration\<close>

definition administer_tx ::
    "tenant_service \<Rightarrow> string \<Rightarrow> (tenant \<Rightarrow> gerr + tenant) \<Rightarrow> ctx \<Rightarrow> tenant go" where
  "administer_tx s tenantPublicID mutate c =
     and_then (TenantRepo_FindTenantByPublicIDForUpdate c tenantPublicID) (\<lambda>(t, _).
     and_then (guard (Owned t) (Sentinel (TenantApp TA_ErrTenantPendingOwner))) (\<lambda>_.
     and_then (guard (\<not> t_archived t) (Sentinel (TenantRepo ErrTenantArchived))) (\<lambda>_.
     and_then (ts_Allowed s c (t_id t) ScopeTenantWrite_tenant) (\<lambda>allowed.
     and_then (guard allowed (Sentinel (TenantApp TA_ErrPermissionDenied))) (\<lambda>_.
     and_then (of_result (mutate t)) (\<lambda>updated.
     and_then (TenantRepo_UpdateTenant c updated) (\<lambda>_. ret updated)))))))"

definition TenantService_administerTenant ::
    "tenant_service \<Rightarrow> ctx \<Rightarrow> string \<Rightarrow> (tenant \<Rightarrow> gerr + tenant) \<Rightarrow> tenant go" where
  "TenantService_administerTenant s c tenantPublicID mutate =
     and_then (guard (tenantPublicID \<noteq> []) (Sentinel (TenantApp TA_ErrTenantIDRequired))) (\<lambda>_.
     and_then (require (Ensure c tenantPublicID)) (\<lambda>_.
       TenantRepo_WithinTransaction c (administer_tx s tenantPublicID mutate)))"

definition TenantService_ChangeTenantContract :: "tenant_service \<Rightarrow> ctx \<Rightarrow> string \<Rightarrow> string \<Rightarrow> tenant go" where
  "TenantService_ChangeTenantContract s c tenantPublicID contractPlan =
     and_then (guard (contractPlan \<noteq> []) (Sentinel (TenantApp ErrTenantContractPlanRequired))) (\<lambda>_.
       TenantService_administerTenant s c tenantPublicID (\<lambda>t. Inr (ChangeContractPlan t contractPlan)))"

definition TenantService_ArchiveTenant :: "tenant_service \<Rightarrow> ctx \<Rightarrow> string \<Rightarrow> tenant go" where
  "TenantService_ArchiveTenant s c tenantPublicID =
     TenantService_administerTenant s c tenantPublicID tenant_Archive"

section \<open>Events\<close>

definition TenantService_resolveTenant :: "tenant_service \<Rightarrow> ctx \<Rightarrow> string \<Rightarrow> tenant go" where
  "TenantService_resolveTenant s c tenantPublicID =
     and_then (guard (tenantPublicID \<noteq> []) (Sentinel (TenantApp TA_ErrTenantIDRequired))) (\<lambda>_.
     and_then (require (Ensure c tenantPublicID)) (\<lambda>_.
     and_then (TenantRepo_FindTenantByPublicID c tenantPublicID) (\<lambda>t.
     and_then (guard (Owned t) (Sentinel (TenantApp TA_ErrTenantPendingOwner))) (\<lambda>_. ret t))))"

definition TenantService_resolveEvent :: "tenant_service \<Rightarrow> ctx \<Rightarrow> string \<Rightarrow> event go" where
  "TenantService_resolveEvent s c eventPublicID =
     and_then (TenantRepo_FindEventByPublicID c eventPublicID) (\<lambda>e.
     and_then (require (Ensure c (ev_tenantPublicID e))) (\<lambda>_. ret e))"

definition create_event_tx :: "tenant_service \<Rightarrow> string \<Rightarrow> event \<Rightarrow> string \<Rightarrow> ctx \<Rightarrow> unit go" where
  "create_event_tx s tenantID e subject c =
     and_then (ts_CurrentRole s c tenantID) (\<lambda>(r, member).
     and_then (guard member (Sentinel (TenantApp ErrCreatorNotMember))) (\<lambda>_.
     and_then (TenantRepo_CreateEvent c e) (\<lambda>_.
     and_then (ts_GrantEventRole s c (ev_id e) subject r) (\<lambda>_. ret ()))))"

definition TenantService_CreateEvent :: "tenant_service \<Rightarrow> ctx \<Rightarrow> string \<Rightarrow> string \<Rightarrow> event go" where
  "TenantService_CreateEvent s c tenantPublicID name =
     and_then (guard (name \<noteq> []) (Sentinel (TenantApp ErrEventNameRequired))) (\<lambda>_.
     and_then (TenantService_resolveTenant s c tenantPublicID) (\<lambda>t.
     and_then (guard (\<not> t_archived t) (Sentinel (TenantRepo ErrTenantArchived))) (\<lambda>_.
       case SubjectFromContext c of
         None \<Rightarrow> fail (Sentinel (TenantCtx ErrSubjectMissing))
       | Some subject \<Rightarrow>
           and_then NewUUIDv7 (\<lambda>eventID.
           and_then NewPublicID (\<lambda>publicID.
             let e = NewEvent eventID publicID (t_id t) (t_publicID t) name EventStatusDraft
             in and_then (TenantRepo_WithinTransaction c (create_event_tx s (t_id t) e subject)) (\<lambda>_. ret e))))))"

definition TenantService_TransitionEventStatus :: "tenant_service \<Rightarrow> ctx \<Rightarrow> string \<Rightarrow> event_status \<Rightarrow> event go" where
  "TenantService_TransitionEventStatus s c eventPublicID to =
     and_then (guard (eventPublicID \<noteq> []) (Sentinel (TenantApp TA_ErrEventIDRequired))) (\<lambda>_.
     and_then (guard (to \<noteq> EventStatusUnspecified) (Sentinel (TenantApp ErrEventStatusRequired))) (\<lambda>_.
     and_then (TenantService_resolveEvent s c eventPublicID) (\<lambda>e.
     and_then (of_result (TransitionTo e to)) (\<lambda>updated.
     and_then (TenantRepo_UpdateEvent c updated) (\<lambda>_. ret updated)))))"

definition TenantService_GetEvent :: "tenant_service \<Rightarrow> ctx \<Rightarrow> string \<Rightarrow> event go" where
  "TenantService_GetEvent s c eventPublicID =
     and_then (guard (eventPublicID \<noteq> []) (Sentinel (TenantApp TA_ErrEventIDRequired))) (\<lambda>_.
       TenantService_resolveEvent s c eventPublicID)"

definition TenantService_ListEvents :: "tenant_service \<Rightarrow> ctx \<Rightarrow> string \<Rightarrow> bool \<Rightarrow> event list go" where
  "TenantService_ListEvents s c tenantPublicID includeArchived =
     and_then (TenantService_resolveTenant s c tenantPublicID) (\<lambda>t.
       TenantRepo_ListEventsByTenantID c (t_id t)
         \<lparr>lf_IncludeArchived = includeArchived, lf_Limit = int MaxListEvents\<rparr>)"

end
