(* ===== verification/Onboarding.thy ===== *)
theory Onboarding
  imports TenantService
begin

text \<open>
  The contract of the tenant side's ports to the relation model (tenant/application/membership.go
  and permission.go), the use cases of the tenant context proved against it, and its interpretation
  on the repositories of the wiring.
\<close>

section \<open>The ports\<close>

text \<open>What a port call that succeeds has done to the database.\<close>

definition owner_added :: "db \<Rightarrow> string \<Rightarrow> string \<Rightarrow> display_name \<Rightarrow> db \<Rightarrow> bool" where
  "owner_added d tenantID userID n d' \<longleftrightarrow>
     (\<exists>at. sql_insert_membership at tenantID userID ''owner'' (dn_value n) d = Inr d')"

definition event_role_granted :: "db \<Rightarrow> string \<Rightarrow> string \<Rightarrow> role \<Rightarrow> db \<Rightarrow> bool" where
  "event_role_granted d eventID userID r d' \<longleftrightarrow>
     (\<exists>x. sql_upsert_event_role eventID userID (Role_String r) d = Inr (x, d') \<and> x \<noteq> [])"

locale tenant_ports =
  permission_checker "ts_Allowed s" "ts_CurrentRole s" for s :: tenant_service +
  assumes AddOwner: "integrity d \<Longrightarrow> row \<in> set (tenants d) \<Longrightarrow> display_name_ok (dn_value n)
    \<Longrightarrow> runs E c d (ts_AddOwner s c (tr_id row) u n)
      (\<lambda>_ d'. owner_added d (tr_id row) u n d')
      (\<lambda>_ _. healthy E \<longrightarrow> 255 < RuneCountInString u \<or> VerifyOwnership c (tr_public_id row) \<noteq> None
         \<or> (\<exists>m \<in> set (memberships d). is_membership (tr_id row) u m))"
  and GrantEventRole: "integrity d
    \<Longrightarrow> runs E c d (ts_GrantEventRole s c eventID u r) (\<lambda>_ d'. event_role_granted d eventID u r d') (\<lambda>_ _. True)"

section \<open>The repositories provide the ports\<close>

lemma schema_put_db: "put_memberships ms d = Inr d' \<Longrightarrow> tenants d' = tenants d"
  by (auto simp: put_Inr)

lemma insert_membership_tenants: "sql_insert_membership at t u r n d = Inr d' \<Longrightarrow> tenants d' = tenants d"
  by (auto simp: sql_insert_membership_def bind_result_Inr_iff dest: schema_put_db)

lemma display_name_ok_check: "display_name_ok n \<Longrightarrow> display_name_check n"
proof -
  assume ok: "display_name_ok n"
  then have n: "TrimSpace n = n" "n \<noteq> []"
    unfolding display_name_ok_def ParseDisplayName_Inr_iff by auto
  then have "List.last n \<noteq> CHR '' ''" by (rule trimmed_no_blank)
  with n(2) have "\<not> list_all (\<lambda>ch. ch = CHR '' '') n" unfolding list_all_iff by (metis last_in_set)
  with display_name_ok_short [OF ok] show ?thesis by (simp add: display_name_check_def)
qed

text \<open>A fresh key makes the insertion of a member succeed.\<close>

lemma insert_membership_fresh:
  assumes ok: "schema_ok d" and t: "row \<in> set (tenants d)"
    and n: "display_name_ok n" and r: "r = ''owner'' \<or> r = ''staff''"
    and fresh: "\<And>m. m \<in> set (memberships d) \<Longrightarrow> \<not> is_membership (tr_id row) u m"
    and short: "RuneCountInString u \<le> 255"
  shows "\<exists>d'. sql_insert_membership at (tr_id row) u r n d = Inr d'"
proof -
  have "\<forall>m \<in> set (memberships d). (mr_tenant_id m, mr_user_id m) \<noteq> (tr_id row, u)"
    using fresh by (auto simp: is_membership_def)
  then have "memberships_violation (tenants d) (memberships d @ [\<lparr>mr_tenant_id = tr_id row, mr_user_id = u,
      mr_tenant_role = r, mr_display_name = n, mr_joined_at = at\<rparr>]) = None"
    using ok t r display_name_ok_check [OF n]
    unfolding memberships_ok_iff schema_ok_def distinct_map_snoc by auto
  moreover have "varchar 255 u = Inr u" "varchar 64 n = Inr n"
    using varchar_short [OF short] varchar_short [OF display_name_ok_short [OF n]] by auto
  ultimately show ?thesis
    by (simp add: sql_insert_membership_def put_memberships_def)
qed

lemma runs_AddTenantMember:
  assumes i: "integrity d" and row: "row \<in> set (tenants d)" and n: "display_name_ok (dn_value n)"
    and added: "\<And>at d' m. Grantable r = None \<Longrightarrow> VerifyOwnership c (tr_public_id row) = None
      \<Longrightarrow> sql_insert_membership at (tr_id row) u (Role_String r) (dn_value n) d = Inr d'
      \<Longrightarrow> m \<in> set (memberships d') \<Longrightarrow> mr_tenant_id m = tr_id row \<Longrightarrow> mr_user_id m = u
      \<Longrightarrow> Q (membership_of d' m) d'"
    and ungrantable: "\<And>e. Grantable r = Some e \<Longrightarrow> R e d"
    and refused: "\<And>at e. sql_insert_membership at (tr_id row) u (Role_String r) (dn_value n) d = Inl e
      \<Longrightarrow> R (mapMembershipConstraintError e) d"
    and late: "\<And>at d' e. sql_insert_membership at (tr_id row) u (Role_String r) (dn_value n) d = Inr d'
      \<Longrightarrow> (\<forall>m \<in> set (memberships d'). \<not> is_membership (tr_id row) u m)
        \<or> VerifyOwnership c (tr_public_id row) = Some e \<or> \<not> healthy E \<Longrightarrow> R e d'"
    and broken: "\<And>e. \<not> healthy E \<Longrightarrow> R e d"
  shows "runs E c d (MembershipRepo_AddTenantMember c (tr_id row) u r n) Q R"
  unfolding MembershipRepo_AddTenantMember_def
proof (intro tri, goal_cases)
  case (1 at d')
  have T: "integrity_but {tr_id row} d'"
    by (rule integrity_insert_membership [OF i 1(2) n]) simp
  have "tenant_public_id d' (tr_id row) = tr_public_id row"
    using tenant_public_id_row [OF integrity_schema(2) [OF T]] insert_membership_tenants [OF 1(2)] row by simp
  then show ?case
    by (intro runs_FindMembership [OF T]) (use added 1 late in auto)
qed (use ungrantable refused late broken in auto)

lemma is_membership_iff: "is_membership t u m \<longleftrightarrow> mr_tenant_id m = t \<and> mr_user_id m = u"
  by (simp add: is_membership_def)

lemma insert_membership_has:
  assumes "sql_insert_membership at t u r n d = Inr d'" and "RuneCountInString u \<le> 255"
  shows "\<exists>m \<in> set (memberships d'). is_membership t u m"
  using assms varchar_short [of u 255]
  by (auto simp: sql_insert_membership_def bind_result_Inr_iff put_Inr is_membership_def)

lemma runs_AddOwner:
  assumes i: "integrity d" and row: "row \<in> set (tenants d)" and n: "display_name_ok (dn_value n)"
  shows "runs E c d (MembershipRepo_AddOwner c (tr_id row) u n)
      (\<lambda>_ d'. owner_added d (tr_id row) u n d')
      (\<lambda>_ _. healthy E \<longrightarrow> 255 < RuneCountInString u \<or> VerifyOwnership c (tr_public_id row) \<noteq> None
         \<or> (\<exists>m \<in> set (memberships d). is_membership (tr_id row) u m))"
proof -
  have fresh: "\<exists>d'. sql_insert_membership at (tr_id row) u ''owner'' (dn_value n) d = Inr d'"
    if "\<not> (\<exists>m \<in> set (memberships d). is_membership (tr_id row) u m)" "RuneCountInString u \<le> 255" for at
    by (rule insert_membership_fresh [OF integrity_schema(1) [OF i] row n]) (use that in auto)
  show ?thesis
    unfolding MembershipRepo_AddOwner_def
  proof (rule runs_and_then, rule runs_AddTenantMember [OF i row n], goal_cases)
    case (1 at d' m)
    then show ?case by (intro tri) (auto simp: owner_added_def role_defs)
  next
    case (3 at e)
    then show ?case using fresh [of at] by (fastforce simp: role_defs not_le)
  next
    case (4 at d' e)
    then show ?case using insert_membership_has [OF 4(1)] by (auto simp: not_le)
  qed (auto simp: Grantable_def)
qed

lemma runs_GrantEventRole_effect:
  assumes i: "integrity d"
    and granted: "\<And>d' m. Grantable r = None \<Longrightarrow> event_role_granted d eventID u r d' \<Longrightarrow> Q m d'"
    and failed: "\<And>e d'. d' = d \<or> integrity d' \<Longrightarrow> R e d'"
  shows "runs E c d (MembershipRepo_GrantEventRole c eventID u r) Q R"
  unfolding MembershipRepo_GrantEventRole_def
proof (intro tri runs_stmt, goal_cases)
  case (1 t x d' y)
  then have up: "sql_upsert_event_role eventID u (Role_String r) d = Inr (x, d')"
    by (auto simp: bind_result_Inr_iff)
  from 1(4) have "x \<noteq> []" by (cases x) auto
  with up 1(1) granted show ?case
    using integrity_upsert_event_role [OF i up] failed
    by (intro runs_FindMembership [where T = "{}"]) (auto simp: integrity_def event_role_granted_def)
next
  case (2 t x d' e)
  then have "sql_upsert_event_role eventID u (Role_String r) d = Inr (x, d')"
    by (auto simp: bind_result_Inr_iff)
  then show ?case using failed integrity_upsert_event_role [OF i] by blast
next
  case (4 t x d' f)
  then have "sql_upsert_event_role eventID u (Role_String r) d = Inr (x, d')"
    by (auto simp: bind_result_Inr_iff)
  then show ?case using failed integrity_upsert_event_role [OF i] by blast
qed (use failed in auto)

interpretation production: tenant_ports "NewTenantService ttl" for ttl
proof
  fix d E c t scope
  assume ok: "schema_ok d"
  show "runs E c d (ts_Allowed (NewTenantService ttl) c t scope)
      (\<lambda>b d'. d' = d \<and> SubjectFromContext c \<noteq> None \<and> b = holds d c t scope)
      (\<lambda>e d'. d' = d \<and> (SubjectFromContext c = None \<and> e = Sentinel (TenantCtx ErrSubjectMissing)
         \<or> \<not> healthy E))"
    unfolding NewTenantService_def tenant_service.simps by (rule authorizer.Allowed [OF ok])
  show "runs E c d (ts_CurrentRole (NewTenantService ttl) c t)
      (\<lambda>(r, member) d'. d' = d \<and> (\<exists>u. SubjectFromContext c = Some u
         \<and> (if member then current_role d t u = Some r else current_role d t u = None)))
      (\<lambda>e d'. d' = d \<and> (SubjectFromContext c = None \<and> e = Sentinel (TenantCtx ErrSubjectMissing)
         \<or> \<not> healthy E))"
    unfolding NewTenantService_def tenant_service.simps by (rule authorizer.CurrentRole [OF ok])
next
  fix d row n E c u
  assume "integrity d" "row \<in> set (tenants d)" "display_name_ok (dn_value n)"
  then show "runs E c d (ts_AddOwner (NewTenantService ttl) c (tr_id row) u n)
      (\<lambda>_ d'. owner_added d (tr_id row) u n d')
      (\<lambda>_ _. healthy E \<longrightarrow> 255 < RuneCountInString u \<or> VerifyOwnership c (tr_public_id row) \<noteq> None
         \<or> (\<exists>m \<in> set (memberships d). is_membership (tr_id row) u m))"
    unfolding NewTenantService_def tenant_service.simps by (rule runs_AddOwner)
next
  fix d E c eventID u r
  assume "integrity d"
  then show "runs E c d (ts_GrantEventRole (NewTenantService ttl) c eventID u r)
      (\<lambda>_ d'. event_role_granted d eventID u r d') (\<lambda>_ _. True)"
    unfolding NewTenantService_def tenant_service.simps by (intro runs_GrantEventRole_effect TrueI)
qed

end
