(* ===== verification/TenantUseCases.thy ===== *)
theory TenantUseCases
  imports Onboarding
begin

text \<open>
  What each use case of the tenant context does to the database and when it fails, proved once for
  every provider of the ports, in the locale \<open>tenant_ports\<close>.
\<close>

section \<open>Claiming a tenant\<close>

definition mark_owned :: "string \<Rightarrow> string \<Rightarrow> tenant_row list \<Rightarrow> tenant_row list" where
  "mark_owned tid sub ts = update_where (\<lambda>r. tr_id r = tid)
     (\<lambda>r. r\<lparr>tr_ownership_state := ''owned'', tr_subdomain := Some sub, tr_claim_hash := None,
            tr_claim_expires := None\<rparr>) ts"

definition ownership_claimed :: "env \<Rightarrow> db \<Rightarrow> ctx \<Rightarrow> claim_ownership_input \<Rightarrow> tenant \<Rightarrow> db \<Rightarrow> bool" where
  "ownership_claimed E d c input x d' \<longleftrightarrow> (\<exists>row sub n subject at k expires.
     row \<in> set (tenants d) \<and> tr_public_id row = coi_TenantPublicID input \<and> \<not> is_owned row
     \<and> tr_claim_hash row = Some (HashOf (coi_ClaimToken input))
     \<and> tr_claim_expires row = Some expires \<and> e_clock E k < expires
     \<and> ParseSubdomain (coi_Subdomain input) = Inr sub
     \<and> ParseDisplayName (coi_DisplayName input) = Inr n
     \<and> SubjectFromContext c = Some subject \<and> VerifyOwnership c (coi_TenantPublicID input) = None
     \<and> x = (tenant_of row)\<lparr>t_ownershipState := TenantOwnershipStateOwned, t_subdomain := sub\<rparr>
     \<and> d' = d\<lparr>tenants := mark_owned (tr_id row) (coi_Subdomain input) (tenants d),
              memberships := memberships d @ [\<lparr>mr_tenant_id = tr_id row, mr_user_id = subject,
                mr_tenant_role = ''owner'', mr_display_name = dn_value n, mr_joined_at = at\<rparr>]\<rparr>)"

definition claim_tx_refused :: "env \<Rightarrow> db \<Rightarrow> ctx \<Rightarrow> claim_ownership_input \<Rightarrow> gerr \<Rightarrow> bool" where
  "claim_tx_refused E d c input e \<longleftrightarrow>
     (e = Sentinel (TenantRepo TR_ErrTenantNotFound)
        \<and> (\<forall>row \<in> set (tenants d). tr_public_id row \<noteq> coi_TenantPublicID input))
     \<or> VerifyOwnership c (coi_TenantPublicID input) = Some e
     \<or> (e = Sentinel (TenantApp ErrOwnershipClaimRejected)
        \<and> (\<exists>row \<in> set (tenants d). tr_public_id row = coi_TenantPublicID input
           \<and> (is_owned row \<or> tr_claim_hash row \<noteq> Some (HashOf (coi_ClaimToken input))
              \<or> (\<exists>x k. tr_claim_expires row = Some x \<and> x \<le> e_clock E k))))
     \<or> (e = Wrap ''mark tenant owned'' (Sentinel (TenantRepo ErrTenantSubdomainExists))
        \<and> (\<exists>row \<in> set (tenants d). tr_public_id row = coi_TenantPublicID input \<and> \<not> is_owned row
           \<and> tr_claim_hash row = Some (HashOf (coi_ClaimToken input))
           \<and> (\<exists>x k. tr_claim_expires row = Some x \<and> e_clock E k < x))
        \<and> (\<exists>row \<in> set (tenants d). tr_subdomain row = Some (coi_Subdomain input)))
     \<or> (\<exists>subject. SubjectFromContext c = Some subject \<and> 255 < RuneCountInString subject)"

definition claim_refused :: "env \<Rightarrow> db \<Rightarrow> ctx \<Rightarrow> claim_ownership_input \<Rightarrow> gerr \<Rightarrow> bool" where
  "claim_refused E d c input e \<longleftrightarrow>
     (e = Sentinel (TenantApp TA_ErrTenantIDRequired) \<and> coi_TenantPublicID input = [])
     \<or> (e = Sentinel (TenantApp ErrOwnershipClaimTokenRequired) \<and> coi_ClaimToken input = [])
     \<or> ParseSubdomain (coi_Subdomain input) = Inl e
     \<or> ParseDisplayName (coi_DisplayName input) = Inl e
     \<or> (e = Sentinel (TenantCtx ErrSubjectMissing) \<and> SubjectFromContext c = None)
     \<or> (\<exists>e0. e = abort_mark e0 \<and> claim_tx_refused E d c input e0)"

text \<open>The claim of a row, and that only the exact token of a pending row matches.\<close>

lemma copy_hash_32: "List.length h = 32 \<Longrightarrow> copy_hash h = h"
  by (simp add: copy_hash_def)

lemma pending_claim:
  assumes i: "integrity_but T d" and row: "row \<in> set (tenants d)" and p: "\<not> is_owned row"
  obtains h x where "tr_claim_hash row = Some h" and "tr_claim_expires row = Some x"
    and "tenantClaimRow_claim row = \<lparr>oc_TokenHash = h, oc_ExpiresAt = x\<rparr>"
    and "tr_ownership_state row = ''pending_owner''"
proof -
  have "\<exists>h x. tr_claim_hash row = Some h \<and> tr_claim_expires row = Some x"
    and "tr_ownership_state row = ''pending_owner''"
    using schema_tenant_state [OF integrity_schema(2) [OF i] row] p by (auto simp: is_owned_def)
  then obtain h x where h: "tr_claim_hash row = Some h" "tr_claim_expires row = Some x"
    and st: "tr_ownership_state row = ''pending_owner''" by auto
  have "List.length h = 32" using integrityD(1) [OF i row] h by (simp add: tenant_texts_ok_def)
  then have "tenantClaimRow_claim row = \<lparr>oc_TokenHash = h, oc_ExpiresAt = x\<rparr>"
    using h by (simp add: tenantClaimRow_claim_def copy_hash_32)
  from that [OF h this st] show ?thesis .
qed

lemma mark_owned_where:
  assumes ok: "schema_ok d" and row: "row \<in> set (tenants d)" "\<not> is_owned row"
  shows "update_where (\<lambda>r. tr_id r = tr_id row \<and> tr_ownership_state r = ''pending_owner'') f (tenants d)
      = update_where (\<lambda>r. tr_id r = tr_id row) f (tenants d)"
proof -
  have "tr_ownership_state row = ''pending_owner''"
    using schema_tenant_state [OF ok row(1)] row(2) by (auto simp: is_owned_def)
  then show ?thesis
    using schema_tenant_key(1) [OF ok _ row(1)] by (auto simp: update_where_def)
qed

text \<open>Marking a pending tenant owned fails only for a subdomain that is taken.\<close>

lemma mark_owned_violation:
  assumes ok: "tenants_violation ts = None"
    and v: "tenants_violation (mark_owned tid sub ts) = Some e"
  shows "e = unique_violation ''tenants_subdomain_key''
    \<and> (\<exists>row \<in> set ts. tr_subdomain row = Some sub)"
proof -
  let ?ts = "mark_owned tid sub ts"
  have rows: "\<exists>s \<in> set ts. t = s \<or> t = s\<lparr>tr_ownership_state := ''owned'', tr_subdomain := Some sub,
      tr_claim_hash := None, tr_claim_expires := None\<rparr>" if "t \<in> set ?ts" for t
    using that by (auto simp: mark_owned_def set_update_where)
  have "\<forall>t \<in> set ?ts. tenant_claim_ok t"
    "\<forall>t \<in> set ?ts. (tr_ownership_state t = ''owned'') = (tr_subdomain t \<noteq> None)"
    using rows ok unfolding tenants_ok_iff by (fastforce simp: tenant_claim_ok_def)+
  moreover have "map tr_id ?ts = map tr_id ts" "map tr_public_id ?ts = map tr_public_id ts"
    by (simp_all add: mark_owned_def map_update_where)
  ultimately have e: "e = unique_violation ''tenants_subdomain_key''"
    and dup: "\<not> distinct (map tr_subdomain (filter (\<lambda>r. tr_subdomain r \<noteq> None) ?ts))"
    using ok v unfolding tenants_ok_iff unfolding tenants_violation_def list_all_iff
    by (auto simp: tenant_claim_ok_def split: if_splits)
  have "distinct (map tr_subdomain (filter (\<lambda>r. tr_subdomain r \<noteq> None) ?ts))"
    if "\<forall>row \<in> set ts. tr_subdomain row \<noteq> Some sub" "distinct (map tr_id ts)"
      "distinct (map tr_subdomain (filter (\<lambda>r. tr_subdomain r \<noteq> None) ts))"
    using that
  proof (induction ts)
    case (Cons t ts)
    have keep: "mark_owned tid sub rs = rs" if "tid \<notin> tr_id ` set rs" for rs
      unfolding mark_owned_def by (rule update_where_id) (use that in auto)
    have subs: "Some s \<in> tr_subdomain ` set (mark_owned tid sub rs)
        \<Longrightarrow> s = sub \<or> Some s \<in> tr_subdomain ` set rs" for s rs
      by (auto simp: mark_owned_def set_update_where image_iff)
    from Cons show ?case
      using keep [of ts] subs [of _ ts]
      by (cases "tr_id t = tid") (auto simp: mark_owned_def update_where_def split: if_splits)
  qed (simp add: mark_owned_def update_where_def)
  with dup ok e show ?thesis by (auto simp: tenants_ok_iff)
qed

text \<open>The end of a claim: the owner is there, now the state.\<close>

lemma nullableSubdomain_parsed: "ParseSubdomain s = Inr sub \<Longrightarrow> sub = Subdomain s \<and> nullableSubdomain sub = Some s"
  by (auto simp: ParseSubdomain_iff nullableSubdomain_def label_shape_def split: if_splits)

lemma owner_added_db:
  assumes "owner_added d tid u n d1" and "display_name_ok (dn_value n)"
    and "u \<noteq> [] \<Longrightarrow> List.last u \<noteq> CHR '' ''"
  obtains at where "d1 = d\<lparr>memberships := memberships d @ [\<lparr>mr_tenant_id = tid, mr_user_id = u,
      mr_tenant_role = ''owner'', mr_display_name = dn_value n, mr_joined_at = at\<rparr>]\<rparr>"
proof -
  from assms(1) obtain at where "sql_insert_membership at tid u ''owner'' (dn_value n) d = Inr d1"
    by (auto simp: owner_added_def)
  from this assms(2) obtain u' where u': "varchar 255 u = Inr u'"
    and put: "put_memberships (memberships d @ [\<lparr>mr_tenant_id = tid, mr_user_id = u', mr_tenant_role = ''owner'',
      mr_display_name = dn_value n, mr_joined_at = at\<rparr>]) d = Inr d1"
    by (rule insert_membership_cases)
  have "u' = u" by (rule varchar_no_blank [OF u' assms(3)])
  with put that show ?thesis by (simp add: put_Inr)
qed

lemma mark_owned_run:
  assumes ok: "schema_ok d" and row: "row \<in> set (tenants d)" "\<not> is_owned row"
    and sub: "ParseSubdomain s = Inr sub"
  shows "sql_mark_tenant_owned (tr_id row) (nullableSubdomain sub) d
    = bind_result (put_tenants (mark_owned (tr_id row) s (tenants d)) d)
        (\<lambda>d'. Inr (count_where (\<lambda>r. tr_id r = tr_id row \<and> tr_ownership_state r = ''pending_owner'') (tenants d), d'))"
proof -
  have "nullableSubdomain sub = Some s" using nullableSubdomain_parsed [OF sub] by blast
  then show ?thesis
    by (simp add: sql_mark_tenant_owned_def ownership_state_defs mark_owned_def mark_owned_where [OF ok row])
qed

lemma runs_mark_owned:
  assumes i: "integrity_but {tr_id row} d" and row: "row \<in> set (tenants d)" "\<not> is_owned row"
    and own: "has_owner d (tr_id row)"
    and sub: "ParseSubdomain s = Inr sub" and t: "t_id t = tr_id row" "t_subdomain t = sub"
      "t_ownershipState t = TenantOwnershipStateOwned"
    and good: "integrity (d\<lparr>tenants := mark_owned (tr_id row) s (tenants d)\<rparr>)
      \<Longrightarrow> Q () (d\<lparr>tenants := mark_owned (tr_id row) s (tenants d)\<rparr>)"
    and taken: "\<And>r. r \<in> set (tenants d) \<Longrightarrow> tr_subdomain r = Some s
      \<Longrightarrow> R (Wrap ''mark tenant owned'' (Sentinel (TenantRepo ErrTenantSubdomainExists))) d"
    and broken: "\<And>e d'. \<not> healthy E \<Longrightarrow> R e d'"
  shows "runs E c d (TenantRepo_MarkTenantOwned c t) Q R"
proof -
  have ok: "schema_ok d" by (rule integrity_schema(2) [OF i])
  have state: "tr_ownership_state row = ''pending_owner''"
    using schema_tenant_state [OF ok row(1)] row(2) by (auto simp: is_owned_def)
  have counted: "0 < count_where (\<lambda>r. tr_id r = tr_id row \<and> tr_ownership_state r = ''pending_owner'') (tenants d)"
    unfolding count_where_pos_iff using row(1) state by blast
  note run = mark_owned_run [OF ok row sub]
  have ran: "d' = d\<lparr>tenants := mark_owned (tr_id row) s (tenants d)\<rparr> \<and> integrity d' \<and> n \<noteq> 0"
    if "sql_mark_tenant_owned (tr_id row) (nullableSubdomain sub) d = Inr (n, d')" for n d'
  proof -
    have "integrity d'"
      by (rule integrity_mark_owned [OF i that]) (use own nullableSubdomain_parsed [OF sub] sub in auto)
    with that counted show ?thesis unfolding run by (auto simp: bind_result_Inr_iff put_Inr)
  qed
  have refused: "e = unique_violation ''tenants_subdomain_key'' \<and> (\<exists>r \<in> set (tenants d). tr_subdomain r = Some s)"
    if "sql_mark_tenant_owned (tr_id row) (nullableSubdomain sub) d = Inl e" for e
    using that ok unfolding run
    by (auto simp: bind_result_Inl_iff put_Inl schema_ok_def dest!: mark_owned_violation)
  show ?thesis
    unfolding TenantRepo_MarkTenantOwned_def t
    by (intro tri)
      (use good taken broken ran refused in \<open>auto simp: mapTenantConstraintError_def unique_violation_def\<close>)
qed

section \<open>The use cases\<close>

context tenant_ports
begin

lemma runs_port_AddOwner:
  assumes i: "integrity d" and row: "row \<in> set (tenants d)" and n: "display_name_ok (dn_value n)"
    and u: "SubjectFromContext c' = Some u"
    and ok: "\<And>at d1. d1 = d\<lparr>memberships := memberships d @ [\<lparr>mr_tenant_id = tr_id row, mr_user_id = u,
        mr_tenant_role = ''owner'', mr_display_name = dn_value n, mr_joined_at = at\<rparr>]\<rparr>
      \<Longrightarrow> integrity_but {tr_id row} d1 \<Longrightarrow> Q () d1"
    and err: "\<And>e d'. (healthy E \<Longrightarrow> 255 < RuneCountInString u \<or> VerifyOwnership c (tr_public_id row) \<noteq> None
         \<or> (\<exists>m \<in> set (memberships d). is_membership (tr_id row) u m)) \<Longrightarrow> R e d'"
  shows "runs E c d (ts_AddOwner s c (tr_id row) u n) Q R"
proof (rule runs_conseq [OF AddOwner [OF i row n, where c = c and u = u and E = E]])
  fix x :: unit and d1
  assume added: "owner_added d (tr_id row) u n d1"
  have blank: "u \<noteq> [] \<Longrightarrow> List.last u \<noteq> CHR '' ''"
    using SubjectFromContext_trimmed [OF u] trimmed_no_blank by blast
  from added n blank obtain at where d1: "d1 = d\<lparr>memberships := memberships d @ [\<lparr>mr_tenant_id = tr_id row,
      mr_user_id = u, mr_tenant_role = ''owner'', mr_display_name = dn_value n, mr_joined_at = at\<rparr>]\<rparr>"
    by (rule owner_added_db)
  from added obtain a where "sql_insert_membership a (tr_id row) u ''owner'' (dn_value n) d = Inr d1"
    by (auto simp: owner_added_def)
  then have "integrity_but {tr_id row} d1" by (rule integrity_insert_membership [OF i _ n]) simp
  with d1 ok show "Q x d1" by simp
qed (use err in blast)

lemma runs_claim_tx:
  assumes i: "integrity d" and sub: "ParseSubdomain (coi_Subdomain input) = Inr sub"
    and n: "ParseDisplayName (coi_DisplayName input) = Inr n" and u: "SubjectFromContext c = Some u"
  shows "runs E c d (claim_tx s input sub n u c)
    (\<lambda>x d'. ownership_claimed E d c input x d' \<and> integrity d')
    (\<lambda>e _. healthy E \<longrightarrow> claim_tx_refused E d c input e)"
  unfolding claim_tx_def Let_def
proof (rule runs_and_then, rule runs_FindTenantByPublicIDForUpdate, goal_cases)
  case (1 row t)
  have row: "row \<in> set (tenants d)" by (rule 1(1))
  from 1(3) have t: "t = tenant_of row" and seen: "VerifyOwnership c (tr_public_id row) = None"
    using tenantRow_domain_ok [OF i [unfolded integrity_def] row] by (auto split: option.splits)
  have name: "display_name_ok (dn_value n)" by (rule display_name_ok_parsed [OF n])
  show ?case unfolding prod.case
  proof (intro runs_and_then runs_now_go runs_if runs_fail, goal_cases)
    case (1 k)
    have "is_owned row \<or> tr_claim_hash row \<noteq> Some (HashOf (coi_ClaimToken input))
        \<or> (\<exists>x k. tr_claim_expires row = Some x \<and> x \<le> e_clock E k)"
    proof (cases "is_owned row")
      case False
      from i [unfolded integrity_def] row False obtain h x where "tr_claim_hash row = Some h"
        "tr_claim_expires row = Some x" "tenantClaimRow_claim row = \<lparr>oc_TokenHash = h, oc_ExpiresAt = x\<rparr>"
        by (rule pending_claim)
      with 1 False show ?thesis by (auto simp: t Matches_iff claim_Expired_def not_less)
    qed simp
    with row \<open>tr_public_id row = coi_TenantPublicID input\<close> show ?case by (auto simp: claim_tx_refused_def)
  next
    case (2 k)
    then have pending: "\<not> is_owned row" by (simp add: t)
    from i [unfolded integrity_def] row pending obtain h x where
      hx: "tr_claim_hash row = Some h" "tr_claim_expires row = Some x"
      "tenantClaimRow_claim row = \<lparr>oc_TokenHash = h, oc_ExpiresAt = x\<rparr>" by (rule pending_claim)
    with 2 have hash: "h = HashOf (coi_ClaimToken input)" and time: "e_clock E k < x"
      by (auto simp: Matches_iff claim_Expired_def)
    have none: "\<not> is_membership (tr_id row) u m" if "m \<in> set (memberships d)" for m
      using integrityD(3) [OF i [unfolded integrity_def] row pending] that
      by (auto simp: no_rows_of_def list_all_iff is_membership_def)
    let ?x = "(tenant_of row)\<lparr>t_ownershipState := TenantOwnershipStateOwned, t_subdomain := sub\<rparr>"
    have claim: "ClaimOwnership t sub = Inr ?x" using pending by (simp add: t ClaimOwnership_def)
    show ?case unfolding claim unfolding t tenant_of_simps
    proof (intro tri runs_port_AddOwner [OF i row name u], goal_cases)
      case (1 owned at d1)
      have owned: "owned = ?x" using 1(1) by simp
      have "has_owner d1 (tr_id row)" by (simp add: 1(2) has_owner_def)
      moreover have "ownership_claimed E d c input ?x (d1\<lparr>tenants := mark_owned (tr_id row) (coi_Subdomain input) (tenants d1)\<rparr>)"
        unfolding ownership_claimed_def
        by (rule exI [of _ row], rule exI [of _ sub], rule exI [of _ n], rule exI [of _ u], rule exI [of _ at],
            rule exI [of _ k], rule exI [of _ x])
          (use row \<open>tr_public_id row = coi_TenantPublicID input\<close> pending hx hash time sub n u seen in \<open>simp add: 1(2)\<close>)
      moreover have "\<exists>row \<in> set (tenants d). tr_public_id row = coi_TenantPublicID input \<and> \<not> is_owned row
          \<and> tr_claim_hash row = Some (HashOf (coi_ClaimToken input))
          \<and> (\<exists>x k. tr_claim_expires row = Some x \<and> e_clock E k < x)"
        using row \<open>tr_public_id row = coi_TenantPublicID input\<close> pending hx hash time by blast
      ultimately show ?case unfolding owned
        by (intro runs_mark_owned [OF 1(3), where s = "coi_Subdomain input"] tri)
          (use row pending sub in \<open>auto simp: 1(2) claim_tx_refused_def\<close>)
    qed (use row none seen u in \<open>auto simp: t claim_tx_refused_def\<close>)
  qed
next
  case (2 row e)
  then show ?case
    using tenantRow_domain_ok [OF i [unfolded integrity_def] 2(1)]
    by (auto simp: claim_tx_refused_def split: option.splits)
next
  case 3
  then show ?case by (auto simp: claim_tx_refused_def)
qed auto

lemma runs_ClaimTenantOwnership:
  assumes i: "integrity d" and c: "\<not> ctx_tx c"
  shows "runs E c d (TenantService_ClaimTenantOwnership s c input)
    (\<lambda>x d'. ownership_claimed E d c input x d' \<and> integrity d' \<and> coi_TenantPublicID input \<noteq> [] \<and> coi_ClaimToken input \<noteq> [])
    (\<lambda>e d'. (d' = d \<or> \<not> healthy E \<and> (\<exists>x. ownership_claimed E d c input x d') \<and> integrity d')
       \<and> (healthy E \<longrightarrow> claim_refused E d c input e))"
  unfolding TenantService_ClaimTenantOwnership_def TenantRepo_WithinTransaction_def
proof (intro tri, goal_cases)
  case (2 sub n u)
  have "ownership_claimed E d (c\<lparr>ctx_tx := True\<rparr>) = ownership_claimed E d c"
    by (intro ext) (simp add: ownership_claimed_def)
  moreover have "claim_tx_refused E d (c\<lparr>ctx_tx := True\<rparr>) = claim_tx_refused E d c"
    by (intro ext) (simp add: claim_tx_refused_def)
  ultimately have "runs E c d (RunInTransaction c (claim_tx s input sub n u))
      (\<lambda>x d'. ownership_claimed E d c input x d' \<and> integrity d')
      (all_or_nothing E d (\<lambda>x d'. ownership_claimed E d c input x d' \<and> integrity d')
        (\<lambda>e. healthy E \<longrightarrow> claim_tx_refused E d c input e))"
    using runs_claim_tx [OF i 2(3,4), of "c\<lparr>ctx_tx := True\<rparr>" u E] 2(5)
    by (intro runs_atomic [OF c]) simp
  then show ?case
    by (rule runs_conseq) (use 2(1,2) in \<open>auto simp: all_or_nothing_def claim_refused_def\<close>)
qed (auto simp: claim_refused_def)

end

section \<open>Starting a registration\<close>

definition expired_row :: "time \<Rightarrow> tenant_row \<Rightarrow> bool" where
  "expired_row now r \<longleftrightarrow> tr_ownership_state r = ''pending_owner''
     \<and> (case tr_claim_expires r of None \<Rightarrow> False | Some x \<Rightarrow> x \<le> pg_time now)"

definition sweep :: "time \<Rightarrow> db \<Rightarrow> db" where
  "sweep now d = delete_tenants (expired_row now) d"

lemma sweep_run: "sql_delete_expired_pending now d = Inr (count_where (expired_row now) (tenants d), sweep now d)"
  by (simp add: sql_delete_expired_pending_def Let_def sweep_def expired_row_def [abs_def] ownership_state_defs)

lemma integrity_swept: "integrity d \<Longrightarrow> integrity (sweep now d)"
  by (rule integrity_sweep [OF _ sweep_run])

definition registered ::
    "env \<Rightarrow> int \<Rightarrow> db \<Rightarrow> time \<Rightarrow> start_registration_input \<Rightarrow> tenant_registration \<Rightarrow> db \<Rightarrow> bool" where
  "registered E ttl d now input x d' \<longleftrightarrow> (\<exists>tid bs raw name plan.
     drawn E 8 bs \<and> drawn E tokenBytes raw \<and> (\<exists>n. e_uuid E n = Inr tid)
     \<and> varchar 255 (sri_Name input) = Inr name \<and> varchar 255 (sri_ContractPlan input) = Inr plan
     \<and> x = \<lparr>reg_Tenant = NewTenant tid (public_id_of bs) (sri_Name input) (sri_ContractPlan input)
                TenantOwnershipStatePendingOwner (Subdomain []) False,
            reg_ClaimToken = fst (token_of raw), reg_ExpiresAt = now + ttl\<rparr>
     \<and> d' = (sweep now d)\<lparr>tenants := tenants (sweep now d) @
         [\<lparr>tr_id = tid, tr_public_id = public_id_of bs, tr_name = name, tr_contract_plan = plan,
           tr_ownership_state = ''pending_owner'', tr_subdomain = None, tr_archived = False,
           tr_claim_hash = Some (HashOf (reg_ClaimToken x)), tr_claim_expires = Some (pg_time (now + ttl))\<rparr>]\<rparr>)"

lemma varchar_public_id: "List.length bs = 8 \<Longrightarrow> varchar 16 (public_id_of bs) = Inr (public_id_of bs)"
  using RuneCountInString_le_length [of "public_id_of bs"] by (intro varchar_short) (simp add: length_public_id_of)

lemma snd_token_of: "snd (token_of raw) = HashOf (fst (token_of raw))"
  by (simp add: token_of_def Let_def)

context tenant_ports
begin

lemma runs_CreatePendingTenant:
  assumes i: "integrity d" and bs: "List.length bs = 8"
    and ok: "\<And>d' nm pl. integrity d' \<Longrightarrow> varchar 255 name = Inr nm \<Longrightarrow> varchar 255 plan = Inr pl
      \<Longrightarrow> d' = d\<lparr>tenants := tenants d @ [\<lparr>tr_id = tid, tr_public_id = public_id_of bs, tr_name = nm,
          tr_contract_plan = pl, tr_ownership_state = ''pending_owner'', tr_subdomain = None, tr_archived = False,
          tr_claim_hash = Some (HashOf tok), tr_claim_expires = Some (pg_time x)\<rparr>]\<rparr>
      \<Longrightarrow> Q () d' \<and> (\<not> healthy E \<longrightarrow> (\<forall>e. R e d'))"
    and err: "\<And>e. R e d"
  shows "runs E c d (TenantRepo_CreatePendingTenant c
      (NewTenant tid (public_id_of bs) name plan TenantOwnershipStatePendingOwner (Subdomain []) False)
      \<lparr>oc_TokenHash = HashOf tok, oc_ExpiresAt = x\<rparr>) Q R"
proof -
  let ?r = "(tenant_values (NewTenant tid (public_id_of bs) name plan TenantOwnershipStatePendingOwner (Subdomain []) False))
      \<lparr>tr_claim_hash := Some (HashOf tok), tr_claim_expires := Some (pg_time x)\<rparr>"
  have "Q () d' \<and> (\<not> healthy E \<longrightarrow> (\<forall>e. R e d'))" if run: "sql_insert_tenant ?r d = Inr d'" for d'
  proof -
    have "integrity d'"
      by (rule integrity_insert_pending [OF i run, where h = "HashOf tok"])
        (simp_all add: tenant_values_def NewTenant_def ownership_state_defs)
    moreover from run obtain nm pl where "varchar 255 name = Inr nm" "varchar 255 plan = Inr pl"
      "d' = d\<lparr>tenants := tenants d @ [\<lparr>tr_id = tid, tr_public_id = public_id_of bs, tr_name = nm,
          tr_contract_plan = pl, tr_ownership_state = ''pending_owner'', tr_subdomain = None, tr_archived = False,
          tr_claim_hash = Some (HashOf tok), tr_claim_expires = Some (pg_time x)\<rparr>]\<rparr>"
      by (auto simp: sql_insert_tenant_def bind_result_Inr_iff put_Inr tenant_values_def NewTenant_def
          varchar_public_id [OF bs] ownership_state_defs)
    ultimately show ?thesis by (rule ok)
  qed
  then show ?thesis
    unfolding TenantRepo_CreatePendingTenant_def
    by (intro tri) (use err in \<open>auto simp: NewTenant_def\<close>)
qed

text \<open>Not one transaction: a registration that fails may have swept.\<close>

lemma runs_StartTenantRegistration:
  assumes i: "integrity d"
  shows "runs E c d (TenantService_StartTenantRegistration s c input)
    (\<lambda>x d'. integrity d' \<and> sri_Name input \<noteq> [] \<and> sri_ContractPlan input \<noteq> []
       \<and> (\<exists>k. registered E (ts_ownershipClaimTTL s) d (e_clock E k) input x d'))
    (\<lambda>e d'. integrity d' \<and> (d' = d \<or> (\<exists>k. d' = sweep (e_clock E k) d)
       \<or> \<not> healthy E \<and> (\<exists>k x. registered E (ts_ownershipClaimTTL s) d (e_clock E k) input x d')))"
proof -
  have reg: "registered E (ts_ownershipClaimTTL s) d (e_clock E k) input
      \<lparr>reg_Tenant = NewTenant tid (public_id_of bs) (sri_Name input) (sri_ContractPlan input)
         TenantOwnershipStatePendingOwner (Subdomain []) False,
       reg_ClaimToken = fst (token_of raw), reg_ExpiresAt = e_clock E k + ts_ownershipClaimTTL s\<rparr> d'"
    if "drawn E 8 bs" "drawn E tokenBytes raw" "e_uuid E n = Inr tid"
      "varchar 255 (sri_Name input) = Inr nm" "varchar 255 (sri_ContractPlan input) = Inr pl"
      "d' = (sweep (e_clock E k) d)\<lparr>tenants := tenants (sweep (e_clock E k) d) @ [\<lparr>tr_id = tid,
          tr_public_id = public_id_of bs, tr_name = nm,
          tr_contract_plan = pl, tr_ownership_state = ''pending_owner'', tr_subdomain = None, tr_archived = False,
          tr_claim_hash = Some (HashOf (fst (token_of raw))),
          tr_claim_expires = Some (pg_time (e_clock E k + ts_ownershipClaimTTL s))\<rparr>]\<rparr>"
    for k tid bs raw nm pl n d'
    unfolding registered_def
    by (rule exI [of _ tid], rule exI [of _ bs], rule exI [of _ raw], rule exI [of _ nm], rule exI [of _ pl])
      (use that in auto)
  have sweep: "runs E c d (TenantRepo_DeleteExpiredPendingTenants c now) Q R"
    if "\<And>n. Q n (sweep now d)" "\<And>e. R e d" "\<And>e. R e (sweep now d)" for now Q R
    unfolding TenantRepo_DeleteExpiredPendingTenants_def by (intro tri) (use that in \<open>auto simp: sweep_run\<close>)
  show ?thesis
    unfolding TenantService_StartTenantRegistration_def Let_def
  proof (intro tri sweep, goal_cases)
    case (1 k n m tid bs raw tok hash)
    from \<open>token_of raw = (tok, hash)\<close> have th: "tok = fst (token_of raw)" "hash = HashOf (fst (token_of raw))"
      using snd_token_of [of raw] by auto
    show ?case unfolding th ownership_claim.simps
    proof (rule runs_CreatePendingTenant [OF integrity_swept [OF i] \<open>List.length bs = 8\<close>], goal_cases)
      case (1 d' nm pl)
      note reg' = reg [OF \<open>drawn E 8 bs\<close> \<open>drawn E tokenBytes raw\<close> \<open>e_uuid E m = Inr tid\<close> 1(2,3,4)]
      from 1(1) reg' \<open>sri_Name input \<noteq> []\<close> \<open>sri_ContractPlan input \<noteq> []\<close> show ?case by (auto intro!: runs_ret)
    next
      case (2 e)
      then show ?case using integrity_swept [OF i] by blast
    qed
  qed (use i integrity_swept [OF i] in auto)
qed

end

end
