(* ===== verification/TenantOperations.thy ===== *)
theory TenantOperations
  imports TenantUseCases
begin

text \<open>
  The other use cases of the tenant context, in the same form: administration under the current
  permission, and the events.
\<close>

lemma Ensure_VerifyOwnership: "Ensure c p = None \<Longrightarrow> VerifyOwnership c p = None"
  by (simp add: Ensure_None_iff VerifyOwnership_None_iff)

lemma read_tenant:
  assumes "integrity d" and "row \<in> set (tenants d)" and "tenantRow_domain c row = Inr t"
  shows "t = tenant_of row" "VerifyOwnership c (tr_public_id row) = None"
  using tenantRow_domain_ok [OF assms(1) [unfolded integrity_def] assms(2), of c] assms(3)
  by (auto split: option.splits)

lemma read_tenant_refused:
  assumes "integrity d" and "row \<in> set (tenants d)" and "tenantRow_domain c row = Inl e"
  shows "VerifyOwnership c (tr_public_id row) = Some e"
  using tenantRow_domain_ok [OF assms(1) [unfolded integrity_def] assms(2), of c] assms(3)
  by (auto split: option.splits)

lemma read_event:
  assumes "integrity d" and "r \<in> set (events d)" and "eventRow_domain c r = Inr x"
  shows "x = event_of r" "VerifyOwnership c (evr_tenant_public_id r) = None"
  using eventRow_domain_ok [OF assms(1,2), of c] assms(3) by (auto split: option.splits)

lemma read_event_refused:
  assumes "integrity d" and "r \<in> set (events d)" and "eventRow_domain c r = Inl e"
  shows "VerifyOwnership c (evr_tenant_public_id r) = Some e"
  using eventRow_domain_ok [OF assms(1,2), of c] assms(3) by (auto split: option.splits)

section \<open>Administration\<close>

definition administered ::
    "db \<Rightarrow> ctx \<Rightarrow> string \<Rightarrow> (tenant \<Rightarrow> gerr + tenant) \<Rightarrow> tenant \<Rightarrow> db \<Rightarrow> bool" where
  "administered d c pid mutate x d' \<longleftrightarrow> (\<exists>row plan.
     row \<in> set (tenants d) \<and> tr_public_id row = pid \<and> is_owned row \<and> \<not> tr_archived row
     \<and> holds d c (tr_id row) ScopeTenantWrite
     \<and> mutate (tenant_of row) = Inr x \<and> varchar 255 (t_contractPlan x) = Inr plan
     \<and> d' = d\<lparr>tenants := update_where (\<lambda>r. tr_id r = tr_id row)
           (\<lambda>r. r\<lparr>tr_contract_plan := plan, tr_archived := t_archived x\<rparr>) (tenants d)\<rparr>)"

definition administer_refused :: "db \<Rightarrow> ctx \<Rightarrow> string \<Rightarrow> (tenant \<Rightarrow> gerr + tenant) \<Rightarrow> gerr \<Rightarrow> bool" where
  "administer_refused d c pid mutate e \<longleftrightarrow>
     (e = Sentinel (TenantRepo TR_ErrTenantNotFound) \<and> (\<forall>row \<in> set (tenants d). tr_public_id row \<noteq> pid))
     \<or> (\<exists>row \<in> set (tenants d). tr_public_id row = pid \<and>
         (e = Sentinel (TenantApp TA_ErrTenantPendingOwner) \<and> \<not> is_owned row
          \<or> e = Sentinel (TenantRepo ErrTenantArchived) \<and> is_owned row \<and> tr_archived row
          \<or> e = Sentinel (TenantCtx ErrSubjectMissing) \<and> SubjectFromContext c = None
          \<or> e = Sentinel (TenantApp TA_ErrPermissionDenied) \<and> \<not> holds d c (tr_id row) ScopeTenantWrite
          \<or> holds d c (tr_id row) ScopeTenantWrite \<and> (mutate (tenant_of row) = Inl e
              \<or> (\<exists>x. mutate (tenant_of row) = Inr x \<and> 255 < RuneCountInString (t_contractPlan x)))))"

lemma put_tenants_same_keys:
  assumes ok: "schema_ok d" and keys: "\<And>t. tr_id (f t) = tr_id t" "\<And>t. tr_public_id (f t) = tr_public_id t"
    and rest: "\<And>t. tr_ownership_state (f t) = tr_ownership_state t" "\<And>t. tr_subdomain (f t) = tr_subdomain t"
      "\<And>t. tr_claim_hash (f t) = tr_claim_hash t" "\<And>t. tr_claim_expires (f t) = tr_claim_expires t"
  shows "tenants_violation (update_where p f (tenants d)) = None"
proof -
  have claim: "tenant_claim_ok (f t) = tenant_claim_ok t" for t by (simp add: tenant_claim_ok_def rest)
  have "map tr_subdomain (filter (\<lambda>r. tr_subdomain r \<noteq> None) (update_where p f ts))
      = map tr_subdomain (filter (\<lambda>r. tr_subdomain r \<noteq> None) ts)" for ts
    by (induction ts) (auto simp: update_where_def rest)
  moreover have "map tr_id (update_where p f (tenants d)) = map tr_id (tenants d)"
    "map tr_public_id (update_where p f (tenants d)) = map tr_public_id (tenants d)"
    by (simp_all add: map_update_where keys)
  ultimately show ?thesis
    using ok unfolding schema_ok_def tenants_ok_iff set_update_where
    by (auto simp: claim rest)
qed

lemma runs_UpdateTenant:
  assumes i: "integrity d" and row: "row \<in> set (tenants d)" and t: "t_id t = tr_id row"
    and ok: "\<And>plan d'. varchar 255 (t_contractPlan t) = Inr plan \<Longrightarrow> integrity d'
      \<Longrightarrow> d' = d\<lparr>tenants := update_where (\<lambda>r. tr_id r = tr_id row)
           (\<lambda>r. r\<lparr>tr_contract_plan := plan, tr_archived := t_archived t\<rparr>) (tenants d)\<rparr> \<Longrightarrow> Q () d'"
    and long: "\<And>e. 255 < RuneCountInString (t_contractPlan t) \<Longrightarrow> R e d"
    and broken: "\<And>e d'. \<not> healthy E \<Longrightarrow> R e d'"
  shows "runs E c d (TenantRepo_UpdateTenant c t) Q R"
proof -
  have ran: "n \<noteq> 0 \<and> Q () d'" if run: "sql_update_tenant (t_id t) (t_contractPlan t) (t_archived t) d = Inr (n, d')" for n d'
  proof -
    have "integrity d'" by (rule integrity_update_tenant [OF i run])
    moreover have "0 < count_where (\<lambda>r. tr_id r = t_id t) (tenants d)"
      unfolding count_where_pos_iff using row t by auto
    ultimately show ?thesis using run ok by (auto simp: sql_update_tenant_def bind_result_Inr_iff put_Inr t)
  qed
  have refused: "255 < RuneCountInString (t_contractPlan t)"
    if run: "sql_update_tenant (t_id t) (t_contractPlan t) (t_archived t) d = Inl e" for e
  proof (rule ccontr)
    assume "\<not> 255 < RuneCountInString (t_contractPlan t)"
    then have plan: "varchar 255 (t_contractPlan t) = Inr (t_contractPlan t)" by (intro varchar_short) simp
    have "tenants_violation (update_where (\<lambda>r. tr_id r = t_id t)
        (\<lambda>r. r\<lparr>tr_contract_plan := t_contractPlan t, tr_archived := t_archived t\<rparr>) (tenants d)) = None"
      by (rule put_tenants_same_keys [OF integrity_schema(1) [OF i]]) simp_all
    with run plan show False by (simp add: sql_update_tenant_def put_tenants_def)
  qed
  show ?thesis
    unfolding TenantRepo_UpdateTenant_def
    by (intro tri) (use ran refused long broken in auto)
qed

context tenant_ports
begin

lemma runs_administer_tx:
  assumes i: "integrity d" and pid: "Ensure c pid = None"
    and mutate: "\<And>t x. mutate t = Inr x \<Longrightarrow> t_id x = t_id t"
  shows "runs E c d (administer_tx s pid mutate c)
    (\<lambda>x d'. administered d c pid mutate x d' \<and> integrity d')
    (\<lambda>e _. healthy E \<longrightarrow> administer_refused d c pid mutate e)"
  unfolding administer_tx_def
proof (rule runs_and_then, rule runs_FindTenantByPublicIDForUpdate, goal_cases)
  case (1 row t)
  note row = 1(1,2) and t = read_tenant(1) [OF i 1(1,3)]
  have ok: "schema_ok d" by (rule integrity_schema(1) [OF i])
  have scope: "ScopeTenantWrite_tenant = ScopeTenantWrite"
    by (simp add: ScopeTenantWrite_tenant_def ScopeTenantWrite_def)
  show ?case unfolding prod.case t tenant_of_simps scope
  proof (intro tri runs_port_Allowed [OF ok], goal_cases)
    case (2 x)
    then show ?case
      by (intro runs_UpdateTenant [OF i row(1)] tri)
        (use row mutate [OF 2(5)] in \<open>auto simp: administered_def administer_refused_def\<close>)
  qed (use row in \<open>auto simp: administer_refused_def\<close>)
next
  case (2 row e)
  then show ?case using read_tenant_refused [OF i 2(1,3)] Ensure_VerifyOwnership [OF pid] by simp
next
  case 3
  then show ?case by (auto simp: administer_refused_def)
qed auto

lemma runs_administerTenant:
  assumes i: "integrity d" and c: "\<not> ctx_tx c"
    and mutate: "\<And>t x. mutate t = Inr x \<Longrightarrow> t_id x = t_id t"
  shows "runs E c d (TenantService_administerTenant s c pid mutate)
    (\<lambda>x d'. administered d c pid mutate x d' \<and> Ensure c pid = None \<and> integrity d')
    (\<lambda>e d'. (d' = d \<or> \<not> healthy E \<and> Ensure c pid = None \<and> (\<exists>x. administered d c pid mutate x d') \<and> integrity d')
       \<and> (healthy E \<longrightarrow> e = Sentinel (TenantApp TA_ErrTenantIDRequired) \<and> pid = []
            \<or> Ensure c pid = Some e \<or> (\<exists>e0. e = abort_mark e0 \<and> administer_refused d c pid mutate e0)))"
  unfolding TenantService_administerTenant_def TenantRepo_WithinTransaction_def
proof (intro tri, goal_cases)
  case 1
  have "administered d (c\<lparr>ctx_tx := True\<rparr>) = administered d c"
    by (intro ext) (simp add: administered_def)
  moreover have "administer_refused d (c\<lparr>ctx_tx := True\<rparr>) = administer_refused d c"
    by (intro ext) (simp add: administer_refused_def)
  ultimately have "runs E c d (RunInTransaction c (administer_tx s pid mutate))
      (\<lambda>x d'. administered d c pid mutate x d' \<and> integrity d')
      (all_or_nothing E d (\<lambda>x d'. administered d c pid mutate x d' \<and> integrity d')
        (\<lambda>e. healthy E \<longrightarrow> administer_refused d c pid mutate e))"
    using runs_administer_tx [OF i _ mutate, where c = "c\<lparr>ctx_tx := True\<rparr>" and pid = pid and E = E] 1(2)
    by (intro runs_atomic [OF c]) simp
  then show ?case
    by (rule runs_conseq) (use 1 in \<open>auto simp: all_or_nothing_def\<close>)
qed auto

lemma runs_ChangeTenantContract:
  assumes i: "integrity d" and c: "\<not> ctx_tx c"
  shows "runs E c d (TenantService_ChangeTenantContract s c pid plan)
    (\<lambda>x d'. plan \<noteq> [] \<and> administered d c pid (\<lambda>t. Inr (ChangeContractPlan t plan)) x d' \<and> Ensure c pid = None \<and> integrity d')
    (\<lambda>e d'. (d' = d \<or> \<not> healthy E \<and> plan \<noteq> [] \<and> Ensure c pid = None
          \<and> (\<exists>x. administered d c pid (\<lambda>t. Inr (ChangeContractPlan t plan)) x d') \<and> integrity d')
       \<and> (healthy E \<longrightarrow> e = Sentinel (TenantApp ErrTenantContractPlanRequired) \<and> plan = []
            \<or> e = Sentinel (TenantApp TA_ErrTenantIDRequired) \<and> pid = [] \<or> Ensure c pid = Some e
            \<or> (\<exists>e0. e = abort_mark e0 \<and> administer_refused d c pid (\<lambda>t. Inr (ChangeContractPlan t plan)) e0)))"
  unfolding TenantService_ChangeTenantContract_def
proof (intro tri, goal_cases)
  case 1
  show ?case
    by (rule runs_conseq [OF runs_administerTenant [OF i c]]) (use 1 in \<open>auto simp: ChangeContractPlan_def\<close>)
qed auto

lemma runs_ArchiveTenant:
  assumes i: "integrity d" and c: "\<not> ctx_tx c"
  shows "runs E c d (TenantService_ArchiveTenant s c pid)
    (\<lambda>x d'. administered d c pid tenant_Archive x d' \<and> Ensure c pid = None \<and> integrity d')
    (\<lambda>e d'. (d' = d \<or> \<not> healthy E \<and> Ensure c pid = None \<and> (\<exists>x. administered d c pid tenant_Archive x d') \<and> integrity d')
       \<and> (healthy E \<longrightarrow> e = Sentinel (TenantApp TA_ErrTenantIDRequired) \<and> pid = []
            \<or> Ensure c pid = Some e \<or> (\<exists>e0. e = abort_mark e0 \<and> administer_refused d c pid tenant_Archive e0)))"
  unfolding TenantService_ArchiveTenant_def
  by (rule runs_administerTenant [OF i c]) (auto simp: tenant_Archive_Inr_iff)

end

section \<open>Events\<close>

definition event_created :: "env \<Rightarrow> db \<Rightarrow> ctx \<Rightarrow> string \<Rightarrow> string \<Rightarrow> event \<Rightarrow> db \<Rightarrow> bool" where
  "event_created E d c pid name x d' \<longleftrightarrow> (\<exists>row subject r eid bs nm.
     row \<in> set (tenants d) \<and> tr_public_id row = pid \<and> is_owned row \<and> \<not> tr_archived row
     \<and> SubjectFromContext c = Some subject \<and> current_role d (tr_id row) subject = Some r
     \<and> (\<exists>n. e_uuid E n = Inr eid) \<and> List.length bs = 8 \<and> varchar 255 name = Inr nm
     \<and> x = NewEvent eid (public_id_of bs) (tr_id row) pid name EventStatusDraft
     \<and> event_role_granted (d\<lparr>events := events d @ [\<lparr>evr_id = eid, evr_public_id = public_id_of bs,
           evr_tenant_id = tr_id row, evr_tenant_public_id = pid, evr_name = nm, evr_status = ''draft''\<rparr>]\<rparr>)
         eid subject r d')"

definition event_transitioned :: "db \<Rightarrow> ctx \<Rightarrow> string \<Rightarrow> event_status \<Rightarrow> event \<Rightarrow> db \<Rightarrow> bool" where
  "event_transitioned d c epid to x d' \<longleftrightarrow> (\<exists>e t nm.
     e \<in> set (events d) \<and> evr_public_id e = epid
     \<and> TenantPublicIDFromContext c = Some (evr_tenant_public_id e)
     \<and> event_step (status_of (evr_status e)) to
     \<and> t \<in> set (tenants d) \<and> tr_id t = evr_tenant_id e \<and> \<not> tr_archived t
     \<and> varchar 255 (evr_name e) = Inr nm
     \<and> x = (event_of e)\<lparr>ev_status := to\<rparr>
     \<and> d' = d\<lparr>events := update_where (\<lambda>r. evr_id r = evr_id e)
           (\<lambda>r. r\<lparr>evr_name := nm, evr_status := EventStatus_String to\<rparr>) (events d)\<rparr>)"

text \<open>The rows a write of an event reaches.\<close>

lemma insert_event_run:
  assumes ok: "schema_ok d" and row: "row \<in> set (tenants d)" and bs: "List.length bs = 8"
    and run: "sql_insert_event \<lparr>evr_id = eid, evr_public_id = public_id_of bs, evr_tenant_id = tr_id row,
        evr_tenant_public_id = pid, evr_name = name, evr_status = st\<rparr> d = Inr (n, d')"
  shows "if tr_archived row then n = 0 \<and> d' = d
    else n = 1 \<and> (\<exists>nm. varchar 255 name = Inr nm \<and> d' = d\<lparr>events := events d @ [\<lparr>evr_id = eid,
        evr_public_id = public_id_of bs, evr_tenant_id = tr_id row, evr_tenant_public_id = pid, evr_name = nm,
        evr_status = st\<rparr>]\<rparr>)"
proof -
  have "filter (\<lambda>t. tr_id t = tr_id row) (tenants d) = [row]"
    by (rule filter_unique_key [OF schema_keys(1) [OF ok] row])
  then have "filter (\<lambda>t. \<not> tr_archived t) (filter (\<lambda>t. tr_id t = tr_id row) (tenants d))
      = filter (\<lambda>t. \<not> tr_archived t) [row]" by simp
  then have "filter (\<lambda>t. tr_id t = tr_id row \<and> \<not> tr_archived t) (tenants d) = (if tr_archived row then [] else [row])"
    by (simp add: conj_commute)
  then show ?thesis
    using run by (auto simp: sql_insert_event_def bind_result_Inr_iff varchar_public_id [OF bs] put_Inr Let_def)
qed

lemma runs_CreateEvent_repo:
  assumes i: "integrity d" and row: "row \<in> set (tenants d)" "is_owned row" "\<not> tr_archived row"
    and bs: "List.length bs = 8" and seen: "VerifyOwnership c (tr_public_id row) = None"
    and ok: "\<And>nm d'. varchar 255 name = Inr nm \<Longrightarrow> integrity d'
      \<Longrightarrow> d' = d\<lparr>events := events d @ [\<lparr>evr_id = eid, evr_public_id = public_id_of bs,
          evr_tenant_id = tr_id row, evr_tenant_public_id = tr_public_id row, evr_name = nm,
          evr_status = ''draft''\<rparr>]\<rparr> \<Longrightarrow> Q () d'"
    and err: "\<And>e d'. R e d'"
  shows "runs E c d (TenantRepo_CreateEvent c
      (NewEvent eid (public_id_of bs) (tr_id row) (tr_public_id row) name EventStatusDraft)) Q R"
proof -
  let ?r = "\<lparr>evr_id = eid, evr_public_id = public_id_of bs, evr_tenant_id = tr_id row,
      evr_tenant_public_id = tr_public_id row, evr_name = name, evr_status = ''draft''\<rparr>"
  have "n = 1 \<and> Q () d'" if run: "sql_insert_event ?r d = Inr (n, d')" for n d'
  proof -
    have "integrity d'"
      by (rule integrity_insert_event [OF i run _ row(1,2)]) (simp_all add: ParseEventStatus_String
          [of EventStatusDraft, unfolded event_status_defs, simplified])
    with insert_event_run [OF integrity_schema(1) [OF i] row(1) bs run] row(3) ok show ?thesis by auto
  qed
  then show ?thesis
    unfolding TenantRepo_CreateEvent_def
    by (intro tri) (use err in \<open>auto simp: NewEvent_def event_status_defs\<close>)
qed

context tenant_ports
begin

lemma runs_resolveTenant:
  assumes i: "integrity d"
    and ok: "\<And>row. row \<in> set (tenants d) \<Longrightarrow> tr_public_id row = pid \<Longrightarrow> is_owned row
      \<Longrightarrow> Ensure c pid = None \<Longrightarrow> Q (tenant_of row) d"
    and err: "\<And>e. R e d"
  shows "runs E c d (TenantService_resolveTenant s c pid) Q R"
  unfolding TenantService_resolveTenant_def
proof (intro tri, goal_cases)
  case (1 row t)
  then show ?case using read_tenant(1) [OF i 1(3,5)] ok [OF 1(3,4)] by simp
qed (use err in auto)

lemma runs_resolveEvent:
  assumes i: "integrity d"
    and ok: "\<And>r. r \<in> set (events d) \<Longrightarrow> evr_public_id r = epid
      \<Longrightarrow> TenantPublicIDFromContext c = Some (evr_tenant_public_id r) \<Longrightarrow> Q (event_of r) d"
    and err: "\<And>e. R e d"
  shows "runs E c d (TenantService_resolveEvent s c epid) Q R"
  unfolding TenantService_resolveEvent_def
proof (intro tri, goal_cases)
  case (1 r x)
  then show ?case using read_event(1) [OF i 1(1,3)] ok [OF 1(1,2)] by (simp add: Ensure_None_iff)
qed (use err in auto)

lemma event_role_granted_integrity:
  "integrity d \<Longrightarrow> event_role_granted d eid u r d' \<Longrightarrow> integrity d'"
  by (auto simp: event_role_granted_def intro: integrity_upsert_event_role)

lemma runs_CreateEvent:
  assumes i: "integrity d" and c: "\<not> ctx_tx c"
  shows "runs E c d (TenantService_CreateEvent s c pid name)
    (\<lambda>x d'. event_created E d c pid name x d' \<and> name \<noteq> [] \<and> Ensure c pid = None \<and> integrity d')
    (\<lambda>e d'. d' = d \<or> \<not> healthy E \<and> Ensure c pid = None \<and> (\<exists>x. event_created E d c pid name x d') \<and> integrity d')"
  unfolding TenantService_CreateEvent_def TenantRepo_WithinTransaction_def Let_def
proof (intro tri runs_resolveTenant [OF i], goal_cases)
  case (2 row u n eid bs)
  then have open': "\<not> tr_archived row" by simp
  have seen: "VerifyOwnership (c\<lparr>ctx_tx := True\<rparr>) (tr_public_id row) = None"
    using Ensure_VerifyOwnership [OF \<open>Ensure c pid = None\<close>] \<open>tr_public_id row = pid\<close> by simp
  let ?e = "NewEvent eid (public_id_of bs) (tr_id row) (tr_public_id row) name EventStatusDraft"
  have "runs E (c\<lparr>ctx_tx := True\<rparr>) d (create_event_tx s (tr_id row) ?e u (c\<lparr>ctx_tx := True\<rparr>))
      (\<lambda>_ d'. event_created E d c pid name ?e d' \<and> integrity d') (\<lambda>_ _. True)"
    unfolding create_event_tx_def
  proof (intro tri runs_port_CurrentRole [OF integrity_schema(1) [OF i]], goal_cases)
    case (2 u' r a b)
    show ?case
    proof (rule runs_CreateEvent_repo [OF i], goal_cases)
      case (6 nm d1)
      have ev: "ev_id ?e = eid" by (simp add: NewEvent_def)
      show ?case unfolding ev
      proof (rule runs_and_then, rule runs_conseq [OF GrantEventRole [OF 6(2)]])
        fix x :: membership and d'
        assume g: "event_role_granted d1 eid u a d'"
        have "event_created E d c pid name ?e d'"
          unfolding event_created_def
          by (rule exI [of _ row], rule exI [of _ u], rule exI [of _ a], rule exI [of _ eid], rule exI [of _ bs],
              rule exI [of _ nm])
            (use g 6 2 open' \<open>row \<in> set (tenants d)\<close> \<open>tr_public_id row = pid\<close> \<open>is_owned row\<close>
              \<open>SubjectFromContext c = Some u\<close> \<open>e_uuid E n = Inr eid\<close> \<open>List.length bs = 8\<close> 
              in \<open>auto\<close>)
        with event_role_granted_integrity [OF 6(2) g]
        show "runs E (c\<lparr>ctx_tx := True\<rparr>) d' (ret ()) (\<lambda>_ d'. event_created E d c pid name ?e d' \<and> integrity d') (\<lambda>_ _. True)"
          by (intro tri) simp
      qed simp
    qed (use 2 seen open' \<open>row \<in> set (tenants d)\<close> \<open>is_owned row\<close> \<open>List.length bs = 8\<close> in auto)
  qed auto
  from runs_atomic [OF c, where fn = "create_event_tx s (tr_id row) ?e u", OF this] show ?case unfolding tenant_of_simps
    by (rule runs_conseq) (use 2 in \<open>auto simp: all_or_nothing_def intro!: runs_ret\<close>)
qed (use c in auto)

end

lemma update_event_rows:
  assumes i: "integrity d" and r: "r \<in> set (events d)"
  shows "\<exists>t \<in> set (tenants d). tr_id t = evr_tenant_id r
    \<and> (\<forall>x \<in> set (events d). (evr_id x = evr_id r
          \<and> list_ex (\<lambda>t. tr_id t = evr_tenant_id x \<and> \<not> tr_archived t) (tenants d))
        = (evr_id x = evr_id r \<and> \<not> tr_archived t))"
proof -
  have ok: "schema_ok d" by (rule integrity_schema(1) [OF i])
  then obtain t where t: "t \<in> set (tenants d)" "tr_id t = evr_tenant_id r"
    using r by (auto simp: schema_ok_def events_ok_iff image_iff)
  have same: "x = r" if "x \<in> set (events d)" "evr_id x = evr_id r" for x
    using distinct_map_key_eq [OF schema_keys(3) [OF ok] that(1) r that(2)] .
  have "list_ex (\<lambda>t. tr_id t = evr_tenant_id r \<and> \<not> tr_archived t) (tenants d) = (\<not> tr_archived t)"
    using t schema_tenant_key(1) [OF ok _ t(1)] by (auto simp: list_ex_iff)
  with t same show ?thesis by (intro bexI [of _ t]) auto
qed

lemma update_event_run:
  assumes i: "integrity d" and r: "r \<in> set (events d)"
    and run: "sql_update_event (evr_id r) name st d = Inr (n, d')"
  shows "\<exists>t \<in> set (tenants d). tr_id t = evr_tenant_id r \<and> (if tr_archived t then n = 0 \<and> d' = d
    else n \<noteq> 0 \<and> (\<exists>nm. varchar 255 name = Inr nm \<and> d' = d\<lparr>events := update_where (\<lambda>x. evr_id x = evr_id r)
        (\<lambda>x. x\<lparr>evr_name := nm, evr_status := st\<rparr>) (events d)\<rparr>))"
proof -
  from update_event_rows [OF i r] obtain t where t: "t \<in> set (tenants d)" "tr_id t = evr_tenant_id r"
    and rows: "\<forall>x \<in> set (events d). (evr_id x = evr_id r
          \<and> list_ex (\<lambda>t. tr_id t = evr_tenant_id x \<and> \<not> tr_archived t) (tenants d))
        = (evr_id x = evr_id r \<and> \<not> tr_archived t)" by blast
  from rows have upd: "update_where (\<lambda>x. evr_id x = evr_id r
          \<and> list_ex (\<lambda>t. tr_id t = evr_tenant_id x \<and> \<not> tr_archived t) (tenants d)) f (events d)
        = (if tr_archived t then events d else update_where (\<lambda>x. evr_id x = evr_id r) f (events d))" for f
    by (auto simp: update_where_def intro!: map_idI)
  have cnt: "count_where (\<lambda>x. evr_id x = evr_id r
          \<and> list_ex (\<lambda>t. tr_id t = evr_tenant_id x \<and> \<not> tr_archived t) (tenants d)) (events d) = 0 \<longleftrightarrow> tr_archived t"
    unfolding count_where_zero_iff using rows r by blast
  show ?thesis
    using run t upd cnt unfolding sql_update_event_def Let_def
    by (intro bexI [OF _ t(1)]) (auto simp: bind_result_Inr_iff put_Inr)
qed

lemma runs_UpdateEvent:
  assumes i: "integrity d" and r: "r \<in> set (events d)" and x: "ev_id x = evr_id r" and st: "ev_status x \<le> EventStatusArchived"
    and ok: "\<And>t nm d'. t \<in> set (tenants d) \<Longrightarrow> tr_id t = evr_tenant_id r \<Longrightarrow> \<not> tr_archived t
      \<Longrightarrow> varchar 255 (ev_name x) = Inr nm \<Longrightarrow> integrity d'
      \<Longrightarrow> d' = d\<lparr>events := update_where (\<lambda>r'. evr_id r' = evr_id r)
            (\<lambda>r'. r'\<lparr>evr_name := nm, evr_status := EventStatus_String (ev_status x)\<rparr>) (events d)\<rparr>
      \<Longrightarrow> Q () d' \<and> (\<not> healthy E \<longrightarrow> (\<forall>e. R e d'))"
    and err: "\<And>e. R e d"
  shows "runs E c d (TenantRepo_UpdateEvent c x) Q R"
proof -
  have "if n = 0 then d' = d else Q () d' \<and> (\<not> healthy E \<longrightarrow> (\<forall>e. R e d'))"
    if run: "sql_update_event (ev_id x) (ev_name x) (EventStatus_String (ev_status x)) d = Inr (n, d')" for n d'
  proof -
    have "integrity d'"
      by (rule integrity_update_event [OF i run]) (simp add: ParseEventStatus_String [OF st])
    with update_event_run [OF i r run [unfolded x]] ok show ?thesis by (auto split: if_splits)
  qed
  then show ?thesis
    unfolding TenantRepo_UpdateEvent_def
    by (intro tri) (use err in \<open>auto split: if_splits\<close>)
qed

context tenant_ports
begin

lemma runs_TransitionEventStatus:
  assumes i: "integrity d"
  shows "runs E c d (TenantService_TransitionEventStatus s c epid to)
    (\<lambda>x d'. event_transitioned d c epid to x d' \<and> integrity d')
    (\<lambda>e d'. d' = d \<or> \<not> healthy E \<and> (\<exists>x. event_transitioned d c epid to x d') \<and> integrity d')"
  unfolding TenantService_TransitionEventStatus_def
proof (intro tri runs_resolveEvent [OF i], goal_cases)
  case (1 r x)
  then have step: "event_step (status_of (evr_status r)) to" and x: "x = (event_of r)\<lparr>ev_status := to\<rparr>"
    by (auto simp: TransitionTo_Inr_iff)
  have fin: "event_transitioned d c epid to x d'"
    if "t \<in> set (tenants d)" "tr_id t = evr_tenant_id r" "\<not> tr_archived t" "varchar 255 (evr_name r) = Inr nm"
      "d' = d\<lparr>events := update_where (\<lambda>r'. evr_id r' = evr_id r)
            (\<lambda>r'. r'\<lparr>evr_name := nm, evr_status := EventStatus_String to\<rparr>) (events d)\<rparr>" for t nm d'
    unfolding event_transitioned_def
    by (rule exI [of _ r], rule exI [of _ t], rule exI [of _ nm]) (use 1 step x that in simp)
  show ?case
    by (rule runs_UpdateEvent [OF i 1(3)])
      (use x event_step_declared [OF step] fin in \<open>auto intro!: runs_ret\<close>)
qed auto

lemma runs_GetEvent:
  assumes i: "integrity d"
  shows "runs E c d (TenantService_GetEvent s c epid)
    (\<lambda>x d'. d' = d \<and> (\<exists>r \<in> set (events d). evr_public_id r = epid
       \<and> TenantPublicIDFromContext c = Some (evr_tenant_public_id r) \<and> x = event_of r))
    (\<lambda>e d'. d' = d)"
  unfolding TenantService_GetEvent_def
  by (intro tri runs_resolveEvent [OF i]) auto

lemma runs_ListEvents:
  assumes i: "integrity d"
  shows "runs E c d (TenantService_ListEvents s c pid archived)
    (\<lambda>xs d'. d' = d \<and> TenantPublicIDFromContext c = Some pid
       \<and> (\<exists>row \<in> set (tenants d). tr_public_id row = pid \<and> is_owned row
            \<and> xs = map event_of (listed_events d (tr_id row) archived)))
    (\<lambda>e d'. d' = d)"
  unfolding TenantService_ListEvents_def
  by (intro tri runs_resolveTenant [OF i] runs_ListEventsByTenantID [OF i]) (auto simp: Ensure_None_iff)

lemma runs_ResolveTenantSubdomain:
  "runs E c d (TenantService_ResolveTenantSubdomain s c sub)
    (\<lambda>x d'. d' = d \<and> (\<exists>row \<in> set (tenants d). tr_subdomain row = Some sub \<and> x = tr_public_id row))
    (\<lambda>e d'. d' = d \<and> (healthy E \<longrightarrow> e = Sentinel (TenantApp ErrSubdomainRequired) \<and> sub = []
       \<or> e = Sentinel (TenantRepo TR_ErrTenantNotFound) \<and> (\<forall>row \<in> set (tenants d). tr_subdomain row \<noteq> Some sub)))"
  unfolding TenantService_ResolveTenantSubdomain_def by (intro tri) auto

end

end
