(* ===== verification/RelationService.thy ===== *)
theory RelationService
  imports Listings
begin

text \<open>
  internal/relation/application/relation.go: the use cases of the relation model.  The repositories
  are the ones of the wiring; the configured time to live of invitations is the service's field.
\<close>

definition DefaultInvitationTTL :: int where
  "DefaultInvitationTTL = 7 * 24 * 3600 * 1000000000"

record relation_service =
  rs_invitationTTL :: int

definition NewRelationService :: "int option \<Rightarrow> relation_service" where
  "NewRelationService ttl = \<lparr>rs_invitationTTL = (case ttl of None \<Rightarrow> DefaultInvitationTTL | Some x \<Rightarrow> x)\<rparr>"

section \<open>Resolution and gates\<close>

definition RelationService_resolveTenant :: "ctx \<Rightarrow> string \<Rightarrow> tenant go" where
  "RelationService_resolveTenant c tenantPublicID =
     and_then (guard (tenantPublicID \<noteq> []) (Sentinel (RelationApp RA_ErrTenantIDRequired))) (\<lambda>_.
     and_then (require (Ensure c tenantPublicID)) (\<lambda>_.
       TenantRepo_FindTenantByPublicID c tenantPublicID))"

definition RelationService_writableTenant :: "ctx \<Rightarrow> string \<Rightarrow> tenant go" where
  "RelationService_writableTenant c tenantPublicID =
     and_then (RelationService_resolveTenant c tenantPublicID) (\<lambda>t.
     and_then (guard (Owned t) (Sentinel (RelationApp RA_ErrTenantPendingOwner))) (\<lambda>_.
     and_then (guard (\<not> t_archived t) (Sentinel (TenantRepo ErrTenantArchived))) (\<lambda>_. ret t)))"

definition RelationService_writableEvent :: "ctx \<Rightarrow> string \<Rightarrow> event go" where
  "RelationService_writableEvent c eventPublicID =
     and_then (guard (eventPublicID \<noteq> []) (Sentinel (RelationApp RA_ErrEventIDRequired))) (\<lambda>_.
     and_then (TenantRepo_FindEventByPublicID c eventPublicID) (\<lambda>e.
     and_then (require (Ensure c (ev_tenantPublicID e))) (\<lambda>_.
     and_then (guard (ev_status e \<noteq> EventStatusArchived) (Sentinel (TenantRepo ErrEventArchived))) (\<lambda>_.
     and_then (RelationService_writableTenant c (ev_tenantPublicID e)) (\<lambda>_. ret e)))))"

definition RelationService_withCurrentPermission :: "ctx \<Rightarrow> string \<Rightarrow> (ctx \<Rightarrow> 'a go) \<Rightarrow> 'a go" where
  "RelationService_withCurrentPermission c tenantID write =
     MembershipRepo_WithinTransaction c (\<lambda>c.
       and_then (MembershipRepo_LockTenantMemberships c tenantID) (\<lambda>_.
       and_then (Authorizer_Require c tenantID ScopeTenantWrite) (\<lambda>_. write c)))"

definition RelationService_writeMembership :: "ctx \<Rightarrow> string \<Rightarrow> (ctx \<Rightarrow> membership go) \<Rightarrow> membership go" where
  "RelationService_writeMembership c tenantID write = RelationService_withCurrentPermission c tenantID write"

definition RelationService_keepAnotherOwner :: "ctx \<Rightarrow> string \<Rightarrow> string \<Rightarrow> unit go" where
  "RelationService_keepAnotherOwner c tenantID userID =
     and_then (attempt (MembershipRepo_FindTenantRoleForShare c tenantID userID)) (\<lambda>found.
       case found of
         Inl err \<Rightarrow> if errors_Is err (RelationRepo ErrMembershipNotFound) then ret () else fail err
       | Inr r \<Rightarrow>
           if r \<noteq> RoleOwner then ret ()
           else and_then (MembershipRepo_CountTenantOwners c tenantID) (\<lambda>owners.
             guard (\<not> owners \<le> 1) (Sentinel (RelationApp ErrLastOwner))))"

section \<open>Memberships and roles\<close>

definition RelationService_AddTenantMember ::
    "ctx \<Rightarrow> string \<Rightarrow> string \<Rightarrow> role \<Rightarrow> string \<Rightarrow> membership go" where
  "RelationService_AddTenantMember c tenantPublicID userID r displayName =
     and_then (guard (userID \<noteq> []) (Sentinel (RelationApp ErrUserIDRequired))) (\<lambda>_.
     and_then (require (Grantable r)) (\<lambda>_.
     and_then (of_result (ParseDisplayName displayName)) (\<lambda>name.
     and_then (RelationService_writableTenant c tenantPublicID) (\<lambda>t.
       MembershipRepo_AddTenantMember c (t_id t) userID r name))))"

definition RelationService_ChangeTenantRole :: "ctx \<Rightarrow> string \<Rightarrow> string \<Rightarrow> role \<Rightarrow> membership go" where
  "RelationService_ChangeTenantRole c tenantPublicID userID r =
     and_then (guard (userID \<noteq> []) (Sentinel (RelationApp ErrUserIDRequired))) (\<lambda>_.
     and_then (require (Grantable r)) (\<lambda>_.
     and_then (RelationService_writableTenant c tenantPublicID) (\<lambda>t.
       RelationService_writeMembership c (t_id t) (\<lambda>c.
         and_then (if r \<noteq> RoleOwner then RelationService_keepAnotherOwner c (t_id t) userID else ret ()) (\<lambda>_.
           MembershipRepo_ChangeTenantRole c (t_id t) userID r)))))"

definition RelationService_GrantEventRole :: "ctx \<Rightarrow> string \<Rightarrow> string \<Rightarrow> role \<Rightarrow> membership go" where
  "RelationService_GrantEventRole c eventPublicID userID r =
     and_then (guard (userID \<noteq> []) (Sentinel (RelationApp ErrUserIDRequired))) (\<lambda>_.
     and_then (require (Grantable r)) (\<lambda>_.
     and_then (RelationService_writableEvent c eventPublicID) (\<lambda>e.
       RelationService_writeMembership c (ev_tenantID e) (\<lambda>c.
         MembershipRepo_GrantEventRole c (ev_id e) userID r))))"

record revoke_role_input =
  rri_UserID :: string
  rri_TenantPublicID :: string
  rri_EventPublicID :: string

definition RelationService_RevokeRole :: "ctx \<Rightarrow> revoke_role_input \<Rightarrow> unit go" where
  "RelationService_RevokeRole c input =
     and_then (guard (rri_UserID input \<noteq> []) (Sentinel (RelationApp ErrUserIDRequired))) (\<lambda>_.
       if rri_TenantPublicID input \<noteq> [] \<and> rri_EventPublicID input \<noteq> []
       then fail (Sentinel (RelationApp ErrScopeAmbiguous))
       else if rri_TenantPublicID input \<noteq> []
       then and_then (RelationService_writableTenant c (rri_TenantPublicID input)) (\<lambda>t.
         RelationService_withCurrentPermission c (t_id t) (\<lambda>c.
           and_then (RelationService_keepAnotherOwner c (t_id t) (rri_UserID input)) (\<lambda>_.
             MembershipRepo_RevokeTenantMembership c (t_id t) (rri_UserID input))))
       else if rri_EventPublicID input \<noteq> []
       then and_then (RelationService_writableEvent c (rri_EventPublicID input)) (\<lambda>e.
         RelationService_withCurrentPermission c (ev_tenantID e) (\<lambda>c.
           MembershipRepo_RevokeEventRole c (ev_id e) (rri_UserID input)))
       else fail (Sentinel (RelationApp ErrScopeRequired)))"

definition RelationService_ListMemberships :: "ctx \<Rightarrow> string \<Rightarrow> string \<Rightarrow> membership list go" where
  "RelationService_ListMemberships c tenantPublicID userID =
     (if tenantPublicID \<noteq> [] \<and> userID \<noteq> [] then fail (Sentinel (RelationApp ErrFilterAmbiguous))
      else if tenantPublicID \<noteq> []
      then and_then (RelationService_resolveTenant c tenantPublicID) (\<lambda>t.
        MembershipRepo_ListMembershipsByTenant c (t_id t))
      else if userID \<noteq> []
      then (case TenantPublicIDFromContext c of
          None \<Rightarrow> fail (Sentinel (TenantCtx ErrMissing))
        | Some own \<Rightarrow>
            and_then (RelationService_resolveTenant c own) (\<lambda>t.
            and_then (attempt (MembershipRepo_FindMembership c (t_id t) userID)) (\<lambda>found.
              case found of
                Inl err \<Rightarrow> if errors_Is err (RelationRepo ErrMembershipNotFound) then ret [] else fail err
              | Inr m \<Rightarrow> ret [m])))
      else fail (Sentinel (RelationApp ErrFilterRequired)))"

section \<open>Invitations\<close>

definition RelationService_CreateTenantInvitation ::
    "relation_service \<Rightarrow> ctx \<Rightarrow> string \<Rightarrow> role \<Rightarrow> string \<Rightarrow> (invitation \<times> string) go" where
  "RelationService_CreateTenantInvitation s c tenantPublicID r displayName =
     and_then (require (Invitable r)) (\<lambda>_.
     and_then (of_result (ParseDisplayName displayName)) (\<lambda>name.
     and_then (RelationService_writableTenant c tenantPublicID) (\<lambda>t.
     and_then NewUUIDv7 (\<lambda>id.
     and_then NewPublicID (\<lambda>publicID.
     and_then onetimetoken_New (\<lambda>(token, tokenHash).
     and_then now_go (\<lambda>now.
       let i = NewInvitation id publicID (t_id t) (t_publicID t) r name (now + rs_invitationTTL s) InvitationPending
       in and_then (RelationService_withCurrentPermission c (t_id t) (\<lambda>c.
              InvitationRepo_CreateInvitation c i tokenHash)) (\<lambda>_.
            ret (i, token)))))))))"

definition RelationService_ListTenantInvitations :: "ctx \<Rightarrow> string \<Rightarrow> invitation list go" where
  "RelationService_ListTenantInvitations c tenantPublicID =
     and_then (RelationService_resolveTenant c tenantPublicID) (\<lambda>t.
     and_then now_go (\<lambda>now. InvitationRepo_ListOpenInvitations c (t_id t) now))"

definition revoke_invitation_tx :: "string \<Rightarrow> string \<Rightarrow> ctx \<Rightarrow> invitation go" where
  "revoke_invitation_tx tenantID invitationID c =
     and_then (InvitationRepo_FindInvitationForUpdate c tenantID invitationID) (\<lambda>i.
     and_then now_go (\<lambda>now.
     and_then (of_result (invitation_Revoke i now)) (\<lambda>revoked.
     and_then (InvitationRepo_MarkInvitationRevoked c (i_id i) now) (\<lambda>_. ret revoked))))"

definition RelationService_RevokeTenantInvitation :: "ctx \<Rightarrow> string \<Rightarrow> string \<Rightarrow> invitation go" where
  "RelationService_RevokeTenantInvitation c tenantPublicID invitationID =
     and_then (guard (invitationID \<noteq> []) (Sentinel (RelationApp ErrInvitationIDRequired))) (\<lambda>_.
     and_then (RelationService_writableTenant c tenantPublicID) (\<lambda>t.
       TenantRepo_WithinTransaction c (revoke_invitation_tx (t_id t) invitationID)))"

definition accept_invitation_tx :: "tenant \<Rightarrow> string \<Rightarrow> string \<Rightarrow> ctx \<Rightarrow> membership go" where
  "accept_invitation_tx t token subject c =
     and_then (MembershipRepo_LockTenantMemberships c (t_id t)) (\<lambda>_.
     and_then (attempt (InvitationRepo_FindInvitationByTokenForUpdate c (t_id t) (HashOf token))) (\<lambda>found.
     and_then (case found of
         Inl err \<Rightarrow> if errors_Is err (RelationRepo ErrInvitationNotFound)
                    then fail (Sentinel (RelationApp ErrInvitationRejected)) else fail err
       | Inr i \<Rightarrow> ret i) (\<lambda>i.
     and_then now_go (\<lambda>now.
       case invitation_Accept i now of
         Inl _ \<Rightarrow> fail (Sentinel (RelationApp ErrInvitationRejected))
       | Inr _ \<Rightarrow>
           and_then (guard (Owned t) (Sentinel (RelationApp RA_ErrTenantPendingOwner))) (\<lambda>_.
           and_then (guard (\<not> t_archived t) (Sentinel (TenantRepo ErrTenantArchived))) (\<lambda>_.
           and_then (MembershipRepo_AddTenantMember c (t_id t) subject (i_role i) (i_displayName i)) (\<lambda>m.
           and_then (InvitationRepo_MarkInvitationAccepted c (i_id i) subject now) (\<lambda>_. ret m))))))))"

definition RelationService_AcceptTenantInvitation :: "ctx \<Rightarrow> string \<Rightarrow> string \<Rightarrow> membership go" where
  "RelationService_AcceptTenantInvitation c tenantPublicID token =
     and_then (guard (tenantPublicID \<noteq> []) (Sentinel (RelationApp RA_ErrTenantIDRequired))) (\<lambda>_.
     and_then (guard (token \<noteq> []) (Sentinel (RelationApp ErrInvitationTokenRequired))) (\<lambda>_.
       case SubjectFromContext c of
         None \<Rightarrow> fail (Sentinel (TenantCtx ErrSubjectMissing))
       | Some subject \<Rightarrow>
           and_then (TenantRepo_FindTenantByPublicID c tenantPublicID) (\<lambda>t.
             TenantRepo_WithinTransaction c (accept_invitation_tx t token subject))))"

end
