(* ===== verification/RelationOperations.thy ===== *)
theory RelationOperations
  imports RelationService TenantOperations
begin

text \<open>
  What each use case of the relation model does to the database and when it fails: the effects as
  predicates over the databases before and after, and one rule per use case.
\<close>

section \<open>Gates\<close>

lemma runs_rel_resolveTenant:
  assumes i: "integrity d"
    and ok: "\<And>row. row \<in> set (tenants d) \<Longrightarrow> tr_public_id row = pid \<Longrightarrow> Ensure c pid = None
      \<Longrightarrow> Q (tenant_of row) d"
    and err: "\<And>e. R e d"
  shows "runs E c d (RelationService_resolveTenant c pid) Q R"
  unfolding RelationService_resolveTenant_def
proof (intro tri, goal_cases)
  case (1 row t)
  then show ?case using read_tenant(1) [OF i 1(3,5)] ok [OF 1(3,4)] by simp
qed (use err in auto)

lemma runs_writableTenant:
  assumes i: "integrity d"
    and ok: "\<And>row. row \<in> set (tenants d) \<Longrightarrow> tr_public_id row = pid \<Longrightarrow> Ensure c pid = None
      \<Longrightarrow> is_owned row \<Longrightarrow> \<not> tr_archived row \<Longrightarrow> Q (tenant_of row) d"
    and err: "\<And>e. R e d"
  shows "runs E c d (RelationService_writableTenant c pid) Q R"
  unfolding RelationService_writableTenant_def
  by (intro tri runs_rel_resolveTenant [OF i]) (use ok err in auto)

definition writable_event :: "db \<Rightarrow> ctx \<Rightarrow> string \<Rightarrow> event_row \<Rightarrow> tenant_row \<Rightarrow> bool" where
  "writable_event d c epid e row \<longleftrightarrow>
     e \<in> set (events d) \<and> evr_public_id e = epid \<and> row \<in> set (tenants d) \<and> tr_id row = evr_tenant_id e
     \<and> TenantPublicIDFromContext c = Some (tr_public_id row) \<and> evr_status e \<noteq> ''archived''
     \<and> is_owned row \<and> \<not> tr_archived row"

lemma event_tenant_row:
  assumes i: "integrity d" and e: "e \<in> set (events d)"
    and row: "row \<in> set (tenants d)" "tr_public_id row = evr_tenant_public_id e"
  shows "tr_id row = evr_tenant_id e"
proof -
  from integrityD(4) [OF i [unfolded integrity_def] e] obtain t where "t \<in> set (tenants d)"
    "tr_id t = evr_tenant_id e" "tr_public_id t = evr_tenant_public_id e"
    by (auto simp: event_row_ok_def list_ex_iff)
  with row schema_tenant_key(2) [OF integrity_schema(1) [OF i], of row t] show ?thesis by simp
qed

lemma runs_writableEvent:
  assumes i: "integrity d"
    and ok: "\<And>e row. writable_event d c epid e row \<Longrightarrow> Q (event_of e) d"
    and err: "\<And>e. R e d"
  shows "runs E c d (RelationService_writableEvent c epid) Q R"
  unfolding RelationService_writableEvent_def
proof (intro tri runs_writableTenant [OF i], goal_cases)
  case (1 e x row)
  have x: "x = event_of e" by (rule read_event(1) [OF i 1(2,4)])
  have "evr_status e \<noteq> ''archived''"
  proof
    assume "evr_status e = ''archived''"
    then have "status_of (evr_status e) = EventStatusArchived"
      using status_of_String [of EventStatusArchived] by (simp add: event_status_defs)
    with 1(6) x show False by simp
  qed
  moreover have "tr_id row = evr_tenant_id e"
    by (rule event_tenant_row [OF i 1(2,7)]) (use 1(8) x in simp)
  ultimately have "writable_event d c epid e row"
    using 1 x by (simp add: writable_event_def Ensure_None_iff)
  with ok x show ?case by simp
qed (use err in auto)

section \<open>The current permission\<close>

lemma runs_LockTenantMemberships:
  "Q () d \<Longrightarrow> (\<And>f. \<not> healthy E \<Longrightarrow> R (Wrap ''lock tenant memberships'' (fault_err f)) d)
     \<Longrightarrow> runs E c d (MembershipRepo_LockTenantMemberships c t) Q R"
  unfolding MembershipRepo_LockTenantMemberships_def by (intro tri) auto

definition permission_error :: "db \<Rightarrow> ctx \<Rightarrow> string \<Rightarrow> gerr \<Rightarrow> bool" where
  "permission_error d c tid e \<longleftrightarrow>
     e = Sentinel (TenantCtx ErrSubjectMissing) \<and> SubjectFromContext c = None
     \<or> e = Sentinel (RelationApp RA_ErrPermissionDenied) \<and> \<not> holds d c tid ScopeTenantWrite"

lemma runs_withCurrentPermission:
  assumes i: "integrity d" and c: "\<not> ctx_tx c"
    and body: "holds d c tid ScopeTenantWrite
      \<Longrightarrow> runs E (c\<lparr>ctx_tx := True\<rparr>) d (write (c\<lparr>ctx_tx := True\<rparr>)) Q (\<lambda>e _. Z e)"
    and okQ: "\<And>x d'. holds d c tid ScopeTenantWrite \<Longrightarrow> Q x d' \<Longrightarrow> Q' x d'"
    and err: "\<And>e d'. d' = d \<or> \<not> healthy E \<and> (\<exists>x. Q x d') \<and> holds d c tid ScopeTenantWrite
      \<Longrightarrow> (healthy E \<Longrightarrow> \<exists>e0. e = abort_mark e0 \<and> (permission_error d c tid e0
           \<or> holds d c tid ScopeTenantWrite \<and> Z e0)) \<Longrightarrow> R e d'"
  shows "runs E c d (RelationService_withCurrentPermission c tid write) Q' R"
proof -
  let ?c = "c\<lparr>ctx_tx := True\<rparr>"
  have "runs E ?c d (and_then (MembershipRepo_LockTenantMemberships ?c tid) (\<lambda>_.
       and_then (Authorizer_Require ?c tid ScopeTenantWrite) (\<lambda>_. write ?c)))
     (\<lambda>x d'. holds d c tid ScopeTenantWrite \<and> Q x d')
     (\<lambda>e _. healthy E \<longrightarrow> permission_error d c tid e \<or> holds d c tid ScopeTenantWrite \<and> Z e)"
  proof (intro tri runs_LockTenantMemberships runs_Require [OF integrity_schema(1) [OF i]], goal_cases)
    case 2
    then have "holds d c tid ScopeTenantWrite" by simp
    with body show ?case by (auto elim!: runs_conseq)
  qed (auto simp: permission_error_def)
  from runs_atomic [OF c, where fn = "\<lambda>c. and_then (MembershipRepo_LockTenantMemberships c tid) (\<lambda>_.
       and_then (Authorizer_Require c tid ScopeTenantWrite) (\<lambda>_. write c))", OF this]
  show ?thesis
    unfolding RelationService_withCurrentPermission_def MembershipRepo_WithinTransaction_def
  proof (rule runs_conseq)
    show "Q' x d'" if "holds d c tid ScopeTenantWrite \<and> Q x d'" for x d' using that okQ by blast
    show "R e d'" if "all_or_nothing E d (\<lambda>x d'. holds d c tid ScopeTenantWrite \<and> Q x d')
        (\<lambda>e. healthy E \<longrightarrow> permission_error d c tid e \<or> holds d c tid ScopeTenantWrite \<and> Z e) e d'" for e d'
      by (rule err) (use that in \<open>unfold all_or_nothing_def; blast\<close>)+
  qed
qed

lemma runs_keepAnotherOwner:
  assumes i: "integrity d" and own: "has_owner d tid"
    and ok: "owner_besides d tid u \<Longrightarrow> Q () d"
    and last: "current_role d tid u = Some RoleOwner \<Longrightarrow> sql_count_owners tid d \<le> 1
      \<Longrightarrow> R (Sentinel (RelationApp ErrLastOwner)) d"
    and broken: "\<And>e. \<not> healthy E \<Longrightarrow> R e d"
  shows "runs E c d (RelationService_keepAnotherOwner c tid u) Q R"
proof -
  have ok': "schema_ok d" by (rule integrity_schema(1) [OF i])
  show ?thesis
    unfolding RelationService_keepAnotherOwner_def MembershipRepo_CountTenantOwners_def
    by (intro tri runs_FindTenantRoleForShare [OF ok'])
      (use ok last broken owner_besides_counted [OF ok'] owner_besides_other [OF ok' own] in auto)
qed

section \<open>Memberships\<close>

definition member_added ::
    "db \<Rightarrow> ctx \<Rightarrow> string \<Rightarrow> string \<Rightarrow> role \<Rightarrow> string \<Rightarrow> db \<Rightarrow> bool" where
  "member_added d c pid u r name d' \<longleftrightarrow> (\<exists>row n at.
     row \<in> set (tenants d) \<and> tr_public_id row = pid \<and> TenantPublicIDFromContext c = Some pid
     \<and> is_owned row \<and> \<not> tr_archived row \<and> (r = RoleOwner \<or> r = RoleStaff) \<and> u \<noteq> []
     \<and> ParseDisplayName name = Inr n
     \<and> sql_insert_membership at (tr_id row) u (Role_String r) (dn_value n) d = Inr d')"

lemma integrity_member:
  assumes i: "integrity d" and row: "row \<in> set (tenants d)" "is_owned row" and n: "display_name_ok n"
    and run: "sql_insert_membership at (tr_id row) u r n d = Inr d'"
  shows "integrity d'"
  unfolding integrity_def
  by (rule integrity_insert_membership [OF i run n])
    (use row schema_tenant_key(1) [OF integrity_schema(1) [OF i] _ row(1)] in auto)

lemma inserted_role:
  assumes i: "integrity d'" and run: "sql_insert_membership at tid u r n d = Inr d'" and n: "display_name_ok n"
    and short: "RuneCountInString u \<le> 255"
    and m: "m \<in> set (memberships d')" "mr_tenant_id m = tid" "mr_user_id m = u"
  shows "mr_tenant_role m = r"
proof -
  from run n obtain u' where u: "varchar 255 u = Inr u'" and put: "put_memberships (memberships d @
      [\<lparr>mr_tenant_id = tid, mr_user_id = u', mr_tenant_role = r, mr_display_name = n, mr_joined_at = at\<rparr>]) d = Inr d'"
    by (rule insert_membership_cases)
  let ?new = "\<lparr>mr_tenant_id = tid, mr_user_id = u, mr_tenant_role = r, mr_display_name = n, mr_joined_at = at\<rparr>"
  have "?new \<in> set (memberships d')" using put u varchar_short [OF short] by (simp add: put_Inr)
  with m have "m = ?new" by (intro schema_membership_key [OF integrity_schema(1) [OF i]]) auto
  then show ?thesis by simp
qed

lemma runs_AddTenantMember_service:
  assumes i: "integrity d"
  shows "runs E c d (RelationService_AddTenantMember c pid u r name)
    (\<lambda>x d'. member_added d c pid u r name d' \<and> integrity d'
       \<and> m_userID x = u \<and> (RuneCountInString u \<le> 255 \<longrightarrow> m_tenantRole x = r))
    (\<lambda>e d'. d' = d \<or> (\<not> healthy E \<or> 255 < RuneCountInString u) \<and> member_added d c pid u r name d' \<and> integrity d')"
  unfolding RelationService_AddTenantMember_def
proof (intro tri runs_writableTenant [OF i], goal_cases)
  case (1 n row)
  note row = \<open>row \<in> set (tenants d)\<close>
  have name: "display_name_ok (dn_value n)" by (rule display_name_ok_parsed) fact
  have seen: "VerifyOwnership c (tr_public_id row) = None"
    using 1 Ensure_VerifyOwnership by auto
  have added: "member_added d c pid u r name d' \<and> integrity d'"
    if "sql_insert_membership at (tr_id row) u (Role_String r) (dn_value n) d = Inr d'" for at d'
  proof -
    have "integrity d'" by (rule integrity_member [OF i row \<open>is_owned row\<close> name that])
    moreover have "member_added d c pid u r name d'"
      unfolding member_added_def
      by (rule exI [of _ row], rule exI [of _ n], rule exI [of _ at])
        (use 1 that in \<open>simp add: Ensure_None_iff Grantable_None_iff\<close>)
    ultimately show ?thesis by simp
  qed
  have inserted: "m_tenantRole (membership_of d' m) = r"
    if run: "sql_insert_membership at (tr_id row) u (Role_String r) (dn_value n) d = Inr d'"
      and m: "m \<in> set (memberships d')" "mr_tenant_id m = tr_id row" "mr_user_id m = u"
      and short: "RuneCountInString u \<le> 255" for at d' m
  proof -
    have "r = RoleOwner \<or> r = RoleStaff" using 1 by (simp add: Grantable_None_iff)
    moreover have "mr_tenant_role m = Role_String r"
      by (rule inserted_role [OF conjunct2 [OF added [OF run]] run name short m])
    ultimately show ?thesis by (auto simp: membership_of_def NewMembership_def role_of_def role_defs)
  qed
  show ?case unfolding tenant_of_simps
  proof (rule runs_AddTenantMember [OF i row name], goal_cases)
    case (1 at d' m)
    then show ?case using added [OF 1(3)] inserted [OF 1(3-6)] by (simp add: membership_of_def NewMembership_def)
  next
    case (4 at d' e)
    then have "\<not> healthy E \<or> 255 < RuneCountInString u"
      using seen 4(2) insert_membership_has [OF 4(1)] by (metis linorder_not_le option.distinct(1))
    with added [OF 4(1)] show ?case by blast
  qed auto
qed auto

definition role_changed :: "db \<Rightarrow> ctx \<Rightarrow> string \<Rightarrow> string \<Rightarrow> role \<Rightarrow> membership \<Rightarrow> db \<Rightarrow> bool" where
  "role_changed d c pid u r x d' \<longleftrightarrow> (\<exists>row m.
     row \<in> set (tenants d) \<and> tr_public_id row = pid \<and> TenantPublicIDFromContext c = Some pid
     \<and> is_owned row \<and> \<not> tr_archived row \<and> (r = RoleOwner \<or> r = RoleStaff)
     \<and> holds d c (tr_id row) ScopeTenantWrite
     \<and> (r = RoleOwner \<or> owner_besides d (tr_id row) u)
     \<and> m \<in> set (memberships d') \<and> is_membership (tr_id row) u m \<and> x = membership_of d' m
     \<and> d' = d\<lparr>memberships := update_where (is_membership (tr_id row) u)
           (\<lambda>m. m\<lparr>mr_tenant_role := Role_String r\<rparr>) (memberships d)\<rparr>)"

text \<open>A refused demotion of the last owner, or another reason.\<close>

definition last_owner :: "db \<Rightarrow> string \<Rightarrow> string \<Rightarrow> bool" where
  "last_owner d tid u \<longleftrightarrow> current_role d tid u = Some RoleOwner \<and> \<not> owner_besides d tid u"

lemma runs_ChangeTenantRole_repo:
  assumes i: "integrity d" and row: "row \<in> set (tenants d)" and seen: "VerifyOwnership c (tr_public_id row) = None"
    and r: "r = RoleOwner \<or> r = RoleStaff" and keep: "r = RoleOwner \<or> owner_besides d (tr_id row) u"
    and ok: "\<And>d' m. integrity d' \<Longrightarrow> m \<in> set (memberships d') \<Longrightarrow> is_membership (tr_id row) u m
      \<Longrightarrow> d' = d\<lparr>memberships := update_where (is_membership (tr_id row) u)
           (\<lambda>m. m\<lparr>mr_tenant_role := Role_String r\<rparr>) (memberships d)\<rparr> \<Longrightarrow> Q (membership_of d' m) d'"
    and err: "\<And>e d'. R e d'"
  shows "runs E c d (MembershipRepo_ChangeTenantRole c (tr_id row) u r) Q R"
proof -
  have run: "integrity d' \<and> d' = d\<lparr>memberships := update_where (is_membership (tr_id row) u)
           (\<lambda>m. m\<lparr>mr_tenant_role := Role_String r\<rparr>) (memberships d)\<rparr>"
    if "sql_update_tenant_role (tr_id row) u (Role_String r) d = Inr (n, d')" for n d'
  proof -
    have "integrity d'"
      by (rule integrity_update_role [OF i that]) (use keep in \<open>auto simp: role_defs\<close>)
    with that show ?thesis by (auto simp: sql_update_tenant_role_def bind_result_Inr_iff put_Inr)
  qed
  show ?thesis
    unfolding MembershipRepo_ChangeTenantRole_def expectOneRow_def
  proof (intro tri, goal_cases)
    case (1 t n d')
    have i': "integrity_but {} d'" using run [OF 1(2)] unfolding integrity_def by blast
    show ?case
      by (rule runs_FindMembership [OF i'])
        (use ok run [OF 1(2)] err in \<open>auto simp: is_membership_def\<close>)
  qed (use err in auto)
qed

lemma runs_ChangeTenantRole:
  assumes i: "integrity d" and c: "\<not> ctx_tx c"
  shows "runs E c d (RelationService_ChangeTenantRole c pid u r)
    (\<lambda>x d'. role_changed d c pid u r x d' \<and> integrity d')
    (\<lambda>e d'. d' = d \<or> \<not> healthy E \<and> (\<exists>x. role_changed d c pid u r x d') \<and> integrity d')"
  unfolding RelationService_ChangeTenantRole_def RelationService_writeMembership_def
proof (intro tri runs_writableTenant [OF i], goal_cases)
  case (1 row)
  note facts = 1
  have seen: "VerifyOwnership (c\<lparr>ctx_tx := True\<rparr>) (tr_public_id row) = None"
    using facts Ensure_VerifyOwnership by auto
  have own: "has_owner d (tr_id row)"
    by (rule integrityD(2) [OF i [unfolded integrity_def]]) fact+
  have changed: "runs E (c\<lparr>ctx_tx := True\<rparr>) d (MembershipRepo_ChangeTenantRole (c\<lparr>ctx_tx := True\<rparr>) (tr_id row) u r)
      (\<lambda>x d'. role_changed d c pid u r x d' \<and> integrity d') (\<lambda>e _. True)"
    if "holds d c (tr_id row) ScopeTenantWrite" "r = RoleOwner \<or> owner_besides d (tr_id row) u"
  proof (rule runs_ChangeTenantRole_repo [OF i \<open>row \<in> set (tenants d)\<close> seen])
    show "r = RoleOwner \<or> r = RoleStaff" using facts by (simp add: Grantable_None_iff)
    show "role_changed d c pid u r (membership_of d' m) d' \<and> integrity d'"
      if "integrity d'" "m \<in> set (memberships d')" "is_membership (tr_id row) u m"
        "d' = d\<lparr>memberships := update_where (is_membership (tr_id row) u)
           (\<lambda>m. m\<lparr>mr_tenant_role := Role_String r\<rparr>) (memberships d)\<rparr>" for d' m
      unfolding role_changed_def
      using that \<open>holds d c (tr_id row) ScopeTenantWrite\<close> \<open>r = RoleOwner \<or> owner_besides d (tr_id row) u\<close> facts
      by (auto simp: Ensure_None_iff Grantable_None_iff intro!: exI [of _ row] exI [of _ m])
  qed (use that in auto)
  show ?case unfolding tenant_of_simps
  proof (rule runs_withCurrentPermission [OF i c, where Q = "\<lambda>x d'. role_changed d c pid u r x d' \<and> integrity d'"
        and Z = "\<lambda>_. True"], goal_cases)
    case 1
    show ?case
      by (intro tri runs_keepAnotherOwner [OF i own]) (use changed [OF 1] in auto)
  qed auto
qed auto

section \<open>Event roles\<close>

definition granted_event_role :: "db \<Rightarrow> ctx \<Rightarrow> string \<Rightarrow> string \<Rightarrow> role \<Rightarrow> db \<Rightarrow> bool" where
  "granted_event_role d c epid u r d' \<longleftrightarrow> (\<exists>e row. writable_event d c epid e row
     \<and> (r = RoleOwner \<or> r = RoleStaff) \<and> holds d c (tr_id row) ScopeTenantWrite
     \<and> event_role_granted d (evr_id e) u r d')"

lemma runs_GrantEventRole:
  assumes i: "integrity d" and c: "\<not> ctx_tx c"
  shows "runs E c d (RelationService_GrantEventRole c epid u r)
    (\<lambda>x d'. granted_event_role d c epid u r d' \<and> integrity d')
    (\<lambda>e d'. d' = d \<or> \<not> healthy E \<and> granted_event_role d c epid u r d' \<and> integrity d')"
  unfolding RelationService_GrantEventRole_def RelationService_writeMembership_def
proof (intro tri runs_writableEvent [OF i], goal_cases)
  case (1 e row)
  then have tid: "evr_tenant_id e = tr_id row" by (simp add: writable_event_def)
  show ?case unfolding event_of_simps tid
  proof (rule runs_withCurrentPermission [OF i c, where Q = "\<lambda>x d'. granted_event_role d c epid u r d' \<and> integrity d'"
        and Z = "\<lambda>_. True"], goal_cases)
    case h: 1
    show ?case
      by (rule runs_GrantEventRole_effect [OF i])
        (use 1 h integrity_upsert_event_role [OF i] in \<open>auto simp: granted_event_role_def Grantable_None_iff
          event_role_granted_def\<close>)
  qed auto
qed auto

section \<open>Revocation\<close>

definition membership_revoked :: "db \<Rightarrow> ctx \<Rightarrow> string \<Rightarrow> string \<Rightarrow> db \<Rightarrow> bool" where
  "membership_revoked d c pid u d' \<longleftrightarrow> (\<exists>row.
     row \<in> set (tenants d) \<and> tr_public_id row = pid \<and> TenantPublicIDFromContext c = Some pid
     \<and> is_owned row \<and> \<not> tr_archived row \<and> holds d c (tr_id row) ScopeTenantWrite
     \<and> owner_besides d (tr_id row) u \<and> (\<exists>m \<in> set (memberships d). is_membership (tr_id row) u m)
     \<and> d' = delete_memberships (is_membership (tr_id row) u) d)"

definition event_role_revoked :: "db \<Rightarrow> ctx \<Rightarrow> string \<Rightarrow> string \<Rightarrow> db \<Rightarrow> bool" where
  "event_role_revoked d c epid u d' \<longleftrightarrow> (\<exists>e row. writable_event d c epid e row
     \<and> holds d c (tr_id row) ScopeTenantWrite \<and> (\<exists>x \<in> set (event_roles d). is_event_role (evr_id e) u x)
     \<and> d' = d\<lparr>event_roles := delete_where (is_event_role (evr_id e) u) (event_roles d)\<rparr>)"

definition role_revoked :: "db \<Rightarrow> ctx \<Rightarrow> revoke_role_input \<Rightarrow> db \<Rightarrow> bool" where
  "role_revoked d c input d' \<longleftrightarrow>
     (if rri_EventPublicID input = [] then membership_revoked d c (rri_TenantPublicID input) (rri_UserID input) d'
      else rri_TenantPublicID input = [] \<and> event_role_revoked d c (rri_EventPublicID input) (rri_UserID input) d')"

lemma runs_RevokeRole:
  assumes i: "integrity d" and c: "\<not> ctx_tx c"
  shows "runs E c d (RelationService_RevokeRole c input)
    (\<lambda>x d'. role_revoked d c input d' \<and> integrity d')
    (\<lambda>e d'. d' = d \<or> \<not> healthy E \<and> role_revoked d c input d' \<and> integrity d')"
  unfolding RelationService_RevokeRole_def
proof (intro tri runs_writableTenant [OF i] runs_writableEvent [OF i], goal_cases)
  case (2 row)
  note facts = 2
  have own: "has_owner d (tr_id row)"
    by (rule integrityD(2) [OF i [unfolded integrity_def]]) fact+
  let ?u = "rri_UserID input"
  show ?case unfolding tenant_of_simps
  proof (rule runs_withCurrentPermission [OF i c, where Q = "\<lambda>x d'. role_revoked d c input d' \<and> integrity d'"
        and Z = "\<lambda>_. True"], goal_cases)
    case h: 1
    have "role_revoked d c input d' \<and> integrity d'"
      if run: "sql_delete_membership (tr_id row) ?u d = Inr (n, d')" "n \<noteq> 0" and o: "owner_besides d (tr_id row) ?u" for n d'
    proof -
      have "integrity d'" by (rule integrity_delete_membership [OF i run(1)]) (use o in simp)
      moreover from run have "\<exists>m \<in> set (memberships d). is_membership (tr_id row) ?u m"
        using count_where_zero_iff [of "is_membership (tr_id row) ?u" "memberships d"]
        by (auto simp: sql_delete_membership_def)
      moreover have "d' = delete_memberships (is_membership (tr_id row) ?u) d"
        using run by (simp add: sql_delete_membership_def)
      ultimately show ?thesis
        using facts h o by (auto simp: role_revoked_def membership_revoked_def Ensure_None_iff intro!: exI [of _ row])
    qed
    then show ?case
      unfolding MembershipRepo_RevokeTenantMembership_def expectOneRow_def
      by (intro tri runs_keepAnotherOwner [OF i own]) auto
  qed auto
next
  case (4 e row)
  note facts = 4
  let ?u = "rri_UserID input"
  have tid: "evr_tenant_id e = tr_id row" using facts by (simp add: writable_event_def)
  show ?case unfolding event_of_simps tid
  proof (rule runs_withCurrentPermission [OF i c, where Q = "\<lambda>x d'. role_revoked d c input d' \<and> integrity d'"
        and Z = "\<lambda>_. True"], goal_cases)
    case h: 1
    have "role_revoked d c input d' \<and> integrity d'"
      if run: "sql_delete_event_role (evr_id e) ?u d = Inr (n, d')" "n \<noteq> 0" for n d'
    proof -
      have "integrity d'" by (rule integrity_delete_event_role [OF i run(1)])
      moreover from run have "\<exists>m \<in> set (event_roles d). is_event_role (evr_id e) ?u m"
        using count_where_zero_iff [of "is_event_role (evr_id e) ?u" "event_roles d"]
        by (auto simp: sql_delete_event_role_def)
      moreover have "d' = d\<lparr>event_roles := delete_where (is_event_role (evr_id e) ?u) (event_roles d)\<rparr>"
        using run by (simp add: sql_delete_event_role_def)
      ultimately show ?thesis
        using facts h by (auto simp: role_revoked_def event_role_revoked_def)
    qed
    then show ?case
      unfolding MembershipRepo_RevokeEventRole_def expectOneRow_def
      by (intro tri) auto
  qed auto
qed auto

end
