(* ===== verification/InvitationOperations.thy ===== *)
theory InvitationOperations
  imports RelationOperations
begin

text \<open>The use cases of invitations and the listings of the relation model, in the same form.\<close>

section \<open>Invitations\<close>

definition writable_row :: "db \<Rightarrow> ctx \<Rightarrow> string \<Rightarrow> tenant_row \<Rightarrow> bool" where
  "writable_row d c pid row \<longleftrightarrow> row \<in> set (tenants d) \<and> tr_public_id row = pid
     \<and> TenantPublicIDFromContext c = Some pid \<and> is_owned row \<and> \<not> tr_archived row"

definition invited :: "env \<Rightarrow> int \<Rightarrow> db \<Rightarrow> ctx \<Rightarrow> string \<Rightarrow> string \<Rightarrow> invitation \<times> string \<Rightarrow> db \<Rightarrow> bool" where
  "invited E ttl d c pid name res d' \<longleftrightarrow> (\<exists>row n iid bs raw k at.
     writable_row d c pid row \<and> holds d c (tr_id row) ScopeTenantWrite \<and> ParseDisplayName name = Inr n
     \<and> List.length bs = 8 \<and> List.length raw = tokenBytes \<and> (\<exists>m. e_uuid E m = Inr iid)
     \<and> res = (NewInvitation iid (public_id_of bs) (tr_id row) pid RoleStaff n (e_clock E k + ttl) InvitationPending,
              fst (token_of raw))
     \<and> d' = d\<lparr>invitations := invitations d @ [\<lparr>ir_id = iid, ir_public_id = public_id_of bs, ir_tenant_id = tr_id row,
          ir_tenant_role = ''staff'', ir_display_name = dn_value n, ir_token_hash = HashOf (snd res),
          ir_expires_at = pg_time (e_clock E k + ttl), ir_created_at = at, ir_accepted_at = None,
          ir_accepted_by = None, ir_revoked_at = None\<rparr>]\<rparr>)"

definition invitation_revoked :: "env \<Rightarrow> db \<Rightarrow> ctx \<Rightarrow> string \<Rightarrow> string \<Rightarrow> invitation \<Rightarrow> db \<Rightarrow> bool" where
  "invitation_revoked E d c pid invID x d' \<longleftrightarrow> (\<exists>row j k.
     writable_row d c pid row \<and> j \<in> set (invitations d) \<and> ir_tenant_id j = tr_id row \<and> ir_public_id j = invID
     \<and> invitation_row_open (e_clock E k) j
     \<and> x = (invitation_of d j)\<lparr>i_state := InvitationRevoked\<rparr>
     \<and> d' = d\<lparr>invitations := update_where (\<lambda>i. ir_id i = ir_id j)
           (\<lambda>i. i\<lparr>ir_revoked_at := Some (pg_time (e_clock E k))\<rparr>) (invitations d)\<rparr>)"

definition invitation_accepted :: "env \<Rightarrow> db \<Rightarrow> ctx \<Rightarrow> string \<Rightarrow> string \<Rightarrow> membership \<Rightarrow> db \<Rightarrow> bool" where
  "invitation_accepted E d c pid token x d' \<longleftrightarrow> (\<exists>row j k u at.
     row \<in> set (tenants d) \<and> tr_public_id row = pid \<and> VerifyOwnership c pid = None
     \<and> is_owned row \<and> \<not> tr_archived row \<and> SubjectFromContext c = Some u
     \<and> j \<in> set (invitations d) \<and> ir_tenant_id j = tr_id row \<and> ir_token_hash j = HashOf token
     \<and> invitation_row_open (e_clock E k) j
     \<and> (let m = \<lparr>mr_tenant_id = tr_id row, mr_user_id = u, mr_tenant_role = ''staff'',
                 mr_display_name = ir_display_name j, mr_joined_at = at\<rparr>
        in x = membership_of d m
         \<and> d' = d\<lparr>memberships := memberships d @ [m],
              invitations := update_where (\<lambda>i. ir_id i = ir_id j)
                (\<lambda>i. i\<lparr>ir_accepted_at := Some (pg_time (e_clock E k)), ir_accepted_by := Some u\<rparr>) (invitations d)\<rparr>))"

lemma runs_writableTenant':
  assumes i: "integrity d"
    and ok: "\<And>row. writable_row d c pid row \<Longrightarrow> Q (tenant_of row) d"
    and err: "\<And>e. R e d"
  shows "runs E c d (RelationService_writableTenant c pid) Q R"
  by (rule runs_writableTenant [OF i]) (use ok err in \<open>auto simp: writable_row_def Ensure_None_iff\<close>)

lemma runs_CreateInvitation:
  assumes i: "integrity d" and row: "row \<in> set (tenants d)" "is_owned row" and n: "ParseDisplayName name = Inr n"
    and bs: "List.length bs = 8"
    and ok: "\<And>at d'. integrity d' \<Longrightarrow> d' = d\<lparr>invitations := invitations d @ [\<lparr>ir_id = iid,
          ir_public_id = public_id_of bs, ir_tenant_id = tr_id row,
          ir_tenant_role = ''staff'', ir_display_name = dn_value n, ir_token_hash = h,
          ir_expires_at = pg_time x, ir_created_at = at, ir_accepted_at = None,
          ir_accepted_by = None, ir_revoked_at = None\<rparr>]\<rparr> \<Longrightarrow> Q () d'"
    and err: "\<And>e d'. R e d'"
  shows "runs E c d (InvitationRepo_CreateInvitation c
      (NewInvitation iid (public_id_of bs) (tr_id row) pid RoleStaff n x InvitationPending) h) Q R"
proof -
  have name: "display_name_ok (dn_value n)" by (rule display_name_ok_parsed [OF n])
  have "Q () d'" if run: "sql_insert_invitation \<lparr>ir_id = iid,
          ir_public_id = public_id_of bs, ir_tenant_id = tr_id row,
          ir_tenant_role = ''staff'', ir_display_name = dn_value n, ir_token_hash = h,
          ir_expires_at = pg_time x, ir_created_at = at, ir_accepted_at = None,
          ir_accepted_by = None, ir_revoked_at = None\<rparr> d = Inr d'" for at d'
  proof (rule ok)
    show "integrity d'"
      by (rule integrity_insert_invitation [OF i run])
        (use name row schema_tenant_key(1) [OF integrity_schema(1) [OF i] _ row(1)] in auto)
    show "d' = d\<lparr>invitations := invitations d @ [\<lparr>ir_id = iid,
          ir_public_id = public_id_of bs, ir_tenant_id = tr_id row,
          ir_tenant_role = ''staff'', ir_display_name = dn_value n, ir_token_hash = h,
          ir_expires_at = pg_time x, ir_created_at = at, ir_accepted_at = None,
          ir_accepted_by = None, ir_revoked_at = None\<rparr>]\<rparr>"
      using run varchar_public_id [OF bs] varchar_short [OF display_name_ok_short [OF name]]
      by (auto simp: sql_insert_invitation_def bind_result_Inr_iff put_Inr)
  qed
  then show ?thesis
    unfolding InvitationRepo_CreateInvitation_def
    by (intro tri) (use err in \<open>auto simp: NewInvitation_def role_defs\<close>)
qed

lemma runs_CreateTenantInvitation:
  assumes i: "integrity d" and c: "\<not> ctx_tx c"
  shows "runs E c d (RelationService_CreateTenantInvitation s c pid r name)
    (\<lambda>x d'. r = RoleStaff \<and> invited E (rs_invitationTTL s) d c pid name x d' \<and> integrity d')
    (\<lambda>e d'. d' = d \<or> \<not> healthy E \<and> (\<exists>x. invited E (rs_invitationTTL s) d c pid name x d') \<and> integrity d')"
  unfolding RelationService_CreateTenantInvitation_def Let_def
proof (intro tri runs_writableTenant' [OF i], goal_cases)
  case (1 n row m iid bs raw tok hash k)
  note facts = 1
  have r: "r = RoleStaff" using facts(1) by (simp add: Invitable_def split: if_splits)
  have th: "tok = fst (token_of raw)" "hash = HashOf (fst (token_of raw))"
    using \<open>token_of raw = (tok, hash)\<close> snd_token_of [of raw] by auto
  have row: "row \<in> set (tenants d)" "is_owned row" and pid: "tr_public_id row = pid"
    using \<open>writable_row d c pid row\<close> by (simp_all add: writable_row_def)
  let ?i = "NewInvitation iid (public_id_of bs) (tr_id row) pid RoleStaff n (e_clock E k + rs_invitationTTL s) InvitationPending"
  let ?Q = "\<lambda>_ d'. invited E (rs_invitationTTL s) d c pid name (?i, tok) d' \<and> integrity d'"
  show ?case unfolding tenant_of_simps r pid
  proof (rule runs_withCurrentPermission [OF i c, where Q = ?Q and Z = "\<lambda>_. True"], goal_cases)
    case 1
    show ?case
    proof (rule runs_CreateInvitation [OF i row \<open>ParseDisplayName name = Inr n\<close> \<open>List.length bs = 8\<close>])
      fix at d'
      assume "integrity d'" and d': "d' = d\<lparr>invitations := invitations d @ [\<lparr>ir_id = iid,
          ir_public_id = public_id_of bs, ir_tenant_id = tr_id row,
          ir_tenant_role = ''staff'', ir_display_name = dn_value n, ir_token_hash = hash,
          ir_expires_at = pg_time (e_clock E k + rs_invitationTTL s), ir_created_at = at, ir_accepted_at = None,
          ir_accepted_by = None, ir_revoked_at = None\<rparr>]\<rparr>"
      have "invited E (rs_invitationTTL s) d c pid name (?i, tok) d'"
        unfolding invited_def
        by (rule exI [of _ row], rule exI [of _ n], rule exI [of _ iid], rule exI [of _ bs], rule exI [of _ raw],
            rule exI [of _ k], rule exI [of _ at])
          (use facts 1 th d' in auto)
      with \<open>integrity d'\<close> show "?Q () d'" by simp
    qed simp
  qed (auto simp: r intro!: runs_ret)
qed auto

lemma runs_MarkInvitationRevoked:
  assumes "\<And>n d'. sql_revoke_invitation j at d = Inr (n, d') \<Longrightarrow> n \<noteq> 0 \<Longrightarrow> Q () d'" and "\<And>e d'. R e d'"
  shows "runs E c d (InvitationRepo_MarkInvitationRevoked c j at) Q R"
  unfolding InvitationRepo_MarkInvitationRevoked_def expectOneRow_def by (intro tri) (use assms in auto)

lemma runs_MarkInvitationAccepted:
  assumes "\<And>n d'. sql_accept_invitation j u at d = Inr (n, d') \<Longrightarrow> n \<noteq> 0 \<Longrightarrow> Q () d'" and "\<And>e d'. R e d'"
  shows "runs E c d (InvitationRepo_MarkInvitationAccepted c j u at) Q R"
  unfolding InvitationRepo_MarkInvitationAccepted_def expectOneRow_def by (intro tri) (use assms in auto)

lemma runs_RevokeTenantInvitation:
  assumes i: "integrity d" and c: "\<not> ctx_tx c"
  shows "runs E c d (RelationService_RevokeTenantInvitation c pid invID)
    (\<lambda>x d'. invitation_revoked E d c pid invID x d' \<and> integrity d')
    (\<lambda>e d'. d' = d \<or> \<not> healthy E \<and> (\<exists>x. invitation_revoked E d c pid invID x d') \<and> integrity d')"
  unfolding RelationService_RevokeTenantInvitation_def TenantRepo_WithinTransaction_def
proof (intro tri runs_writableTenant' [OF i], goal_cases)
  case (1 row)
  note facts = 1
  let ?Q = "\<lambda>x d'. invitation_revoked E d c pid invID x d' \<and> integrity d'"
  have "runs E (c\<lparr>ctx_tx := True\<rparr>) d (revoke_invitation_tx (tr_id row) invID (c\<lparr>ctx_tx := True\<rparr>)) ?Q (\<lambda>_ _. True)"
    unfolding revoke_invitation_tx_def InvitationRepo_FindInvitationForUpdate_def
  proof (intro tri runs_findInvitation [OF i] runs_MarkInvitationRevoked, goal_cases)
    case (1 j k x n d')
    have "integrity d'" by (rule integrity_revoke_invitation [OF i 1(4)])
    moreover have "invitation_revoked E d c pid invID x d'"
      unfolding invitation_revoked_def
      by (rule exI [of _ row], rule exI [of _ j], rule exI [of _ k])
        (use 1 facts in \<open>auto simp: invitation_Revoke_Inr_iff sql_revoke_invitation_def bind_result_Inr_iff put_Inr\<close>)
    ultimately show ?case by simp
  qed auto
  from runs_atomic [OF c, where fn = "revoke_invitation_tx (tr_id row) invID", OF this] show ?case
    unfolding tenant_of_simps by (rule runs_conseq) (auto simp: all_or_nothing_def)
qed auto

lemma runs_AcceptTenantInvitation:
  assumes i: "integrity d" and c: "\<not> ctx_tx c"
  shows "runs E c d (RelationService_AcceptTenantInvitation c pid token)
    (\<lambda>x d'. invitation_accepted E d c pid token x d' \<and> integrity d')
    (\<lambda>e d'. d' = d \<or> \<not> healthy E \<and> (\<exists>x. invitation_accepted E d c pid token x d') \<and> integrity d')"
  unfolding RelationService_AcceptTenantInvitation_def TenantRepo_WithinTransaction_def
proof (intro tri, goal_cases)
  case (2 u row t)
  note facts = 2
  have t: "t = tenant_of row" and seen: "VerifyOwnership c (tr_public_id row) = None"
    using read_tenant [OF i facts(4,6)] by simp_all
  have blank: "u \<noteq> [] \<Longrightarrow> List.last u \<noteq> CHR '' ''"
    using SubjectFromContext_trimmed [OF facts(3)] trimmed_no_blank by blast
  let ?Q = "\<lambda>x d'. invitation_accepted E d c pid token x d' \<and> integrity d'"
  have "runs E (c\<lparr>ctx_tx := True\<rparr>) d (accept_invitation_tx t token u (c\<lparr>ctx_tx := True\<rparr>)) ?Q (\<lambda>_ _. True)"
    unfolding accept_invitation_tx_def InvitationRepo_FindInvitationByTokenForUpdate_def t tenant_of_simps
  proof (intro tri runs_LockTenantMemberships runs_findInvitation [OF i], goal_cases)
    case h: (4 j x k y)
    then have x: "x = invitation_of d j" by simp
    have j: "j \<in> set (invitations d)" "ir_tenant_id j = tr_id row" "ir_token_hash j = HashOf token"
      and op: "invitation_row_open (e_clock E k) j" and own: "is_owned row" "\<not> tr_archived row"
      using h x by (auto simp: invitation_Accept_Inr_iff)
    have name: "display_name_ok (ir_display_name j)"
      by (rule integrityD(6) [OF i [unfolded integrity_def] j(1)])
    show ?case unfolding x invitation_of_simps
    proof (rule runs_AddTenantMember [OF i facts(4)], goal_cases)
      case 1
      then show ?case using name by simp
    next
      case ins: (2 at d1 m)
      from ins(3) have run: "sql_insert_membership at (tr_id row) u ''staff'' (ir_display_name j) d = Inr d1"
        by (simp add: role_defs)
      let ?m = "\<lparr>mr_tenant_id = tr_id row, mr_user_id = u, mr_tenant_role = ''staff'',
          mr_display_name = ir_display_name j, mr_joined_at = at\<rparr>"
      from run name obtain u' where "varchar 255 u = Inr u'" and put: "put_memberships (memberships d @
          [\<lparr>mr_tenant_id = tr_id row, mr_user_id = u', mr_tenant_role = ''staff'',
            mr_display_name = ir_display_name j, mr_joined_at = at\<rparr>]) d = Inr d1"
        by (rule insert_membership_cases)
      with varchar_no_blank [OF _ blank] have d1: "d1 = d\<lparr>memberships := memberships d @ [?m]\<rparr>"
        by (auto simp: put_Inr)
      have i1: "integrity d1" by (rule integrity_member [OF i facts(4) own(1) name run])
      have m: "m = ?m"
        by (rule schema_membership_key [OF integrity_schema(1) [OF i1]]) (use ins d1 in auto)
      have mof: "membership_of d1 m = membership_of d ?m"
        by (simp add: m d1 membership_of_def tenant_public_id_def roles_of_member_def event_public_id_def)
      show ?case
      proof (intro tri runs_MarkInvitationAccepted, goal_cases)
        case (1 n d2)
        have "varchar 255 u = Inr u" using \<open>varchar 255 u = Inr u'\<close> varchar_no_blank [OF _ blank] by auto
        then have d2: "d2 = d1\<lparr>invitations := update_where (\<lambda>i. ir_id i = ir_id j)
            (\<lambda>i. i\<lparr>ir_accepted_at := Some (pg_time (e_clock E k)), ir_accepted_by := Some u\<rparr>) (invitations d1)\<rparr>"
          using 1 by (auto simp: sql_accept_invitation_def bind_result_Inr_iff put_Inr)
        have "integrity d2" by (rule integrity_accept_invitation [OF i1 1(1)])
        moreover have "invitation_accepted E d c pid token (membership_of d1 m) d2"
          unfolding invitation_accepted_def Let_def
          by (rule exI [of _ row], rule exI [of _ j], rule exI [of _ k], rule exI [of _ u], rule exI [of _ at])
            (use facts j op own seen mof d1 d2 in simp)
        ultimately show ?case by simp
      qed simp
    qed auto
  qed auto
  from runs_atomic [OF c, where fn = "accept_invitation_tx t token u", OF this] show ?case
    by (rule runs_conseq) (auto simp: all_or_nothing_def)
qed auto

section \<open>Listings\<close>

lemma members_of_none:
  "(\<And>m. m \<in> set (memberships d) \<Longrightarrow> \<not> p m) \<Longrightarrow> members_of d p = []"
  by (simp add: members_of_def filter_empty_conv)

lemma runs_ListMemberships:
  assumes i: "integrity d"
  shows "runs E c d (RelationService_ListMemberships c pid u)
    (\<lambda>xs d'. d' = d \<and> (pid = []) \<noteq> (u = [])
       \<and> (\<exists>row \<in> set (tenants d). TenantPublicIDFromContext c = Some (tr_public_id row)
            \<and> (pid \<noteq> [] \<longrightarrow> tr_public_id row = pid)
            \<and> xs = members_of d (\<lambda>m. mr_tenant_id m = tr_id row \<and> (u \<noteq> [] \<longrightarrow> mr_user_id m = u))))
    (\<lambda>e d'. d' = d)"
proof -
  have one: "members_of d (\<lambda>m. mr_tenant_id m = t \<and> mr_user_id m = v) = [membership_of d m]"
    if "m \<in> set (memberships d)" "mr_tenant_id m = t" "mr_user_id m = v" for m t v
    using members_of_one [OF integrity_schema(1) [OF i] that(1)] that(2,3)
    by (simp add: is_membership_def [abs_def])
  show ?thesis
    unfolding RelationService_ListMemberships_def MembershipRepo_ListMembershipsByTenant_def
  proof (intro tri runs_rel_resolveTenant [OF i], goal_cases)
    case (2 row)
    then show ?case
      by (intro runs_listMemberships [OF i [unfolded integrity_def]]) (auto simp: Ensure_None_iff)
  next
    case (5 own row)
    show ?case unfolding tenant_of_simps
    proof (rule runs_FindMembership [OF i [unfolded integrity_def]], goal_cases)
      case (1 m)
      with 5 one [OF 1(1-3)] show ?case
        by (intro tri) (auto simp: Ensure_None_iff intro!: bexI [of _ row])
    next
      case 2
      then have "members_of d (\<lambda>m. mr_tenant_id m = tr_id row \<and> mr_user_id m = u) = []"
        by (intro members_of_none) (simp add: is_membership_def)
      with 5 show ?case
        by (intro tri) (auto simp: Ensure_None_iff intro!: bexI [of _ row])
    next
      case (3 e)
      have "VerifyOwnership c (tenant_public_id d (tr_id row)) = None"
        using 5 tenant_public_id_row [OF integrity_schema(1) [OF i], of row] Ensure_VerifyOwnership by auto
      with 3 show ?case by simp
    next
      case (4 f w)
      show ?case by (intro tri) simp_all
    qed
  qed auto
qed

lemma runs_ListTenantInvitations:
  assumes i: "integrity d"
  shows "runs E c d (RelationService_ListTenantInvitations c pid)
    (\<lambda>xs d'. d' = d \<and> TenantPublicIDFromContext c = Some pid
       \<and> (\<exists>row \<in> set (tenants d). tr_public_id row = pid
            \<and> (\<exists>k. xs = open_invitations d (tr_id row) (e_clock E k))))
    (\<lambda>e d'. d' = d)"
  unfolding RelationService_ListTenantInvitations_def
  by (intro tri runs_rel_resolveTenant [OF i] runs_ListOpenInvitations [OF i]) (auto simp: Ensure_None_iff)

end
