(* ===== verification/History.thy ===== *)
theory History
  imports TenantOperations InvitationOperations
begin

text \<open>
  What no use case ever undoes.  \<open>lasts d d'\<close>: every tenant of \<open>d\<close> that has an owner is in \<open>d'\<close>, owned,
  under the same identifiers, name and subdomain; an archived one is unchanged and so are its
  members, events, event roles and invitations; every event is still there and has moved along the
  lifecycle only; every invitation is still there, and once accepted or revoked it is unchanged.
  The relation is reflexive and transitive.  \<open>within c d d'\<close>: nothing of an owned tenant that the context
  is not scoped to has changed.  The effect of every use case is in both relations.
\<close>

definition frozen :: "string \<Rightarrow> db \<Rightarrow> db \<Rightarrow> bool" where
  "frozen tid d d' \<longleftrightarrow>
     filter (\<lambda>m. mr_tenant_id m = tid) (memberships d') = filter (\<lambda>m. mr_tenant_id m = tid) (memberships d)
     \<and> filter (\<lambda>e. evr_tenant_id e = tid) (events d') = filter (\<lambda>e. evr_tenant_id e = tid) (events d)
     \<and> filter (\<lambda>r. rr_tenant_id r = tid) (event_roles d') = filter (\<lambda>r. rr_tenant_id r = tid) (event_roles d)
     \<and> filter (\<lambda>i. ir_tenant_id i = tid) (invitations d') = filter (\<lambda>i. ir_tenant_id i = tid) (invitations d)"

definition tenant_lasts :: "tenant_row \<Rightarrow> tenant_row \<Rightarrow> bool" where
  "tenant_lasts t t' \<longleftrightarrow> tr_id t' = tr_id t \<and> tr_public_id t' = tr_public_id t \<and> tr_name t' = tr_name t
     \<and> is_owned t' \<and> tr_subdomain t' = tr_subdomain t \<and> (tr_archived t \<longrightarrow> t' = t)"

definition event_lasts :: "event_row \<Rightarrow> event_row \<Rightarrow> bool" where
  "event_lasts e e' \<longleftrightarrow> evr_id e' = evr_id e \<and> evr_public_id e' = evr_public_id e
     \<and> evr_tenant_id e' = evr_tenant_id e \<and> evr_tenant_public_id e' = evr_tenant_public_id e
     \<and> event_step\<^sup>*\<^sup>* (status_of (evr_status e)) (status_of (evr_status e'))"

definition invitation_lasts :: "invitation_row \<Rightarrow> invitation_row \<Rightarrow> bool" where
  "invitation_lasts i i' \<longleftrightarrow> ir_id i' = ir_id i \<and> ir_public_id i' = ir_public_id i
     \<and> ir_tenant_id i' = ir_tenant_id i \<and> ir_token_hash i' = ir_token_hash i
     \<and> ir_display_name i' = ir_display_name i \<and> ir_expires_at i' = ir_expires_at i
     \<and> (ir_accepted_at i \<noteq> None \<or> ir_revoked_at i \<noteq> None \<longrightarrow> i' = i)"

definition lasts :: "db \<Rightarrow> db \<Rightarrow> bool" where
  "lasts d d' \<longleftrightarrow>
     (\<forall>t \<in> set (tenants d). is_owned t \<longrightarrow>
        (\<exists>t' \<in> set (tenants d'). tenant_lasts t t' \<and> (tr_archived t \<longrightarrow> frozen (tr_id t) d d')))
     \<and> (\<forall>e \<in> set (events d). \<exists>e' \<in> set (events d'). event_lasts e e')
     \<and> (\<forall>i \<in> set (invitations d). \<exists>i' \<in> set (invitations d'). invitation_lasts i i')"

text \<open>
  Of the tenants a context is not scoped to, a request changes nothing: their rows, and the rows that
  belong to them, are the same after it.
\<close>

definition within :: "ctx \<Rightarrow> db \<Rightarrow> db \<Rightarrow> bool" where
  "within c d d' \<longleftrightarrow> (\<forall>t \<in> set (tenants d). is_owned t \<and> VerifyOwnership c (tr_public_id t) \<noteq> None
     \<longrightarrow> t \<in> set (tenants d') \<and> frozen (tr_id t) d d')"

definition evolves :: "ctx \<Rightarrow> db \<Rightarrow> db \<Rightarrow> bool" where
  "evolves c d d' \<longleftrightarrow> lasts d d' \<and> within c d d'"

lemma tenant_lasts_refl [simp]: "is_owned t \<Longrightarrow> tenant_lasts t t"
  by (simp add: tenant_lasts_def)

lemma event_lasts_refl [simp]: "event_lasts e e"
  by (simp add: event_lasts_def)

lemma invitation_lasts_refl [simp]: "invitation_lasts i i"
  by (simp add: invitation_lasts_def)

lemma frozen_refl [simp]: "frozen t d d"
  by (simp add: frozen_def)

lemma lasts_refl [simp]: "lasts d d"
  unfolding lasts_def by (auto intro: bexI [rotated])

lemma evolves_refl [simp]: "evolves c d d"
  by (simp add: evolves_def within_def)

lemma event_lasts_trans: "event_lasts e f \<Longrightarrow> event_lasts f g \<Longrightarrow> event_lasts e g"
  by (auto simp: event_lasts_def)

lemma lasts_trans:
  assumes 1: "lasts d d'" and 2: "lasts d' d''"
  shows "lasts d d''"
  unfolding lasts_def
proof (intro conjI ballI impI)
  fix t assume t: "t \<in> set (tenants d)" "is_owned t"
  with 1 obtain t1 where t1: "t1 \<in> set (tenants d')" "tenant_lasts t t1"
    and f1: "tr_archived t \<longrightarrow> frozen (tr_id t) d d'" by (auto simp: lasts_def)
  with 2 obtain t2 where t2: "t2 \<in> set (tenants d'')" "tenant_lasts t1 t2"
    and f2: "tr_archived t1 \<longrightarrow> frozen (tr_id t1) d' d''" by (fastforce simp: lasts_def tenant_lasts_def)
  from t1(2) t2(2) have "tenant_lasts t t2" by (auto simp: tenant_lasts_def)
  moreover have "tr_archived t \<longrightarrow> frozen (tr_id t) d d''"
    using f1 f2 t1(2) by (auto simp: frozen_def tenant_lasts_def)
  ultimately show "\<exists>t'\<in>set (tenants d''). tenant_lasts t t' \<and> (tr_archived t \<longrightarrow> frozen (tr_id t) d d'')"
    using t2(1) by blast
next
  fix e assume "e \<in> set (events d)"
  with 1 obtain e1 where "e1 \<in> set (events d')" "event_lasts e e1" by (auto simp: lasts_def)
  moreover with 2 obtain e2 where "e2 \<in> set (events d'')" "event_lasts e1 e2" by (auto simp: lasts_def)
  ultimately show "\<exists>e'\<in>set (events d''). event_lasts e e'" using event_lasts_trans by blast
next
  fix i assume "i \<in> set (invitations d)"
  with 1 obtain i1 where i1: "i1 \<in> set (invitations d')" "invitation_lasts i i1" by (auto simp: lasts_def)
  with 2 obtain i2 where "i2 \<in> set (invitations d'')" "invitation_lasts i1 i2" by (auto simp: lasts_def)
  with i1 show "\<exists>i'\<in>set (invitations d''). invitation_lasts i i'"
    by (intro bexI [of _ i2]) (auto simp: invitation_lasts_def)
qed

section \<open>Rows of another tenant\<close>

lemma filter_update_where_other:
  "(\<And>r. r \<in> set rs \<Longrightarrow> q r \<Longrightarrow> \<not> p r \<and> \<not> p (f r)) \<Longrightarrow> filter p (update_where q f rs) = filter p rs"
  by (induction rs) (auto simp: update_where_def)

lemma filter_delete_where_other:
  "(\<And>r. r \<in> set rs \<Longrightarrow> q r \<Longrightarrow> \<not> p r) \<Longrightarrow> filter p (delete_where q rs) = filter p rs"
  by (induction rs) (auto simp: delete_where_def)

text \<open>What a change of one tenant that is not archived must show.\<close>

lemma lasts_change:
  assumes ok: "schema_ok d" and row: "row \<in> set (tenants d)" "\<not> tr_archived row"
    and kept: "\<And>t. t \<in> set (tenants d) \<Longrightarrow> is_owned t \<Longrightarrow> t \<noteq> row \<Longrightarrow> t \<in> set (tenants d')"
    and same: "is_owned row \<Longrightarrow> \<exists>t' \<in> set (tenants d'). tenant_lasts row t'"
    and others: "\<And>tid. tid \<noteq> tr_id row \<Longrightarrow> frozen tid d d'"
    and evs: "\<And>e. e \<in> set (events d) \<Longrightarrow> \<exists>e' \<in> set (events d'). event_lasts e e'"
    and invs: "\<And>i. i \<in> set (invitations d) \<Longrightarrow> \<exists>i' \<in> set (invitations d'). invitation_lasts i i'"
  shows "lasts d d'"
  unfolding lasts_def
proof (intro conjI ballI impI)
  fix t assume t: "t \<in> set (tenants d)" "is_owned t"
  show "\<exists>t'\<in>set (tenants d'). tenant_lasts t t' \<and> (tr_archived t \<longrightarrow> frozen (tr_id t) d d')"
  proof (cases "t = row")
    case True
    with t same row(2) show ?thesis by auto
  next
    case False
    then have "tr_id t \<noteq> tr_id row" using schema_tenant_key(1) [OF ok t(1) row(1)] by simp
    with t kept [OF t False] others show ?thesis by (intro bexI [of _ t]) auto
  qed
qed (use evs invs in auto)

lemma evolves_change:
  assumes ok: "schema_ok d" and row: "row \<in> set (tenants d)" "\<not> tr_archived row"
    and seen: "VerifyOwnership c (tr_public_id row) = None"
    and kept: "\<And>t. t \<in> set (tenants d) \<Longrightarrow> is_owned t \<Longrightarrow> t \<noteq> row \<Longrightarrow> t \<in> set (tenants d')"
    and same: "is_owned row \<Longrightarrow> \<exists>t' \<in> set (tenants d'). tenant_lasts row t'"
    and others: "\<And>tid. tid \<noteq> tr_id row \<Longrightarrow> frozen tid d d'"
    and evs: "\<And>e. e \<in> set (events d) \<Longrightarrow> \<exists>e' \<in> set (events d'). event_lasts e e'"
    and invs: "\<And>i. i \<in> set (invitations d) \<Longrightarrow> \<exists>i' \<in> set (invitations d'). invitation_lasts i i'"
  shows "evolves c d d'"
  unfolding evolves_def within_def
proof (intro conjI ballI impI)
  show "lasts d d'" by (rule lasts_change [OF ok row kept same others evs invs])
next
  fix t assume t: "t \<in> set (tenants d)" and hidden: "is_owned t \<and> VerifyOwnership c (tr_public_id t) \<noteq> None"
  with seen have "t \<noteq> row" by auto
  with t hidden kept show "t \<in> set (tenants d')" by blast
  from \<open>t \<noteq> row\<close> have "tr_id t \<noteq> tr_id row" using schema_tenant_key(1) [OF ok t row(1)] by blast
  then show "frozen (tr_id t) d d'" by (rule others)
qed

text \<open>The same when the tenants stay as they are, and one table at a time changes.\<close>

lemma evolves_change_rows:
  assumes ok: "schema_ok d" and row: "row \<in> set (tenants d)" "\<not> tr_archived row"
    and seen: "VerifyOwnership c (tr_public_id row) = None"
    and kept: "tenants d' = tenants d"
    and others: "\<And>tid. tid \<noteq> tr_id row \<Longrightarrow> frozen tid d d'"
    and evs: "\<And>e. e \<in> set (events d) \<Longrightarrow> \<exists>e' \<in> set (events d'). event_lasts e e'"
    and invs: "\<And>i. i \<in> set (invitations d) \<Longrightarrow> \<exists>i' \<in> set (invitations d'). invitation_lasts i i'"
  shows "evolves c d d'"
  by (rule evolves_change [OF ok row seen]) (use kept row others evs invs in \<open>auto intro: bexI [of _ row]\<close>)

text \<open>What a context may see: the tenant it is scoped to, or any when it is scoped to none.\<close>

lemma seen_own: "TenantPublicIDFromContext c = Some pid \<Longrightarrow> VerifyOwnership c pid = None"
  by (simp add: VerifyOwnership_None_iff)

lemmas other_rows = frozen_def filter_update_where_other filter_delete_where_other

lemma bexI_refl: "x \<in> A \<Longrightarrow> P x x \<Longrightarrow> \<exists>y \<in> A. P x y"
  by blast

section \<open>The effects of the tenant context\<close>

lemma sweep_rows:
  assumes i: "integrity d"
  shows "sweep now d = d\<lparr>tenants := delete_where (expired_row now) (tenants d)\<rparr>"
proof -
  have ok: "schema_ok d" by (rule integrity_schema(1) [OF i])
  let ?gone = "set (map tr_id (filter (expired_row now) (tenants d)))"
  have none: "no_rows_of d t" if "t \<in> ?gone" for t
    using that integrityD(3) [OF i [unfolded integrity_def]] by (auto simp: expired_row_def is_owned_def)
  then have rows: "\<And>t m. t \<in> ?gone \<Longrightarrow> m \<in> set (memberships d) \<Longrightarrow> mr_tenant_id m \<noteq> t"
    "\<And>t e. t \<in> ?gone \<Longrightarrow> e \<in> set (events d) \<Longrightarrow> evr_tenant_id e \<noteq> t"
    "\<And>t j. t \<in> ?gone \<Longrightarrow> j \<in> set (invitations d) \<Longrightarrow> ir_tenant_id j \<noteq> t"
    unfolding no_rows_of_def list_all_iff by blast+
  have roles: "rr_tenant_id r \<in> mr_tenant_id ` set (memberships d)" if "r \<in> set (event_roles d)" for r
    using ok that by (force simp: schema_ok_def event_roles_ok_iff)
  have 1: "delete_where (\<lambda>e. evr_tenant_id e \<in> ?gone) (events d) = events d"
    using rows(2) by (intro delete_where_id) blast
  have 2: "delete_where (\<lambda>m. mr_tenant_id m \<in> ?gone) (memberships d) = memberships d"
    using rows(1) by (intro delete_where_id) blast
  have 3: "delete_where (\<lambda>r. rr_tenant_id r \<in> ?gone) (event_roles d) = event_roles d"
  proof (rule delete_where_id, rule ballI)
    fix r assume "r \<in> set (event_roles d)"
    then obtain m where "m \<in> set (memberships d)" "rr_tenant_id r = mr_tenant_id m" using roles by blast
    with rows(1) [of "mr_tenant_id m" m] show "rr_tenant_id r \<notin> ?gone" by metis
  qed
  have 4: "delete_where (\<lambda>i. ir_tenant_id i \<in> ?gone) (invitations d) = invitations d"
    using rows(3) by (intro delete_where_id) blast
  show ?thesis
    unfolding sweep_def delete_tenants_def Let_def 1 2 3 4 by (cases d) simp
qed

lemma evolves_sweep:
  assumes i: "integrity d"
  shows "evolves c d (sweep now d)"
  unfolding evolves_def lasts_def within_def sweep_rows [OF i]
  by (auto simp: expired_row_def is_owned_def frozen_def intro: bexI_refl)

lemma frozen_tenants [simp]: "frozen t d (d'\<lparr>tenants := ts\<rparr>) = frozen t d d'"
  by (simp add: frozen_def)

lemma evolves_registered:
  assumes i: "integrity d" and r: "registered E ttl d now input x d'"
  shows "evolves c d d'"
proof -
  from r obtain r where d': "d' = (sweep now d)\<lparr>tenants := tenants (sweep now d) @ [r]\<rparr>"
    unfolding registered_def by blast
  have "lasts (sweep now d) d'"
    unfolding lasts_def d' by (auto intro: bexI_refl)
  moreover have "within c d d'"
    using evolves_sweep [OF i, of c now] unfolding evolves_def within_def d' by (simp add: sweep_rows [OF i])
  ultimately show ?thesis
    using evolves_sweep [OF i, of c now] lasts_trans [of d "sweep now d" d'] by (simp add: evolves_def)
qed

lemma evolves_claimed:
  assumes i: "integrity d" and c: "ownership_claimed E d c input x d'"
  shows "evolves c d d'"
proof -
  have ok: "schema_ok d" by (rule integrity_schema(1) [OF i])
  from c obtain row sub m where row: "row \<in> set (tenants d)" "\<not> is_owned row" and m: "mr_tenant_id m = tr_id row"
    and d': "d' = d\<lparr>tenants := mark_owned (tr_id row) sub (tenants d), memberships := memberships d @ [m]\<rparr>"
    unfolding ownership_claimed_def by (elim exE conjE) force
  have other: "t \<in> set (tenants d')" "tr_id t \<noteq> tr_id row" if "t \<in> set (tenants d)" "is_owned t" for t
    using that row schema_tenant_key(1) [OF ok that(1) row(1)]
    by (auto simp: d' mark_owned_def set_update_where)
  have fro: "frozen (tr_id t) d d'" if "t \<in> set (tenants d)" "is_owned t" for t
    using other [OF that] by (simp add: d' frozen_def m)
  show ?thesis unfolding evolves_def lasts_def within_def
  proof (intro conjI ballI impI)
    fix t assume t: "t \<in> set (tenants d)" "is_owned t"
    with other [OF t] fro [OF t]
    show "\<exists>t'\<in>set (tenants d'). tenant_lasts t t' \<and> (tr_archived t \<longrightarrow> frozen (tr_id t) d d')"
      by (intro bexI [of _ t]) auto
  qed (use other fro in \<open>auto simp: d' intro: bexI_refl\<close>)
qed

lemma evolves_administered:
  assumes i: "integrity d" and own: "TenantPublicIDFromContext c = Some pid" and a: "administered d c pid mutate x d'"
  shows "evolves c d d'"
proof -
  from a obtain row plan where row: "row \<in> set (tenants d)" "\<not> tr_archived row" and pid: "tr_public_id row = pid"
    and d': "d' = d\<lparr>tenants := update_where (\<lambda>r. tr_id r = tr_id row)
           (\<lambda>r. r\<lparr>tr_contract_plan := plan, tr_archived := t_archived x\<rparr>) (tenants d)\<rparr>"
    unfolding administered_def by blast
  let ?row' = "row\<lparr>tr_contract_plan := plan, tr_archived := t_archived x\<rparr>"
  have "?row' \<in> set (tenants d')" using row(1) by (auto simp: d' set_update_where)
  then have same: "\<exists>t' \<in> set (tenants d'). tenant_lasts row t'" if "is_owned row"
    using that row(2) by (intro bexI [of _ ?row']) (auto simp: tenant_lasts_def is_owned_def)
  have kept: "t \<in> set (tenants d')" if "t \<in> set (tenants d)" "t \<noteq> row" for t
    using that schema_tenant_key(1) [OF integrity_schema(1) [OF i] that(1) row(1)]
    by (auto simp: d' set_update_where)
  show ?thesis
    by (rule evolves_change [OF integrity_schema(1) [OF i] row seen_own [OF own, folded pid]])
      (use kept same in \<open>auto simp: d' intro: bexI_refl\<close>)
qed

text \<open>A granted event role changes rows of the event's tenant only.\<close>

lemma event_role_granted_rows:
  assumes ok: "schema_ok d" and g: "event_role_granted d eid u r d'"
    and e: "e \<in> set (events d)" "evr_id e = eid"
  obtains rs where "d' = d\<lparr>event_roles := rs\<rparr>"
    and "\<And>tid. tid \<noteq> evr_tenant_id e \<Longrightarrow> filter (\<lambda>x. rr_tenant_id x = tid) rs = filter (\<lambda>x. rr_tenant_id x = tid) (event_roles d)"
proof -
  from g obtain x where "sql_upsert_event_role eid u (Role_String r) d = Inr (x, d')"
    unfolding event_role_granted_def by blast
  moreover have "filter (\<lambda>e. evr_id e = eid) (events d) = [e]"
    using filter_unique_key [OF schema_keys(3) [OF ok] e(1)] e(2) by simp
  ultimately obtain u' where d': "d' = d\<lparr>event_roles := upsert_event_role
      \<lparr>rr_event_id = evr_id e, rr_tenant_id = evr_tenant_id e, rr_user_id = u', rr_role = Role_String r\<rparr> (event_roles d)\<rparr>"
    by (auto simp: sql_upsert_event_role_def bind_result_Inr_iff put_Inr Let_def)
  have host: "rr_tenant_id x = evr_tenant_id e" if x: "x \<in> set (event_roles d)" "rr_event_id x = evr_id e" for x
  proof -
    from ok x(1) obtain f where "f \<in> set (events d)" "evr_id f = rr_event_id x" "evr_tenant_id f = rr_tenant_id x"
      by (force simp: schema_ok_def event_roles_ok_iff)
    with x(2) show ?thesis using distinct_map_key_eq [OF schema_keys(3) [OF ok] _ e(1)] by metis
  qed
  show ?thesis
    by (rule that [OF d']) (use host in \<open>auto simp: upsert_event_role_def Let_def is_event_role_def
        intro!: filter_update_where_other\<close>)
qed

lemma event_lasts_step:
  assumes i: "integrity d" and e: "e \<in> set (events d)" and step: "event_step (status_of (evr_status e)) to"
  shows "event_lasts e (e\<lparr>evr_name := nm, evr_status := EventStatus_String to\<rparr>)"
  using step event_step_declared [OF step] status_of_String [of to]
  by (auto simp: event_lasts_def)

text \<open>A role granted on an event that has just been inserted is a new row: no role named the event before.\<close>

lemma granted_new_event:
  assumes ok: "schema_ok d" and ok': "schema_ok d'"
    and g: "event_role_granted (d\<lparr>events := events d @ [e]\<rparr>) (evr_id e) u r d'"
  shows "\<exists>u'. varchar 255 u = Inr u' \<and> d' = d\<lparr>events := events d @ [e], event_roles := event_roles d @
    [\<lparr>rr_event_id = evr_id e, rr_tenant_id = evr_tenant_id e, rr_user_id = u', rr_role = Role_String r\<rparr>]\<rparr>"
proof -
  from g obtain x where up: "sql_upsert_event_role (evr_id e) u (Role_String r) (d\<lparr>events := events d @ [e]\<rparr>)
      = Inr (x, d')" unfolding event_role_granted_def by blast
  then have evs: "events d' = events d @ [e]"
    by (auto simp: sql_upsert_event_role_def bind_result_Inr_iff put_Inr Let_def)
  have keys: "distinct (map evr_id (events d @ [e]))" using schema_keys(3) [OF ok'] unfolding evs .
  have "filter (\<lambda>x. evr_id x = evr_id e) (events d @ [e]) = [e]"
    by (rule filter_unique_key [OF keys]) simp
  then obtain u' where u': "varchar 255 u = Inr u'" and d': "d' = d\<lparr>events := events d @ [e], event_roles := upsert_event_role
      \<lparr>rr_event_id = evr_id e, rr_tenant_id = evr_tenant_id e, rr_user_id = u', rr_role = Role_String r\<rparr> (event_roles d)\<rparr>"
    using up by (auto simp: sql_upsert_event_role_def bind_result_Inr_iff put_Inr Let_def simp del: filter_append)
  have "rr_event_id x \<noteq> evr_id e" if x: "x \<in> set (event_roles d)" for x
  proof -
    from ok x obtain f where "f \<in> set (events d)" "evr_id f = rr_event_id x"
      by (force simp: schema_ok_def event_roles_ok_iff)
    with keys show ?thesis by (auto simp: image_iff)
  qed
  then have "\<not> list_ex (is_event_role (evr_id e) u') (event_roles d)"
    by (simp add: is_event_role_def list_ex_iff)
  then show ?thesis using u' by (simp add: d' upsert_event_role_def Let_def)
qed

lemma evolves_event_created:
  assumes i: "integrity d" and own: "TenantPublicIDFromContext c = Some pid"
    and c: "event_created E d c pid name x d'" and i1: "integrity d'"
  shows "evolves c d d'"
proof -
  have ok: "schema_ok d" by (rule integrity_schema(1) [OF i])
  have "\<exists>row e u r. row \<in> set (tenants d) \<and> \<not> tr_archived row \<and> tr_public_id row = pid \<and> evr_tenant_id e = tr_id row
      \<and> event_role_granted (d\<lparr>events := events d @ [e]\<rparr>) (evr_id e) u r d'"
    using c unfolding event_created_def
    by (elim exE conjE) (intro exI conjI, assumption+, rule event_row.simps(3), simp only: event_row.simps)
  then obtain row e u r where row: "row \<in> set (tenants d)" "\<not> tr_archived row" and pid: "tr_public_id row = pid"
    and e: "evr_tenant_id e = tr_id row"
    and g: "event_role_granted (d\<lparr>events := events d @ [e]\<rparr>) (evr_id e) u r d'" by blast
  from granted_new_event [OF ok integrity_schema(1) [OF i1] g] obtain u' where
    "d' = d\<lparr>events := events d @ [e], event_roles := event_roles d @
      [\<lparr>rr_event_id = evr_id e, rr_tenant_id = evr_tenant_id e, rr_user_id = u', rr_role = Role_String r\<rparr>]\<rparr>" by blast
  then show ?thesis
    by (intro evolves_change_rows [OF ok row seen_own [OF own, folded pid]]) (auto simp: frozen_def e intro: bexI_refl)
qed

lemma evolves_event_transitioned:
  assumes i: "integrity d" and c: "event_transitioned d c epid to x d'"
  shows "evolves c d d'"
proof -
  have ok: "schema_ok d" by (rule integrity_schema(1) [OF i])
  from c obtain e t nm where e: "e \<in> set (events d)" "event_step (status_of (evr_status e)) to"
    and t: "t \<in> set (tenants d)" "\<not> tr_archived t" "tr_id t = evr_tenant_id e"
    and own: "TenantPublicIDFromContext c = Some (evr_tenant_public_id e)"
    and d': "d' = d\<lparr>events := update_where (\<lambda>r. evr_id r = evr_id e)
           (\<lambda>r. r\<lparr>evr_name := nm, evr_status := EventStatus_String to\<rparr>) (events d)\<rparr>"
    unfolding event_transitioned_def by blast
  have host: "tr_public_id t = evr_tenant_public_id e"
  proof -
    from integrityD(4) [OF i [unfolded integrity_def] e(1)] obtain h where "h \<in> set (tenants d)"
      "tr_id h = evr_tenant_id e" "tr_public_id h = evr_tenant_public_id e" by (auto simp: event_row_ok_def list_ex_iff)
    with schema_tenant_key(1) [OF ok, of h t] t show ?thesis by simp
  qed
  have same: "r = e" if "r \<in> set (events d)" "evr_id r = evr_id e" for r
    using distinct_map_key_eq [OF schema_keys(3) [OF ok] that(1) e(1) that(2)] .
  have evs: "\<exists>r' \<in> set (events d'). event_lasts r r'" if r: "r \<in> set (events d)" for r
  proof (cases "evr_id r = evr_id e")
    case True
    with same r have "r = e" by simp
    with event_lasts_step [OF i e, of nm] e(1) show ?thesis
      by (intro bexI [of _ "e\<lparr>evr_name := nm, evr_status := EventStatus_String to\<rparr>"])
        (auto simp: d' set_update_where)
  next
    case False
    with r show ?thesis by (intro bexI [of _ r]) (auto simp: d' set_update_where)
  qed
  show ?thesis
    by (rule evolves_change_rows [OF ok t(1,2) seen_own [OF own, folded host] _ _ evs])
      (use t(3) in \<open>auto simp: d' frozen_def dest: same intro: bexI_refl intro!: filter_update_where_other\<close>)
qed

section \<open>The effects of the relation model\<close>

lemma insert_membership_rows:
  assumes "sql_insert_membership at tid u r n d = Inr d'"
  obtains m where "d' = d\<lparr>memberships := memberships d @ [m]\<rparr>" and "mr_tenant_id m = tid"
  using assms by (auto simp: sql_insert_membership_def bind_result_Inr_iff put_Inr)

lemma evolves_member_added:
  assumes i: "integrity d" and a: "member_added d c pid u r name d'"
  shows "evolves c d d'"
proof -
  from a obtain row n at where row: "row \<in> set (tenants d)" "\<not> tr_archived row"
    and own: "TenantPublicIDFromContext c = Some (tr_public_id row)"
    and run: "sql_insert_membership at (tr_id row) u (Role_String r) (dn_value n) d = Inr d'"
    unfolding member_added_def by blast
  from run obtain m where "d' = d\<lparr>memberships := memberships d @ [m]\<rparr>" "mr_tenant_id m = tr_id row"
    by (rule insert_membership_rows)
  then show ?thesis
    by (intro evolves_change_rows [OF integrity_schema(1) [OF i] row seen_own [OF own]])
      (auto simp: frozen_def intro: bexI_refl)
qed

lemma evolves_role_changed:
  assumes i: "integrity d" and a: "role_changed d c pid u r x d'"
  shows "evolves c d d'"
proof -
  from a obtain row where row: "row \<in> set (tenants d)" "\<not> tr_archived row"
    and own: "TenantPublicIDFromContext c = Some (tr_public_id row)"
    and d': "d' = d\<lparr>memberships := update_where (is_membership (tr_id row) u)
           (\<lambda>m. m\<lparr>mr_tenant_role := Role_String r\<rparr>) (memberships d)\<rparr>"
    unfolding role_changed_def by blast
  show ?thesis
    by (rule evolves_change_rows [OF integrity_schema(1) [OF i] row seen_own [OF own]])
      (auto simp: d' frozen_def is_membership_def intro: bexI_refl intro!: filter_update_where_other)
qed

lemma evolves_granted_event_role:
  assumes i: "integrity d" and a: "granted_event_role d c epid u r d'"
  shows "evolves c d d'"
proof -
  have ok: "schema_ok d" by (rule integrity_schema(1) [OF i])
  from a obtain e row where w: "e \<in> set (events d)" "row \<in> set (tenants d)" "\<not> tr_archived row"
      "tr_id row = evr_tenant_id e" "TenantPublicIDFromContext c = Some (tr_public_id row)"
    and g: "event_role_granted d (evr_id e) u r d'"
    unfolding granted_event_role_def writable_event_def by blast
  from ok g w(1) obtain rs where d': "d' = d\<lparr>event_roles := rs\<rparr>" and "\<And>tid. tid \<noteq> evr_tenant_id e
      \<Longrightarrow> filter (\<lambda>x. rr_tenant_id x = tid) rs = filter (\<lambda>x. rr_tenant_id x = tid) (event_roles d)"
    by (rule event_role_granted_rows) auto
  with w show ?thesis
    by (intro evolves_change_rows [OF ok w(2,3) seen_own [OF w(5)]]) (auto simp: d' frozen_def intro: bexI_refl)
qed

lemma evolves_membership_revoked:
  assumes i: "integrity d" and a: "membership_revoked d c pid u d'"
  shows "evolves c d d'"
proof -
  from a obtain row where row: "row \<in> set (tenants d)" "\<not> tr_archived row"
    and own: "TenantPublicIDFromContext c = Some (tr_public_id row)"
    and d': "d' = delete_memberships (is_membership (tr_id row) u) d"
    unfolding membership_revoked_def by blast
  show ?thesis
    by (rule evolves_change_rows [OF integrity_schema(1) [OF i] row seen_own [OF own]])
      (auto simp: d' frozen_def delete_memberships_def Let_def is_membership_def list_ex_iff intro: bexI_refl
        intro!: filter_delete_where_other)
qed

lemma evolves_event_role_revoked:
  assumes i: "integrity d" and a: "event_role_revoked d c epid u d'"
  shows "evolves c d d'"
proof -
  have ok: "schema_ok d" by (rule integrity_schema(1) [OF i])
  from a obtain e row where w: "e \<in> set (events d)" "row \<in> set (tenants d)" "\<not> tr_archived row"
      "tr_id row = evr_tenant_id e" "TenantPublicIDFromContext c = Some (tr_public_id row)"
    and d': "d' = d\<lparr>event_roles := delete_where (is_event_role (evr_id e) u) (event_roles d)\<rparr>"
    unfolding event_role_revoked_def writable_event_def by blast
  have host: "rr_tenant_id x = tr_id row" if "x \<in> set (event_roles d)" "rr_event_id x = evr_id e" for x
  proof -
    from ok that(1) obtain f where "f \<in> set (events d)" "evr_id f = rr_event_id x" "evr_tenant_id f = rr_tenant_id x"
      by (force simp: schema_ok_def event_roles_ok_iff)
    with that(2) w show ?thesis using distinct_map_key_eq [OF schema_keys(3) [OF ok] _ w(1)] by metis
  qed
  show ?thesis
    by (rule evolves_change_rows [OF ok w(2,3) seen_own [OF w(5)]])
      (use host in \<open>auto simp: d' frozen_def is_event_role_def intro: bexI_refl intro!: filter_delete_where_other\<close>)
qed

lemma evolves_role_revoked: "integrity d \<Longrightarrow> role_revoked d c input d' \<Longrightarrow> evolves c d d'"
  by (auto simp: role_revoked_def split: if_splits intro: evolves_membership_revoked evolves_event_role_revoked)

lemma evolves_invited:
  assumes i: "integrity d" and a: "invited E ttl d c pid name x d'"
  shows "evolves c d d'"
proof -
  from a obtain row j where row: "row \<in> set (tenants d)" "\<not> tr_archived row"
    and own: "TenantPublicIDFromContext c = Some (tr_public_id row)" and j: "ir_tenant_id j = tr_id row"
    and d': "d' = d\<lparr>invitations := invitations d @ [j]\<rparr>"
    unfolding invited_def writable_row_def by (elim exE conjE) force
  show ?thesis
    by (rule evolves_change_rows [OF integrity_schema(1) [OF i] row seen_own [OF own]])
      (auto simp: d' frozen_def j intro: bexI_refl)
qed

text \<open>Closing an open invitation.\<close>

lemma invitation_closed:
  assumes i: "integrity d" and j: "j \<in> set (invitations d)" "invitation_row_open now j"
    and f: "\<And>i. f i = i\<lparr>ir_accepted_at := a i, ir_accepted_by := b i, ir_revoked_at := v i\<rparr>"
    and m: "m \<in> set (invitations d)"
  shows "\<exists>m' \<in> set (update_where (\<lambda>i. ir_id i = ir_id j) f (invitations d)). invitation_lasts m m'"
proof (cases "m = j")
  case True
  with j show ?thesis
    by (intro bexI [of _ "f j"]) (auto simp: f set_update_where invitation_lasts_def invitation_row_open_def)
next
  case False
  then have "ir_id m \<noteq> ir_id j"
    using distinct_map_key_eq [OF schema_keys(7) [OF integrity_schema(1) [OF i]] m j(1)] by blast
  with m show ?thesis by (intro bexI [of _ m]) (auto simp: set_update_where)
qed

lemma frozen_invitations:
  assumes i: "integrity d" and j: "j \<in> set (invitations d)" and f: "\<And>i. ir_tenant_id (f i) = ir_tenant_id i"
    and t: "tid \<noteq> ir_tenant_id j"
  shows "filter (\<lambda>i. ir_tenant_id i = tid) (update_where (\<lambda>i. ir_id i = ir_id j) f (invitations d))
    = filter (\<lambda>i. ir_tenant_id i = tid) (invitations d)"
proof (rule filter_update_where_other)
  fix r assume "r \<in> set (invitations d)" "ir_id r = ir_id j"
  then have "r = j"
    using distinct_map_key_eq [OF schema_keys(7) [OF integrity_schema(1) [OF i]] _ j] by blast
  with f t show "ir_tenant_id r \<noteq> tid \<and> ir_tenant_id (f r) \<noteq> tid" by simp
qed

lemma evolves_invitation_revoked:
  assumes i: "integrity d" and a: "invitation_revoked E d c pid invID x d'"
  shows "evolves c d d'"
proof -
  from a obtain row j k where row: "row \<in> set (tenants d)" "\<not> tr_archived row"
    and own: "TenantPublicIDFromContext c = Some (tr_public_id row)"
    and j: "j \<in> set (invitations d)" "invitation_row_open (e_clock E k) j" "ir_tenant_id j = tr_id row"
    and d': "d' = d\<lparr>invitations := update_where (\<lambda>i. ir_id i = ir_id j)
           (\<lambda>i. i\<lparr>ir_revoked_at := Some (pg_time (e_clock E k))\<rparr>) (invitations d)\<rparr>"
    unfolding invitation_revoked_def writable_row_def by blast
  show ?thesis
    by (rule evolves_change_rows [OF integrity_schema(1) [OF i] row seen_own [OF own]])
      (use frozen_invitations [OF i j(1)] j in \<open>auto simp: d' frozen_def
        intro: bexI_refl intro!: invitation_closed [OF i j(1,2), where a = ir_accepted_at and b = ir_accepted_by]\<close>)
qed

lemma evolves_invitation_accepted:
  assumes i: "integrity d" and a: "invitation_accepted E d c pid token x d'"
  shows "evolves c d d'"
proof -
  have "\<exists>row j k u m. row \<in> set (tenants d) \<and> tr_public_id row = pid \<and> VerifyOwnership c pid = None
    \<and> \<not> tr_archived row \<and> j \<in> set (invitations d)
    \<and> invitation_row_open (e_clock E k) j \<and> ir_tenant_id j = tr_id row \<and> mr_tenant_id m = tr_id row
    \<and> d' = d\<lparr>memberships := memberships d @ [m], invitations := update_where (\<lambda>i. ir_id i = ir_id j)
           (\<lambda>i. i\<lparr>ir_accepted_at := Some (pg_time (e_clock E k)), ir_accepted_by := Some u\<rparr>) (invitations d)\<rparr>"
    using a unfolding invitation_accepted_def Let_def
    by (elim exE conjE) (intro exI conjI, assumption+, rule membership_row.simps(1), simp only: membership_row.simps)
  then obtain row j k u m where row: "row \<in> set (tenants d)" "\<not> tr_archived row"
    and seen: "tr_public_id row = pid" "VerifyOwnership c pid = None"
    and j: "j \<in> set (invitations d)" "invitation_row_open (e_clock E k) j" "ir_tenant_id j = tr_id row"
    and m: "mr_tenant_id m = tr_id row"
    and d': "d' = d\<lparr>memberships := memberships d @ [m], invitations := update_where (\<lambda>i. ir_id i = ir_id j)
           (\<lambda>i. i\<lparr>ir_accepted_at := Some (pg_time (e_clock E k)), ir_accepted_by := Some u\<rparr>) (invitations d)\<rparr>"
    by blast
  show ?thesis
    by (rule evolves_change_rows [OF integrity_schema(1) [OF i] row seen(2) [folded seen(1)]])
      (use frozen_invitations [OF i j(1)] j m in \<open>auto simp: d' frozen_def
        intro: bexI_refl intro!: invitation_closed [OF i j(1,2), where v = ir_revoked_at]\<close>)
qed

end
