(* ===== verification/ConnectErrors.thy ===== *)
theory ConnectErrors
  imports Store Enums
begin

text \<open>
  internal/infra/connect/error.go: what a client learns of an error.  A table maps the errors the
  service names to codes and fixed messages; everything else is an internal error whose cause goes
  to the log only.  The locale \<open>client_errors\<close> is what a table must satisfy; the tables of the two
  services interpret it.
\<close>

datatype connect_code =
    CodeCanceled | CodeDeadlineExceeded | CodeInvalidArgument | CodeNotFound | CodeAlreadyExists
  | CodePermissionDenied | CodeFailedPrecondition | CodeAborted | CodeUnauthenticated | CodeInternal | CodeUnimplemented

text \<open>A Connect error: its code, the message sent to the client and the cause kept on the server.\<close>

record connect_error =
  ce_Code :: connect_code
  ce_Message :: string
  ce_Cause :: "gerr option"

definition errInternal :: gerr where
  "errInternal = Errorf ''internal error'' []"

definition slog_ErrorContext :: "string \<Rightarrow> gerr \<Rightarrow> world \<Rightarrow> world" where
  "slog_ErrorContext msg err w = w\<lparr>w_log := w_log w @ [(msg, err)]\<rparr>"

definition InternalError :: "gerr \<Rightarrow> world \<Rightarrow> connect_error \<times> world" where
  "InternalError err w =
     (if errors_Is err ContextCanceled
      then (\<lparr>ce_Code = CodeCanceled, ce_Message = ''canceled'', ce_Cause = Some err\<rparr>, w)
      else if errors_Is err ContextDeadlineExceeded
      then (\<lparr>ce_Code = CodeDeadlineExceeded, ce_Message = ''deadline exceeded'', ce_Cause = Some err\<rparr>, w)
      else (\<lparr>ce_Code = CodeInternal, ce_Message = ''internal error'', ce_Cause = Some errInternal\<rparr>,
            slog_ErrorContext ''internal error'' err w))"

record client_error =
  cle_Target :: sentinel
  cle_Code :: connect_code
  cle_Message :: string

definition NewClientError :: "sentinel \<Rightarrow> connect_code \<Rightarrow> string \<Rightarrow> client_error" where
  "NewClientError t k m = \<lparr>cle_Target = t, cle_Code = k, cle_Message = m\<rparr>"

fun ClientErrors_For :: "client_error list \<Rightarrow> gerr \<Rightarrow> world \<Rightarrow> connect_error \<times> world" where
  "ClientErrors_For [] err w = InternalError err w"
| "ClientErrors_For (c # cs) err w =
     (if errors_Is err (cle_Target c)
      then (\<lparr>ce_Code = cle_Code c, ce_Message = cle_Message c, ce_Cause = Some err\<rparr>, w)
      else ClientErrors_For cs err w)"

text \<open>The common shape of the transport's methods: call, map the error or convert the result.\<close>

type_synonym 'b rpc_result = "(connect_error + 'b) \<times> world"

definition answer :: "client_error list \<Rightarrow> 'a go \<Rightarrow> ('a \<Rightarrow> 'b) \<Rightarrow> env \<Rightarrow> world \<Rightarrow> 'b rpc_result" where
  "answer table call convert E w = (case call E w of
      (Inl err, w') \<Rightarrow> (case ClientErrors_For table err w' of (ce, w'') \<Rightarrow> (Inl ce, w''))
    | (Inr x, w') \<Rightarrow> (Inr (convert x), w'))"

section \<open>What every table guarantees\<close>

definition own_fault :: "connect_code \<Rightarrow> bool" where
  "own_fault k \<longleftrightarrow> k = CodeInternal \<or> k = CodeCanceled \<or> k = CodeDeadlineExceeded"

lemma InternalError_logs:
  "w_log (snd (InternalError err w)) \<noteq> w_log w \<longleftrightarrow> ce_Code (fst (InternalError err w)) = CodeInternal"
  by (simp add: InternalError_def slog_ErrorContext_def)

lemma InternalError_message:
  "ce_Message (fst (InternalError err w)) \<in> {''canceled'', ''deadline exceeded'', ''internal error''}"
  by (simp add: InternalError_def)

lemma InternalError_only_logs: "(snd (InternalError err w))\<lparr>w_log := w_log w\<rparr> = w"
  by (simp add: InternalError_def slog_ErrorContext_def)

locale client_errors =
  fixes table :: "client_error list"
  assumes targets_distinct: "distinct (map cle_Target table)"
    and codes: "c \<in> set table \<Longrightarrow> \<not> own_fault (cle_Code c)"
    and messages: "c \<in> set table \<Longrightarrow> cle_Message c \<noteq> [] \<and> cle_Message c \<noteq> ''internal error''"
begin

text \<open>An error of the table is answered with its own code, the first match winning.\<close>

lemma For_first:
  "(\<exists>c \<in> set table. errors_Is err (cle_Target c)) \<Longrightarrow> ClientErrors_For table err w
     = (case find (\<lambda>c. errors_Is err (cle_Target c)) table of
         Some c \<Rightarrow> (\<lparr>ce_Code = cle_Code c, ce_Message = cle_Message c, ce_Cause = Some err\<rparr>, w)
       | None \<Rightarrow> InternalError err w)"
proof -
  have "ClientErrors_For cs err w
     = (case find (\<lambda>c. errors_Is err (cle_Target c)) cs of
         Some c \<Rightarrow> (\<lparr>ce_Code = cle_Code c, ce_Message = cle_Message c, ce_Cause = Some err\<rparr>, w)
       | None \<Rightarrow> InternalError err w)" for cs
    by (induction cs) auto
  then show ?thesis by simp
qed

lemma For_sentinel:
  assumes "c \<in> set table"
  shows "ClientErrors_For table (Sentinel (cle_Target c)) w
    = (\<lparr>ce_Code = cle_Code c, ce_Message = cle_Message c, ce_Cause = Some (Sentinel (cle_Target c))\<rparr>, w)"
proof -
  have "ClientErrors_For cs (Sentinel (cle_Target c)) w
    = (\<lparr>ce_Code = cle_Code c, ce_Message = cle_Message c, ce_Cause = Some (Sentinel (cle_Target c))\<rparr>, w)"
    if "distinct (map cle_Target cs)" "c \<in> set cs" for cs
    using that by (induction cs) (auto simp: image_iff)
  then show ?thesis using targets_distinct assms by blast
qed

text \<open>
  Nothing of an error the table does not know reaches the client, and exactly those errors that are
  not the client's own going away are logged.
\<close>

lemma For_internal:
  assumes "\<forall>c \<in> set table. \<not> errors_Is err (cle_Target c)"
  shows "ClientErrors_For table err w = InternalError err w"
proof -
  have "ClientErrors_For cs err w = InternalError err w"
    if "\<forall>c \<in> set cs. \<not> errors_Is err (cle_Target c)" for cs
    using that by (induction cs) auto
  then show ?thesis using assms by blast
qed

lemma For_cases:
  "(\<exists>c \<in> set table. errors_Is err (cle_Target c)
      \<and> ClientErrors_For table err w
        = (\<lparr>ce_Code = cle_Code c, ce_Message = cle_Message c, ce_Cause = Some err\<rparr>, w))
   \<or> (\<forall>c \<in> set table. \<not> errors_Is err (cle_Target c)) \<and> ClientErrors_For table err w = InternalError err w"
proof -
  have "(\<exists>c \<in> set cs. errors_Is err (cle_Target c)
      \<and> ClientErrors_For cs err w
        = (\<lparr>ce_Code = cle_Code c, ce_Message = cle_Message c, ce_Cause = Some err\<rparr>, w))
   \<or> (\<forall>c \<in> set cs. \<not> errors_Is err (cle_Target c)) \<and> ClientErrors_For cs err w = InternalError err w" for cs
    by (induction cs) auto
  then show ?thesis by blast
qed

lemma For_message_known:
  "ce_Message (fst (ClientErrors_For table err w))
     \<in> cle_Message ` set table \<union> {''canceled'', ''deadline exceeded'', ''internal error''}"
  using For_cases [of err w] InternalError_message [of err w] by auto

lemma For_logs_iff_internal:
  "w_log (snd (ClientErrors_For table err w)) \<noteq> w_log w \<longleftrightarrow> ce_Code (fst (ClientErrors_For table err w)) = CodeInternal"
  using For_cases [of err w] codes InternalError_logs [of err w] by (auto simp: own_fault_def)

lemma For_only_logs: "(snd (ClientErrors_For table err w))\<lparr>w_log := w_log w\<rparr> = w"
  using For_cases [of err w] InternalError_only_logs [of w err] by auto

end

text \<open>The store as an answered call leaves it is the one the call left.\<close>

lemma InternalError_db [simp]: "w_db (snd (InternalError err w)) = w_db w" "w_tx (snd (InternalError err w)) = w_tx w"
  by (simp_all add: InternalError_def slog_ErrorContext_def)

lemma ClientErrors_For_db [simp]:
  "w_db (snd (ClientErrors_For table err w)) = w_db w" "w_tx (snd (ClientErrors_For table err w)) = w_tx w"
  by (induction table) simp_all

lemma answer_db:
  "w_db (snd (answer table call convert E w)) = w_db (snd (call E w))"
  "w_tx (snd (answer table call convert E w)) = w_tx (snd (call E w))"
  by (auto simp: answer_def split: prod.split sum.split) (metis ClientErrors_For_db snd_conv)+

lemma answer_Inr_iff:
  "fst (answer table call convert E w) = Inr y \<longleftrightarrow> (\<exists>x. fst (call E w) = Inr x \<and> y = convert x)"
  by (auto simp: answer_def split: prod.split sum.split)

section \<open>Timestamps of the wire\<close>

record timestamp =
  ts_seconds :: int
  ts_nanos :: int

definition timestamppb_New :: "time \<Rightarrow> timestamp" where
  "timestamppb_New t = \<lparr>ts_seconds = t div 1000000000, ts_nanos = t mod 1000000000\<rparr>"

lemma timestamppb_range: "0 \<le> ts_nanos (timestamppb_New t) \<and> ts_nanos (timestamppb_New t) < 1000000000"
  by (simp add: timestamppb_New_def)

lemma timestamppb_roundtrip:
  "ts_seconds (timestamppb_New t) * 1000000000 + ts_nanos (timestamppb_New t) = t"
  by (simp add: timestamppb_New_def)

end
