(* ===== verification/HttpApi.thy ===== *)
theory HttpApi
  imports InvitationOperations ConnectErrors
begin

text \<open>
  internal/relation/infra/httpapi/handler.go: the memberships of one user over plain HTTP.  The two
  path values are arguments (routing is net/http's); the body is kept as the value that
  encoding/json renders.  \<open>None\<close> is a handler that writes nothing.
\<close>

record http_event_role =
  her_EventID :: string
  her_Role :: string

record http_membership =
  hm_UserID :: string
  hm_TenantID :: string
  hm_TenantRole :: string
  hm_EventRoles :: "http_event_role list"

datatype http_body = MembershipsResponse "http_membership list" | ErrorResponse "string option"

record http_response =
  hr_Status :: nat
  hr_Body :: http_body

definition messageTenantRequired :: string where "messageTenantRequired = ''tenant_id is required''"
definition messageUserRequired :: string where "messageUserRequired = ''user_id is required''"
definition messageTimeout :: string where "messageTimeout = ''request timed out''"
definition messageInternal :: string where "messageInternal = ''internal error''"

definition writeJSON :: "nat \<Rightarrow> http_body \<Rightarrow> world \<Rightarrow> http_response option \<times> world" where
  "writeJSON status body w = (Some \<lparr>hr_Status = status, hr_Body = body\<rparr>, w)"

definition membershipsBody :: "membership list \<Rightarrow> http_membership list" where
  "membershipsBody = map (\<lambda>m.
     \<lparr>hm_UserID = m_userID m, hm_TenantID = m_tenantPublicID m, hm_TenantRole = Role_String (m_tenantRole m),
      hm_EventRoles = map (\<lambda>r. \<lparr>her_EventID = er_eventPublicID r, her_Role = Role_String (er_role r)\<rparr>)
        (m_eventRoles m)\<rparr>)"

definition writeError :: "gerr \<Rightarrow> world \<Rightarrow> http_response option \<times> world" where
  "writeError err w =
     (if errors_Is err (TenantRepo TR_ErrTenantNotFound) \<or> errors_Is err (RelationRepo RR_ErrTenantNotFound)
      then writeJSON 404 (ErrorResponse (err_Error err)) w
      else if errors_Is err ContextCanceled then (None, w)
      else if errors_Is err ContextDeadlineExceeded then writeJSON 504 (ErrorResponse (Some messageTimeout)) w
      else writeJSON 500 (ErrorResponse (Some messageInternal)) (slog_ErrorContext ''internal error'' err w))"

definition http_listMemberships ::
    "ctx \<Rightarrow> string \<Rightarrow> string \<Rightarrow> env \<Rightarrow> world \<Rightarrow> http_response option \<times> world" where
  "http_listMemberships c tenant_id user_id E w =
     (let tenantPublicID = TrimSpace tenant_id; userID = TrimSpace user_id
      in if tenantPublicID = [] then writeJSON 400 (ErrorResponse (Some messageTenantRequired)) w
         else if userID = [] then writeJSON 400 (ErrorResponse (Some messageUserRequired)) w
         else case RelationService_ListMemberships (WithTenantPublicID c tenantPublicID) [] userID E w of
             (Inl err, w') \<Rightarrow> writeError err w'
           | (Inr ms, w') \<Rightarrow> writeJSON 200 (MembershipsResponse (membershipsBody ms)) w')"

section \<open>The answers\<close>

lemma writeError_db [simp]: "w_db (snd (writeError err w)) = w_db w" "w_tx (snd (writeError err w)) = w_tx w"
  by (simp_all add: writeError_def writeJSON_def slog_ErrorContext_def)

lemma writeJSON_world [simp]: "snd (writeJSON s b w) = w"
  by (simp add: writeJSON_def)

text \<open>The listing inside the tenant of the context, with every reason for an error.\<close>

lemma runs_ListMemberships_of_user:
  assumes i: "integrity d" and c: "TenantPublicIDFromContext c = Some pid" and u: "u \<noteq> []"
  shows "runs E c d (RelationService_ListMemberships c [] u)
    (\<lambda>xs d'. d' = d \<and> (\<exists>row \<in> set (tenants d). tr_public_id row = pid
       \<and> xs = members_of d (is_membership (tr_id row) u)))
    (\<lambda>e d'. d' = d \<and> (healthy E \<longrightarrow> e = Sentinel (TenantRepo TR_ErrTenantNotFound)
       \<and> (\<forall>row \<in> set (tenants d). tr_public_id row \<noteq> pid)))"
proof -
  have pid: "pid \<noteq> []" and ens: "Ensure c pid = None" and seen: "VerifyOwnership c pid = None"
    using TenantPublicIDFromContext_trimmed [OF c] c by (auto simp: Ensure_None_iff VerifyOwnership_None_iff)
  have listing: "RelationService_ListMemberships c [] u = and_then (RelationService_resolveTenant c pid) (\<lambda>t.
      and_then (attempt (MembershipRepo_FindMembership c (t_id t) u)) (\<lambda>found. case found of
        Inl err \<Rightarrow> if errors_Is err (RelationRepo ErrMembershipNotFound) then ret [] else fail err
      | Inr m \<Rightarrow> ret [m]))"
    by (simp add: RelationService_ListMemberships_def u c)
  show ?thesis
    unfolding listing RelationService_resolveTenant_def
  proof (intro tri, goal_cases)
    case (1 row t)
    have row: "row \<in> set (tenants d)" "tr_public_id row = pid" "t = tenant_of row"
      using 1 read_tenant(1) [OF i] by auto
    show ?case unfolding row(3) tenant_of_simps
    proof (rule runs_FindMembership [OF i [unfolded integrity_def]], goal_cases)
      case (1 m)
      with row members_of_one [OF integrity_schema(1) [OF i] 1(1)] show ?case
        by (intro tri) (auto intro!: bexI [of _ row])
    next
      case 2
      then have "members_of d (is_membership (tr_id row) u) = []" by (intro members_of_none) simp
      with row show ?case by (intro tri) (auto intro!: bexI [of _ row])
    next
      case (3 e)
      have "VerifyOwnership c (tenant_public_id d (tr_id row)) = None"
        using row tenant_public_id_row [OF integrity_schema(1) [OF i], of row] seen by auto
      with 3 show ?case by simp
    next
      case (4 f w)
      then show ?case by (intro tri) auto
    qed
  qed (use pid c ens u seen i read_tenant_refused [OF i] in auto)
qed

text \<open>
  What a caller without a token is answered by a healthy service: a refusal of an empty path value,
  the tenant's absence, or the user's membership of that tenant, if any.
\<close>

definition memberships_answer :: "db \<Rightarrow> string \<Rightarrow> string \<Rightarrow> http_response" where
  "memberships_answer d tenant_id user_id =
     (let pid = TrimSpace tenant_id; u = TrimSpace user_id
      in if pid = [] then \<lparr>hr_Status = 400, hr_Body = ErrorResponse (Some ''tenant_id is required'')\<rparr>
         else if u = [] then \<lparr>hr_Status = 400, hr_Body = ErrorResponse (Some ''user_id is required'')\<rparr>
         else case first_row (filter (\<lambda>t. tr_public_id t = pid) (tenants d)) of
             None \<Rightarrow> \<lparr>hr_Status = 404, hr_Body = ErrorResponse (Some ''tenant not found'')\<rparr>
           | Some row \<Rightarrow> \<lparr>hr_Status = 200, hr_Body = MembershipsResponse
               (membershipsBody (members_of d (is_membership (tr_id row) u)))\<rparr>)"

lemma http_listMemberships_answers:
  assumes i: "integrity (w_db w)" and c: "ctx_claims c = None" "\<not> ctx_tx c" and E: "healthy E"
    and run: "http_listMemberships c tenant_id user_id E w = (res, w')"
  shows "res = Some (memberships_answer (w_db w) tenant_id user_id) \<and> w_db w' = w_db w"
proof (cases "TrimSpace tenant_id = [] \<or> TrimSpace user_id = []")
  case True
  with run show ?thesis
    by (auto simp: http_listMemberships_def memberships_answer_def writeJSON_def Let_def
        messageTenantRequired_def messageUserRequired_def)
next
  case False
  let ?pid = "TrimSpace tenant_id" and ?u = "TrimSpace user_id"
  let ?c = "WithTenantPublicID c ?pid"
  have bound: "TenantPublicIDFromContext ?c = Some ?pid" and tx: "\<not> ctx_tx ?c"
    using c False by (simp_all add: TenantPublicIDFromContext_def WithTenantPublicID_def bound_tenant_def Let_def)
  obtain r w1 where m: "RelationService_ListMemberships ?c [] ?u E w = (r, w1)"
    by (cases "RelationService_ListMemberships ?c [] ?u E w") auto
  note spec = runs_db [OF runs_ListMemberships_of_user [OF i bound] tx refl m]
  have key: "first_row (filter (\<lambda>t. tr_public_id t = ?pid) (tenants (w_db w))) = Some row"
    if "row \<in> set (tenants (w_db w))" "tr_public_id row = ?pid" for row
    using first_row_unique_key [OF schema_keys(2) [OF integrity_schema(1) [OF i]] that(1)] that(2) by simp
  show ?thesis
  proof (cases r)
    case (Inl e)
    with spec False E have e: "e = Sentinel (TenantRepo TR_ErrTenantNotFound)"
      "\<forall>row \<in> set (tenants (w_db w)). tr_public_id row \<noteq> ?pid" "w_db w1 = w_db w" by simp_all
    then have "filter (\<lambda>t. tr_public_id t = ?pid) (tenants (w_db w)) = []" by (simp add: filter_empty_conv)
    with run m False Inl e(1,3) show ?thesis
      by (auto simp: http_listMemberships_def memberships_answer_def writeJSON_def writeError_def Let_def)
  next
    case (Inr ms)
    with spec False obtain row where "row \<in> set (tenants (w_db w))" "tr_public_id row = ?pid"
      "ms = members_of (w_db w) (is_membership (tr_id row) ?u)" "w_db w1 = w_db w" by auto
    with run m False Inr key [of row] show ?thesis
      by (auto simp: http_listMemberships_def memberships_answer_def writeJSON_def Let_def)
  qed
qed

text \<open>Whatever fails, the database is as before and the status is one of five.\<close>

lemma http_listMemberships_reads:
  assumes i: "integrity (w_db w)" and c: "\<not> ctx_tx c"
    and run: "http_listMemberships c tenant_id user_id E w = (res, w')"
  shows "w_db w' = w_db w \<and> (w_tx w = None \<longrightarrow> w_tx w' = None)
    \<and> (\<forall>r. res = Some r \<longrightarrow> hr_Status r \<in> {200, 400, 404, 500, 504})"
proof -
  let ?c = "WithTenantPublicID c (TrimSpace tenant_id)"
  have tx: "\<not> ctx_tx ?c" using c by (simp add: WithTenantPublicID_def)
  obtain r w1 where m: "RelationService_ListMemberships ?c [] (TrimSpace user_id) E w = (r, w1)"
    by (cases "RelationService_ListMemberships ?c [] (TrimSpace user_id) E w") auto
  note l = runs_ListMemberships [OF i, where c = ?c and pid = "[]" and u = "TrimSpace user_id" and E = E]
  have db: "w_db w1 = w_db w" using runs_db [OF l tx refl m] by (simp split: sum.splits)
  have ntx: "w_tx w = None \<longrightarrow> w_tx w1 = None" using runs_tx_None [OF l tx refl] m by simp
  have st: "hr_Status x \<in> {400, 404, 500, 504}" if "fst (writeError e v) = Some x" for e v x
    using that by (auto simp: writeError_def writeJSON_def split: if_splits)
  show ?thesis
  proof (cases "TrimSpace tenant_id = [] \<or> TrimSpace user_id = []")
    case True
    with run show ?thesis
      by (auto simp: http_listMemberships_def writeJSON_def Let_def split: if_splits)
  next
    case False
    show ?thesis
    proof (cases r)
      case (Inl e)
      then have "writeError e w1 = (res, w')" using run m False by (simp add: http_listMemberships_def)
      with st [of e w1] writeError_db [of e w1] db ntx show ?thesis by auto
    next
      case (Inr ms)
      with run m False db ntx show ?thesis by (auto simp: http_listMemberships_def writeJSON_def)
    qed
  qed
qed

end
