(* ===== verification/TenantConnect.thy ===== *)
theory TenantConnect
  imports TenantService ConnectErrors
begin

text \<open>internal/tenant/infra/connect/service.go: the Connect transport of TenantService.\<close>

definition tenant_clientErrors :: "client_error list" where
  "tenant_clientErrors = [
     NewClientError (TenantApp ErrTenantNameRequired) CodeInvalidArgument ''name is required'',
     NewClientError (TenantApp ErrTenantContractPlanRequired) CodeInvalidArgument ''contract_plan is required'',
     NewClientError (TenantApp TA_ErrTenantIDRequired) CodeInvalidArgument ''tenant_id is required'',
     NewClientError (TenantApp ErrOwnershipClaimTokenRequired) CodeInvalidArgument ''ownership_claim_token is required'',
     NewClientError (TenantApp ErrEventNameRequired) CodeInvalidArgument ''name is required'',
     NewClientError (TenantApp TA_ErrEventIDRequired) CodeInvalidArgument ''event_id is required'',
     NewClientError (TenantApp ErrEventStatusRequired) CodeInvalidArgument ''to is required'',
     NewClientError (TenantApp ErrSubdomainRequired) CodeInvalidArgument ''subdomain is required'',
     NewClientError (TenantDomain ErrInvalidSubdomain) CodeInvalidArgument ''subdomain is invalid'',
     NewClientError (RelationDomain ErrDisplayNameRequired) CodeInvalidArgument ''display_name is required'',
     NewClientError (RelationDomain ErrDisplayNameTooLong) CodeInvalidArgument ''display_name is too long'',
     NewClientError (TenantRepo ErrTenantSubdomainExists) CodeAlreadyExists ''subdomain already exists'',
     NewClientError (TenantRepo ErrTenantPublicIDExists) CodeAlreadyExists
       ''generated tenant ID already exists; retry the request'',
     NewClientError (TenantRepo ErrEventPublicIDExists) CodeAlreadyExists
       ''generated event ID already exists; retry the request'',
     NewClientError (TenantRepo TR_ErrTenantNotFound) CodeNotFound ''tenant not found'',
     NewClientError (TenantRepo TR_ErrEventNotFound) CodeNotFound ''event not found'',
     NewClientError (TenantApp TA_ErrTenantPendingOwner) CodeFailedPrecondition ''tenant is pending an owner'',
     NewClientError (TenantRepo ErrTenantArchived) CodeFailedPrecondition ''tenant is archived'',
     NewClientError (TenantDomain ErrTenantAlreadyArchived) CodeFailedPrecondition ''tenant is already archived'',
     NewClientError (TenantDomain ErrInvalidEventStatusTransition) CodeFailedPrecondition
       ''event status transition is not allowed'',
     NewClientError (TenantApp ErrCreatorNotMember) CodeFailedPrecondition ''caller does not belong to the tenant'',
     NewClientError (TenantApp TA_ErrPermissionDenied) CodePermissionDenied ''permission denied'',
     NewClientError (TenantCtx ErrMismatch) CodePermissionDenied ''tenant does not match the token'',
     NewClientError (TenantApp ErrOwnershipClaimRejected) CodePermissionDenied ''ownership claim rejected'',
     NewClientError (TenantCtx ErrSubjectMissing) CodeUnauthenticated ''subject is missing from the token'',
     NewClientError (TenantCtx ErrMissing) CodeUnauthenticated ''tenant ID is missing from the token'',
     NewClientError ErrTransactionAborted CodeAborted ''transaction aborted; retry the request'']"

interpretation tenant_errors: client_errors tenant_clientErrors
  by unfold_locales (auto simp: tenant_clientErrors_def NewClientError_def own_fault_def)

section \<open>Messages\<close>

record tenant_proto =
  tp_TenantId :: string
  tp_Name :: string
  tp_ContractPlan :: string
  tp_Archived :: bool
  tp_OwnershipState :: enum32
  tp_Subdomain :: string

record event_proto =
  ep_EventId :: string
  ep_TenantId :: string
  ep_Name :: string
  ep_Status :: enum32

definition eventStatusProto :: "event_status \<Rightarrow> enum32" where
  "eventStatusProto eventStatus =
     (if eventStatus = EventStatusUnspecified then 0 else if eventStatus = EventStatusDraft then 1
      else if eventStatus = EventStatusOpen then 2 else if eventStatus = EventStatusLocked then 3
      else if eventStatus = EventStatusClosed then 4 else if eventStatus = EventStatusArchived then 5
      else 0)"

definition eventStatusDomain :: "enum32 \<Rightarrow> event_status" where
  "eventStatusDomain eventStatus =
     (if eventStatus = 0 then EventStatusUnspecified else if eventStatus = 1 then EventStatusDraft
      else if eventStatus = 2 then EventStatusOpen else if eventStatus = 3 then EventStatusLocked
      else if eventStatus = 4 then EventStatusClosed else if eventStatus = 5 then EventStatusArchived
      else EventStatusUnspecified)"

interpretation event_status_wire: wire_enum eventStatusProto eventStatusDomain EventStatusArchived
proof
  show "eventStatusDomain (eventStatusProto v) = v" if "v \<le> EventStatusArchived" for v
    using that by (auto simp: event_status_defs enum8_le_cases eventStatusProto_def eventStatusDomain_def)
  show "eventStatusDomain x \<le> EventStatusArchived" for x
    by (simp add: event_status_defs eventStatusDomain_def)
  show "eventStatusProto v = eventStatusProto 0" if "EventStatusArchived < v" for v
    using that by (auto simp: event_status_defs eventStatusProto_def)
qed

definition tenantOwnershipStateProto :: "ownership_state \<Rightarrow> enum32" where
  "tenantOwnershipStateProto state =
     (if state = TenantOwnershipStateUnspecified then 0
      else if state = TenantOwnershipStatePendingOwner then 1
      else if state = TenantOwnershipStateOwned then 2 else 0)"

definition tenantProto :: "tenant \<Rightarrow> tenant_proto" where
  "tenantProto t =
     \<lparr>tp_TenantId = t_publicID t, tp_Name = t_name t, tp_ContractPlan = t_contractPlan t,
      tp_Archived = t_archived t, tp_OwnershipState = tenantOwnershipStateProto (t_ownershipState t),
      tp_Subdomain = sd_value (t_subdomain t)\<rparr>"

definition eventProto :: "event \<Rightarrow> event_proto" where
  "eventProto e =
     \<lparr>ep_EventId = ev_publicID e, ep_TenantId = ev_tenantPublicID e, ep_Name = ev_name e,
      ep_Status = eventStatusProto (ev_status e)\<rparr>"

section \<open>Procedures\<close>

record start_registration_response =
  srr_Tenant :: tenant_proto
  srr_OwnershipClaimToken :: string
  srr_ExpiresAt :: timestamp

definition TenantConnect_StartTenantRegistration ::
    "tenant_service \<Rightarrow> ctx \<Rightarrow> string \<Rightarrow> string \<Rightarrow> env \<Rightarrow> world \<Rightarrow> start_registration_response rpc_result" where
  "TenantConnect_StartTenantRegistration s c name contractPlan =
     answer tenant_clientErrors
       (TenantService_StartTenantRegistration s c \<lparr>sri_Name = name, sri_ContractPlan = contractPlan\<rparr>)
       (\<lambda>reg. \<lparr>srr_Tenant = tenantProto (reg_Tenant reg), srr_OwnershipClaimToken = reg_ClaimToken reg,
          srr_ExpiresAt = timestamppb_New (reg_ExpiresAt reg)\<rparr>)"

definition TenantConnect_ClaimTenantOwnership ::
    "tenant_service \<Rightarrow> ctx \<Rightarrow> claim_ownership_input \<Rightarrow> env \<Rightarrow> world \<Rightarrow> tenant_proto rpc_result" where
  "TenantConnect_ClaimTenantOwnership s c req =
     answer tenant_clientErrors (TenantService_ClaimTenantOwnership s c req) tenantProto"

definition TenantConnect_ResolveTenantSubdomain ::
    "tenant_service \<Rightarrow> ctx \<Rightarrow> string \<Rightarrow> env \<Rightarrow> world \<Rightarrow> string rpc_result" where
  "TenantConnect_ResolveTenantSubdomain s c sub =
     answer tenant_clientErrors (TenantService_ResolveTenantSubdomain s c sub) (\<lambda>x. x)"

definition TenantConnect_ChangeTenantContract ::
    "tenant_service \<Rightarrow> ctx \<Rightarrow> string \<Rightarrow> string \<Rightarrow> env \<Rightarrow> world \<Rightarrow> tenant_proto rpc_result" where
  "TenantConnect_ChangeTenantContract s c tenantID contractPlan =
     answer tenant_clientErrors (TenantService_ChangeTenantContract s c tenantID contractPlan) tenantProto"

definition TenantConnect_ArchiveTenant ::
    "tenant_service \<Rightarrow> ctx \<Rightarrow> string \<Rightarrow> env \<Rightarrow> world \<Rightarrow> tenant_proto rpc_result" where
  "TenantConnect_ArchiveTenant s c tenantID =
     answer tenant_clientErrors (TenantService_ArchiveTenant s c tenantID) tenantProto"

definition TenantConnect_CreateEvent ::
    "tenant_service \<Rightarrow> ctx \<Rightarrow> string \<Rightarrow> string \<Rightarrow> env \<Rightarrow> world \<Rightarrow> event_proto rpc_result" where
  "TenantConnect_CreateEvent s c tenantID name =
     answer tenant_clientErrors (TenantService_CreateEvent s c tenantID name) eventProto"

definition TenantConnect_TransitionEventStatus ::
    "tenant_service \<Rightarrow> ctx \<Rightarrow> string \<Rightarrow> enum32 \<Rightarrow> env \<Rightarrow> world \<Rightarrow> event_proto rpc_result" where
  "TenantConnect_TransitionEventStatus s c eventID to =
     answer tenant_clientErrors (TenantService_TransitionEventStatus s c eventID (eventStatusDomain to)) eventProto"

definition TenantConnect_GetEvent ::
    "tenant_service \<Rightarrow> ctx \<Rightarrow> string \<Rightarrow> env \<Rightarrow> world \<Rightarrow> event_proto rpc_result" where
  "TenantConnect_GetEvent s c eventID =
     answer tenant_clientErrors (TenantService_GetEvent s c eventID) eventProto"

definition TenantConnect_ListEvents ::
    "tenant_service \<Rightarrow> ctx \<Rightarrow> string \<Rightarrow> bool \<Rightarrow> env \<Rightarrow> world \<Rightarrow> event_proto list rpc_result" where
  "TenantConnect_ListEvents s c tenantID includeArchived =
     answer tenant_clientErrors (TenantService_ListEvents s c tenantID includeArchived) (map eventProto)"

end
