(* ===== verification/RelationConnect.thy ===== *)
theory RelationConnect
  imports RelationService ConnectErrors
begin

text \<open>internal/relation/infra/connect/service.go: the Connect transport of RelationAdminService.\<close>

definition relation_clientErrors :: "client_error list" where
  "relation_clientErrors = [
     NewClientError (RelationApp RA_ErrTenantIDRequired) CodeInvalidArgument ''tenant_id is required'',
     NewClientError (RelationApp RA_ErrEventIDRequired) CodeInvalidArgument ''event_id is required'',
     NewClientError (RelationApp ErrUserIDRequired) CodeInvalidArgument ''user_id is required'',
     NewClientError (RelationApp ErrScopeRequired) CodeInvalidArgument ''scope is required'',
     NewClientError (RelationApp ErrScopeAmbiguous) CodeInvalidArgument ''scope must name either a tenant or an event'',
     NewClientError (RelationApp ErrFilterRequired) CodeInvalidArgument ''filter is required'',
     NewClientError (RelationApp ErrFilterAmbiguous) CodeInvalidArgument ''filter must name either a tenant or a user'',
     NewClientError (RelationDomain ErrRoleRequired) CodeInvalidArgument ''role is required'',
     NewClientError (RelationDomain ErrRoleReserved) CodeInvalidArgument ''role is reserved and cannot be granted'',
     NewClientError (RelationApp ErrInvitationIDRequired) CodeInvalidArgument ''invitation_id is required'',
     NewClientError (RelationApp ErrInvitationTokenRequired) CodeInvalidArgument ''invitation_token is required'',
     NewClientError (RelationDomain ErrRoleNotInvitable) CodeInvalidArgument ''invitations grant the staff role only'',
     NewClientError (RelationDomain ErrDisplayNameRequired) CodeInvalidArgument ''display_name is required'',
     NewClientError (RelationDomain ErrDisplayNameTooLong) CodeInvalidArgument ''display_name is too long'',
     NewClientError (TenantRepo TR_ErrTenantNotFound) CodeNotFound ''tenant not found'',
     NewClientError (TenantRepo TR_ErrEventNotFound) CodeNotFound ''event not found'',
     NewClientError (RelationRepo RR_ErrTenantNotFound) CodeNotFound ''tenant not found'',
     NewClientError (RelationRepo RR_ErrEventNotFound) CodeNotFound ''event not found'',
     NewClientError (RelationRepo ErrMembershipNotFound) CodeNotFound ''membership not found'',
     NewClientError (RelationRepo ErrInvitationNotFound) CodeNotFound ''invitation not found'',
     NewClientError (RelationRepo ErrInvitationPublicIDExists) CodeAlreadyExists
       ''generated invitation ID already exists; retry the request'',
     NewClientError (RelationDomain ErrInvitationNotPending) CodeFailedPrecondition
       ''invitation is accepted, revoked, or expired'',
     NewClientError (RelationApp ErrInvitationRejected) CodePermissionDenied ''invitation token is invalid'',
     NewClientError (RelationRepo ErrEventRoleNotFound) CodeNotFound ''event role not found'',
     NewClientError (TenantRepo ErrTenantArchived) CodeFailedPrecondition ''tenant is archived'',
     NewClientError (TenantRepo ErrEventArchived) CodeFailedPrecondition ''event is archived'',
     NewClientError (RelationApp RA_ErrTenantPendingOwner) CodeFailedPrecondition ''tenant is pending an owner'',
     NewClientError (RelationApp ErrLastOwner) CodeFailedPrecondition ''the tenant must keep at least one owner'',
     NewClientError (RelationRepo ErrMembershipAlreadyExists) CodeFailedPrecondition ''membership already exists'',
     NewClientError (RelationRepo ErrTenantMembershipRequired) CodeFailedPrecondition
       ''event role requires membership of the event's tenant'',
     NewClientError (TenantCtx ErrMismatch) CodePermissionDenied ''tenant does not match the token'',
     NewClientError (RelationApp RA_ErrPermissionDenied) CodePermissionDenied ''permission denied'',
     NewClientError (TenantCtx ErrMissing) CodeUnauthenticated ''tenant ID is missing from the token'',
     NewClientError (TenantCtx ErrSubjectMissing) CodeUnauthenticated ''subject is missing from the token'',
     NewClientError ErrTransactionAborted CodeAborted ''transaction aborted; retry the request'']"

interpretation relation_errors: client_errors relation_clientErrors
  by unfold_locales (auto simp: relation_clientErrors_def NewClientError_def own_fault_def)

section \<open>Messages\<close>

definition roleProto :: "role \<Rightarrow> enum32" where
  "roleProto r =
     (if r = RoleUnspecified then 0 else if r = RoleOwner then 1 else if r = RoleStaff then 2
      else if r = RoleAdmin then 3 else 0)"

definition roleDomain :: "enum32 \<Rightarrow> role" where
  "roleDomain r =
     (if r = 0 then RoleUnspecified else if r = 1 then RoleOwner else if r = 2 then RoleStaff
      else if r = 3 then RoleAdmin else RoleUnspecified)"

interpretation role_wire: wire_enum roleProto roleDomain RoleAdmin
proof
  show "roleDomain (roleProto v) = v" if "v \<le> RoleAdmin" for v
    using that by (auto simp: role_defs role_le_cases roleProto_def roleDomain_def)
  show "roleDomain x \<le> RoleAdmin" for x
    by (simp add: role_defs roleDomain_def)
  show "roleProto v = roleProto 0" if "RoleAdmin < v" for v
    using that by (auto simp: role_defs roleProto_def)
qed

record event_role_proto =
  erp_EventId :: string
  erp_Role :: enum32

record membership_proto =
  mp_UserId :: string
  mp_TenantId :: string
  mp_TenantRole :: enum32
  mp_EventRoles :: "event_role_proto list"
  mp_DisplayName :: string
  mp_JoinedAt :: timestamp

record invitation_proto =
  ip_InvitationId :: string
  ip_TenantId :: string
  ip_TenantRole :: enum32
  ip_DisplayName :: string
  ip_ExpiresAt :: timestamp

definition membershipProto :: "membership \<Rightarrow> membership_proto" where
  "membershipProto m =
     \<lparr>mp_UserId = m_userID m, mp_TenantId = m_tenantPublicID m, mp_TenantRole = roleProto (m_tenantRole m),
      mp_EventRoles = map (\<lambda>r. \<lparr>erp_EventId = er_eventPublicID r, erp_Role = roleProto (er_role r)\<rparr>) (m_eventRoles m),
      mp_DisplayName = dn_value (m_displayName m), mp_JoinedAt = timestamppb_New (m_joinedAt m)\<rparr>"

definition invitationProto :: "invitation \<Rightarrow> invitation_proto" where
  "invitationProto i =
     \<lparr>ip_InvitationId = i_publicID i, ip_TenantId = i_tenantPublicID i, ip_TenantRole = roleProto (i_role i),
      ip_DisplayName = dn_value (i_displayName i), ip_ExpiresAt = timestamppb_New (i_expiresAt i)\<rparr>"

section \<open>Procedures\<close>

definition RelationConnect_CreateTenantInvitation ::
    "relation_service \<Rightarrow> ctx \<Rightarrow> string \<Rightarrow> enum32 \<Rightarrow> string \<Rightarrow> env \<Rightarrow> world \<Rightarrow> (invitation_proto \<times> string) rpc_result" where
  "RelationConnect_CreateTenantInvitation s c tenantID tenantRole displayName =
     answer relation_clientErrors
       (RelationService_CreateTenantInvitation s c tenantID (roleDomain tenantRole) displayName)
       (\<lambda>(i, token). (invitationProto i, token))"

definition RelationConnect_ListTenantInvitations ::
    "ctx \<Rightarrow> string \<Rightarrow> env \<Rightarrow> world \<Rightarrow> invitation_proto list rpc_result" where
  "RelationConnect_ListTenantInvitations c tenantID =
     answer relation_clientErrors (RelationService_ListTenantInvitations c tenantID) (map invitationProto)"

definition RelationConnect_RevokeTenantInvitation ::
    "ctx \<Rightarrow> string \<Rightarrow> string \<Rightarrow> env \<Rightarrow> world \<Rightarrow> invitation_proto rpc_result" where
  "RelationConnect_RevokeTenantInvitation c tenantID invitationID =
     answer relation_clientErrors (RelationService_RevokeTenantInvitation c tenantID invitationID) invitationProto"

definition RelationConnect_AcceptTenantInvitation ::
    "ctx \<Rightarrow> string \<Rightarrow> string \<Rightarrow> env \<Rightarrow> world \<Rightarrow> membership_proto rpc_result" where
  "RelationConnect_AcceptTenantInvitation c tenantID token =
     answer relation_clientErrors (RelationService_AcceptTenantInvitation c tenantID token) membershipProto"

definition RelationConnect_AddTenantMember ::
    "ctx \<Rightarrow> string \<Rightarrow> string \<Rightarrow> enum32 \<Rightarrow> string \<Rightarrow> env \<Rightarrow> world \<Rightarrow> membership_proto rpc_result" where
  "RelationConnect_AddTenantMember c tenantID userID tenantRole displayName =
     answer relation_clientErrors
       (RelationService_AddTenantMember c tenantID userID (roleDomain tenantRole) displayName) membershipProto"

definition RelationConnect_ChangeTenantRole ::
    "ctx \<Rightarrow> string \<Rightarrow> string \<Rightarrow> enum32 \<Rightarrow> env \<Rightarrow> world \<Rightarrow> membership_proto rpc_result" where
  "RelationConnect_ChangeTenantRole c tenantID userID tenantRole =
     answer relation_clientErrors
       (RelationService_ChangeTenantRole c tenantID userID (roleDomain tenantRole)) membershipProto"

definition RelationConnect_GrantEventRole ::
    "ctx \<Rightarrow> string \<Rightarrow> string \<Rightarrow> enum32 \<Rightarrow> env \<Rightarrow> world \<Rightarrow> membership_proto rpc_result" where
  "RelationConnect_GrantEventRole c eventID userID r =
     answer relation_clientErrors (RelationService_GrantEventRole c eventID userID (roleDomain r)) membershipProto"

definition RelationConnect_RevokeRole ::
    "ctx \<Rightarrow> revoke_role_input \<Rightarrow> env \<Rightarrow> world \<Rightarrow> unit rpc_result" where
  "RelationConnect_RevokeRole c req =
     answer relation_clientErrors (RelationService_RevokeRole c req) (\<lambda>x. x)"

definition RelationConnect_ListMemberships ::
    "ctx \<Rightarrow> string \<Rightarrow> string \<Rightarrow> env \<Rightarrow> world \<Rightarrow> membership_proto list rpc_result" where
  "RelationConnect_ListMemberships c tenantID userID =
     answer relation_clientErrors (RelationService_ListMemberships c tenantID userID) (map membershipProto)"

end
