(* ===== verification/System.thy ===== *)
theory System
  imports History HttpApi TenantConnect RelationConnect
begin

text \<open>
  The process of cmd/server/main.go as a whole: the two services and the HTTP API on one database.
  A request is a value; \<open>serve\<close> runs it through its transport with the services of the wiring.
  \<open>reachable\<close> are the worlds that any sequence of requests can lead to from an empty
  database, whatever the callers' tokens say, whichever interactions with the database fail and
  whatever the clocks and random sources answer.
\<close>

section \<open>Requests\<close>

datatype rpc =
    StartTenantRegistration string string
  | ClaimTenantOwnership claim_ownership_input
  | ResolveTenantSubdomain string
  | ChangeTenantContract string string
  | ArchiveTenant string
  | CreateEvent string string
  | TransitionEventStatus string enum32
  | GetEvent string
  | ListEvents string bool
  | CreateTenantInvitation string enum32 string
  | ListTenantInvitations string
  | RevokeTenantInvitation string string
  | AcceptTenantInvitation string string
  | AddTenantMember string string enum32 string
  | ChangeTenantRole string string enum32
  | GrantEventRole string string enum32
  | RevokeRole revoke_role_input
  | ListMemberships string string
  | HttpMemberships string string

datatype reply =
    RegistrationReply start_registration_response
  | TenantReply tenant_proto
  | SubdomainReply string
  | EventReply event_proto
  | EventsReply "event_proto list"
  | InvitationReply invitation_proto
  | CreatedInvitationReply "invitation_proto \<times> string"
  | InvitationsReply "invitation_proto list"
  | MembershipReply membership_proto
  | MembershipsReply "membership_proto list"
  | EmptyReply
  | HttpReply "http_response option"
  | ErrorReply connect_error

definition reply :: "('a \<Rightarrow> reply) \<Rightarrow> 'a rpc_result \<Rightarrow> reply \<times> world" where
  "reply f r = (case r of (Inl e, w) \<Rightarrow> (ErrorReply e, w) | (Inr x, w) \<Rightarrow> (f x, w))"

definition wired_tenantService :: tenant_service where
  "wired_tenantService = NewTenantService None"

definition wired_relationService :: relation_service where
  "wired_relationService = NewRelationService None"

fun serve :: "ctx \<Rightarrow> rpc \<Rightarrow> env \<Rightarrow> world \<Rightarrow> reply \<times> world" where
  "serve c (StartTenantRegistration name plan) E w =
     reply RegistrationReply (TenantConnect_StartTenantRegistration wired_tenantService c name plan E w)"
| "serve c (ClaimTenantOwnership req) E w =
     reply TenantReply (TenantConnect_ClaimTenantOwnership wired_tenantService c req E w)"
| "serve c (ResolveTenantSubdomain sub) E w =
     reply SubdomainReply (TenantConnect_ResolveTenantSubdomain wired_tenantService c sub E w)"
| "serve c (ChangeTenantContract tid plan) E w =
     reply TenantReply (TenantConnect_ChangeTenantContract wired_tenantService c tid plan E w)"
| "serve c (ArchiveTenant tid) E w =
     reply TenantReply (TenantConnect_ArchiveTenant wired_tenantService c tid E w)"
| "serve c (CreateEvent tid name) E w =
     reply EventReply (TenantConnect_CreateEvent wired_tenantService c tid name E w)"
| "serve c (TransitionEventStatus eid to) E w =
     reply EventReply (TenantConnect_TransitionEventStatus wired_tenantService c eid to E w)"
| "serve c (GetEvent eid) E w = reply EventReply (TenantConnect_GetEvent wired_tenantService c eid E w)"
| "serve c (ListEvents tid arch) E w =
     reply EventsReply (TenantConnect_ListEvents wired_tenantService c tid arch E w)"
| "serve c (CreateTenantInvitation tid r name) E w =
     reply CreatedInvitationReply (RelationConnect_CreateTenantInvitation wired_relationService c tid r name E w)"
| "serve c (ListTenantInvitations tid) E w =
     reply InvitationsReply (RelationConnect_ListTenantInvitations c tid E w)"
| "serve c (RevokeTenantInvitation tid iid) E w =
     reply InvitationReply (RelationConnect_RevokeTenantInvitation c tid iid E w)"
| "serve c (AcceptTenantInvitation tid token) E w =
     reply MembershipReply (RelationConnect_AcceptTenantInvitation c tid token E w)"
| "serve c (AddTenantMember tid u r name) E w =
     reply MembershipReply (RelationConnect_AddTenantMember c tid u r name E w)"
| "serve c (ChangeTenantRole tid u r) E w =
     reply MembershipReply (RelationConnect_ChangeTenantRole c tid u r E w)"
| "serve c (GrantEventRole eid u r) E w =
     reply MembershipReply (RelationConnect_GrantEventRole c eid u r E w)"
| "serve c (RevokeRole req) E w = reply (\<lambda>_. EmptyReply) (RelationConnect_RevokeRole c req E w)"
| "serve c (ListMemberships tid u) E w =
     reply MembershipsReply (RelationConnect_ListMemberships c tid u E w)"
| "serve c (HttpMemberships tid u) E w =
     (case http_listMemberships c tid u E w of (r, w') \<Rightarrow> (HttpReply r, w'))"

section \<open>Every request keeps the integrity and the history\<close>

definition sound_step :: "ctx \<Rightarrow> world \<Rightarrow> world \<Rightarrow> bool" where
  "sound_step c w w' \<longleftrightarrow> w_tx w' = None \<and> integrity (w_db w') \<and> evolves c (w_db w) (w_db w')"

lemma sound_reply:
  "sound_step c w (snd (answer table call convert E w)) \<Longrightarrow> sound_step c w (snd (reply f (answer table call convert E w)))"
  by (auto simp: reply_def split: prod.split sum.split)

text \<open>A use case whose every outcome, good or bad, is sound is sound through its transport.\<close>

lemma sound_call:
  assumes "runs E c (w_db w) call (\<lambda>_ d'. integrity d' \<and> evolves c (w_db w) d') (\<lambda>_ d'. integrity d' \<and> evolves c (w_db w) d')"
    and c: "\<not> ctx_tx c" and w: "w_tx w = None"
  shows "sound_step c w (snd (reply f (answer table call convert E w)))"
proof (rule sound_reply)
  obtain r w' where m: "call E w = (r, w')" by (cases "call E w") auto
  have "integrity (w_db w') \<and> evolves c (w_db w) (w_db w')"
    using runs_db [OF assms(1) c refl m] by (simp split: sum.splits)
  moreover have "w_tx w' = None" using runs_tx_None [OF assms(1) c refl w] m by simp
  ultimately show "sound_step c w (snd (answer table call convert E w))"
    unfolding sound_step_def answer_db m by simp
qed

text \<open>The shape of the use cases' rules: an effect that lasts, or nothing.\<close>

lemma sound_effect:
  assumes i: "integrity d"
    and run: "runs E c d m Q R"
    and good: "\<And>x d'. Q x d' \<Longrightarrow> integrity d' \<and> evolves c d d'"
    and bad: "\<And>e d'. R e d' \<Longrightarrow> d' = d \<or> integrity d' \<and> evolves c d d'"
  shows "runs E c d m (\<lambda>_ d'. integrity d' \<and> evolves c d d') (\<lambda>_ d'. integrity d' \<and> evolves c d d')"
  by (rule runs_conseq [OF run]) (use good bad i in \<open>auto dest: bad\<close>)

lemma serve_sound:
  assumes i: "integrity (w_db w)" and w: "w_tx w = None" and c: "\<not> ctx_tx c"
  shows "sound_step c w (snd (serve c req E w))"
proof (cases req)
  case (StartTenantRegistration name plan)
  show ?thesis
    unfolding StartTenantRegistration serve.simps TenantConnect_StartTenantRegistration_def wired_tenantService_def
    by (rule sound_call [OF sound_effect [OF i production.runs_StartTenantRegistration [OF i]] c w])
      (auto intro: evolves_registered [OF i] evolves_sweep [OF i])
next
  case (ClaimTenantOwnership x)
  show ?thesis
    unfolding ClaimTenantOwnership serve.simps TenantConnect_ClaimTenantOwnership_def wired_tenantService_def
    by (rule sound_call [OF sound_effect [OF i production.runs_ClaimTenantOwnership [OF i c]] c w])
      (auto intro: evolves_claimed [OF i])
next
  case (ResolveTenantSubdomain x)
  show ?thesis
    unfolding ResolveTenantSubdomain serve.simps TenantConnect_ResolveTenantSubdomain_def wired_tenantService_def
    by (rule sound_call [OF sound_effect [OF i production.runs_ResolveTenantSubdomain] c w]) (auto simp: i)
next
  case (ChangeTenantContract tid plan)
  show ?thesis
    unfolding ChangeTenantContract serve.simps TenantConnect_ChangeTenantContract_def wired_tenantService_def
    by (rule sound_call [OF sound_effect [OF i production.runs_ChangeTenantContract [OF i c]] c w])
      (auto simp: Ensure_None_iff intro: evolves_administered [OF i])
next
  case (ArchiveTenant tid)
  show ?thesis
    unfolding ArchiveTenant serve.simps TenantConnect_ArchiveTenant_def wired_tenantService_def
    by (rule sound_call [OF sound_effect [OF i production.runs_ArchiveTenant [OF i c]] c w])
      (auto simp: Ensure_None_iff intro: evolves_administered [OF i])
next
  case (CreateEvent tid name)
  show ?thesis
    unfolding CreateEvent serve.simps TenantConnect_CreateEvent_def wired_tenantService_def
    by (rule sound_call [OF sound_effect [OF i production.runs_CreateEvent [OF i c]] c w])
      (auto simp: Ensure_None_iff intro: evolves_event_created [OF i])
next
  case (TransitionEventStatus eid to)
  show ?thesis
    unfolding TransitionEventStatus serve.simps TenantConnect_TransitionEventStatus_def wired_tenantService_def
    by (rule sound_call [OF sound_effect [OF i production.runs_TransitionEventStatus [OF i]] c w])
      (auto intro: evolves_event_transitioned [OF i])
next
  case (GetEvent x)
  show ?thesis
    unfolding GetEvent serve.simps TenantConnect_GetEvent_def wired_tenantService_def
    by (rule sound_call [OF sound_effect [OF i production.runs_GetEvent [OF i]] c w]) (auto simp: i)
next
  case (ListEvents tid arch)
  show ?thesis
    unfolding ListEvents serve.simps TenantConnect_ListEvents_def wired_tenantService_def
    by (rule sound_call [OF sound_effect [OF i production.runs_ListEvents [OF i]] c w]) (auto simp: i)
next
  case (CreateTenantInvitation tid r name)
  show ?thesis
    unfolding CreateTenantInvitation serve.simps RelationConnect_CreateTenantInvitation_def
    by (rule sound_call [OF sound_effect [OF i runs_CreateTenantInvitation [OF i c]] c w])
      (auto intro: evolves_invited [OF i])
next
  case (ListTenantInvitations x)
  show ?thesis
    unfolding ListTenantInvitations serve.simps RelationConnect_ListTenantInvitations_def
    by (rule sound_call [OF sound_effect [OF i runs_ListTenantInvitations [OF i]] c w]) (auto simp: i)
next
  case (RevokeTenantInvitation tid iid)
  show ?thesis
    unfolding RevokeTenantInvitation serve.simps RelationConnect_RevokeTenantInvitation_def
    by (rule sound_call [OF sound_effect [OF i runs_RevokeTenantInvitation [OF i c]] c w])
      (auto intro: evolves_invitation_revoked [OF i])
next
  case (AcceptTenantInvitation tid token)
  show ?thesis
    unfolding AcceptTenantInvitation serve.simps RelationConnect_AcceptTenantInvitation_def
    by (rule sound_call [OF sound_effect [OF i runs_AcceptTenantInvitation [OF i c]] c w])
      (auto intro: evolves_invitation_accepted [OF i])
next
  case (AddTenantMember tid u r name)
  show ?thesis
    unfolding AddTenantMember serve.simps RelationConnect_AddTenantMember_def
    by (rule sound_call [OF sound_effect [OF i runs_AddTenantMember_service [OF i]] c w])
      (auto intro: evolves_member_added [OF i])
next
  case (ChangeTenantRole tid u r)
  show ?thesis
    unfolding ChangeTenantRole serve.simps RelationConnect_ChangeTenantRole_def
    by (rule sound_call [OF sound_effect [OF i runs_ChangeTenantRole [OF i c]] c w])
      (auto intro: evolves_role_changed [OF i])
next
  case (GrantEventRole eid u r)
  show ?thesis
    unfolding GrantEventRole serve.simps RelationConnect_GrantEventRole_def
    by (rule sound_call [OF sound_effect [OF i runs_GrantEventRole [OF i c]] c w])
      (auto intro: evolves_granted_event_role [OF i])
next
  case (RevokeRole x)
  show ?thesis
    unfolding RevokeRole serve.simps RelationConnect_RevokeRole_def
    by (rule sound_call [OF sound_effect [OF i runs_RevokeRole [OF i c]] c w])
      (auto intro: evolves_role_revoked [OF i])
next
  case (ListMemberships tid u)
  show ?thesis
    unfolding ListMemberships serve.simps RelationConnect_ListMemberships_def
    by (rule sound_call [OF sound_effect [OF i runs_ListMemberships [OF i]] c w]) (auto simp: i)
next
  case (HttpMemberships tid u)
  obtain r w' where m: "http_listMemberships c tid u E w = (r, w')" by (cases "http_listMemberships c tid u E w")
  with http_listMemberships_reads [OF i c m] i w show ?thesis
    by (simp add: HttpMemberships sound_step_def)
qed

section \<open>Reachable worlds\<close>

inductive reachable :: "world \<Rightarrow> bool" where
  start: "w_db w = empty_db \<Longrightarrow> w_tx w = None \<Longrightarrow> reachable w"
| request: "reachable w \<Longrightarrow> \<not> ctx_tx c \<Longrightarrow> reachable (snd (serve c req E w))"

inductive later :: "world \<Rightarrow> world \<Rightarrow> bool" where
  now: "later w w"
| request_later: "later w w' \<Longrightarrow> \<not> ctx_tx c \<Longrightarrow> later w (snd (serve c req E w'))"

inductive_cases later_cases: "later w w'"

lemma reachable_sound: "reachable w \<Longrightarrow> integrity (w_db w) \<and> w_tx w = None"
proof (induction rule: reachable.induct)
  case (start w)
  then show ?case using integrity_empty_db by simp
next
  case (request w c req E)
  then show ?case using serve_sound [of w c req E] by (simp add: sound_step_def)
qed

lemma later_reachable: "later w w' \<Longrightarrow> reachable w \<Longrightarrow> reachable w'"
  by (induction rule: later.induct) (auto intro: reachable.request)

lemma later_trans: "later w' w'' \<Longrightarrow> later w w' \<Longrightarrow> later w w''"
  by (induction rule: later.induct) (auto intro: later.intros)

lemma later_lasts: "later w w' \<Longrightarrow> reachable w \<Longrightarrow> lasts (w_db w) (w_db w')"
proof (induction rule: later.induct)
  case (request_later w w' c req E)
  then have "integrity (w_db w')" "w_tx w' = None"
    using later_reachable reachable_sound by blast+
  from serve_sound [OF this request_later.hyps(2), of req E] have "lasts (w_db w') (w_db (snd (serve c req E w')))"
    by (simp add: sound_step_def evolves_def)
  with request_later show ?case by (blast intro: lasts_trans)
qed simp

end
