(* ===== verification/Sample.thy ===== *)
theory Sample
  imports System
begin

text \<open>
  A small database, a healthy environment and two callers: the concrete inputs at which the witnesses
  apply the properties.  One tenant is owned, one archived, one waits for its owner; the owned one
  has an owner, a member, an event and an open invitation.
\<close>

definition sample_owned :: tenant_row where
  "sample_owned = \<lparr>tr_id = ''t1'', tr_public_id = ''0123456789abcdef'', tr_name = ''Acme'', tr_contract_plan = ''free'',
     tr_ownership_state = ''owned'', tr_subdomain = Some ''acme'', tr_archived = False, tr_claim_hash = None,
     tr_claim_expires = None\<rparr>"

definition sample_archived :: tenant_row where
  "sample_archived = \<lparr>tr_id = ''t2'', tr_public_id = ''00000000000000aa'', tr_name = ''Old'', tr_contract_plan = ''free'',
     tr_ownership_state = ''owned'', tr_subdomain = Some ''old'', tr_archived = True, tr_claim_hash = None,
     tr_claim_expires = None\<rparr>"

definition sample_pending :: tenant_row where
  "sample_pending = \<lparr>tr_id = ''t3'', tr_public_id = ''00000000000000bb'', tr_name = ''New'', tr_contract_plan = ''free'',
     tr_ownership_state = ''pending_owner'', tr_subdomain = None, tr_archived = False,
     tr_claim_hash = Some (replicate 32 0), tr_claim_expires = Some 5000000\<rparr>"

definition sample_event :: event_row where
  "sample_event = \<lparr>evr_id = ''e1'', evr_public_id = ''0000000000000e01'', evr_tenant_id = ''t1'',
     evr_tenant_public_id = ''0123456789abcdef'', evr_name = ''Expo'', evr_status = ''locked''\<rparr>"

definition sample_invitation :: invitation_row where
  "sample_invitation = \<lparr>ir_id = ''i1'', ir_public_id = ''0000000000000101'', ir_tenant_id = ''t1'',
     ir_tenant_role = ''staff'', ir_display_name = ''Dave'', ir_token_hash = replicate 32 1,
     ir_expires_at = 9000000, ir_created_at = 0, ir_accepted_at = None, ir_accepted_by = None, ir_revoked_at = None\<rparr>"

definition sample_member :: "string \<Rightarrow> string \<Rightarrow> string \<Rightarrow> membership_row" where
  "sample_member t u r = \<lparr>mr_tenant_id = t, mr_user_id = u, mr_tenant_role = r, mr_display_name = u, mr_joined_at = 0\<rparr>"

definition sample_db :: db where
  "sample_db = \<lparr>tenants = [sample_owned, sample_archived, sample_pending], events = [sample_event],
     memberships = [sample_member ''t1'' ''alice'' ''owner'', sample_member ''t1'' ''bob'' ''staff'',
       sample_member ''t2'' ''carol'' ''owner''],
     event_roles = [\<lparr>rr_event_id = ''e1'', rr_tenant_id = ''t1'', rr_user_id = ''bob'', rr_role = ''staff''\<rparr>],
     invitations = [sample_invitation]\<rparr>"

definition sample_world :: world where
  "sample_world = \<lparr>w_db = sample_db, w_tx = None, w_step = 0, w_log = []\<rparr>"

definition empty_world :: world where
  "empty_world = \<lparr>w_db = empty_db, w_tx = None, w_step = 0, w_log = []\<rparr>"

definition sample_env :: env where
  "sample_env = \<lparr>e_clock = (\<lambda>_. 1000000), e_dbclock = (\<lambda>_. 1000000), e_uuid = (\<lambda>_. Inr ''u1''),
     e_rand = (\<lambda>_. Inr (\<lambda>_. 7)), e_fault = (\<lambda>_. None)\<rparr>"

definition sample_ctx :: "string \<Rightarrow> ctx" where
  "sample_ctx u = \<lparr>ctx_claims = Some \<lparr>cl_Subject = u, cl_TenantPublicID = ''0123456789abcdef''\<rparr>,
     ctx_binding = None, ctx_tx = False\<rparr>"

definition anonymous_ctx :: ctx where
  "anonymous_ctx = \<lparr>ctx_claims = None, ctx_binding = None, ctx_tx = False\<rparr>"

lemmas sample_rows = sample_owned_def sample_archived_def sample_pending_def sample_event_def
  sample_invitation_def sample_member_def

lemma sample_world_simps [simp]:
  "w_db sample_world = sample_db" "w_tx sample_world = None" "w_db empty_world = empty_db" "w_tx empty_world = None"
  "\<not> ctx_tx (sample_ctx u)" "\<not> ctx_tx anonymous_ctx" "ctx_claims anonymous_ctx = None"
  by (simp_all add: sample_world_def empty_world_def sample_ctx_def anonymous_ctx_def)

lemma sample_clock [simp]: "e_clock sample_env k = 1000000"
  by (simp add: sample_env_def)

lemma healthy_sample [simp]: "healthy sample_env"
  by (simp add: healthy_def sample_env_def)

lemma TrimSpace_fixed:
  assumes "s \<noteq> []" and "of_char (hd s) < (128::nat)" "\<not> IsSpace (of_char (hd s))"
    and "of_char (List.last s) < (128::nat)" "\<not> IsSpace (of_char (List.last s))"
  shows "TrimSpace s = s"
proof -
  have "DecodeRuneInString s = (of_char (hd s), 1)"
    using assms by (cases s) (simp_all add: DecodeRuneInString_ascii)
  then have "trim_left s = s" using assms by (intro trim_left_fixed) simp
  moreover have "DecodeLastRune (bytes_of s) = (of_char (List.last s), 1)"
    using assms by (simp add: DecodeLastRune_def bytes_of_def last_map Let_def)
  then have "trim_right s = s" using assms by (intro trim_right_fixed) simp
  ultimately show ?thesis by (simp add: TrimSpace_def)
qed

lemma sample_trimmed [simp]:
  "TrimSpace ''alice'' = ''alice''" "TrimSpace ''bob'' = ''bob''" "TrimSpace ''carol'' = ''carol''"
  "TrimSpace ''Dave'' = ''Dave''" "TrimSpace ''0123456789abcdef'' = ''0123456789abcdef''"
  "TrimSpace ''00000000000000bb'' = ''00000000000000bb''"
  by (simp_all add: TrimSpace_fixed IsSpace_def)

lemma sample_counts [simp]:
  "RuneCountInString ''alice'' = 5" "RuneCountInString ''bob'' = 3" "RuneCountInString ''carol'' = 5"
  "RuneCountInString ''Dave'' = 4" "RuneCountInString ''free'' = 4" "RuneCountInString ''Expo'' = 4"
  by (simp_all add: RuneCountInString_def runes_ascii)

lemma sample_names [simp]:
  "ParseDisplayName ''alice'' = Inr (DisplayName ''alice'')" "ParseDisplayName ''bob'' = Inr (DisplayName ''bob'')"
  "ParseDisplayName ''carol'' = Inr (DisplayName ''carol'')" "ParseDisplayName ''Dave'' = Inr (DisplayName ''Dave'')"
  by (simp_all add: ParseDisplayName_Inr_iff maxDisplayNameLength_def)

lemma sample_subdomains [simp]:
  "ParseSubdomain ''acme'' = Inr (Subdomain ''acme'')" "ParseSubdomain ''old'' = Inr (Subdomain ''old'')"
  "ParseSubdomain ''fresh'' = Inr (Subdomain ''fresh'')"
  by (simp_all add: ParseSubdomain_iff label_shape_def reserved_label_def is_alnum_hyphen_def is_alnum_def
      is_hex_def is_digit_def in_class_simps)

lemma sample_statuses [simp]:
  "ParseEventStatus ''locked'' = Inr EventStatusLocked"
  by (simp add: ParseEventStatus_Inr_iff event_status_defs)

lemma schema_sample: "schema_ok sample_db"
  unfolding schema_ok_def table_ok_iffs
  by (simp add: sample_db_def sample_rows tenant_claim_ok_def display_name_check_def)

lemma integrity_sample: "integrity sample_db"
  unfolding integrity_def
  by (rule integrity_butI [OF schema_sample])
    (auto simp: sample_db_def sample_rows tenant_texts_ok_def is_owned_def has_owner_def
      no_rows_of_def event_row_ok_def display_name_ok_def)

lemma sample_sound: "integrity (w_db sample_world)" "\<not> ctx_tx (sample_ctx u)"
  using integrity_sample by simp_all

lemma sample_subject [simp]:
  "SubjectFromContext (sample_ctx ''alice'') = Some ''alice''" "SubjectFromContext (sample_ctx ''bob'') = Some ''bob''"
  "TenantPublicIDFromContext (sample_ctx u) = Some ''0123456789abcdef''"
  "SubjectFromContext anonymous_ctx = None" "TenantPublicIDFromContext anonymous_ctx = None"
  by (simp_all add: SubjectFromContext_def TenantPublicIDFromContext_def sample_ctx_def anonymous_ctx_def
      bound_tenant_def)

lemma sample_roles:
  "current_role sample_db ''t1'' ''alice'' = Some RoleOwner" "current_role sample_db ''t1'' ''bob'' = Some RoleStaff"
  by (simp_all add: current_role_def sample_db_def sample_rows is_membership_def role_defs)

section \<open>Evaluating runs\<close>

lemmas run_simps = answer_def reply_def go_defs now_go_def tick_def NewUUIDv7_def NewPublicID_def rand_Read_def
  onetimetoken_New_def exec_count_def exec_sql_def stmt_def view_def set_view_def query_def GetContext_def
  SelectContext_def RowsAffected_def RunInTransaction_def begin_tx_def commit_tx_def rollback_tx_def
  sample_env_def anonymous_ctx_def Let_def

lemmas tenant_run_simps = NewTenantService_def TenantRepo_WithinTransaction_def
  TenantRepo_FindTenantByPublicIDForUpdate_def TenantRepo_UpdateTenant_def tenantRow_domain_def
  TenantRepo_findTenant_def TenantRepo_FindTenantByPublicID_def

lemma sample_plain_texts [simp]:
  "varchar 255 ''Acme'' = Inr ''Acme''" "varchar 255 ''free'' = Inr ''free''" "varchar 255 ''paid'' = Inr ''paid''"
  "varchar 255 ''Expo'' = Inr ''Expo''" "varchar 255 ''alice'' = Inr ''alice''" "varchar 64 ''alice'' = Inr ''alice''"
  "varchar 255 ''bob'' = Inr ''bob''" "varchar 255 ''dave'' = Inr ''dave''" "varchar 64 ''Dave'' = Inr ''Dave''"
  by (simp_all add: varchar_short RuneCountInString_def runes_ascii)

definition sample_token :: string where
  "sample_token = fst (token_of (map (\<lambda>_. 7) [0..<tokenBytes]))"

lemma sample_token_of [simp]: "token_of (map (\<lambda>_. 7) [0..<tokenBytes]) = (sample_token, HashOf sample_token)"
  by (simp add: sample_token_def token_of_def Let_def)

text \<open>The world after one registration, and its only row.\<close>

definition registered_world :: world where
  "registered_world = snd (serve anonymous_ctx (StartTenantRegistration ''Acme'' ''free'') sample_env empty_world)"

definition registered_row :: tenant_row where
  "registered_row = \<lparr>tr_id = ''u1'', tr_public_id = public_id_of (map (\<lambda>_. 7) [0..<8]),
     tr_name = ''Acme'', tr_contract_plan = ''free'', tr_ownership_state = ''pending_owner'', tr_subdomain = None,
     tr_archived = False, tr_claim_hash = Some (HashOf sample_token),
     tr_claim_expires = Some (pg_time (1000000 + DefaultOwnershipClaimTTL))\<rparr>"

lemma registered_reachable: "reachable registered_world"
  unfolding registered_world_def by (intro reachable.request reachable.start) simp_all

lemma succeeds: "is_Inr (fst p) \<Longrightarrow> \<exists>x w'. p = (Inr x, w')"
  by (cases p) (auto simp: is_Inr_conv)

lemmas registration_run_simps = TenantService_StartTenantRegistration_def NewTenantService_def
  TenantRepo_DeleteExpiredPendingTenants_def TenantRepo_CreatePendingTenant_def sql_delete_expired_pending_def
  delete_tenants_def delete_where_def sql_insert_tenant_def put_tenants_def tenants_violation_def
  varchar_public_id tenant_values_def NewTenant_def tenant_claim_ok_def count_where_def
  ownership_state_defs nullableSubdomain_def

lemma registered_tenants: "tenants (w_db registered_world) = [registered_row]"
  by (simp add: registered_world_def registered_row_def TenantConnect_StartTenantRegistration_def run_simps
      wired_tenantService_def empty_world_def empty_db_def registration_run_simps)

lemma sample_registration:
  "is_Inr (fst (TenantService_StartTenantRegistration (NewTenantService None) anonymous_ctx
     \<lparr>sri_Name = ''Acme'', sri_ContractPlan = ''free''\<rparr> sample_env empty_world))"
  by (simp add: registration_run_simps run_simps empty_world_def empty_db_def)

lemma registered_db:
  "w_db registered_world = empty_db\<lparr>tenants := [registered_row]\<rparr>" "w_tx registered_world = None"
  by (simp_all add: registered_world_def registered_row_def TenantConnect_StartTenantRegistration_def run_simps
      wired_tenantService_def empty_world_def empty_db_def registration_run_simps)

definition registration_ctx :: ctx where
  "registration_ctx = \<lparr>ctx_claims = Some \<lparr>cl_Subject = ''alice'', cl_TenantPublicID = []\<rparr>,
     ctx_binding = None, ctx_tx = False\<rparr>"

definition sample_claim :: claim_ownership_input where
  "sample_claim = \<lparr>coi_TenantPublicID = tr_public_id registered_row, coi_ClaimToken = sample_token,
     coi_Subdomain = ''fresh'', coi_DisplayName = ''alice''\<rparr>"

lemma registration_ctx_simps [simp]:
  "\<not> ctx_tx registration_ctx" "SubjectFromContext registration_ctx = Some ''alice''"
  "TenantPublicIDFromContext registration_ctx = None"
  by (simp_all add: registration_ctx_def SubjectFromContext_def TenantPublicIDFromContext_def bound_tenant_def
      TrimSpace_def [of "[]"])

lemma sample_id_token: "tr_public_id registered_row \<noteq> []" "sample_token \<noteq> []"
proof -
  have "length (tr_public_id registered_row) = 16"
    unfolding registered_row_def by (simp add: length_public_id_of)
  then show "tr_public_id registered_row \<noteq> []" by auto
  have "[0..<tokenBytes] = 0 # 1 # 2 # [3..<tokenBytes]" by (simp add: tokenBytes_def upt_rec)
  then show "sample_token \<noteq> []" by (simp add: sample_token_def token_of_def Let_def)
qed

lemma sample_public_id: "public_id_of (map (\<lambda>_. 7) [0..<8]) = ''0707070707070707''"
  by code_simp

lemma sample_public_id_stored [simp]: "varchar 16 ''0707070707070707'' = Inr ''0707070707070707''"
  by (rule varchar_short) (simp add: RuneCountInString_def runes_ascii)

text \<open>The definitions a use case of the sample runs through.\<close>

lemmas eval_simps = run_simps tenant_run_simps event_status_defs ownership_state_defs role_defs
  TransitionTo_def canTransitionEventStatus_def TenantService_resolveEvent_def TenantService_resolveTenant_def
  TenantRepo_FindEventByPublicID_def TenantRepo_findEvent_def no_rows_def eventRow_domain_def wrap_result_def VerifyOwnership_def
  TenantRepo_UpdateEvent_def sql_update_event_def put_events_def events_violation_def sample_world_def sample_db_def sample_rows
  NewEvent_def NewTenant_def Ensure_def update_where_def count_where_def delete_where_def
  TenantService_administerTenant_def administer_tx_def Authorizer_Allowed_def Authorizer_CurrentRole_def Authorizer_Require_def
  MembershipRepo_FindTenantRoleForShare_def absent_or_def is_membership_def Grants_def scope_defs adminScopes_def memberScopes_def
  ScopeTenantWrite_tenant_def Owned_def nullableSubdomain_def tenant_Archive_def ChangeContractPlan_def
  sql_update_tenant_def put_tenants_def tenants_violation_def tenant_claim_ok_def
  tenantClaimRow_claim_def copy_hash_def zero_time_def
  RelationService_resolveTenant_def RelationService_writableTenant_def RelationService_writableEvent_def
  RelationService_withCurrentPermission_def RelationService_writeMembership_def RelationService_keepAnotherOwner_def
  MembershipRepo_WithinTransaction_def MembershipRepo_LockTenantMemberships_def MembershipRepo_CountTenantOwners_def
  MembershipRepo_FindMembership_def MembershipRepo_listMemberships_def expectOneRow_def
  sql_count_owners_def sql_select_memberships_def sql_select_event_roles_def join_membership_def join_event_role_def
  eventRoleRow_domain_def membershipRow_domain_def event_roles_at_def Grantable_def Invitable_def
  sql_update_tenant_role_def sql_delete_membership_def delete_memberships_def put_memberships_def memberships_violation_def
  sql_insert_membership_def display_name_check_def NewMembership_def NewEventRole_def

text \<open>
  The onboarding continued: the registered tenant is claimed by its founder, who then creates an
  event.
\<close>

definition claimed_world :: world where
  "claimed_world = snd (serve registration_ctx (ClaimTenantOwnership sample_claim) sample_env registered_world)"

definition claimed_row :: tenant_row where
  "claimed_row = registered_row\<lparr>tr_ownership_state := ''owned'', tr_subdomain := Some ''fresh'',
     tr_claim_hash := None, tr_claim_expires := None\<rparr>"

lemma claimed_reachable: "reachable claimed_world"
  unfolding claimed_world_def by (intro reachable.request registered_reachable) simp_all

lemmas claim_run_simps = TenantService_ClaimTenantOwnership_def claim_tx_def MembershipRepo_AddOwner_def
  MembershipRepo_AddTenantMember_def TenantRepo_MarkTenantOwned_def sql_mark_tenant_owned_def claim_Expired_def
  ClaimOwnership_def Matches_iff

lemma claimed_db:
  "w_db claimed_world = empty_db\<lparr>tenants := [claimed_row], memberships := [(sample_member ''u1'' ''alice'' ''owner'')\<lparr>mr_joined_at := 1000000\<rparr>]\<rparr>"
  by (simp add: claimed_world_def claimed_row_def registered_row_def TenantConnect_ClaimTenantOwnership_def
      wired_tenantService_def claim_run_simps registered_db sample_claim_def sample_id_token sample_public_id empty_db_def
      pg_time_def DefaultOwnershipClaimTTL_def eval_simps sample_member_def)
definition founder_ctx :: ctx where
  "founder_ctx = \<lparr>ctx_claims = Some \<lparr>cl_Subject = ''alice'', cl_TenantPublicID = ''0707070707070707''\<rparr>,
     ctx_binding = None, ctx_tx = False\<rparr>"

lemma founder_ctx_simps [simp]:
  "\<not> ctx_tx founder_ctx" "SubjectFromContext founder_ctx = Some ''alice''"
  "TenantPublicIDFromContext founder_ctx = Some ''0707070707070707''"
  by (simp_all add: founder_ctx_def SubjectFromContext_def TenantPublicIDFromContext_def TrimSpace_fixed IsSpace_def)

definition event_world :: world where
  "event_world = snd (serve founder_ctx (CreateEvent ''0707070707070707'' ''Expo'') sample_env claimed_world)"

lemma event_reachable: "reachable event_world"
  unfolding event_world_def by (intro reachable.request claimed_reachable) simp_all

lemma claimed_tx: "w_tx claimed_world = None"
  using reachable_sound [OF claimed_reachable] by simp

lemmas creation_run_simps = TenantService_CreateEvent_def create_event_tx_def TenantRepo_CreateEvent_def sql_insert_event_def
  MembershipRepo_GrantEventRole_def sql_upsert_event_role_def upsert_event_role_def returned_tenant_def
  put_event_roles_def event_roles_violation_def is_event_role_def

lemma event_db:
  "event_roles (w_db event_world) = [\<lparr>rr_event_id = ''u1'', rr_tenant_id = ''u1'', rr_user_id = ''alice'', rr_role = ''owner''\<rparr>]"
  by (simp add: event_world_def TenantConnect_CreateEvent_def wired_tenantService_def creation_run_simps claimed_db claimed_tx
      claimed_row_def registered_row_def sample_public_id empty_db_def eval_simps)

text \<open>The sample's tenant after its founder has archived it.\<close>

definition archived_world :: world where
  "archived_world = snd (serve founder_ctx (ArchiveTenant ''0707070707070707'') sample_env event_world)"

lemma archived_reachable: "reachable archived_world"
  unfolding archived_world_def by (intro reachable.request event_reachable) simp_all

lemma event_world_rows:
  "tenants (w_db event_world) = [claimed_row]" "w_tx event_world = None"
  "memberships (w_db event_world) = [(sample_member ''u1'' ''alice'' ''owner'')\<lparr>mr_joined_at := 1000000\<rparr>]"
  "events (w_db event_world) = [\<lparr>evr_id = ''u1'', evr_public_id = ''0707070707070707'', evr_tenant_id = ''u1'',
     evr_tenant_public_id = ''0707070707070707'', evr_name = ''Expo'', evr_status = ''draft''\<rparr>]"
  by (simp_all add: event_world_def TenantConnect_CreateEvent_def wired_tenantService_def creation_run_simps claimed_db claimed_tx
      claimed_row_def registered_row_def sample_public_id empty_db_def eval_simps)

lemma archived_tenants: "tenants (w_db archived_world) = [claimed_row\<lparr>tr_archived := True\<rparr>]"
  by (simp add: archived_world_def TenantConnect_ArchiveTenant_def TenantService_ArchiveTenant_def wired_tenantService_def
      event_world_rows claimed_row_def registered_row_def sample_public_id eval_simps)

end
