(* ===== verification/TenantProperties.thy ===== *)
theory TenantProperties
  imports Sample
begin

text \<open>
  The properties of the tenant context: what each of its use cases promises a caller, stated of the
  service as it is wired and of every world whose database is sound, and applied to the sample.
\<close>

section \<open>Onboarding\<close>

text \<open>
  C24: A registration needs a name and a contract plan, removes the pending tenants whose claim has
  expired and nothing else, and adds one tenant.  Its row holds the name and the plan of the request,
  the new identifiers, no subdomain, the pending state, the hash of the claim token and the expiry; the
  answer is the tenant with the same identifiers, name and plan, the token, which is made of 32 bytes
  of the random source, and the expiry, the life of a claim after the time of the request.  When a
  registration fails it has at most swept, unless the database connection failed.
\<close>

theorem StartTenantRegistration_effect:
  assumes i: "integrity (w_db w)" and c: "\<not> ctx_tx c"
    and run: "TenantService_StartTenantRegistration (NewTenantService ttl) c input E w = (r, w')"
  shows "case r of
      Inr reg \<Rightarrow> \<exists>k tid bs raw name plan. sri_Name input \<noteq> [] \<and> sri_ContractPlan input \<noteq> []
        \<and> (\<exists>n. e_uuid E n = Inr tid) \<and> drawn E 8 bs \<and> drawn E 32 raw
        \<and> varchar 255 (sri_Name input) = Inr name \<and> varchar 255 (sri_ContractPlan input) = Inr plan
        \<and> reg = \<lparr>reg_Tenant = \<lparr>t_id = tid, t_publicID = public_id_of bs, t_name = sri_Name input,
              t_contractPlan = sri_ContractPlan input, t_ownershipState = TenantOwnershipStatePendingOwner,
              t_subdomain = Subdomain [], t_archived = False\<rparr>,
            reg_ClaimToken = RawURL_EncodeToString raw,
            reg_ExpiresAt = e_clock E k + ts_ownershipClaimTTL (NewTenantService ttl)\<rparr>
        \<and> w_db w' = (w_db w)\<lparr>tenants := filter (\<lambda>t. \<not> expired_row (e_clock E k) t) (tenants (w_db w)) @
            [\<lparr>tr_id = tid, tr_public_id = public_id_of bs, tr_name = name, tr_contract_plan = plan,
              tr_ownership_state = ''pending_owner'', tr_subdomain = None, tr_archived = False,
              tr_claim_hash = Some (HashOf (reg_ClaimToken reg)),
              tr_claim_expires = Some (pg_time (reg_ExpiresAt reg))\<rparr>]\<rparr>
    | Inl e \<Rightarrow> \<not> healthy E \<or> w_db w' = w_db w
        \<or> (\<exists>k. w_db w' = (w_db w)\<lparr>tenants := filter (\<lambda>t. \<not> expired_row (e_clock E k) t) (tenants (w_db w))\<rparr>)"
proof -
  note swept = sweep_rows [OF i, unfolded delete_where_def]
  note spec = runs_db [OF production.runs_StartTenantRegistration [OF i] c refl run]
  show ?thesis
  proof (cases r)
    case (Inl e)
    with spec show ?thesis by (auto simp: swept)
  next
    case (Inr reg)
    with spec obtain k where named: "sri_Name input \<noteq> []" "sri_ContractPlan input \<noteq> []"
      and reg: "registered E (ts_ownershipClaimTTL (NewTenantService ttl)) (w_db w) (e_clock E k) input reg (w_db w')"
      by auto
    from reg obtain tid bs raw name plan where shape: "drawn E 8 bs" "drawn E tokenBytes raw" "\<exists>n. e_uuid E n = Inr tid"
      "varchar 255 (sri_Name input) = Inr name" "varchar 255 (sri_ContractPlan input) = Inr plan"
      "reg = \<lparr>reg_Tenant = NewTenant tid (public_id_of bs) (sri_Name input) (sri_ContractPlan input)
            TenantOwnershipStatePendingOwner (Subdomain []) False, reg_ClaimToken = fst (token_of raw),
          reg_ExpiresAt = e_clock E k + ts_ownershipClaimTTL (NewTenantService ttl)\<rparr>"
      "w_db w' = (sweep (e_clock E k) (w_db w))\<lparr>tenants := tenants (sweep (e_clock E k) (w_db w)) @
         [\<lparr>tr_id = tid, tr_public_id = public_id_of bs, tr_name = name, tr_contract_plan = plan,
           tr_ownership_state = ''pending_owner'', tr_subdomain = None, tr_archived = False,
           tr_claim_hash = Some (HashOf (reg_ClaimToken reg)),
           tr_claim_expires = Some (pg_time (e_clock E k + ts_ownershipClaimTTL (NewTenantService ttl)))\<rparr>]\<rparr>"
      unfolding registered_def by blast
    show ?thesis unfolding Inr sum.case
      by (rule exI [of _ k], rule exI [of _ tid], rule exI [of _ bs], rule exI [of _ raw], rule exI [of _ name],
          rule exI [of _ plan]) (use named shape in \<open>simp add: swept NewTenant_def token_of_def Let_def tokenBytes_def\<close>)
  qed
qed

theorem StartTenantRegistration_effect_witness:
  "\<exists>reg w' row. TenantService_StartTenantRegistration (NewTenantService None) anonymous_ctx
       \<lparr>sri_Name = ''Acme'', sri_ContractPlan = ''free''\<rparr> sample_env empty_world = (Inr reg, w')
     \<and> t_name (reg_Tenant reg) = ''Acme'' \<and> t_contractPlan (reg_Tenant reg) = ''free''
     \<and> tenants (w_db w') = [row] \<and> tr_name row = ''Acme'' \<and> tr_contract_plan row = ''free''
     \<and> tr_public_id row = t_publicID (reg_Tenant reg) \<and> tr_claim_hash row = Some (HashOf (reg_ClaimToken reg))"
proof -
  obtain reg w' where run: "TenantService_StartTenantRegistration (NewTenantService None) anonymous_ctx
       \<lparr>sri_Name = ''Acme'', sri_ContractPlan = ''free''\<rparr> sample_env empty_world = (Inr reg, w')"
    using succeeds [OF sample_registration] by blast
  have short: "varchar 255 ''Acme'' = Inr ''Acme''" "varchar 255 ''free'' = Inr ''free''"
    by (simp_all add: varchar_short RuneCountInString_def runes_ascii)
  from StartTenantRegistration_effect [OF _ _ run] integrity_empty_db short run show ?thesis
    by (intro exI [of _ reg] exI [of _ w']) (auto simp: empty_db_def)
qed

section \<open>Claims\<close>

lemma abort_mark_Sentinel [simp]: "abort_mark (Sentinel s) = Sentinel s" "abort_mark (Wrap t (Sentinel s)) = Wrap t (Sentinel s)"
  by (simp_all add: abort_mark_def isTransactionAbort_def)

text \<open>What a claim must show, at a given time, for the service to accept it.\<close>

definition claim_acceptable :: "db \<Rightarrow> ctx \<Rightarrow> claim_ownership_input \<Rightarrow> time \<Rightarrow> bool" where
  "claim_acceptable d c input now \<longleftrightarrow>
     coi_TenantPublicID input \<noteq> [] \<and> coi_ClaimToken input \<noteq> []
     \<and> is_Inr (ParseSubdomain (coi_Subdomain input)) \<and> is_Inr (ParseDisplayName (coi_DisplayName input))
     \<and> SubjectFromContext c \<noteq> None \<and> VerifyOwnership c (coi_TenantPublicID input) = None
     \<and> (\<exists>row \<in> set (tenants d). tr_public_id row = coi_TenantPublicID input \<and> \<not> is_owned row
          \<and> tr_claim_hash row = Some (HashOf (coi_ClaimToken input))
          \<and> (\<exists>x. tr_claim_expires row = Some x \<and> now < x))
     \<and> (\<forall>row \<in> set (tenants d). tr_subdomain row \<noteq> Some (coi_Subdomain input))"

lemma claim_accepted:
  assumes i: "integrity (w_db w)" and c: "\<not> ctx_tx c" and E: "healthy E" and now: "\<And>k. e_clock E k = now"
    and ok: "claim_acceptable (w_db w) c input now"
    and short: "\<And>u. SubjectFromContext c = Some u \<Longrightarrow> RuneCountInString u \<le> 255"
  shows "is_Inr (fst (TenantService_ClaimTenantOwnership (NewTenantService ttl) c input E w))"
proof (rule ccontr)
  obtain r w' where run: "TenantService_ClaimTenantOwnership (NewTenantService ttl) c input E w = (r, w')"
    by (cases "TenantService_ClaimTenantOwnership (NewTenantService ttl) c input E w")
  assume "\<not> ?thesis"
  with run obtain e where r: "r = Inl e" by (cases r) auto
  from runs_db [OF production.runs_ClaimTenantOwnership [OF i c] c refl run] r E
  have ref: "claim_refused E (w_db w) c input e" by simp
  from ok obtain row x where row: "row \<in> set (tenants (w_db w))" "tr_public_id row = coi_TenantPublicID input"
      "\<not> is_owned row" "tr_claim_hash row = Some (HashOf (coi_ClaimToken input))"
      "tr_claim_expires row = Some x" "now < x"
    by (auto simp: claim_acceptable_def)
  have key: "r = row" if "r \<in> set (tenants (w_db w))" "tr_public_id r = coi_TenantPublicID input" for r
    using schema_tenant_key(2) [OF integrity_schema(1) [OF i] that(1) row(1)] that(2) row(2) by simp
  have found: "\<not> (\<forall>r \<in> set (tenants (w_db w)). tr_public_id r \<noteq> coi_TenantPublicID input)" using row by blast
  from ref ok obtain e0 where "claim_tx_refused E (w_db w) c input e0"
    by (auto simp: claim_refused_def claim_acceptable_def is_Inr_conv)
  with ok row found short now show False
    by (auto simp: claim_tx_refused_def claim_acceptable_def not_less [symmetric] dest: key)
qed

lemma mark_owned_row:
  "row \<in> set ts \<Longrightarrow> row\<lparr>tr_ownership_state := ''owned'', tr_subdomain := Some sub, tr_claim_hash := None,
     tr_claim_expires := None\<rparr> \<in> set (mark_owned (tr_id row) sub ts)"
  by (auto simp: mark_owned_def set_update_where)

lemma claimed_subdomain_free:
  assumes ok: "schema_ok d" and ok': "schema_ok d'" and o: "ownership_claimed E d c input t d'" and r: "r \<in> set (tenants d)"
  shows "tr_subdomain r \<noteq> Some (coi_Subdomain input)"
proof
  assume sub: "tr_subdomain r = Some (coi_Subdomain input)"
  from o obtain row where row: "row \<in> set (tenants d)" "\<not> is_owned row"
    and ts: "tenants d' = mark_owned (tr_id row) (coi_Subdomain input) (tenants d)"
    unfolding ownership_claimed_def by force
  have "tr_subdomain row = None" using schema_tenant_state [OF ok row(1)] row(2) by (auto simp: is_owned_def)
  with sub have ne: "r \<noteq> row" by auto
  then have "tr_id r \<noteq> tr_id row" using schema_tenant_key(1) [OF ok r row(1)] by simp
  then have "r \<in> set (tenants d')" using r by (auto simp: ts mark_owned_def set_update_where)
  let ?row = "row\<lparr>tr_ownership_state := ''owned'', tr_subdomain := Some (coi_Subdomain input), tr_claim_hash := None,
     tr_claim_expires := None\<rparr>"
  have "?row \<in> set (tenants d')" unfolding ts by (rule mark_owned_row [OF row(1)])
  have "distinct (map tr_subdomain (filter (\<lambda>r. tr_subdomain r \<noteq> None) (tenants d')))"
    using ok' by (simp add: schema_ok_def tenants_ok_iff)
  from distinct_map_key_eq [OF this, of r ?row] sub \<open>r \<in> set (tenants d')\<close> \<open>?row \<in> set (tenants d')\<close>
  have "r = ?row" by simp
  with \<open>tr_id r \<noteq> tr_id row\<close> show False by (metis tenant_row.select_convs(1) tenant_row.surjective tenant_row.update_convs(5,6,8,9))
qed

text \<open>
  C8: With a healthy connection, a clock that reads the same throughout the request and a subject of at
  most 255 characters, a claim succeeds exactly when its input is valid, the caller is known and not
  bound to another tenant, the tenant is pending with that claim token unexpired, and no tenant has the
  subdomain.
\<close>

theorem ClaimTenantOwnership_succeeds_iff:
  assumes i: "integrity (w_db w)" and c: "\<not> ctx_tx c" and E: "healthy E" and now: "\<And>k. e_clock E k = now"
    and short: "\<And>u. SubjectFromContext c = Some u \<Longrightarrow> RuneCountInString u \<le> 255"
  shows "is_Inr (fst (TenantService_ClaimTenantOwnership (NewTenantService ttl) c input E w))
    \<longleftrightarrow> claim_acceptable (w_db w) c input now"
proof
  obtain r w' where run: "TenantService_ClaimTenantOwnership (NewTenantService ttl) c input E w = (r, w')"
    by (cases "TenantService_ClaimTenantOwnership (NewTenantService ttl) c input E w")
  assume "is_Inr (fst (TenantService_ClaimTenantOwnership (NewTenantService ttl) c input E w))"
  with run obtain t where r: "r = Inr t" by (auto simp: is_Inr_conv)
  from runs_db [OF production.runs_ClaimTenantOwnership [OF i c] c refl run] r
  have o: "ownership_claimed E (w_db w) c input t (w_db w')" and ok: "schema_ok (w_db w')"
    and given: "coi_TenantPublicID input \<noteq> []" "coi_ClaimToken input \<noteq> []"
    by (auto dest: integrity_schema)
  have "tr_subdomain r \<noteq> Some (coi_Subdomain input)" if "r \<in> set (tenants (w_db w))" for r
    by (rule claimed_subdomain_free [OF integrity_schema(1) [OF i] ok o that])
  with o given now show "claim_acceptable (w_db w) c input now"
    unfolding ownership_claimed_def claim_acceptable_def is_Inr_conv by auto
qed (use claim_accepted [OF i c E now] short in blast)

lemma sample_claim_accepted:
  "is_Inr (fst (TenantService_ClaimTenantOwnership (NewTenantService None) registration_ctx sample_claim
     sample_env registered_world))"
proof (rule claim_accepted [where now = 1000000])
  show "integrity (w_db registered_world)" using reachable_sound [OF registered_reachable] by simp
  show "claim_acceptable (w_db registered_world) registration_ctx sample_claim 1000000"
    using sample_id_token
    by (simp add: claim_acceptable_def sample_claim_def registered_db VerifyOwnership_def
        registered_row_def is_owned_def pg_time_def DefaultOwnershipClaimTTL_def)
qed simp_all

lemma sample_claim_run:
  obtains t w' where "TenantService_ClaimTenantOwnership (NewTenantService None) registration_ctx sample_claim
     sample_env registered_world = (Inr t, w')" and "integrity (w_db registered_world)"
  using succeeds [OF sample_claim_accepted] reachable_sound [OF registered_reachable] by blast

theorem ClaimTenantOwnership_succeeds_iff_witness:
  "is_Inr (fst (TenantService_ClaimTenantOwnership (NewTenantService None) registration_ctx sample_claim
      sample_env registered_world))
   \<and> \<not> is_Inr (fst (TenantService_ClaimTenantOwnership (NewTenantService None) registration_ctx
      (sample_claim\<lparr>coi_Subdomain := ''acme''\<rparr>) sample_env (sample_world)))"
proof -
  note iff = ClaimTenantOwnership_succeeds_iff [where c = registration_ctx and E = sample_env and now = 1000000]
  have i: "integrity (w_db registered_world)" using reachable_sound [OF registered_reachable] by simp
  have "\<not> claim_acceptable sample_db registration_ctx (sample_claim\<lparr>coi_Subdomain := ''acme''\<rparr>) 1000000"
    by (simp add: claim_acceptable_def sample_db_def sample_owned_def)
  then show ?thesis
    using iff [OF i, where input = sample_claim and ttl = None] sample_claim_accepted
      iff [where w = sample_world and input = "sample_claim\<lparr>coi_Subdomain := ''acme''\<rparr>" and ttl = None]
      integrity_sample by simp
qed

text \<open>
  C9: A claim that succeeds names a pending tenant, carries the token whose hash the tenant was
  registered with, comes before the claim expires and with a valid subdomain and display name.  It
  changes that tenant's row to owned, under that subdomain and without a claim, adds the caller as
  its owner, and touches nothing else.
\<close>

theorem ClaimTenantOwnership_effect:
  assumes i: "integrity (w_db w)" and c: "\<not> ctx_tx c"
    and run: "TenantService_ClaimTenantOwnership (NewTenantService ttl) c input E w = (Inr t, w')"
  shows "\<exists>row sub n u at k x. row \<in> set (tenants (w_db w)) \<and> tr_public_id row = coi_TenantPublicID input
    \<and> tr_ownership_state row = ''pending_owner''
    \<and> tr_claim_hash row = Some (HashOf (coi_ClaimToken input))
    \<and> tr_claim_expires row = Some x \<and> e_clock E k < x
    \<and> ParseSubdomain (coi_Subdomain input) = Inr sub \<and> ParseDisplayName (coi_DisplayName input) = Inr n
    \<and> SubjectFromContext c = Some u
    \<and> Owned t \<and> t_id t = tr_id row \<and> t_subdomain t = sub
    \<and> w_db w' = (w_db w)\<lparr>
        tenants := map (\<lambda>r. if tr_id r = tr_id row then r\<lparr>tr_ownership_state := ''owned'',
            tr_subdomain := Some (coi_Subdomain input), tr_claim_hash := None, tr_claim_expires := None\<rparr> else r)
          (tenants (w_db w)),
        memberships := memberships (w_db w) @ [\<lparr>mr_tenant_id = tr_id row, mr_user_id = u,
          mr_tenant_role = ''owner'', mr_display_name = dn_value n, mr_joined_at = at\<rparr>]\<rparr>"
proof -
  have "ownership_claimed E (w_db w) c input t (w_db w')"
    using runs_db [OF production.runs_ClaimTenantOwnership [OF i c] c refl run] by simp
  then obtain row sub n u at k x where o: "row \<in> set (tenants (w_db w))" "tr_public_id row = coi_TenantPublicID input"
     "\<not> is_owned row" "tr_claim_hash row = Some (HashOf (coi_ClaimToken input))"
     "tr_claim_expires row = Some x" "e_clock E k < x" "ParseSubdomain (coi_Subdomain input) = Inr sub"
     "ParseDisplayName (coi_DisplayName input) = Inr n" "SubjectFromContext c = Some u"
     "t = (tenant_of row)\<lparr>t_ownershipState := TenantOwnershipStateOwned, t_subdomain := sub\<rparr>"
     "w_db w' = (w_db w)\<lparr>tenants := mark_owned (tr_id row) (coi_Subdomain input) (tenants (w_db w)),
              memberships := memberships (w_db w) @ [\<lparr>mr_tenant_id = tr_id row, mr_user_id = u,
                mr_tenant_role = ''owner'', mr_display_name = dn_value n, mr_joined_at = at\<rparr>]\<rparr>"
    unfolding ownership_claimed_def by blast
  have "tr_ownership_state row = ''pending_owner''"
    using schema_tenant_state [OF integrity_schema(1) [OF i] o(1)] o(3) by (auto simp: is_owned_def)
  with o show ?thesis
    by (intro exI [of _ row] exI [of _ sub] exI [of _ n] exI [of _ u] exI [of _ at] exI [of _ k] exI [of _ x])
      (simp add: Owned_def mark_owned_def update_where_def)
qed

theorem ClaimTenantOwnership_effect_witness:
  "\<exists>t w' m. TenantService_ClaimTenantOwnership (NewTenantService None) registration_ctx sample_claim
       sample_env registered_world = (Inr t, w') \<and> Owned t \<and> memberships (w_db w') = [m] \<and> mr_user_id m = ''alice''"
proof -
  obtain t w' where run: "TenantService_ClaimTenantOwnership (NewTenantService None) registration_ctx sample_claim
       sample_env registered_world = (Inr t, w')" and i: "integrity (w_db registered_world)"
    by (rule sample_claim_run)
  from ClaimTenantOwnership_effect [OF i _ run] run show ?thesis
    by (auto simp: registered_db empty_db_def)
qed

section \<open>One claim per tenant\<close>

lemma claim_needs_pending:
  assumes i: "integrity (w_db w)" and c: "\<not> ctx_tx c"
    and row: "row \<in> set (tenants (w_db w))" "is_owned row" "tr_public_id row = coi_TenantPublicID input"
    and run: "TenantService_ClaimTenantOwnership (NewTenantService ttl) c input E w = (r, w')"
  shows "(\<exists>e. r = Inl e) \<and> w_db w' = w_db w"
proof -
  have no: "\<not> ownership_claimed E (w_db w) c input t d'" for t d'
    using schema_tenant_key(2) [OF integrity_schema(1) [OF i] _ row(1)] row
    by (auto simp: ownership_claimed_def)
  show ?thesis
    using runs_db [OF production.runs_ClaimTenantOwnership [OF i c] c refl run] no by (cases r) auto
qed

text \<open>
  A claim token works once: after a successful claim, no claim of that tenant succeeds again,
  by whomever and with whatever token, and none changes the database, also when the connection fails.
\<close>

theorem ClaimTenantOwnership_once:
  assumes "integrity (w_db w)" and "\<not> ctx_tx c" and "\<not> ctx_tx c'"
    and "TenantService_ClaimTenantOwnership (NewTenantService ttl) c input E w = (Inr t, w')"
    and "coi_TenantPublicID input' = coi_TenantPublicID input"
    and "TenantService_ClaimTenantOwnership (NewTenantService ttl') c' input' E' w' = (r, w'')"
  shows "(\<exists>e. r = Inl e) \<and> w_db w'' = w_db w'"
proof -
  note run = runs_db [OF production.runs_ClaimTenantOwnership [OF assms(1,2)] assms(2) refl assms(4)]
  then have i: "integrity (w_db w')" and o: "ownership_claimed E (w_db w) c input t (w_db w')" by simp_all
  from o obtain row where "row \<in> set (tenants (w_db w))" "tr_public_id row = coi_TenantPublicID input"
    "tenants (w_db w') = mark_owned (tr_id row) (coi_Subdomain input) (tenants (w_db w))"
    unfolding ownership_claimed_def by force
  then obtain row' where "row' \<in> set (tenants (w_db w'))" "is_owned row'" "tr_public_id row' = coi_TenantPublicID input'"
    using mark_owned_row [of row "tenants (w_db w)" "coi_Subdomain input"] assms(5) by (auto simp: is_owned_def)
  from claim_needs_pending [OF i assms(3) this assms(6)] show ?thesis .
qed

theorem ClaimTenantOwnership_once_witness:
  "\<exists>t w' e w''. TenantService_ClaimTenantOwnership (NewTenantService None) registration_ctx sample_claim
       sample_env registered_world = (Inr t, w')
     \<and> TenantService_ClaimTenantOwnership (NewTenantService None) registration_ctx sample_claim
       sample_env w' = (Inl e, w'') \<and> w_db w'' = w_db w'"
proof -
  obtain t w' where run: "TenantService_ClaimTenantOwnership (NewTenantService None) registration_ctx sample_claim
       sample_env registered_world = (Inr t, w')" and i: "integrity (w_db registered_world)"
    by (rule sample_claim_run)
  obtain r w'' where again: "TenantService_ClaimTenantOwnership (NewTenantService None) registration_ctx sample_claim
       sample_env w' = (r, w'')" by (cases "TenantService_ClaimTenantOwnership (NewTenantService None) registration_ctx
         sample_claim sample_env w'")
  from ClaimTenantOwnership_once [OF i _ _ run refl again] run again show ?thesis by auto
qed

text \<open>
  A caller learns nothing from a rejected claim: for a tenant that exists, a wrong token, an
  expired claim and a tenant that is claimed already all get the same permission error, and the
  database stays as it is.
\<close>

theorem ClaimTenantOwnership_uniform_rejection:
  assumes i: "integrity (w_db w)" and c: "\<not> ctx_tx c" and E: "healthy E"
    and row: "row \<in> set (tenants (w_db w))" "tr_public_id row = coi_TenantPublicID input"
    and given: "coi_TenantPublicID input \<noteq> []" "coi_ClaimToken input \<noteq> []"
      "is_Inr (ParseSubdomain (coi_Subdomain input))" "is_Inr (ParseDisplayName (coi_DisplayName input))"
    and u: "SubjectFromContext c = Some u" "RuneCountInString u \<le> 255"
    and unbound: "VerifyOwnership c (coi_TenantPublicID input) = None"
    and bad: "tr_ownership_state row = ''owned'' \<or> tr_claim_hash row \<noteq> Some (HashOf (coi_ClaimToken input))
      \<or> (\<forall>k. \<exists>x. tr_claim_expires row = Some x \<and> x \<le> e_clock E k)"
    and run: "TenantConnect_ClaimTenantOwnership (NewTenantService ttl) c input E w = (res, w')"
  shows "(\<exists>ce. res = Inl ce \<and> ce_Code ce = CodePermissionDenied \<and> ce_Message ce = ''ownership claim rejected'')
    \<and> w_db w' = w_db w"
proof -
  obtain r w1 where m: "TenantService_ClaimTenantOwnership (NewTenantService ttl) c input E w = (r, w1)"
    by (cases "TenantService_ClaimTenantOwnership (NewTenantService ttl) c input E w")
  note spec = runs_db [OF production.runs_ClaimTenantOwnership [OF i c] c refl m]
  have key: "x = row" if "x \<in> set (tenants (w_db w))" "tr_public_id x = coi_TenantPublicID input" for x
    using schema_tenant_key(2) [OF integrity_schema(1) [OF i] that(1) row(1)] that(2) row(2) by simp
  have bad': "is_owned row \<or> tr_claim_hash row \<noteq> Some (HashOf (coi_ClaimToken input))
      \<or> (\<forall>k. \<exists>x. tr_claim_expires row = Some x \<and> x \<le> e_clock E k)" using bad by (simp add: is_owned_def)
  have no: "\<not> ownership_claimed E (w_db w) c input t d'" for t d'
  proof
    assume "ownership_claimed E (w_db w) c input t d'"
    then obtain r k x where "r \<in> set (tenants (w_db w))" "tr_public_id r = coi_TenantPublicID input"
      "\<not> is_owned r" "tr_claim_hash r = Some (HashOf (coi_ClaimToken input))" "tr_claim_expires r = Some x" "e_clock E k < x"
      unfolding ownership_claimed_def by blast
    with key bad' show False by (metis not_less option.inject)
  qed
  have "r = Inl (Sentinel (TenantApp ErrOwnershipClaimRejected)) \<and> w_db w1 = w_db w"
  proof (cases r)
    case (Inr t)
    with spec no show ?thesis by simp
  next
    case (Inl e)
    with spec no E have db: "w_db w1 = w_db w" and ref: "claim_refused E (w_db w) c input e" by auto
    have sub: "\<not> (\<exists>row \<in> set (tenants (w_db w)). tr_public_id row = coi_TenantPublicID input \<and> \<not> is_owned row
           \<and> tr_claim_hash row = Some (HashOf (coi_ClaimToken input))
           \<and> (\<exists>x k. tr_claim_expires row = Some x \<and> e_clock E k < x))"
      using bad' by (metis key not_less option.inject)
    from ref given u(1) obtain e0 where e0: "e = abort_mark e0" "claim_tx_refused E (w_db w) c input e0"
      by (auto simp: claim_refused_def is_Inr_conv)
    then have "e0 = Sentinel (TenantApp ErrOwnershipClaimRejected)"
      using row u unbound sub by (auto simp: claim_tx_refused_def)
    with e0(1) db Inl show ?thesis by simp
  qed
  with run m show ?thesis
    by (auto simp: TenantConnect_ClaimTenantOwnership_def answer_def tenant_clientErrors_def NewClientError_def)
qed

theorem ClaimTenantOwnership_uniform_rejection_witness:
  "\<exists>ce. fst (TenantConnect_ClaimTenantOwnership (NewTenantService None) registration_ctx
       (sample_claim\<lparr>coi_TenantPublicID := ''0123456789abcdef''\<rparr>) sample_env sample_world) = Inl ce
     \<and> ce_Code ce = CodePermissionDenied"
proof -
  let ?in = "sample_claim\<lparr>coi_TenantPublicID := ''0123456789abcdef''\<rparr>"
  obtain res w' where run: "TenantConnect_ClaimTenantOwnership (NewTenantService None) registration_ctx ?in
      sample_env sample_world = (res, w')"
    by (cases "TenantConnect_ClaimTenantOwnership (NewTenantService None) registration_ctx ?in sample_env sample_world")
  have "sample_owned \<in> set (tenants (w_db sample_world))" by (simp add: sample_db_def)
  from ClaimTenantOwnership_uniform_rejection [OF _ _ _ this _ _ _ _ _ _ _ _ _ run] sample_id_token run show ?thesis
    by (auto simp: integrity_sample sample_claim_def sample_owned_def VerifyOwnership_def)
qed

section \<open>Administration\<close>

definition administered_rows :: "string \<Rightarrow> (tenant_row \<Rightarrow> tenant_row) \<Rightarrow> db \<Rightarrow> db" where
  "administered_rows tid f d = d\<lparr>tenants := map (\<lambda>r. if tr_id r = tid then f r else r) (tenants d)\<rparr>"

text \<open>
  C37: Archiving succeeds only inside the caller's own tenant, for a caller who is an owner of it by
  the memberships of that very database, and only on a tenant that is owned and not archived; it sets
  the archived flag of that row and touches nothing else (a stored plan of at most 255 characters stays),
  and answers the tenant as it is then.
\<close>

theorem ArchiveTenant_effect:
  assumes i: "integrity (w_db w)" and c: "\<not> ctx_tx c"
    and run: "TenantService_ArchiveTenant (NewTenantService ttl) c pid E w = (Inr t, w')"
  shows "\<exists>row u p. row \<in> set (tenants (w_db w)) \<and> tr_public_id row = pid
    \<and> TenantPublicIDFromContext c = Some pid \<and> tr_ownership_state row = ''owned'' \<and> \<not> tr_archived row
    \<and> SubjectFromContext c = Some u \<and> current_role (w_db w) (tr_id row) u = Some RoleOwner
    \<and> t = (tenant_of row)\<lparr>t_archived := True\<rparr> \<and> varchar 255 (tr_contract_plan row) = Inr p
    \<and> w_db w' = administered_rows (tr_id row) (\<lambda>r. r\<lparr>tr_contract_plan := p, tr_archived := True\<rparr>) (w_db w)"
  using runs_db [OF production.runs_ArchiveTenant [OF i c] c refl run]
  by (force simp: administered_def administered_rows_def update_where_def holds_tenant_write_iff is_owned_def
      Ensure_None_iff tenant_Archive_Inr_iff)

theorem ArchiveTenant_effect_witness:
  "\<exists>t w'. TenantService_ArchiveTenant (NewTenantService None) (sample_ctx ''alice'') ''0123456789abcdef''
      sample_env sample_world = (Inr t, w') \<and> t_id t = ''t1'' \<and> t_archived t \<and> sample_archived \<in> set (tenants (w_db w'))"
proof -
  have "is_Inr (fst (TenantService_ArchiveTenant (NewTenantService None) (sample_ctx ''alice'') ''0123456789abcdef''
      sample_env sample_world))"
    by (simp add: TenantService_ArchiveTenant_def eval_simps)
  then obtain t w' where run: "TenantService_ArchiveTenant (NewTenantService None) (sample_ctx ''alice'')
      ''0123456789abcdef'' sample_env sample_world = (Inr t, w')" using succeeds by blast
  from ArchiveTenant_effect [OF sample_sound run] run show ?thesis
    by (auto simp: sample_db_def sample_rows administered_rows_def)
qed

text \<open>
  The same for a change of the contract: the new plan, which is not empty, is stored and the
  tenant stays unarchived.
\<close>

theorem ChangeTenantContract_effect:
  assumes i: "integrity (w_db w)" and c: "\<not> ctx_tx c"
    and run: "TenantService_ChangeTenantContract (NewTenantService ttl) c pid plan E w = (Inr t, w')"
  shows "\<exists>row u p. plan \<noteq> [] \<and> row \<in> set (tenants (w_db w)) \<and> tr_public_id row = pid
    \<and> TenantPublicIDFromContext c = Some pid \<and> tr_ownership_state row = ''owned'' \<and> \<not> tr_archived row
    \<and> SubjectFromContext c = Some u \<and> current_role (w_db w) (tr_id row) u = Some RoleOwner
    \<and> t_id t = tr_id row \<and> t_contractPlan t = plan \<and> varchar 255 plan = Inr p
    \<and> w_db w' = administered_rows (tr_id row) (\<lambda>r. r\<lparr>tr_contract_plan := p, tr_archived := False\<rparr>) (w_db w)"
  using runs_db [OF production.runs_ChangeTenantContract [OF i c] c refl run]
  by (auto simp: administered_def administered_rows_def update_where_def holds_tenant_write_iff is_owned_def
      Ensure_None_iff ChangeContractPlan_def)

theorem ChangeTenantContract_effect_witness:
  "\<exists>t w'. TenantService_ChangeTenantContract (NewTenantService None) (sample_ctx ''alice'') ''0123456789abcdef''
      ''paid'' sample_env sample_world = (Inr t, w') \<and> t_contractPlan t = ''paid''
      \<and> sample_owned\<lparr>tr_contract_plan := ''paid''\<rparr> \<in> set (tenants (w_db w'))"
proof -
  have "is_Inr (fst (TenantService_ChangeTenantContract (NewTenantService None) (sample_ctx ''alice'')
      ''0123456789abcdef'' ''paid'' sample_env sample_world))"
    by (simp add: TenantService_ChangeTenantContract_def eval_simps)
  then obtain t w' where run: "TenantService_ChangeTenantContract (NewTenantService None) (sample_ctx ''alice'')
      ''0123456789abcdef'' ''paid'' sample_env sample_world = (Inr t, w')" using succeeds by blast
  from ChangeTenantContract_effect [OF sample_sound run] run show ?thesis
    by (auto simp: sample_db_def sample_rows administered_rows_def)
qed

text \<open>
  With a healthy connection, a caller who is not an owner of the tenant by the current
  memberships is answered that the permission is denied, for an archiving and for a change of the
  contract alike and whatever the token's scopes say, and the database stays as it is.
\<close>

theorem administration_needs_owner:
  assumes i: "integrity (w_db w)" and c: "\<not> ctx_tx c" and E: "healthy E"
    and row: "row \<in> set (tenants (w_db w))" "tr_public_id row = pid" "tr_ownership_state row = ''owned''" "\<not> tr_archived row"
    and bound: "TenantPublicIDFromContext c = Some pid" and u: "SubjectFromContext c = Some u"
    and role: "current_role (w_db w) (tr_id row) u \<noteq> Some RoleOwner" and plan: "plan \<noteq> []"
    and run: "(res, w') \<in> {TenantConnect_ArchiveTenant (NewTenantService ttl) c pid E w,
      TenantConnect_ChangeTenantContract (NewTenantService ttl) c pid plan E w}"
  shows "(\<exists>ce. res = Inl ce \<and> ce_Code ce = CodePermissionDenied \<and> ce_Message ce = ''permission denied'')
    \<and> w_db w' = w_db w"
proof -
  have pid: "pid \<noteq> []" "Ensure c pid = None" using TenantPublicIDFromContext_trimmed [OF bound] bound
    by (auto simp: Ensure_None_iff)
  have key: "x = row" if "x \<in> set (tenants (w_db w))" "tr_public_id x = pid" for x
    using schema_tenant_key(2) [OF integrity_schema(1) [OF i] that(1) row(1)] that(2) row(2) by simp
  have no: "\<not> holds (w_db w) c (tr_id row) ScopeTenantWrite" using role u by (auto simp: holds_tenant_write_iff)
  have denied: "r = Inl (Sentinel (TenantApp TA_ErrPermissionDenied)) \<and> w_db w1 = w_db w"
    if "case r of Inl e \<Rightarrow> (w_db w1 = w_db w \<or> \<not> healthy E) \<and> (\<exists>e0. e = abort_mark e0 \<and> administer_refused (w_db w) c pid mutate e0)
        | Inr x \<Rightarrow> administered (w_db w) c pid mutate x (w_db w1)" for r :: "gerr + tenant" and w1 mutate
  proof (cases r)
    case (Inr x)
    with that no show ?thesis by (auto simp: administered_def dest: key)
  next
    case (Inl e)
    with that E obtain e0 where "e = abort_mark e0" "administer_refused (w_db w) c pid mutate e0" "w_db w1 = w_db w" by auto
    moreover from this row u no have "e0 = Sentinel (TenantApp TA_ErrPermissionDenied)"
      by (auto simp: administer_refused_def is_owned_def dest: key)
    ultimately show ?thesis using Inl by simp
  qed
  obtain r1 w1 where m1: "TenantService_ArchiveTenant (NewTenantService ttl) c pid E w = (r1, w1)"
    by (cases "TenantService_ArchiveTenant (NewTenantService ttl) c pid E w")
  obtain r2 w2 where m2: "TenantService_ChangeTenantContract (NewTenantService ttl) c pid plan E w = (r2, w2)"
    by (cases "TenantService_ChangeTenantContract (NewTenantService ttl) c pid plan E w")
  have 1: "r1 = Inl (Sentinel (TenantApp TA_ErrPermissionDenied)) \<and> w_db w1 = w_db w"
    using runs_db [OF production.runs_ArchiveTenant [OF i c] c refl m1] pid E
    by (intro denied [of _ tenant_Archive]) (auto split: sum.splits)
  have 2: "r2 = Inl (Sentinel (TenantApp TA_ErrPermissionDenied)) \<and> w_db w2 = w_db w"
    using runs_db [OF production.runs_ChangeTenantContract [OF i c] c refl m2] pid E plan
    by (intro denied [of _ "\<lambda>t. Inr (ChangeContractPlan t plan)"]) (auto split: sum.splits)
  show ?thesis
    using run m1 m2 1 2
    by (auto simp: TenantConnect_ArchiveTenant_def TenantConnect_ChangeTenantContract_def answer_def
        tenant_clientErrors_def NewClientError_def)
qed

theorem administration_needs_owner_witness:
  "\<exists>ce. fst (TenantConnect_ArchiveTenant (NewTenantService None) (sample_ctx ''bob'') ''0123456789abcdef''
     sample_env sample_world) = Inl ce \<and> ce_Code ce = CodePermissionDenied"
proof -
  obtain res w' where run: "TenantConnect_ArchiveTenant (NewTenantService None) (sample_ctx ''bob'')
      ''0123456789abcdef'' sample_env sample_world = (res, w')"
    by (cases "TenantConnect_ArchiveTenant (NewTenantService None) (sample_ctx ''bob'')
      ''0123456789abcdef'' sample_env sample_world")
  have row: "sample_owned \<in> set (tenants (w_db sample_world))" by (simp add: sample_db_def)
  show ?thesis
    using administration_needs_owner [OF _ _ _ row, where c = "sample_ctx ''bob''" and E = sample_env
        and pid = "''0123456789abcdef''" and u = "''bob''" and plan = "''paid''" and res = res and w' = w' and ttl = None]
      run sample_roles sample_sound by (auto simp: sample_owned_def role_defs)
qed

section \<open>Events\<close>

lemma SubjectFromContext_stored:
  "SubjectFromContext c = Some u \<Longrightarrow> varchar 255 u = Inr u' \<Longrightarrow> u' = u"
  using SubjectFromContext_trimmed [of c u] trimmed_no_blank [of u] varchar_no_blank [of 255 u u'] by blast

lemma event_created_shape:
  assumes "event_created E d c pid name x d'"
  obtains row u r e where "row \<in> set (tenants d)" "tr_public_id row = pid" "is_owned row" "\<not> tr_archived row"
    "SubjectFromContext c = Some u" "current_role d (tr_id row) u = Some r"
    "evr_id e = ev_id x" "evr_public_id e = ev_publicID x" "evr_tenant_id e = tr_id row"
    "evr_tenant_public_id e = pid" "evr_status e = ''draft''" "varchar 255 name = Inr (evr_name e)"
    "ev_name x = name" "ev_status x = EventStatusDraft"
    "event_role_granted (d\<lparr>events := events d @ [e]\<rparr>) (evr_id e) u r d'"
proof -
  from assms obtain row u r eid bs nm where o: "row \<in> set (tenants d)" "tr_public_id row = pid" "is_owned row" "\<not> tr_archived row"
    "SubjectFromContext c = Some u" "current_role d (tr_id row) u = Some r" "varchar 255 name = Inr nm"
    "x = NewEvent eid (public_id_of bs) (tr_id row) pid name EventStatusDraft"
    "event_role_granted (d\<lparr>events := events d @ [\<lparr>evr_id = eid, evr_public_id = public_id_of bs,
           evr_tenant_id = tr_id row, evr_tenant_public_id = pid, evr_name = nm, evr_status = ''draft''\<rparr>]\<rparr>) eid u r d'"
    unfolding event_created_def by blast
  show ?thesis
    by (rule that [of row u r "\<lparr>evr_id = eid, evr_public_id = public_id_of bs, evr_tenant_id = tr_id row,
        evr_tenant_public_id = pid, evr_name = nm, evr_status = ''draft''\<rparr>"]) (use o in \<open>auto simp: NewEvent_def\<close>)
qed

text \<open>
  C22: An event is created as a draft under the caller's own, owned and unarchived tenant, by a
  caller who is a member of it, and in the same step the creator gets on it the role they hold in the
  tenant; nothing else of the database changes.
\<close>

theorem CreateEvent_effect:
  assumes i: "integrity (w_db w)" and c: "\<not> ctx_tx c"
    and run: "TenantService_CreateEvent (NewTenantService ttl) c pid name E w = (Inr x, w')"
  shows "\<exists>row u r e. row \<in> set (tenants (w_db w)) \<and> tr_public_id row = pid
    \<and> TenantPublicIDFromContext c = Some pid \<and> tr_ownership_state row = ''owned'' \<and> \<not> tr_archived row
    \<and> SubjectFromContext c = Some u \<and> current_role (w_db w) (tr_id row) u = Some r
    \<and> evr_id e = ev_id x \<and> evr_public_id e = ev_publicID x \<and> evr_tenant_id e = tr_id row
    \<and> evr_tenant_public_id e = pid \<and> evr_status e = ''draft'' \<and> varchar 255 name = Inr (evr_name e)
    \<and> ev_name x = name \<and> ev_status x = EventStatusDraft
    \<and> w_db w' = (w_db w)\<lparr>events := events (w_db w) @ [e],
        event_roles := event_roles (w_db w) @ [\<lparr>rr_event_id = ev_id x, rr_tenant_id = tr_id row, rr_user_id = u,
          rr_role = Role_String r\<rparr>]\<rparr>"
proof -
  from runs_db [OF production.runs_CreateEvent [OF i c] c refl run]
  have o: "event_created E (w_db w) c pid name x (w_db w')" and ens: "Ensure c pid = None" and i': "integrity (w_db w')"
    by simp_all
  from o obtain row u r e where row: "row \<in> set (tenants (w_db w))" "tr_public_id row = pid" "is_owned row" "\<not> tr_archived row"
    and u: "SubjectFromContext c = Some u" "current_role (w_db w) (tr_id row) u = Some r"
    and e: "evr_id e = ev_id x" "evr_public_id e = ev_publicID x" "evr_tenant_id e = tr_id row"
      "evr_tenant_public_id e = pid" "evr_status e = ''draft''" "varchar 255 name = Inr (evr_name e)"
      "ev_name x = name" "ev_status x = EventStatusDraft"
    and g: "event_role_granted ((w_db w)\<lparr>events := events (w_db w) @ [e]\<rparr>) (evr_id e) u r (w_db w')"
    by (rule event_created_shape)
  from granted_new_event [OF integrity_schema(1) [OF i] integrity_schema(1) [OF i'] g] have "w_db w' = (w_db w)\<lparr>events := events (w_db w) @ [e],
        event_roles := event_roles (w_db w) @ [\<lparr>rr_event_id = evr_id e, rr_tenant_id = evr_tenant_id e, rr_user_id = u,
          rr_role = Role_String r\<rparr>]\<rparr>"
    using SubjectFromContext_stored [OF u(1)] by blast
  with row u e ens show ?thesis
    by (intro exI [of _ row] exI [of _ u] exI [of _ r] exI [of _ e]) (simp add: Ensure_None_iff is_owned_def)
qed

theorem CreateEvent_effect_witness:
  "\<exists>x w'. TenantService_CreateEvent (NewTenantService None) (sample_ctx ''bob'') ''0123456789abcdef'' ''Expo''
      sample_env sample_world = (Inr x, w') \<and> length (events (w_db w')) = 2
    \<and> (\<exists>r \<in> set (event_roles (w_db w')). rr_event_id r = ev_id x \<and> rr_user_id r = ''bob'' \<and> rr_role r = ''staff'')"
proof -
  have "is_Inr (fst (TenantService_CreateEvent (NewTenantService None) (sample_ctx ''bob'')
      ''0123456789abcdef'' ''Expo'' sample_env sample_world))"
    by (simp add: TenantService_CreateEvent_def create_event_tx_def TenantRepo_CreateEvent_def sql_insert_event_def
        MembershipRepo_GrantEventRole_def sql_upsert_event_role_def upsert_event_role_def returned_tenant_def
        put_event_roles_def event_roles_violation_def is_event_role_def sample_public_id eval_simps)
  then obtain x w' where run: "TenantService_CreateEvent (NewTenantService None) (sample_ctx ''bob'')
      ''0123456789abcdef'' ''Expo'' sample_env sample_world = (Inr x, w')" using succeeds by blast
  from CreateEvent_effect [OF sample_sound run] run sample_roles(2) show ?thesis
    by (auto simp: sample_db_def sample_rows role_defs)
qed

text \<open>
  C23: A transition reaches the database only along an arrow of the lifecycle, for an event of the
  caller's own tenant while that tenant is not archived; it changes the status of that event and
  nothing else (a stored name of at most 255 characters stays).
\<close>

theorem TransitionEventStatus_effect:
  assumes i: "integrity (w_db w)" and c: "\<not> ctx_tx c"
    and run: "TenantService_TransitionEventStatus (NewTenantService ttl) c epid to E w = (Inr x, w')"
  shows "\<exists>e t nm. e \<in> set (events (w_db w)) \<and> evr_public_id e = epid
    \<and> TenantPublicIDFromContext c = Some (evr_tenant_public_id e)
    \<and> t \<in> set (tenants (w_db w)) \<and> tr_id t = evr_tenant_id e \<and> \<not> tr_archived t
    \<and> event_step (status_of (evr_status e)) to \<and> ev_status x = to \<and> ev_publicID x = epid
    \<and> varchar 255 (evr_name e) = Inr nm
    \<and> w_db w' = (w_db w)\<lparr>events := map (\<lambda>r. if evr_id r = evr_id e
         then r\<lparr>evr_name := nm, evr_status := EventStatus_String to\<rparr> else r) (events (w_db w))\<rparr>"
proof -
  from runs_db [OF production.runs_TransitionEventStatus [OF i] c refl run]
  obtain e t nm where o: "e \<in> set (events (w_db w))" "evr_public_id e = epid"
     "TenantPublicIDFromContext c = Some (evr_tenant_public_id e)" "event_step (status_of (evr_status e)) to"
     "t \<in> set (tenants (w_db w))" "tr_id t = evr_tenant_id e" "\<not> tr_archived t"
     "varchar 255 (evr_name e) = Inr nm" "x = (event_of e)\<lparr>ev_status := to\<rparr>"
     "w_db w' = (w_db w)\<lparr>events := update_where (\<lambda>r. evr_id r = evr_id e)
           (\<lambda>r. r\<lparr>evr_name := nm, evr_status := EventStatus_String to\<rparr>) (events (w_db w))\<rparr>"
    unfolding event_transitioned_def by auto
  then show ?thesis
    by (intro exI [of _ e] exI [of _ t] exI [of _ nm]) (simp add: update_where_def)
qed

theorem TransitionEventStatus_effect_witness:
  "\<exists>x w'. TenantService_TransitionEventStatus (NewTenantService None) (sample_ctx ''alice'') ''0000000000000e01''
      EventStatusOpen sample_env sample_world = (Inr x, w')
    \<and> events (w_db w') = [sample_event\<lparr>evr_status := ''open''\<rparr>]"
proof -
  have "is_Inr (fst (TenantService_TransitionEventStatus (NewTenantService None) (sample_ctx ''alice'')
      ''0000000000000e01'' EventStatusOpen sample_env sample_world))"
    by (simp add: TenantService_TransitionEventStatus_def eval_simps)
  then obtain x w' where run: "TenantService_TransitionEventStatus (NewTenantService None) (sample_ctx ''alice'')
      ''0000000000000e01'' EventStatusOpen sample_env sample_world = (Inr x, w')" using succeeds by blast
  from TransitionEventStatus_effect [OF sample_sound run] run show ?thesis
    by (auto simp: sample_db_def sample_rows event_status_defs)
qed

text \<open>
  Reading an event answers the event with that public ID as it is stored, only inside the tenant
  the caller is bound to, and changes nothing.
\<close>

theorem GetEvent_effect:
  assumes i: "integrity (w_db w)" and c: "\<not> ctx_tx c"
    and run: "TenantService_GetEvent (NewTenantService ttl) c epid E w = (r, w')"
  shows "w_db w' = w_db w \<and> (\<forall>x. r = Inr x \<longrightarrow> (\<exists>e \<in> set (events (w_db w)). evr_public_id e = epid
    \<and> TenantPublicIDFromContext c = Some (evr_tenant_public_id e)
    \<and> ev_id x = evr_id e \<and> ev_publicID x = epid \<and> ev_tenantPublicID x = evr_tenant_public_id e \<and> ev_name x = evr_name e
    \<and> EventStatus_String (ev_status x) = evr_status e))"
proof -
  have st: "EventStatus_String (status_of (evr_status e)) = evr_status e" if "e \<in> set (events (w_db w))" for e
    using integrityD(4) [OF i [unfolded integrity_def] that] String_status_of by (simp add: event_row_ok_def)
  show ?thesis
    using runs_db [OF production.runs_GetEvent [OF i] c refl run] st
    by (cases r) (auto intro!: bexI)
qed

theorem GetEvent_effect_witness:
  "\<exists>x w'. TenantService_GetEvent (NewTenantService None) (sample_ctx ''bob'') ''0000000000000e01''
      sample_env sample_world = (Inr x, w') \<and> ev_name x = ''Expo'' \<and> w_db w' = sample_db"
proof -
  have "is_Inr (fst (TenantService_GetEvent (NewTenantService None) (sample_ctx ''bob'') ''0000000000000e01''
      sample_env sample_world))"
    by (simp add: TenantService_GetEvent_def eval_simps)
  then obtain x w' where run: "TenantService_GetEvent (NewTenantService None) (sample_ctx ''bob'')
      ''0000000000000e01'' sample_env sample_world = (Inr x, w')" using succeeds by blast
  from GetEvent_effect [OF sample_sound run] run show ?thesis
    by (auto simp: sample_db_def sample_rows)
qed

text \<open>
  C28: Listing events answers, as they are stored and in the order of their IDs, the first thousand of
  the events of the caller's own tenant, archived ones only on request, and changes nothing.
\<close>

theorem ListEvents_effect:
  assumes i: "integrity (w_db w)" and c: "\<not> ctx_tx c"
    and run: "TenantService_ListEvents (NewTenantService ttl) c pid incl E w = (Inr xs, w')"
  shows "\<exists>row \<in> set (tenants (w_db w)). tr_public_id row = pid \<and> TenantPublicIDFromContext c = Some pid
    \<and> w_db w' = w_db w
    \<and> xs = map event_of (take 1000 (sort_key evr_id (filter (\<lambda>e. evr_tenant_id e = tr_id row
         \<and> (incl \<or> evr_status e \<noteq> ''archived'')) (events (w_db w)))))
    \<and> length xs \<le> 1000 \<and> sorted (map ev_id xs)
    \<and> (\<forall>x \<in> set xs. ev_tenantID x = tr_id row \<and> (incl \<or> ev_status x \<noteq> EventStatusArchived))
    \<and> (length xs < 1000 \<longrightarrow> (\<forall>e \<in> set (events (w_db w)). evr_tenant_id e = tr_id row
         \<longrightarrow> incl \<or> evr_status e \<noteq> ''archived'' \<longrightarrow> event_of e \<in> set xs))"
proof -
  from runs_db [OF production.runs_ListEvents [OF i] c refl run]
  obtain row where row: "row \<in> set (tenants (w_db w))" "tr_public_id row = pid" "TenantPublicIDFromContext c = Some pid"
      "w_db w' = w_db w" and xs: "xs = map event_of (listed_events (w_db w) (tr_id row) incl)" by auto
  let ?all = "sort_key evr_id (filter (\<lambda>e. evr_tenant_id e = tr_id row \<and> (incl \<or> evr_status e \<noteq> ''archived'')) (events (w_db w)))"
  have take: "listed_events (w_db w) (tr_id row) incl = take 1000 ?all"
    by (simp add: listed_events_def MaxListEvents_def)
  have arch: "status_of (evr_status e) = EventStatusArchived \<Longrightarrow> evr_status e = ''archived''" if "e \<in> set (events (w_db w))" for e
    using integrityD(4) [OF i [unfolded integrity_def] that] String_status_of [of "evr_status e"]
    by (simp add: event_row_ok_def event_status_defs)
  have "sorted (map ev_id xs)"
    unfolding xs take by (simp add: comp_def sorted_map_take)
  moreover have "\<forall>x \<in> set xs. ev_tenantID x = tr_id row \<and> (incl \<or> ev_status x \<noteq> EventStatusArchived)"
    unfolding xs take by (auto dest!: set_take_subset_rows arch)
  moreover have "event_of e \<in> set xs" if "length xs < 1000" "e \<in> set (events (w_db w))" "evr_tenant_id e = tr_id row"
      "incl \<or> evr_status e \<noteq> ''archived''" for e
    using that unfolding xs take by (auto simp: image_iff min_def split: if_splits)
  moreover have "length xs \<le> 1000" by (simp add: xs take)
  moreover have "xs = map event_of (take 1000 ?all)" by (simp add: xs take)
  ultimately show ?thesis by (intro bexI [OF _ row(1)] conjI row(2-4)) blast+
qed

theorem ListEvents_effect_witness:
  "\<exists>xs w'. TenantService_ListEvents (NewTenantService None) (sample_ctx ''bob'') ''0123456789abcdef'' False
      sample_env sample_world = (Inr xs, w') \<and> xs = [event_of sample_event]"
proof -
  have "is_Inr (fst (TenantService_ListEvents (NewTenantService None) (sample_ctx ''bob'') ''0123456789abcdef'' False
      sample_env sample_world))"
    by (simp add: TenantService_ListEvents_def TenantRepo_ListEventsByTenantID_def sql_select_events_def
        MaxListEvents_def eval_simps)
  then obtain xs w' where run: "TenantService_ListEvents (NewTenantService None) (sample_ctx ''bob'')
      ''0123456789abcdef'' False sample_env sample_world = (Inr xs, w')" using succeeds by blast
  from ListEvents_effect [OF sample_sound run] run show ?thesis
    by (auto simp: sample_db_def sample_rows)
qed

text \<open>
  With a healthy connection a subdomain resolves to the public ID of the one owned tenant that
  has it, and to an error that names the reason when it is empty or no tenant has it; nothing changes.
\<close>

theorem ResolveTenantSubdomain_effect:
  assumes i: "integrity (w_db w)" and c: "\<not> ctx_tx c" and E: "healthy E"
    and run: "TenantService_ResolveTenantSubdomain (NewTenantService ttl) c sub E w = (r, w')"
  shows "w_db w' = w_db w \<and> (case r of
      Inr pid \<Rightarrow> \<exists>row \<in> set (tenants (w_db w)). tr_subdomain row = Some sub \<and> tr_public_id row = pid
        \<and> tr_ownership_state row = ''owned''
        \<and> (\<forall>other \<in> set (tenants (w_db w)). tr_subdomain other = Some sub \<longrightarrow> other = row)
    | Inl e \<Rightarrow> e = Sentinel (TenantApp ErrSubdomainRequired) \<and> sub = []
        \<or> e = Sentinel (TenantRepo TR_ErrTenantNotFound) \<and> (\<forall>row \<in> set (tenants (w_db w)). tr_subdomain row \<noteq> Some sub))"
proof -
  note spec = runs_db [OF production.runs_ResolveTenantSubdomain c refl run]
  have uniq: "distinct (map tr_subdomain (filter (\<lambda>r. tr_subdomain r \<noteq> None) (tenants (w_db w))))"
    using integrity_schema(1) [OF i] by (simp add: schema_ok_def tenants_ok_iff)
  have key: "x = row" if "x \<in> set (tenants (w_db w))" "row \<in> set (tenants (w_db w))"
      "tr_subdomain x = Some sub" "tr_subdomain row = Some sub" for x row
    using that by (intro distinct_map_key_eq [OF uniq]) auto
  show ?thesis
  proof (cases r)
    case (Inl e)
    with spec E show ?thesis by simp
  next
    case (Inr pid)
    with spec have "\<exists>row \<in> set (tenants (w_db w)). tr_subdomain row = Some sub \<and> pid = tr_public_id row"
      and same: "w_db w' = w_db w" by simp_all
    then obtain row where row: "row \<in> set (tenants (w_db w))" "tr_subdomain row = Some sub" "tr_public_id row = pid"
      by blast
    have owned: "tr_ownership_state row = ''owned''"
      using schema_tenant_state [OF integrity_schema(1) [OF i] row(1)] row(2) by auto
    have one: "\<forall>other \<in> set (tenants (w_db w)). tr_subdomain other = Some sub \<longrightarrow> other = row"
      using key [OF _ row(1) _ row(2)] by blast
    show ?thesis unfolding Inr sum.case
      by (intro conjI same bexI [OF _ row(1)] row(2,3) owned one)
  qed
qed

theorem ResolveTenantSubdomain_effect_witness:
  "\<exists>w'. TenantService_ResolveTenantSubdomain (NewTenantService None) anonymous_ctx ''acme''
      sample_env sample_world = (Inr ''0123456789abcdef'', w') \<and> w_db w' = sample_db"
proof -
  have "is_Inr (fst (TenantService_ResolveTenantSubdomain (NewTenantService None) anonymous_ctx ''acme''
      sample_env sample_world))"
    by (simp add: TenantService_ResolveTenantSubdomain_def TenantRepo_FindTenantPublicIDBySubdomain_def eval_simps)
  then obtain x w' where run: "TenantService_ResolveTenantSubdomain (NewTenantService None) anonymous_ctx ''acme''
      sample_env sample_world = (Inr x, w')" using succeeds by blast
  from ResolveTenantSubdomain_effect [OF sample_sound(1) _ _ run] run show ?thesis
    by (auto simp: sample_db_def sample_rows)
qed

end
