(* ===== verification/DomainProperties.thy ===== *)
theory DomainProperties
  imports Sample
begin

text \<open>
  The properties of the pure parts of the model: subdomains and public IDs, one-time tokens, display
  names, enumerations and their wire forms, the event lifecycle, the tenant boundary of a context and
  the permission check.
\<close>

section \<open>Names and identifiers\<close>

text \<open>
  C34: The parser of subdomains, which runs five regular expressions, accepts exactly the labels of 1 to
  63 lower-case letters, digits and inner hyphens that are not reserved: neither of the form of a
  public ID, nor with hyphens in the third and fourth place, nor one of the service's own names, nor
  an \<open>s\<close> followed by digits; an accepted label is kept as it is, any other text is an invalid
  subdomain.
\<close>

theorem ParseSubdomain_spec:
  "ParseSubdomain s =
     (if s \<noteq> [] \<and> length s \<le> 63 \<and> list_all is_alnum_hyphen s \<and> is_alnum (hd s) \<and> is_alnum (List.last s)
         \<and> \<not> (length s = 16 \<and> list_all is_hex s)
         \<and> \<not> (4 \<le> length s \<and> s ! 2 = CHR ''-'' \<and> s ! 3 = CHR ''-'')
         \<and> s \<notin> {''www'', ''api'', ''admin'', ''auth''}
         \<and> \<not> (2 \<le> length s \<and> hd s = CHR ''s'' \<and> list_all is_digit (tl s))
      then Inr (Subdomain s) else Inl (Sentinel (TenantDomain ErrInvalidSubdomain)))"
  by (simp add: ParseSubdomain_iff label_shape_def reserved_label_def)

text \<open>
  No public ID that the service generates is a valid subdomain, so that the two kinds of host
  label never collide; and equal public IDs come from equal random bytes.
\<close>

lemma hextable_is_hex: "c \<in> set hextable \<Longrightarrow> is_hex c"
  by (auto simp: hextable_def is_hex_def in_class_simps)

theorem public_id_no_subdomain:
  assumes "length bs = 8" and "length cs = 8"
  shows "ParseSubdomain (public_id_of bs) = Inl (Sentinel (TenantDomain ErrInvalidSubdomain))
    \<and> (public_id_of bs = public_id_of cs \<longleftrightarrow> bs = cs)"
proof -
  have "list_all is_hex (public_id_of bs)"
    using set_hex_EncodeToString [of bs] hextable_is_hex by (auto simp: list_all_iff public_id_of_def)
  then have "reserved_label (public_id_of bs)"
    using length_public_id_of [OF assms(1)] by (simp add: reserved_label_def)
  then show ?thesis by (simp add: ParseSubdomain_iff public_id_of_def hex_EncodeToString_inject)
qed

theorem public_id_no_subdomain_witness:
  "ParseSubdomain (public_id_of (map (\<lambda>_. 7) [0..<8])) = Inl (Sentinel (TenantDomain ErrInvalidSubdomain))"
  using public_id_no_subdomain [of "map (\<lambda>_. 7) [0..<8]" "map (\<lambda>_. 7) [0..<8]"] by simp

text \<open>
  A one-time token is 43 characters of the URL-safe alphabet; the token matches the hash that is
  stored with it, distinct random bytes give distinct tokens, and the constant-time comparison
  accepts exactly the texts whose digest is the stored one.
\<close>

theorem one_time_token:
  assumes "length raw = tokenBytes" and "token_of raw = (token, hash)"
  shows "length token = 43 \<and> set token \<subseteq> set encodeURL \<and> length hash = 32
    \<and> (Matches hash t \<longleftrightarrow> HashOf t = HashOf token)
    \<and> (length other = tokenBytes \<longrightarrow> fst (token_of other) = token \<longrightarrow> other = raw)"
proof -
  have t: "token = RawURL_EncodeToString raw" "hash = HashOf token" using assms(2) by (auto simp: token_of_def Let_def)
  have "length token = 43" unfolding t length_RawURL assms(1) tokenBytes_def by simp
  moreover have "set token \<subseteq> set encodeURL" unfolding t by (rule set_RawURL)
  moreover have "other = raw" if "length other = tokenBytes" "fst (token_of other) = token"
    using that assms(1) RawURL_inject [of other raw] by (simp add: t token_of_def Let_def)
  ultimately show ?thesis by (auto simp: t(2) Matches_iff)
qed

theorem one_time_token_witness:
  "length sample_token = 43 \<and> Matches (HashOf sample_token) sample_token"
  using one_time_token [OF _ sample_token_of, where t = sample_token] by (simp add: tokenBytes_def)

text \<open>
  A display name is the given text without surrounding white space, if that leaves 1 to 64
  characters; a parsed name parses to itself again and passes the column type and the check of the
  tables it is stored in.
\<close>

theorem ParseDisplayName_spec:
  "(ParseDisplayName s = Inr n \<longleftrightarrow>
      n = DisplayName (TrimSpace s) \<and> TrimSpace s \<noteq> [] \<and> RuneCountInString (TrimSpace s) \<le> 64)
   \<and> (ParseDisplayName s = Inr n \<longrightarrow> ParseDisplayName (dn_value n) = Inr n
        \<and> varchar 64 (dn_value n) = Inr (dn_value n) \<and> display_name_check (dn_value n))
   \<and> (ParseDisplayName s \<in> {Inl (Sentinel (RelationDomain ErrDisplayNameRequired)),
        Inl (Sentinel (RelationDomain ErrDisplayNameTooLong))} \<or> (\<exists>n. ParseDisplayName s = Inr n))"
proof -
  have "varchar 64 (dn_value n) = Inr (dn_value n) \<and> display_name_check (dn_value n)" if "ParseDisplayName s = Inr n"
    using display_name_ok_check [OF display_name_ok_parsed [OF that]]
      varchar_short [OF display_name_ok_short [OF display_name_ok_parsed [OF that]]] by simp
  moreover have "ParseDisplayName s \<in> {Inl (Sentinel (RelationDomain ErrDisplayNameRequired)),
      Inl (Sentinel (RelationDomain ErrDisplayNameTooLong))} \<or> (\<exists>n. ParseDisplayName s = Inr n)"
    by (simp add: ParseDisplayName_def Let_def)
  ultimately show ?thesis
    using ParseDisplayName_stable [of s n] ParseDisplayName_Inr_iff [of s n] by blast
qed

theorem ParseDisplayName_spec_witness:
  "ParseDisplayName ''Dave'' = Inr (DisplayName ''Dave'') \<and> display_name_check ''Dave''"
  using ParseDisplayName_spec [of "''Dave''" "DisplayName ''Dave''"] by simp

section \<open>Enumerations\<close>

text \<open>
  The parsers and the generated \<open>String\<close> methods of the three enumerations are inverse to each
  other: what parses is a declared value that prints as the text, and every declared value reads
  back; a value that is not declared prints as its number, which never parses.
\<close>

theorem enumerations_roundtrip:
  "(ParseEventStatus s = Inr st \<longleftrightarrow> st \<le> EventStatusArchived \<and> EventStatus_String st = s)
   \<and> (ParseTenantOwnershipState s = Inr o' \<longleftrightarrow> o' \<le> TenantOwnershipStateOwned \<and> TenantOwnershipState_String o' = s)
   \<and> (ParseRole s = Inr r \<longleftrightarrow> r \<le> RoleAdmin \<and> Role_String r = s)"
  by (simp add: ParseEventStatus_Inr_iff ParseTenantOwnershipState_Inr_iff ParseRole_Inr_iff)

text \<open>
  Statuses and roles survive the way to the wire and back when they are declared and become the
  unspecified value otherwise; every value a request may carry is read as a declared one, and no two
  declared values share a wire value.
\<close>

theorem wire_roundtrip:
  "eventStatusDomain (eventStatusProto st) = (if st \<le> EventStatusArchived then st else EventStatusUnspecified)
   \<and> roleDomain (roleProto r) = (if r \<le> RoleAdmin then r else RoleUnspecified)
   \<and> eventStatusDomain x \<le> EventStatusArchived \<and> roleDomain y \<le> RoleAdmin
   \<and> (st \<le> EventStatusArchived \<longrightarrow> st' \<le> EventStatusArchived \<longrightarrow> eventStatusProto st = eventStatusProto st' \<longrightarrow> st = st')
   \<and> (r \<le> RoleAdmin \<longrightarrow> r' \<le> RoleAdmin \<longrightarrow> roleProto r = roleProto r' \<longrightarrow> r = r')"
  using event_status_wire.normalise [of st] role_wire.normalise [of r] event_status_wire.from_declared [of x]
    role_wire.from_declared [of y] event_status_wire.to_wire_inj [of st st'] role_wire.to_wire_inj [of r r']
  by (simp add: EventStatusUnspecified_def RoleUnspecified_def)

theorem wire_roundtrip_witness:
  "eventStatusDomain (eventStatusProto EventStatusLocked) = EventStatusLocked \<and> roleDomain (roleProto 7) = RoleUnspecified"
  using wire_roundtrip [where st = EventStatusLocked and r = 7 and x = 0 and y = 0 and st' = 0 and r' = 0]
  by (simp add: event_status_defs role_defs)

section \<open>The event lifecycle\<close>

text \<open>
  An event changes its status exactly along the eight edges of the lifecycle, keeping all else; any
  other request, one for the status the event already has included, is an invalid transition.
\<close>

theorem TransitionTo_spec:
  "TransitionTo e st =
     (if (ev_status e, st) \<in> {(EventStatusDraft, EventStatusOpen), (EventStatusDraft, EventStatusArchived),
           (EventStatusOpen, EventStatusLocked), (EventStatusLocked, EventStatusOpen), (EventStatusLocked, EventStatusClosed),
           (EventStatusClosed, EventStatusOpen), (EventStatusClosed, EventStatusArchived),
           (EventStatusArchived, EventStatusClosed)}
      then Inr (e\<lparr>ev_status := st\<rparr>) else Inl (Sentinel (TenantDomain ErrInvalidEventStatusTransition)))"
  unfolding TransitionTo_def canTransition_iff_step event_step_iff by auto

section \<open>The tenant boundary\<close>

text \<open>
  A context is scoped to the trimmed tenant of the token, if it names one, and otherwise to the
  trimmed binding of the transport, if any; \<open>Ensure\<close> lets only that tenant pass and fails closed,
  \<open>VerifyOwnership\<close> refuses only another tenant; a binding never overrides a token.
\<close>

theorem tenant_boundary:
  "(Ensure c t = None \<longleftrightarrow> TenantPublicIDFromContext c = Some t)
   \<and> (VerifyOwnership c t = None \<longleftrightarrow> TenantPublicIDFromContext c \<in> {None, Some t})
   \<and> (TenantPublicIDFromContext c = Some t \<longleftrightarrow> t \<noteq> [] \<and>
        (if \<exists>cl. ctx_claims c = Some cl \<and> TrimSpace (cl_TenantPublicID cl) \<noteq> []
         then map_option (\<lambda>cl. TrimSpace (cl_TenantPublicID cl)) (ctx_claims c) = Some t
         else map_option TrimSpace (ctx_binding c) = Some t))
   \<and> ((\<exists>cl. ctx_claims c = Some cl \<and> TrimSpace (cl_TenantPublicID cl) \<noteq> [])
        \<longrightarrow> TenantPublicIDFromContext (WithTenantPublicID c b) = TenantPublicIDFromContext c)"
  unfolding Ensure_None_iff VerifyOwnership_None_iff
  by (auto simp: TenantPublicIDFromContext_def bound_tenant_def WithTenantPublicID_def Let_def split: option.splits)

theorem tenant_boundary_witness:
  "TenantPublicIDFromContext (WithTenantPublicID (sample_ctx ''bob'') ''other'') = Some ''0123456789abcdef''"
proof -
  have "\<exists>cl. ctx_claims (sample_ctx ''bob'') = Some cl \<and> TrimSpace (cl_TenantPublicID cl) \<noteq> []"
    by (simp add: sample_ctx_def)
  with tenant_boundary [of "sample_ctx ''bob''" "''x''" "''other''"] show ?thesis by simp
qed

section \<open>The current permission\<close>

lemma current_role_rows:
  assumes ok: "schema_ok d"
  shows "current_role d t u = Some RoleOwner
      \<longleftrightarrow> (\<exists>m \<in> set (memberships d). mr_tenant_id m = t \<and> mr_user_id m = u \<and> mr_tenant_role m = ''owner'')"
    and "current_role d t u = Some RoleStaff
      \<longleftrightarrow> (\<exists>m \<in> set (memberships d). mr_tenant_id m = t \<and> mr_user_id m = u \<and> mr_tenant_role m = ''staff'')"
proof -
  have one: "current_role d t u = Some (if mr_tenant_role m = ''owner'' then RoleOwner else RoleStaff)"
    if "m \<in> set (memberships d)" "mr_tenant_id m = t" "mr_user_id m = u" for m
  proof -
    have "filter (\<lambda>x. (mr_tenant_id x, mr_user_id x) = (t, u)) (memberships d) = [m]"
      using filter_unique_key [OF schema_keys(5) [OF ok] that(1)] that(2,3) by simp
    then have "filter (is_membership t u) (memberships d) = [m]" by (simp add: is_membership_def [abs_def])
    then show ?thesis by (simp add: current_role_def)
  qed
  have none: "current_role d t u = None" if "\<forall>m \<in> set (memberships d). \<not> (mr_tenant_id m = t \<and> mr_user_id m = u)"
    using that by (simp add: current_role_None_iff is_membership_def)
  have role: "mr_tenant_role m = ''owner'' \<or> mr_tenant_role m = ''staff''" if "m \<in> set (memberships d)" for m
    using ok that by (simp add: schema_ok_def memberships_ok_iff)
  show "current_role d t u = Some RoleOwner
      \<longleftrightarrow> (\<exists>m \<in> set (memberships d). mr_tenant_id m = t \<and> mr_user_id m = u \<and> mr_tenant_role m = ''owner'')"
    and "current_role d t u = Some RoleStaff
      \<longleftrightarrow> (\<exists>m \<in> set (memberships d). mr_tenant_id m = t \<and> mr_user_id m = u \<and> mr_tenant_role m = ''staff'')"
  proof (atomize (full), cases "\<exists>m \<in> set (memberships d). mr_tenant_id m = t \<and> mr_user_id m = u")
    case True
    then obtain m where m: "m \<in> set (memberships d)" "mr_tenant_id m = t" "mr_user_id m = u" by blast
    have "x = m" if "x \<in> set (memberships d)" "mr_tenant_id x = t" "mr_user_id x = u" for x
      using schema_membership_key [OF ok that(1) m(1)] that m by simp
    with m have "(\<exists>x \<in> set (memberships d). mr_tenant_id x = t \<and> mr_user_id x = u \<and> P x) \<longleftrightarrow> P m" for P
      by blast
    with one [OF m] role [OF m(1)] show "(current_role d t u = Some RoleOwner
      \<longleftrightarrow> (\<exists>m \<in> set (memberships d). mr_tenant_id m = t \<and> mr_user_id m = u \<and> mr_tenant_role m = ''owner''))
      \<and> (current_role d t u = Some RoleStaff
      \<longleftrightarrow> (\<exists>m \<in> set (memberships d). mr_tenant_id m = t \<and> mr_user_id m = u \<and> mr_tenant_role m = ''staff''))"
      by (auto simp: role_defs)
  next
    case False
    with none show "(current_role d t u = Some RoleOwner
      \<longleftrightarrow> (\<exists>m \<in> set (memberships d). mr_tenant_id m = t \<and> mr_user_id m = u \<and> mr_tenant_role m = ''owner''))
      \<and> (current_role d t u = Some RoleStaff
      \<longleftrightarrow> (\<exists>m \<in> set (memberships d). mr_tenant_id m = t \<and> mr_user_id m = u \<and> mr_tenant_role m = ''staff''))"
      by auto
  qed
qed

text \<open>
  C27: With a healthy connection the permission check answers what the memberships of the database say
  now: whether the subject's role in the tenant issues the scope, an owner every declared scope, staff
  all but the write of the tenant, nobody an unknown one; a caller without a subject is refused.
\<close>

theorem Authorizer_Allowed_spec:
  assumes i: "integrity (w_db w)" and c: "\<not> ctx_tx c" and E: "healthy E"
    and run: "Authorizer_Allowed c t scope E w = (res, w')"
  shows "w_db w' = w_db w \<and> res = (case SubjectFromContext c of
      None \<Rightarrow> Inl (Sentinel (TenantCtx ErrSubjectMissing))
    | Some u \<Rightarrow> Inr (
        (\<exists>m \<in> set (memberships (w_db w)). mr_tenant_id m = t \<and> mr_user_id m = u \<and> mr_tenant_role m = ''owner'')
          \<and> scope \<in> {''tenant.read'', ''tenant.write'', ''events.read'', ''events.manage'', ''events.operate'', ''events.report''}
        \<or> (\<exists>m \<in> set (memberships (w_db w)). mr_tenant_id m = t \<and> mr_user_id m = u \<and> mr_tenant_role m = ''staff'')
          \<and> scope \<in> {''tenant.read'', ''events.read'', ''events.manage'', ''events.operate'', ''events.report''}))"
proof -
  have ok: "schema_ok (w_db w)" by (rule integrity_schema(1) [OF i])
  have "runs E c (w_db w) (Authorizer_Allowed c t scope)
      (\<lambda>b d'. d' = w_db w \<and> SubjectFromContext c \<noteq> None \<and> b = holds (w_db w) c t scope)
      (\<lambda>e d'. d' = w_db w \<and> SubjectFromContext c = None \<and> e = Sentinel (TenantCtx ErrSubjectMissing))"
    by (rule runs_Allowed [OF ok]) (use E in auto)
  note spec = runs_db [OF this c refl run]
  show ?thesis
  proof (cases "SubjectFromContext c")
    case None
    with spec show ?thesis by (cases res) auto
  next
    case (Some u)
    have "holds (w_db w) c t scope \<longleftrightarrow> current_role (w_db w) t u = Some RoleOwner \<and> Grants RoleOwner scope
        \<or> current_role (w_db w) t u = Some RoleStaff \<and> Grants RoleStaff scope"
      using current_role_declared [of "w_db w" t u] Some by (auto simp: holds_def)
    moreover have "Grants RoleOwner scope \<longleftrightarrow> scope \<in> {''tenant.read'', ''tenant.write'', ''events.read'', ''events.manage'',
        ''events.operate'', ''events.report''}"
      and "Grants RoleStaff scope \<longleftrightarrow> scope \<in> {''tenant.read'', ''events.read'', ''events.manage'', ''events.operate'',
        ''events.report''}"
      by (auto simp: Grants_def role_defs memberScopes_def adminScopes_def scope_defs)
    ultimately show ?thesis
      using spec Some by (cases res) (simp_all add: current_role_rows [OF ok])
  qed
qed

theorem Authorizer_Allowed_spec_witness:
  "fst (Authorizer_Allowed (sample_ctx ''bob'') ''t1'' ''tenant.write'' sample_env sample_world) = Inr False"
proof -
  obtain res w' where run: "Authorizer_Allowed (sample_ctx ''bob'') ''t1'' ''tenant.write'' sample_env sample_world = (res, w')"
    by (cases "Authorizer_Allowed (sample_ctx ''bob'') ''t1'' ''tenant.write'' sample_env sample_world")
  from Authorizer_Allowed_spec [OF sample_sound healthy_sample run] run show ?thesis
    by (simp add: sample_db_def sample_member_def)
qed

end
