(* ===== verification/RelationProperties.thy ===== *)
theory RelationProperties
  imports Sample
begin

text \<open>
  The properties of the relation model: memberships, roles and invitations, stated of the use cases
  in every world whose database is sound, and applied to the sample.
\<close>

section \<open>Memberships\<close>

text \<open>The tenant a write reaches: the caller's own, owned and not archived.\<close>

definition own_open_tenant :: "db \<Rightarrow> ctx \<Rightarrow> string \<Rightarrow> tenant_row \<Rightarrow> bool" where
  "own_open_tenant d c pid row \<longleftrightarrow> row \<in> set (tenants d) \<and> tr_public_id row = pid
     \<and> TenantPublicIDFromContext c = Some pid \<and> tr_ownership_state row = ''owned'' \<and> \<not> tr_archived row"

definition caller_is_owner :: "db \<Rightarrow> ctx \<Rightarrow> string \<Rightarrow> bool" where
  "caller_is_owner d c tid \<longleftrightarrow> (\<exists>u. SubjectFromContext c = Some u \<and> current_role d tid u = Some RoleOwner)"

lemma caller_is_owner_holds: "caller_is_owner d c tid = holds d c tid ScopeTenantWrite"
  by (simp add: caller_is_owner_def holds_tenant_write_iff)

text \<open>
  Adding a member stores one membership, in the caller's own, owned and unarchived tenant, with
  a role that can be granted and the trimmed display name; the answer is that membership.  When the
  call fails with a healthy connection and a user ID of at most 255 characters, nothing has changed.
\<close>

theorem AddTenantMember_effect:
  assumes i: "integrity (w_db w)" and c: "\<not> ctx_tx c" and short: "RuneCountInString u \<le> 255"
    and run: "RelationService_AddTenantMember c pid u r name E w = (res, w')"
  shows "case res of
      Inr x \<Rightarrow> \<exists>row n at. own_open_tenant (w_db w) c pid row \<and> (r = RoleOwner \<or> r = RoleStaff) \<and> u \<noteq> []
        \<and> ParseDisplayName name = Inr n \<and> m_userID x = u \<and> m_tenantRole x = r
        \<and> (\<forall>m \<in> set (memberships (w_db w)). \<not> (mr_tenant_id m = tr_id row \<and> mr_user_id m = u))
        \<and> w_db w' = (w_db w)\<lparr>memberships := memberships (w_db w) @ [\<lparr>mr_tenant_id = tr_id row, mr_user_id = u,
            mr_tenant_role = Role_String r, mr_display_name = dn_value n, mr_joined_at = at\<rparr>]\<rparr>
    | Inl e \<Rightarrow> healthy E \<longrightarrow> w_db w' = w_db w"
proof -
  note spec = runs_db [OF runs_AddTenantMember_service [OF i] c refl run]
  show ?thesis
  proof (cases res)
    case (Inl e)
    with spec short show ?thesis by auto
  next
    case (Inr x)
    with spec have a: "member_added (w_db w) c pid u r name (w_db w')" and i': "integrity (w_db w')"
      and x: "m_userID x = u" "m_tenantRole x = r" using short by simp_all
    from a obtain row n at where row: "row \<in> set (tenants (w_db w))" "tr_public_id row = pid"
        "TenantPublicIDFromContext c = Some pid" "is_owned row" "\<not> tr_archived row"
      and r: "r = RoleOwner \<or> r = RoleStaff" "u \<noteq> []" and n: "ParseDisplayName name = Inr n"
      and put: "sql_insert_membership at (tr_id row) u (Role_String r) (dn_value n) (w_db w) = Inr (w_db w')"
      unfolding member_added_def by blast
    from put varchar_short [OF short] varchar_short [OF display_name_ok_short [OF display_name_ok_parsed [OF n]]]
    have d': "w_db w' = (w_db w)\<lparr>memberships := memberships (w_db w) @ [\<lparr>mr_tenant_id = tr_id row, mr_user_id = u,
            mr_tenant_role = Role_String r, mr_display_name = dn_value n, mr_joined_at = at\<rparr>]\<rparr>"
      by (auto simp: sql_insert_membership_def put_Inr)
    have "distinct (map (\<lambda>m. (mr_tenant_id m, mr_user_id m)) (memberships (w_db w')))"
      by (rule schema_keys(5) [OF integrity_schema(1) [OF i']])
    then have fresh: "\<forall>m \<in> set (memberships (w_db w)). \<not> (mr_tenant_id m = tr_id row \<and> mr_user_id m = u)"
      by (force simp: d' image_iff)
    show ?thesis unfolding Inr sum.case
      by (rule exI [of _ row], rule exI [of _ n], rule exI [of _ at])
        (use row r n x d' fresh in \<open>simp add: own_open_tenant_def is_owned_def\<close>)
  qed
qed

theorem AddTenantMember_effect_witness:
  "\<exists>x w'. RelationService_AddTenantMember (sample_ctx ''alice'') ''0123456789abcdef'' ''dave'' RoleStaff ''Dave''
      sample_env sample_world = (Inr x, w') \<and> m_userID x = ''dave'' \<and> length (memberships (w_db w')) = 4"
proof -
  have "is_Inr (fst (RelationService_AddTenantMember (sample_ctx ''alice'') ''0123456789abcdef'' ''dave'' RoleStaff
      ''Dave'' sample_env sample_world))"
    by (simp add: RelationService_AddTenantMember_def MembershipRepo_AddTenantMember_def eval_simps)
  then obtain x w' where run: "RelationService_AddTenantMember (sample_ctx ''alice'') ''0123456789abcdef'' ''dave''
      RoleStaff ''Dave'' sample_env sample_world = (Inr x, w')" using succeeds by blast
  have "RuneCountInString ''dave'' \<le> 255" by (simp add: RuneCountInString_def runes_ascii)
  from AddTenantMember_effect [OF sample_sound this run] run show ?thesis
    by (auto simp: sample_db_def)
qed

text \<open>
  C12: A tenant role changes only inside the caller's own, owned and unarchived tenant, for a caller
  who is an owner of it by the current memberships; the member keeps all else, and nobody but that
  member is touched.  A change away from the owner's role needs another owner beside the member.
\<close>

theorem ChangeTenantRole_effect:
  assumes i: "integrity (w_db w)" and c: "\<not> ctx_tx c"
    and run: "RelationService_ChangeTenantRole c pid u r E w = (Inr x, w')"
  shows "\<exists>row m. own_open_tenant (w_db w) c pid row \<and> caller_is_owner (w_db w) c (tr_id row)
    \<and> (r = RoleOwner \<or> r = RoleStaff) \<and> m \<in> set (memberships (w_db w)) \<and> mr_tenant_id m = tr_id row \<and> mr_user_id m = u
    \<and> m_userID x = u \<and> m_tenantRole x = r
    \<and> (r \<noteq> RoleOwner \<longrightarrow> (\<exists>o' \<in> set (memberships (w_db w)). mr_tenant_id o' = tr_id row
         \<and> mr_tenant_role o' = ''owner'' \<and> mr_user_id o' \<noteq> u))
    \<and> w_db w' = (w_db w)\<lparr>memberships := map (\<lambda>m. if mr_tenant_id m = tr_id row \<and> mr_user_id m = u
         then m\<lparr>mr_tenant_role := Role_String r\<rparr> else m) (memberships (w_db w))\<rparr>"
proof -
  from runs_db [OF runs_ChangeTenantRole [OF i c] c refl run]
  obtain row m' where o: "row \<in> set (tenants (w_db w))" "tr_public_id row = pid" "TenantPublicIDFromContext c = Some pid"
     "is_owned row" "\<not> tr_archived row" "r = RoleOwner \<or> r = RoleStaff"
     "holds (w_db w) c (tr_id row) ScopeTenantWrite" "r = RoleOwner \<or> owner_besides (w_db w) (tr_id row) u"
     "m' \<in> set (memberships (w_db w'))" "is_membership (tr_id row) u m'" "x = membership_of (w_db w') m'"
     "w_db w' = (w_db w)\<lparr>memberships := update_where (is_membership (tr_id row) u)
           (\<lambda>m. m\<lparr>mr_tenant_role := Role_String r\<rparr>) (memberships (w_db w))\<rparr>"
    unfolding role_changed_def by auto
  from o(9,10,12) obtain m where m: "m \<in> set (memberships (w_db w))" "is_membership (tr_id row) u m"
      "m' = m\<lparr>mr_tenant_role := Role_String r\<rparr>" by (auto simp: set_update_where is_membership_def)
  have x: "m_userID x = u" "m_tenantRole x = r"
    using o(6,10,11) m by (auto simp: membership_of_def NewMembership_def is_membership_def role_of_def role_defs)
  have "w_db w' = (w_db w)\<lparr>memberships := map (\<lambda>m. if mr_tenant_id m = tr_id row \<and> mr_user_id m = u
         then m\<lparr>mr_tenant_role := Role_String r\<rparr> else m) (memberships (w_db w))\<rparr>"
    using o(12) by (simp add: update_where_def is_membership_def)
  with o(1-8) m x show ?thesis
    by (intro exI [of _ row] exI [of _ m])
      (auto simp: own_open_tenant_def caller_is_owner_holds is_owned_def is_membership_def owner_besides_def list_ex_iff)
qed

theorem ChangeTenantRole_effect_witness:
  "\<exists>x w'. RelationService_ChangeTenantRole (sample_ctx ''alice'') ''0123456789abcdef'' ''bob'' RoleOwner
      sample_env sample_world = (Inr x, w') \<and> m_tenantRole x = RoleOwner
    \<and> sample_member ''t1'' ''bob'' ''owner'' \<in> set (memberships (w_db w'))"
proof -
  have "is_Inr (fst (RelationService_ChangeTenantRole (sample_ctx ''alice'') ''0123456789abcdef'' ''bob'' RoleOwner
      sample_env sample_world))"
    by (simp add: RelationService_ChangeTenantRole_def MembershipRepo_ChangeTenantRole_def eval_simps)
  then obtain x w' where run: "RelationService_ChangeTenantRole (sample_ctx ''alice'') ''0123456789abcdef'' ''bob''
      RoleOwner sample_env sample_world = (Inr x, w')" using succeeds by blast
  from ChangeTenantRole_effect [OF sample_sound run] run show ?thesis
    by (auto simp: sample_db_def sample_rows own_open_tenant_def role_defs)
qed

text \<open>
  C11: Revoking a membership removes that member and every event role they hold in the tenant, only
  inside the caller's own, owned and unarchived tenant, for a caller who is an owner of it, and only
  while another owner stays; revoking an event role removes that role alone, under the same gates
  and while the event is not archived.
\<close>

theorem RevokeRole_effect:
  assumes i: "integrity (w_db w)" and c: "\<not> ctx_tx c"
    and run: "RelationService_RevokeRole c input E w = (Inr x, w')"
  shows "if rri_EventPublicID input = []
    then \<exists>row. own_open_tenant (w_db w) c (rri_TenantPublicID input) row \<and> caller_is_owner (w_db w) c (tr_id row)
      \<and> (\<exists>m \<in> set (memberships (w_db w)). mr_tenant_id m = tr_id row \<and> mr_user_id m = rri_UserID input)
      \<and> (\<exists>o' \<in> set (memberships (w_db w')). mr_tenant_id o' = tr_id row \<and> mr_tenant_role o' = ''owner'')
      \<and> w_db w' = (w_db w)\<lparr>
          memberships := filter (\<lambda>m. \<not> (mr_tenant_id m = tr_id row \<and> mr_user_id m = rri_UserID input)) (memberships (w_db w)),
          event_roles := filter (\<lambda>r. \<not> (rr_tenant_id r = tr_id row \<and> rr_user_id r = rri_UserID input)) (event_roles (w_db w))\<rparr>
    else \<exists>e row. e \<in> set (events (w_db w)) \<and> evr_public_id e = rri_EventPublicID input \<and> evr_status e \<noteq> ''archived''
      \<and> own_open_tenant (w_db w) c (tr_public_id row) row \<and> tr_id row = evr_tenant_id e
      \<and> caller_is_owner (w_db w) c (tr_id row)
      \<and> w_db w' = (w_db w)\<lparr>event_roles := filter (\<lambda>r. \<not> (rr_event_id r = evr_id e \<and> rr_user_id r = rri_UserID input))
          (event_roles (w_db w))\<rparr>"
proof -
  let ?u = "rri_UserID input"
  from runs_db [OF runs_RevokeRole [OF i c] c refl run]
  have rev: "role_revoked (w_db w) c input (w_db w')" by simp
  show ?thesis
  proof (cases "rri_EventPublicID input = []")
    case True
    with rev obtain row where o: "row \<in> set (tenants (w_db w))" "tr_public_id row = rri_TenantPublicID input"
      "TenantPublicIDFromContext c = Some (rri_TenantPublicID input)"
      "is_owned row" "\<not> tr_archived row" "holds (w_db w) c (tr_id row) ScopeTenantWrite"
      "owner_besides (w_db w) (tr_id row) ?u" "\<exists>m \<in> set (memberships (w_db w)). is_membership (tr_id row) ?u m"
      "w_db w' = delete_memberships (is_membership (tr_id row) ?u) (w_db w)"
      unfolding role_revoked_def membership_revoked_def by auto
    from o(8) obtain m where m: "m \<in> set (memberships (w_db w))" "is_membership (tr_id row) ?u m" by blast
    have hit: "list_ex (\<lambda>m. mr_tenant_id m = rr_tenant_id r \<and> mr_user_id m = rr_user_id r)
        (filter (is_membership (tr_id row) ?u) (memberships (w_db w))) \<longleftrightarrow> rr_tenant_id r = tr_id row \<and> rr_user_id r = ?u" for r
      using m by (auto simp: list_ex_iff is_membership_def)
    have d': "w_db w' = (w_db w)\<lparr>
          memberships := filter (\<lambda>m. \<not> (mr_tenant_id m = tr_id row \<and> mr_user_id m = ?u)) (memberships (w_db w)),
          event_roles := filter (\<lambda>r. \<not> (rr_tenant_id r = tr_id row \<and> rr_user_id r = ?u)) (event_roles (w_db w))\<rparr>"
      unfolding o(9) delete_memberships_def delete_where_def Let_def hit unfolding is_membership_def ..
    from o(7) obtain o' where "o' \<in> set (memberships (w_db w))" "mr_tenant_id o' = tr_id row" "mr_tenant_role o' = ''owner''"
      "mr_user_id o' \<noteq> ?u" by (auto simp: owner_besides_def list_ex_iff)
    then have stays: "\<exists>o' \<in> set (memberships (w_db w')). mr_tenant_id o' = tr_id row \<and> mr_tenant_role o' = ''owner''"
      by (auto simp: d')
    have own: "own_open_tenant (w_db w) c (rri_TenantPublicID input) row" "caller_is_owner (w_db w) c (tr_id row)"
      using o(1-6) by (simp_all add: own_open_tenant_def caller_is_owner_holds is_owned_def)
    have member: "\<exists>m \<in> set (memberships (w_db w)). mr_tenant_id m = tr_id row \<and> mr_user_id m = ?u"
      using m by (auto simp: is_membership_def)
    show ?thesis unfolding if_P [OF True]
      by (intro exI [of _ row] conjI own member stays d')
  next
    case False
    with rev obtain e row where "writable_event (w_db w) c (rri_EventPublicID input) e row"
      "holds (w_db w) c (tr_id row) ScopeTenantWrite"
      "w_db w' = (w_db w)\<lparr>event_roles := delete_where (is_event_role (evr_id e) ?u) (event_roles (w_db w))\<rparr>"
      unfolding role_revoked_def event_role_revoked_def by auto
    with False show ?thesis
      by (simp only: if_False) (intro exI [of _ e] exI [of _ row], auto simp: own_open_tenant_def caller_is_owner_holds
        is_owned_def writable_event_def delete_where_def is_event_role_def)
  qed
qed

theorem RevokeRole_effect_witness:
  "\<exists>w'. RelationService_RevokeRole (sample_ctx ''alice'') \<lparr>rri_UserID = ''bob'', rri_TenantPublicID = ''0123456789abcdef'',
      rri_EventPublicID = []\<rparr> sample_env sample_world = (Inr (), w') \<and> event_roles (w_db w') = []"
proof -
  have "is_Inr (fst (RelationService_RevokeRole (sample_ctx ''alice'') \<lparr>rri_UserID = ''bob'',
      rri_TenantPublicID = ''0123456789abcdef'', rri_EventPublicID = []\<rparr> sample_env sample_world))"
    by (simp add: RelationService_RevokeRole_def MembershipRepo_RevokeTenantMembership_def eval_simps)
  then obtain x w' where run: "RelationService_RevokeRole (sample_ctx ''alice'') \<lparr>rri_UserID = ''bob'',
      rri_TenantPublicID = ''0123456789abcdef'', rri_EventPublicID = []\<rparr> sample_env sample_world = (Inr x, w')"
    using succeeds by blast
  from RevokeRole_effect [OF sample_sound run] run show ?thesis
    by (auto simp: sample_db_def sample_rows own_open_tenant_def)
qed

text \<open>
  An event role is granted only on an event of the caller's own, owned and unarchived tenant that
  is not archived itself, by an owner of the tenant, and only to a member of it; the role that is
  stored is the one granted.
\<close>

theorem GrantEventRole_effect:
  assumes i: "integrity (w_db w)" and c: "\<not> ctx_tx c" and short: "RuneCountInString u \<le> 255"
    and run: "RelationService_GrantEventRole c epid u r E w = (Inr x, w')"
  shows "\<exists>e row. e \<in> set (events (w_db w)) \<and> evr_public_id e = epid \<and> evr_status e \<noteq> ''archived''
    \<and> own_open_tenant (w_db w) c (tr_public_id row) row \<and> tr_id row = evr_tenant_id e
    \<and> caller_is_owner (w_db w) c (tr_id row) \<and> (r = RoleOwner \<or> r = RoleStaff)
    \<and> (\<exists>m \<in> set (memberships (w_db w)). mr_tenant_id m = tr_id row \<and> mr_user_id m = u)
    \<and> (\<exists>g \<in> set (event_roles (w_db w')). rr_event_id g = evr_id e \<and> rr_user_id g = u \<and> rr_role g = Role_String r)
    \<and> (\<exists>rs. w_db w' = (w_db w)\<lparr>event_roles := rs\<rparr>
        \<and> filter (\<lambda>g. \<not> (rr_event_id g = evr_id e \<and> rr_user_id g = u)) rs
          = filter (\<lambda>g. \<not> (rr_event_id g = evr_id e \<and> rr_user_id g = u)) (event_roles (w_db w)))"
proof -
  from runs_db [OF runs_GrantEventRole [OF i c] c refl run]
  obtain e row where w: "writable_event (w_db w) c epid e row" and r: "r = RoleOwner \<or> r = RoleStaff"
    and h: "holds (w_db w) c (tr_id row) ScopeTenantWrite" and g: "event_role_granted (w_db w) (evr_id e) u r (w_db w')"
    and i': "integrity (w_db w')" unfolding granted_event_role_def by auto
  have e: "e \<in> set (events (w_db w))" and tid: "tr_id row = evr_tenant_id e" using w by (simp_all add: writable_event_def)
  let ?new = "\<lparr>rr_event_id = evr_id e, rr_tenant_id = evr_tenant_id e, rr_user_id = u, rr_role = Role_String r\<rparr>"
  have "filter (\<lambda>x. evr_id x = evr_id e) (events (w_db w)) = [e]"
    by (rule filter_unique_key [OF schema_keys(3) [OF integrity_schema(1) [OF i]] e])
  with g varchar_short [OF short] have d': "w_db w' = (w_db w)\<lparr>event_roles := upsert_event_role ?new (event_roles (w_db w))\<rparr>"
    by (auto simp: event_role_granted_def sql_upsert_event_role_def bind_result_Inr_iff put_Inr Let_def)
  have up: "\<exists>g \<in> set (upsert_event_role ?new rs). rr_event_id g = evr_id e \<and> rr_user_id g = u \<and> rr_role g = Role_String r" for rs
  proof (cases "\<exists>x \<in> set rs. is_event_role (evr_id e) u x")
    case True
    then obtain x where "x \<in> set rs" "is_event_role (evr_id e) u x" by blast
    then show ?thesis
      by (intro bexI [of _ "x\<lparr>rr_role := Role_String r\<rparr>"])
        (auto simp: upsert_event_role_def Let_def is_event_role_def list_ex_iff set_update_where)
  next
    case False
    then show ?thesis by (auto simp: upsert_event_role_def Let_def list_ex_iff)
  qed
  have other: "filter (\<lambda>g. \<not> (rr_event_id g = evr_id e \<and> rr_user_id g = u)) (upsert_event_role ?new rs)
       = filter (\<lambda>g. \<not> (rr_event_id g = evr_id e \<and> rr_user_id g = u)) rs" for rs
    by (auto simp: upsert_event_role_def Let_def is_event_role_def intro: filter_update_where_other)
  from up [of "event_roles (w_db w)"] obtain s where s: "s \<in> set (event_roles (w_db w'))" "rr_event_id s = evr_id e"
      "rr_user_id s = u" "rr_role s = Role_String r" by (auto simp: d')
  have ok': "schema_ok (w_db w')" by (rule integrity_schema(1) [OF i'])
  then have "(rr_event_id s, rr_tenant_id s) \<in> (\<lambda>e. (evr_id e, evr_tenant_id e)) ` set (events (w_db w'))"
    and "(rr_tenant_id s, rr_user_id s) \<in> (\<lambda>m. (mr_tenant_id m, mr_user_id m)) ` set (memberships (w_db w'))"
    using s(1) by (simp_all add: schema_ok_def event_roles_ok_iff)
  then obtain f m where f: "f \<in> set (events (w_db w))" "evr_id f = evr_id e" "evr_tenant_id f = rr_tenant_id s"
    and m: "m \<in> set (memberships (w_db w))" "mr_tenant_id m = rr_tenant_id s" "mr_user_id m = u"
    using s by (auto simp: d')
  have "f = e" by (rule distinct_map_key_eq [OF schema_keys(3) [OF integrity_schema(1) [OF i]] f(1) e f(2)])
  with m f tid have member: "\<exists>m \<in> set (memberships (w_db w)). mr_tenant_id m = tr_id row \<and> mr_user_id m = u" by auto
  show ?thesis
    using w r h member s other [of "event_roles (w_db w)"] d'
    by (intro exI [of _ e] exI [of _ row])
      (auto simp: writable_event_def own_open_tenant_def caller_is_owner_holds is_owned_def)
qed

theorem GrantEventRole_effect_witness:
  "\<exists>x w'. RelationService_GrantEventRole (sample_ctx ''alice'') ''0000000000000e01'' ''bob'' RoleOwner
      sample_env sample_world = (Inr x, w') \<and> (\<exists>g \<in> set (event_roles (w_db w')). rr_user_id g = ''bob'' \<and> rr_role g = ''owner'')"
proof -
  have "is_Inr (fst (RelationService_GrantEventRole (sample_ctx ''alice'') ''0000000000000e01'' ''bob'' RoleOwner
      sample_env sample_world))"
    by (simp add: RelationService_GrantEventRole_def MembershipRepo_GrantEventRole_def sql_upsert_event_role_def
        upsert_event_role_def returned_tenant_def put_event_roles_def event_roles_violation_def is_event_role_def eval_simps)
  then obtain x w' where run: "RelationService_GrantEventRole (sample_ctx ''alice'') ''0000000000000e01'' ''bob''
      RoleOwner sample_env sample_world = (Inr x, w')" using succeeds by blast
  from GrantEventRole_effect [OF sample_sound _ run] run show ?thesis
    by (auto simp: role_defs)
qed

end
