(* ===== verification/InvitationProperties.thy ===== *)
theory InvitationProperties
  imports RelationProperties
begin

text \<open>
  The properties of invitations: what is stored, who may invite, and that a token is good for one
  membership only.
\<close>

section \<open>Creating and revoking\<close>

lemma update_invitation_by_id:
  assumes i: "integrity d" and j: "j \<in> set (invitations d)"
  shows "update_where (\<lambda>i. ir_id i = ir_id j) f (invitations d) = map (\<lambda>i. if i = j then f i else i) (invitations d)"
proof -
  have "i = j" if "i \<in> set (invitations d)" "ir_id i = ir_id j" for i
    using integrity_schema(1) [OF i] that j distinct_map_key_eq [of ir_id "invitations d" i j]
    by (simp add: schema_ok_def invitations_ok_iff)
  then show ?thesis by (auto simp: update_where_def)
qed

lemmas invitation_run_simps = InvitationRepo_FindInvitationForUpdate_def InvitationRepo_findInvitation_def
  InvitationRepo_FindInvitationByTokenForUpdate_def InvitationRepo_MarkInvitationRevoked_def
  InvitationRepo_MarkInvitationAccepted_def sql_revoke_invitation_def sql_accept_invitation_def put_invitations_def
  invitations_violation_def NewInvitation_def invitationSelect_def join_invitation_def invitationRow_domain_def
  invitation_Revoke_def invitation_Accept_def invitation_close_def invitation_Open_def invitation_state_defs

text \<open>
  C25: An invitation is created only by an owner of the caller's own, owned and unarchived tenant, for
  the staff role and with a valid display name.  It is stored with the hash of the token that is
  answered and expires at the time that is answered; when the call fails with a healthy connection,
  nothing has changed.
\<close>

theorem CreateTenantInvitation_effect:
  assumes i: "integrity (w_db w)" and c: "\<not> ctx_tx c"
    and run: "RelationService_CreateTenantInvitation s c pid r name E w = (res, w')"
  shows "case res of
      Inr (x, token) \<Rightarrow> \<exists>row n at. own_open_tenant (w_db w) c pid row \<and> caller_is_owner (w_db w) c (tr_id row)
        \<and> r = RoleStaff \<and> ParseDisplayName name = Inr n
        \<and> i_tenantPublicID x = pid \<and> i_role x = RoleStaff \<and> i_displayName x = n \<and> i_state x = InvitationPending
        \<and> w_db w' = (w_db w)\<lparr>invitations := invitations (w_db w) @ [\<lparr>ir_id = i_id x, ir_public_id = i_publicID x,
            ir_tenant_id = tr_id row, ir_tenant_role = ''staff'', ir_display_name = dn_value n,
            ir_token_hash = HashOf token, ir_expires_at = pg_time (i_expiresAt x), ir_created_at = at,
            ir_accepted_at = None, ir_accepted_by = None, ir_revoked_at = None\<rparr>]\<rparr>
    | Inl e \<Rightarrow> healthy E \<longrightarrow> w_db w' = w_db w"
proof -
  note spec = runs_db [OF runs_CreateTenantInvitation [OF i c] c refl run]
  show ?thesis
  proof (cases res)
    case (Inl e)
    with spec show ?thesis by auto
  next
    case (Inr y)
    with spec obtain row n iid bs raw k at where row: "writable_row (w_db w) c pid row" and r: "r = RoleStaff"
        "holds (w_db w) c (tr_id row) ScopeTenantWrite" "ParseDisplayName name = Inr n"
      and y: "y = (NewInvitation iid (public_id_of bs) (tr_id row) pid RoleStaff n
          (e_clock E k + rs_invitationTTL s) InvitationPending, fst (token_of raw))"
      and d': "w_db w' = (w_db w)\<lparr>invitations := invitations (w_db w) @ [\<lparr>ir_id = iid, ir_public_id = public_id_of bs,
            ir_tenant_id = tr_id row, ir_tenant_role = ''staff'', ir_display_name = dn_value n,
            ir_token_hash = HashOf (snd y), ir_expires_at = pg_time (e_clock E k + rs_invitationTTL s),
            ir_created_at = at, ir_accepted_at = None, ir_accepted_by = None, ir_revoked_at = None\<rparr>]\<rparr>"
      unfolding Inr sum.case invited_def by blast
    show ?thesis unfolding Inr sum.case y prod.case
      by (rule exI [of _ row], rule exI [of _ n], rule exI [of _ at])
        (use row r d' y in \<open>simp add: writable_row_def own_open_tenant_def is_owned_def caller_is_owner_holds NewInvitation_def\<close>)
  qed
qed

theorem CreateTenantInvitation_effect_witness:
  "\<exists>x token w'. RelationService_CreateTenantInvitation wired_relationService founder_ctx ''0707070707070707''
      RoleStaff ''Dave'' sample_env claimed_world = (Inr (x, token), w')
    \<and> map ir_token_hash (invitations (w_db w')) = [HashOf token]"
proof -
  have "is_Inr (fst (RelationService_CreateTenantInvitation wired_relationService founder_ctx ''0707070707070707''
      RoleStaff ''Dave'' sample_env claimed_world))"
    by (simp add: RelationService_CreateTenantInvitation_def InvitationRepo_CreateInvitation_def sql_insert_invitation_def
        invitation_run_simps claimed_db claimed_tx claimed_row_def registered_row_def sample_public_id empty_db_def eval_simps)
  then obtain y w' where "RelationService_CreateTenantInvitation wired_relationService founder_ctx
      ''0707070707070707'' RoleStaff ''Dave'' sample_env claimed_world = (Inr y, w')" using succeeds by blast
  then obtain x token where run: "RelationService_CreateTenantInvitation wired_relationService founder_ctx
      ''0707070707070707'' RoleStaff ''Dave'' sample_env claimed_world = (Inr (x, token), w')" by (cases y) auto
  from CreateTenantInvitation_effect [OF _ _ run] run reachable_sound [OF claimed_reachable] show ?thesis
    by (auto simp: claimed_db empty_db_def)
qed

text \<open>
  C39: Revoking closes exactly the invitation that is named, in the caller's own, owned and unarchived
  tenant, and only while it is open at the time of the request: neither accepted nor revoked nor
  expired.  The row gets that time, nothing else changes, and the answer is the invitation as revoked.
\<close>

theorem RevokeTenantInvitation_effect:
  assumes i: "integrity (w_db w)" and c: "\<not> ctx_tx c"
    and run: "RelationService_RevokeTenantInvitation c pid invID E w = (Inr x, w')"
  shows "\<exists>row j k now. own_open_tenant (w_db w) c pid row \<and> j \<in> set (invitations (w_db w)) \<and> now = e_clock E k
    \<and> ir_tenant_id j = tr_id row \<and> ir_public_id j = invID
    \<and> ir_accepted_at j = None \<and> ir_revoked_at j = None \<and> now < ir_expires_at j
    \<and> i_publicID x = invID \<and> x = (invitation_of (w_db w) j)\<lparr>i_state := InvitationRevoked\<rparr>
    \<and> w_db w' = (w_db w)\<lparr>invitations := map (\<lambda>i. if i = j then i\<lparr>ir_revoked_at := Some (pg_time now)\<rparr> else i)
         (invitations (w_db w))\<rparr>"
proof -
  from runs_db [OF runs_RevokeTenantInvitation [OF i c] c refl run]
  obtain row j k where o: "writable_row (w_db w) c pid row" "j \<in> set (invitations (w_db w))" "ir_tenant_id j = tr_id row"
      "ir_public_id j = invID" "invitation_row_open (e_clock E k) j" "x = (invitation_of (w_db w) j)\<lparr>i_state := InvitationRevoked\<rparr>"
    and d': "w_db w' = (w_db w)\<lparr>invitations := update_where (\<lambda>i. ir_id i = ir_id j)
           (\<lambda>i. i\<lparr>ir_revoked_at := Some (pg_time (e_clock E k))\<rparr>) (invitations (w_db w))\<rparr>"
    unfolding invitation_revoked_def by auto
  have "w_db w' = (w_db w)\<lparr>invitations := map (\<lambda>i. if i = j then i\<lparr>ir_revoked_at := Some (pg_time (e_clock E k))\<rparr> else i)
      (invitations (w_db w))\<rparr>"
    unfolding d' update_invitation_by_id [OF i o(2)] ..
  with o(1-6) show ?thesis
    by (intro exI [of _ row] exI [of _ j] exI [of _ k] exI [of _ "e_clock E k"])
      (auto simp: writable_row_def own_open_tenant_def is_owned_def invitation_row_open_def)
qed

theorem RevokeTenantInvitation_effect_witness:
  "\<exists>x w'. RelationService_RevokeTenantInvitation (sample_ctx ''alice'') ''0123456789abcdef'' ''0000000000000101''
      sample_env sample_world = (Inr x, w') \<and> map ir_revoked_at (invitations (w_db w')) \<noteq> [None]"
proof -
  have "is_Inr (fst (RelationService_RevokeTenantInvitation (sample_ctx ''alice'') ''0123456789abcdef''
      ''0000000000000101'' sample_env sample_world))"
    by (simp add: RelationService_RevokeTenantInvitation_def revoke_invitation_tx_def invitation_run_simps eval_simps)
  then obtain x w' where run: "RelationService_RevokeTenantInvitation (sample_ctx ''alice'') ''0123456789abcdef''
      ''0000000000000101'' sample_env sample_world = (Inr x, w')" using succeeds by blast
  from RevokeTenantInvitation_effect [OF sample_sound run] run show ?thesis
    by (auto simp: sample_db_def)
qed


section \<open>Accepting\<close>

text \<open>The world in which the founder has invited one person, and that person's context.\<close>

definition invited_world :: world where
  "invited_world = snd (serve founder_ctx (CreateTenantInvitation ''0707070707070707'' 2 ''Dave'') sample_env claimed_world)"

definition invited_row :: invitation_row where
  "invited_row = \<lparr>ir_id = ''u1'', ir_public_id = ''0707070707070707'', ir_tenant_id = ''u1'', ir_tenant_role = ''staff'',
     ir_display_name = ''Dave'', ir_token_hash = HashOf sample_token,
     ir_expires_at = pg_time (1000000 + DefaultInvitationTTL), ir_created_at = 1000000,
     ir_accepted_at = None, ir_accepted_by = None, ir_revoked_at = None\<rparr>"

lemma invited_reachable: "reachable invited_world"
  unfolding invited_world_def by (intro reachable.request claimed_reachable) simp_all

lemma invited_db: "w_db invited_world = (w_db claimed_world)\<lparr>invitations := [invited_row]\<rparr>"
  by (simp add: invited_world_def invited_row_def RelationConnect_CreateTenantInvitation_def wired_relationService_def
      NewRelationService_def RelationService_CreateTenantInvitation_def InvitationRepo_CreateInvitation_def
      sql_insert_invitation_def roleDomain_def
      invitation_run_simps claimed_db claimed_tx claimed_row_def registered_row_def sample_public_id empty_db_def pg_time_def eval_simps)

definition guest_ctx :: ctx where
  "guest_ctx = \<lparr>ctx_claims = Some \<lparr>cl_Subject = ''bob'', cl_TenantPublicID = []\<rparr>, ctx_binding = None, ctx_tx = False\<rparr>"

lemma guest_ctx_simps [simp]:
  "\<not> ctx_tx guest_ctx" "SubjectFromContext guest_ctx = Some ''bob''" "TenantPublicIDFromContext guest_ctx = None"
  by (simp_all add: guest_ctx_def SubjectFromContext_def TenantPublicIDFromContext_def bound_tenant_def
      TrimSpace_def [of "[]"])

lemma guest_accepts:
  "is_Inr (fst (RelationService_AcceptTenantInvitation guest_ctx ''0707070707070707'' sample_token sample_env invited_world))"
  using reachable_sound [OF invited_reachable]
  by (simp add: RelationService_AcceptTenantInvitation_def accept_invitation_tx_def MembershipRepo_AddTenantMember_def
      invitation_run_simps invited_db invited_row_def claimed_db claimed_row_def registered_row_def
      sample_id_token sample_public_id empty_db_def DefaultInvitationTTL_def pg_time_def eval_simps)

text \<open>
  C10: Accepting consumes an open invitation of an owned and unarchived tenant whose stored hash is
  the token's, and makes the authenticated subject, who was no member before, a staff member under
  the invitation's display name; the two rows are written together.
\<close>

theorem AcceptTenantInvitation_effect:
  assumes i: "integrity (w_db w)" and c: "\<not> ctx_tx c"
    and run: "RelationService_AcceptTenantInvitation c pid token E w = (Inr x, w')"
  shows "\<exists>row j u now at. row \<in> set (tenants (w_db w)) \<and> tr_public_id row = pid \<and> tr_ownership_state row = ''owned''
    \<and> \<not> tr_archived row \<and> SubjectFromContext c = Some u
    \<and> j \<in> set (invitations (w_db w)) \<and> ir_tenant_id j = tr_id row \<and> ir_token_hash j = HashOf token
    \<and> ir_accepted_at j = None \<and> ir_revoked_at j = None \<and> now < ir_expires_at j
    \<and> m_userID x = u \<and> m_tenantRole x = RoleStaff
    \<and> (\<forall>m \<in> set (memberships (w_db w)). \<not> (mr_tenant_id m = tr_id row \<and> mr_user_id m = u))
    \<and> w_db w' = (w_db w)\<lparr>
        memberships := memberships (w_db w) @ [\<lparr>mr_tenant_id = tr_id row, mr_user_id = u, mr_tenant_role = ''staff'',
            mr_display_name = ir_display_name j, mr_joined_at = at\<rparr>],
        invitations := map (\<lambda>i. if i = j then i\<lparr>ir_accepted_at := Some (pg_time now), ir_accepted_by := Some u\<rparr> else i)
          (invitations (w_db w))\<rparr>"
proof -
  from runs_db [OF runs_AcceptTenantInvitation [OF i c] c refl run]
  have acc: "invitation_accepted E (w_db w) c pid token x (w_db w')" and i': "integrity (w_db w')" by simp_all
  from acc obtain row j k u at where o: "row \<in> set (tenants (w_db w))" "tr_public_id row = pid" "is_owned row"
      "\<not> tr_archived row" "SubjectFromContext c = Some u" "j \<in> set (invitations (w_db w))" "ir_tenant_id j = tr_id row"
      "ir_token_hash j = HashOf token" "invitation_row_open (e_clock E k) j"
    and x: "x = membership_of (w_db w) \<lparr>mr_tenant_id = tr_id row, mr_user_id = u, mr_tenant_role = ''staff'',
            mr_display_name = ir_display_name j, mr_joined_at = at\<rparr>"
    and d': "w_db w' = (w_db w)\<lparr>memberships := memberships (w_db w) @ [\<lparr>mr_tenant_id = tr_id row, mr_user_id = u,
            mr_tenant_role = ''staff'', mr_display_name = ir_display_name j, mr_joined_at = at\<rparr>],
          invitations := update_where (\<lambda>i. ir_id i = ir_id j)
            (\<lambda>i. i\<lparr>ir_accepted_at := Some (pg_time (e_clock E k)), ir_accepted_by := Some u\<rparr>) (invitations (w_db w))\<rparr>"
    unfolding invitation_accepted_def Let_def by blast
  have "distinct (map (\<lambda>m. (mr_tenant_id m, mr_user_id m)) (memberships (w_db w')))"
    by (rule schema_keys(5) [OF integrity_schema(1) [OF i']])
  then have fresh: "\<forall>m \<in> set (memberships (w_db w)). \<not> (mr_tenant_id m = tr_id row \<and> mr_user_id m = u)"
    by (force simp: d' image_iff)
  have "m_userID x = u" "m_tenantRole x = RoleStaff"
    by (simp_all add: x membership_of_def NewMembership_def role_of_def)
  then show ?thesis
    by (intro exI [of _ row] exI [of _ j] exI [of _ u] exI [of _ "e_clock E k"] exI [of _ at])
      (use o fresh d' update_invitation_by_id [OF i o(6)] in \<open>simp add: is_owned_def invitation_row_open_def\<close>)
qed

theorem AcceptTenantInvitation_effect_witness:
  "\<exists>x w'. RelationService_AcceptTenantInvitation guest_ctx ''0707070707070707'' sample_token sample_env invited_world
      = (Inr x, w') \<and> map mr_user_id (memberships (w_db w')) = [''alice'', ''bob'']"
proof -
  obtain x w' where run: "RelationService_AcceptTenantInvitation guest_ctx ''0707070707070707'' sample_token sample_env
      invited_world = (Inr x, w')" using succeeds [OF guest_accepts] by blast
  from AcceptTenantInvitation_effect [OF _ _ run] run reachable_sound [OF invited_reachable] show ?thesis
    by (auto simp: invited_db claimed_db sample_member_def)
qed

lemma closed_token:
  assumes i: "integrity (w_db w)" and c: "\<not> ctx_tx c"
    and j: "j \<in> set (invitations (w_db w))" "ir_token_hash j = HashOf token"
    and closed: "ir_accepted_at j \<noteq> None \<or> ir_revoked_at j \<noteq> None"
    and run: "RelationService_AcceptTenantInvitation c pid token E w = (res, w')"
  shows "(\<exists>e. res = Inl e) \<and> w_db w' = w_db w"
proof -
  have uniq: "distinct (map ir_token_hash (invitations (w_db w)))"
    using integrity_schema(1) [OF i] by (simp add: schema_ok_def invitations_ok_iff)
  have "\<not> invitation_accepted E (w_db w) c pid token x d'" for x d'
    using closed distinct_map_key_eq [OF uniq _ j(1)] j(2)
    by (auto simp: invitation_accepted_def invitation_row_open_def)
  with runs_db [OF runs_AcceptTenantInvitation [OF i c] c refl run] show ?thesis
    by (cases res) auto
qed

lemma accepted_invitation:
  assumes "invitation_accepted E d c pid token m d'"
  obtains j where "j \<in> set (invitations d')" "ir_token_hash j = HashOf token" "ir_accepted_at j \<noteq> None"
proof -
  from assms obtain j k u where j: "j \<in> set (invitations d)" "ir_token_hash j = HashOf token"
    and d': "invitations d' = update_where (\<lambda>i. ir_id i = ir_id j)
      (\<lambda>i. i\<lparr>ir_accepted_at := Some (pg_time (e_clock E k)), ir_accepted_by := Some u\<rparr>) (invitations d)"
    unfolding invitation_accepted_def Let_def by auto
  let ?j = "j\<lparr>ir_accepted_at := Some (pg_time (e_clock E k)), ir_accepted_by := Some u\<rparr>"
  have "?j \<in> set (invitations d')" unfolding d' set_update_where using j(1) by auto
  with j(2) show thesis by (intro that [of ?j]) simp_all
qed

lemma answered_Inr:
  assumes "answer table call convert E w = (Inr y, w')"
  obtains x where "call E w = (Inr x, w')"
  using assms that unfolding answer_def by (cases "call E w") (auto split: sum.splits prod.splits)

lemma accept_served:
  "RelationConnect_AcceptTenantInvitation c pid token E w = (res, w')
    \<Longrightarrow> w' = snd (serve c (AcceptTenantInvitation pid token) E w)"
  by (auto simp: reply_def split: prod.split sum.split)

text \<open>
  C7: A token admits one person, once and for all: after an acceptance no request, whoever sends it,
  whenever and however the environment behaves, is admitted to the tenant with the same token.
\<close>

theorem AcceptTenantInvitation_once:
  assumes r: "reachable w" and c: "\<not> ctx_tx c"
    and run: "RelationConnect_AcceptTenantInvitation c pid token E w = (Inr x, w1)"
    and l: "later w1 w2" and c2: "\<not> ctx_tx c2"
    and again: "RelationConnect_AcceptTenantInvitation c2 pid token E2 w2 = (res, w3)"
  shows "(\<exists>e. res = Inl e) \<and> w_db w3 = w_db w2"
proof -
  have r1: "reachable w1" unfolding accept_served [OF run] by (rule reachable.request [OF r c])
  have i: "integrity (w_db w)" and i2: "integrity (w_db w2)"
    using reachable_sound [OF r] reachable_sound [OF later_reachable [OF l r1]] by simp_all
  obtain m where "RelationService_AcceptTenantInvitation c pid token E w = (Inr m, w1)"
    using answered_Inr [OF run [unfolded RelationConnect_AcceptTenantInvitation_def]] .
  from runs_db [OF runs_AcceptTenantInvitation [OF i c] c refl this]
  have "invitation_accepted E (w_db w) c pid token m (w_db w1)" by simp
  from accepted_invitation [OF this]
  obtain j where j: "j \<in> set (invitations (w_db w1))" "ir_token_hash j = HashOf token" "ir_accepted_at j \<noteq> None" .
  from later_lasts [OF l r1] j(1) obtain j' where "j' \<in> set (invitations (w_db w2))" "invitation_lasts j j'"
    unfolding lasts_def by blast
  with j have j: "j \<in> set (invitations (w_db w2))" "ir_token_hash j = HashOf token"
      "ir_accepted_at j \<noteq> None \<or> ir_revoked_at j \<noteq> None"
    by (auto simp: invitation_lasts_def)
  obtain s w' where s: "RelationService_AcceptTenantInvitation c2 pid token E2 w2 = (s, w')"
    by (cases "RelationService_AcceptTenantInvitation c2 pid token E2 w2")
  note closed = closed_token [OF i2 c2 j s]
  note ans = again [unfolded RelationConnect_AcceptTenantInvitation_def]
  from answer_db(1) [of relation_clientErrors "RelationService_AcceptTenantInvitation c2 pid token" membershipProto E2 w2]
  have "w_db w3 = w_db w2" using closed by (simp add: ans s)
  moreover have "\<exists>e. res = Inl e"
    using answer_Inr_iff [of relation_clientErrors "RelationService_AcceptTenantInvitation c2 pid token" membershipProto E2 w2]
      closed by (cases res) (auto simp: ans s)
  ultimately show ?thesis by simp
qed

theorem AcceptTenantInvitation_once_witness:
  "\<exists>x w1 e w3. RelationConnect_AcceptTenantInvitation guest_ctx ''0707070707070707'' sample_token sample_env invited_world
      = (Inr x, w1)
    \<and> RelationConnect_AcceptTenantInvitation (sample_ctx ''carol'') ''0707070707070707'' sample_token sample_env w1 = (Inl e, w3)"
proof -
  have "is_Inr (fst (RelationConnect_AcceptTenantInvitation guest_ctx ''0707070707070707'' sample_token sample_env
      invited_world))"
    using guest_accepts
    by (auto simp: is_Inr_conv RelationConnect_AcceptTenantInvitation_def answer_Inr_iff)
  then obtain x w1 where run: "RelationConnect_AcceptTenantInvitation guest_ctx ''0707070707070707'' sample_token sample_env
      invited_world = (Inr x, w1)" using succeeds by blast
  obtain res w3 where again: "RelationConnect_AcceptTenantInvitation (sample_ctx ''carol'') ''0707070707070707''
      sample_token sample_env w1 = (res, w3)" by (cases "RelationConnect_AcceptTenantInvitation (sample_ctx ''carol'')
        ''0707070707070707'' sample_token sample_env w1")
  from AcceptTenantInvitation_once [OF invited_reachable _ run later.now _ again] run again show ?thesis by auto
qed

text \<open>The tokens that admit nobody: of an invitation that is unknown, closed or expired.\<close>

lemma runs_AcceptTenantInvitation_rejected:
  assumes i: "integrity d" and c: "\<not> ctx_tx c" and E: "healthy E"
    and row: "row \<in> set (tenants d)" "tr_public_id row = pid" and seen: "VerifyOwnership c pid = None"
    and given: "pid \<noteq> []" "token \<noteq> []" and u: "SubjectFromContext c = Some u"
    and bad: "\<forall>j k. j \<in> set (invitations d) \<and> ir_tenant_id j = tr_id row \<and> ir_token_hash j = HashOf token
      \<longrightarrow> \<not> invitation_row_open (e_clock E k) j"
  shows "runs E c d (RelationService_AcceptTenantInvitation c pid token) (\<lambda>_ _. False)
    (\<lambda>e d'. d' = d \<and> e = Sentinel (RelationApp ErrInvitationRejected))"
  unfolding RelationService_AcceptTenantInvitation_def TenantRepo_WithinTransaction_def
proof (intro tri, goal_cases)
  case (2 s r t)
  note facts = 2
  have t: "t = tenant_of row"
    using read_tenant(1) [OF i facts(4,6)] schema_tenant_key(2) [OF integrity_schema(1) [OF i] facts(4) row(1)]
      facts(5) row(2) by simp
  have "runs E (c\<lparr>ctx_tx := True\<rparr>) d (accept_invitation_tx t token s (c\<lparr>ctx_tx := True\<rparr>)) (\<lambda>_ _. False)
      (\<lambda>e _. e = Sentinel (RelationApp ErrInvitationRejected))"
    unfolding accept_invitation_tx_def InvitationRepo_FindInvitationByTokenForUpdate_def t tenant_of_simps
    by (intro tri runs_LockTenantMemberships runs_findInvitation [OF i])
      (use E bad in \<open>auto simp: invitation_Accept_Inr_iff\<close>)
  from runs_atomic [OF c, where fn = "accept_invitation_tx t token s", OF this] show ?case
    by (rule runs_conseq) (use E in \<open>auto simp: all_or_nothing_def abort_mark_def isTransactionAbort_def\<close>)
qed (use given u E row i seen read_tenant_refused [OF i] in auto)

text \<open>
  C26: A caller learns nothing from a refused token: for a tenant that exists, an unknown token and the
  token of an accepted, revoked or expired invitation all get the same permission error, and nothing
  changes.
\<close>

theorem AcceptTenantInvitation_uniform_rejection:
  assumes i: "integrity (w_db w)" and c: "\<not> ctx_tx c" and E: "healthy E"
    and row: "row \<in> set (tenants (w_db w))" "tr_public_id row = pid" and unbound: "VerifyOwnership c pid = None"
    and given: "pid \<noteq> []" "token \<noteq> []" and u: "SubjectFromContext c = Some u"
    and bad: "\<forall>j \<in> set (invitations (w_db w)). ir_tenant_id j = tr_id row \<longrightarrow> ir_token_hash j = HashOf token
      \<longrightarrow> ir_accepted_at j \<noteq> None \<or> ir_revoked_at j \<noteq> None \<or> (\<forall>k. ir_expires_at j \<le> e_clock E k)"
    and run: "RelationConnect_AcceptTenantInvitation c pid token E w = (res, w')"
  shows "(\<exists>ce. res = Inl ce \<and> ce_Code ce = CodePermissionDenied \<and> ce_Message ce = ''invitation token is invalid'')
    \<and> w_db w' = w_db w"
proof -
  obtain r w1 where m: "RelationService_AcceptTenantInvitation c pid token E w = (r, w1)"
    by (cases "RelationService_AcceptTenantInvitation c pid token E w")
  have "\<forall>j k. j \<in> set (invitations (w_db w)) \<and> ir_tenant_id j = tr_id row \<and> ir_token_hash j = HashOf token
      \<longrightarrow> \<not> invitation_row_open (e_clock E k) j"
    using bad unfolding invitation_row_open_def by (metis not_less)
  from runs_db [OF runs_AcceptTenantInvitation_rejected [OF i c E row unbound given u this] c refl m]
  have "r = Inl (Sentinel (RelationApp ErrInvitationRejected))" "w_db w1 = w_db w" by (cases r; simp)+
  moreover have "ClientErrors_For relation_clientErrors (Sentinel (RelationApp ErrInvitationRejected)) w1
      = (\<lparr>ce_Code = CodePermissionDenied, ce_Message = ''invitation token is invalid'',
          ce_Cause = Some (Sentinel (RelationApp ErrInvitationRejected))\<rparr>, w1)"
    by (simp add: relation_clientErrors_def NewClientError_def)
  ultimately show ?thesis
    using run m by (auto simp: RelationConnect_AcceptTenantInvitation_def answer_def)
qed

theorem AcceptTenantInvitation_uniform_rejection_witness:
  "\<exists>ce. fst (RelationConnect_AcceptTenantInvitation guest_ctx ''0707070707070707'' ''guess'' sample_env claimed_world) = Inl ce
     \<and> ce_Code ce = CodePermissionDenied"
proof -
  obtain res w' where run: "RelationConnect_AcceptTenantInvitation guest_ctx ''0707070707070707'' ''guess'' sample_env
      claimed_world = (res, w')"
    by (cases "RelationConnect_AcceptTenantInvitation guest_ctx ''0707070707070707'' ''guess'' sample_env claimed_world")
  have "claimed_row \<in> set (tenants (w_db claimed_world))" by (simp add: claimed_db)
  from AcceptTenantInvitation_uniform_rejection [OF _ _ _ this _ _ _ _ _ _ run] run reachable_sound [OF claimed_reachable]
  show ?thesis
    by (auto simp: claimed_db empty_db_def claimed_row_def registered_row_def sample_public_id VerifyOwnership_def)
qed

end
