(* ===== verification/Silent.thy ===== *)
theory Silent
  imports System
begin

text \<open>
  What is logged and what a caller is told.  The use cases and everything below them are silent: only
  the transports write to the log, and \<open>silent\<close> composes like the code does.
\<close>

named_theorems quiet

definition silent :: "'a go \<Rightarrow> bool" where
  "silent m \<longleftrightarrow> (\<forall>E w. w_log (snd (m E w)) = w_log w)"

lemma silentI: "(\<And>E w. w_log (snd (m E w)) = w_log w) \<Longrightarrow> silent m"
  by (simp add: silent_def)

lemma silentD: "silent m \<Longrightarrow> m E w = (r, w') \<Longrightarrow> w_log w' = w_log w"
  by (metis silent_def snd_conv)

lemma silent_tick [simp]: "w_log (tick w) = w_log w"
  by (simp add: tick_def)

section \<open>The combinators\<close>

lemma silent_ret [quiet]: "silent (ret x)"
  by (simp add: silent_def ret_def)

lemma silent_fail [quiet]: "silent (fail e)"
  by (simp add: silent_def fail_def)

lemma silent_and_then [quiet]:
  assumes "silent m" and "\<And>x. silent (f x)"
  shows "silent (and_then m f)"
  unfolding silent_def and_then_def using assms [unfolded silent_def]
  by (simp split: prod.split sum.split) (metis snd_conv)

lemma silent_attempt [quiet]: "silent m \<Longrightarrow> silent (attempt m)"
  unfolding silent_def attempt_def by (simp split: prod.split) (metis snd_conv)

lemma silent_wrap_err [quiet]: "silent m \<Longrightarrow> silent (wrap_err s m)"
  unfolding silent_def wrap_err_def by (simp split: prod.split sum.split) (metis snd_conv)

lemma silent_map_err [quiet]: "silent m \<Longrightarrow> silent (map_err f m)"
  unfolding silent_def map_err_def by (simp split: prod.split sum.split) (metis snd_conv)

lemma silent_of_result [quiet]: "silent (of_result r)"
  by (simp add: of_result_def silent_ret silent_fail split: sum.split)

lemma silent_require [quiet]: "silent (require r)"
  by (simp add: require_def silent_ret silent_fail split: option.split)

lemma silent_guard [quiet]: "silent (guard b e)"
  by (simp add: guard_def silent_ret silent_fail)

lemma silent_if [quiet]: "silent m \<Longrightarrow> silent n \<Longrightarrow> silent (if b then m else n)"
  by simp

lemma silent_case_sum [quiet]:
  "(\<And>x. silent (f x)) \<Longrightarrow> (\<And>y. silent (g y)) \<Longrightarrow> silent (case s of Inl x \<Rightarrow> f x | Inr y \<Rightarrow> g y)"
  by (simp split: sum.split)

lemma silent_case_option [quiet]:
  "silent m \<Longrightarrow> (\<And>y. silent (g y)) \<Longrightarrow> silent (case s of None \<Rightarrow> m | Some y \<Rightarrow> g y)"
  by (simp split: option.split)

lemma silent_case_list [quiet]:
  "silent m \<Longrightarrow> (\<And>y ys. silent (g y ys)) \<Longrightarrow> silent (case xs of [] \<Rightarrow> m | y # ys \<Rightarrow> g y ys)"
  by (simp split: list.split)

lemma silent_case_prod [quiet]: "(\<And>x y. silent (f x y)) \<Longrightarrow> silent (case p of (x, y) \<Rightarrow> f x y)"
  by (simp split: prod.split)

section \<open>Clocks, random sources and statements\<close>

lemma silent_now_go [quiet]: "silent now_go"
  by (simp add: silent_def now_go_def)

lemma silent_NewUUIDv7 [quiet]: "silent NewUUIDv7"
  by (simp add: silent_def NewUUIDv7_def split: sum.split)

lemma silent_rand_Read [quiet]: "silent (rand_Read n)"
  by (simp add: silent_def rand_Read_def split: sum.split)

lemma silent_NewPublicID [quiet]: "silent NewPublicID"
  unfolding NewPublicID_def by (intro quiet)

lemma silent_onetimetoken_New [quiet]: "silent onetimetoken_New"
  unfolding onetimetoken_New_def by (intro quiet)

lemma set_view_log [simp]: "w_log (set_view c d w) = w_log w"
  by (simp add: set_view_def)

lemma silent_stmt [quiet]: "silent (stmt c q)"
  by (simp add: silent_def stmt_def Let_def split: option.split prod.split sum.split)

lemma silent_statements [quiet]:
  "silent (query c f)" "silent (exec_sql c g)" "silent (exec_count c h)" "silent (GetContext c rows)"
  "silent (SelectContext c rows')" "silent (RowsAffected c n)"
  by (simp_all add: query_def exec_sql_def exec_count_def GetContext_def SelectContext_def RowsAffected_def silent_stmt)

lemma silent_begin_tx [quiet]: "silent begin_tx"
  by (simp add: silent_def begin_tx_def split: option.split)

lemma silent_RunInTransaction [quiet]:
  assumes "\<And>c. silent (fn c)"
  shows "silent (RunInTransaction c fn)"
proof (cases "ctx_tx c")
  case False
  have "silent (\<lambda>E w. case fn (c\<lparr>ctx_tx := True\<rparr>) E w of
          (Inl err, w1) \<Rightarrow>
            (let err1 = (if isTransactionAbort err then Join err (Sentinel ErrTransactionAborted) else err)
             in case rollback_tx E w1 of
                  (Some rollbackErr, w2) \<Rightarrow> (Inl (Join err1 (Wrap ''rollback transaction'' rollbackErr)), w2)
                | (None, w2) \<Rightarrow> (Inl err1, w2))
        | (Inr x, w1) \<Rightarrow>
            (case commit_tx E w1 of
              (Some err, w2) \<Rightarrow> (Inl (Wrap ''commit transaction'' err), w2)
            | (None, w2) \<Rightarrow> (Inr x, w2)))"
    using silentD [OF assms]
    by (intro silentI) (auto simp: rollback_tx_def commit_tx_def Let_def split: prod.split sum.split option.split)
  with False show ?thesis
    unfolding RunInTransaction_def by (simp add: silent_and_then silent_begin_tx)
qed (simp add: RunInTransaction_def assms)

section \<open>The repositories\<close>

lemma silent_TenantRepo_findTenant [quiet]: "silent (TenantRepo_findTenant c p)"
  unfolding TenantRepo_findTenant_def Let_def by (intro quiet)

lemma silent_TenantRepo_FindTenantByID [quiet]: "silent (TenantRepo_FindTenantByID c tenantID)"
  unfolding TenantRepo_FindTenantByID_def Let_def by (intro quiet)

lemma silent_TenantRepo_FindTenantByPublicID [quiet]: "silent (TenantRepo_FindTenantByPublicID c publicID)"
  unfolding TenantRepo_FindTenantByPublicID_def Let_def by (intro quiet)

lemma silent_TenantRepo_FindTenantByPublicIDForUpdate [quiet]: "silent (TenantRepo_FindTenantByPublicIDForUpdate c publicID)"
  unfolding TenantRepo_FindTenantByPublicIDForUpdate_def Let_def by (intro quiet)

lemma silent_TenantRepo_FindTenantPublicIDBySubdomain [quiet]: "silent (TenantRepo_FindTenantPublicIDBySubdomain c sub)"
  unfolding TenantRepo_FindTenantPublicIDBySubdomain_def Let_def by (intro quiet)

lemma silent_TenantRepo_CreatePendingTenant [quiet]: "silent (TenantRepo_CreatePendingTenant c t claim)"
  unfolding TenantRepo_CreatePendingTenant_def Let_def by (intro quiet)

lemma silent_TenantRepo_DeleteExpiredPendingTenants [quiet]: "silent (TenantRepo_DeleteExpiredPendingTenants c now)"
  unfolding TenantRepo_DeleteExpiredPendingTenants_def Let_def by (intro quiet)

lemma silent_TenantRepo_MarkTenantOwned [quiet]: "silent (TenantRepo_MarkTenantOwned c t)"
  unfolding TenantRepo_MarkTenantOwned_def Let_def by (intro quiet)

lemma silent_TenantRepo_UpdateTenant [quiet]: "silent (TenantRepo_UpdateTenant c t)"
  unfolding TenantRepo_UpdateTenant_def Let_def by (intro quiet)

lemma silent_TenantRepo_findEvent [quiet]: "silent (TenantRepo_findEvent c p)"
  unfolding TenantRepo_findEvent_def Let_def by (intro quiet)

lemma silent_TenantRepo_FindEventByPublicID [quiet]: "silent (TenantRepo_FindEventByPublicID c publicID)"
  unfolding TenantRepo_FindEventByPublicID_def Let_def by (intro quiet)

lemma silent_TenantRepo_findEventByID [quiet]: "silent (TenantRepo_findEventByID c eventID)"
  unfolding TenantRepo_findEventByID_def Let_def by (intro quiet)

lemma silent_TenantRepo_CreateEvent [quiet]: "silent (TenantRepo_CreateEvent c e)"
  unfolding TenantRepo_CreateEvent_def Let_def by (intro quiet)

lemma silent_TenantRepo_ListEventsByTenantID [quiet]: "silent (TenantRepo_ListEventsByTenantID c tenantID flt)"
  unfolding TenantRepo_ListEventsByTenantID_def Let_def by (intro quiet)

lemma silent_TenantRepo_UpdateEvent [quiet]: "silent (TenantRepo_UpdateEvent c e)"
  unfolding TenantRepo_UpdateEvent_def Let_def by (intro quiet)

lemma silent_expectOneRow [quiet]: "silent (expectOneRow c affected notFound)"
  unfolding expectOneRow_def Let_def by (intro quiet)

lemma silent_MembershipRepo_listMemberships [quiet]: "silent (MembershipRepo_listMemberships c p)"
  unfolding MembershipRepo_listMemberships_def Let_def by (intro quiet)

lemma silent_MembershipRepo_ListMembershipsByTenant [quiet]: "silent (MembershipRepo_ListMembershipsByTenant c tenantID)"
  unfolding MembershipRepo_ListMembershipsByTenant_def Let_def by (intro quiet)

lemma silent_MembershipRepo_FindMembership [quiet]: "silent (MembershipRepo_FindMembership c tenantID userID)"
  unfolding MembershipRepo_FindMembership_def Let_def by (intro quiet)

lemma silent_MembershipRepo_AddTenantMember [quiet]: "silent (MembershipRepo_AddTenantMember c tenantID userID r displayName)"
  unfolding MembershipRepo_AddTenantMember_def Let_def by (intro quiet)

lemma silent_MembershipRepo_AddOwner [quiet]: "silent (MembershipRepo_AddOwner c tenantID userID displayName)"
  unfolding MembershipRepo_AddOwner_def Let_def by (intro quiet)

lemma silent_MembershipRepo_ChangeTenantRole [quiet]: "silent (MembershipRepo_ChangeTenantRole c tenantID userID r)"
  unfolding MembershipRepo_ChangeTenantRole_def Let_def by (intro quiet)

lemma silent_MembershipRepo_GrantEventRole [quiet]: "silent (MembershipRepo_GrantEventRole c eventID userID r)"
  unfolding MembershipRepo_GrantEventRole_def Let_def by (intro quiet)

lemma silent_MembershipRepo_RevokeTenantMembership [quiet]: "silent (MembershipRepo_RevokeTenantMembership c tenantID userID)"
  unfolding MembershipRepo_RevokeTenantMembership_def Let_def by (intro quiet)

lemma silent_MembershipRepo_RevokeEventRole [quiet]: "silent (MembershipRepo_RevokeEventRole c eventID userID)"
  unfolding MembershipRepo_RevokeEventRole_def Let_def by (intro quiet)

lemma silent_MembershipRepo_LockTenantMemberships [quiet]: "silent (MembershipRepo_LockTenantMemberships c tenantID)"
  unfolding MembershipRepo_LockTenantMemberships_def Let_def by (intro quiet)

lemma silent_MembershipRepo_FindTenantRoleForShare [quiet]: "silent (MembershipRepo_FindTenantRoleForShare c tenantID userID)"
  unfolding MembershipRepo_FindTenantRoleForShare_def Let_def by (intro quiet)

lemma silent_MembershipRepo_CountTenantOwners [quiet]: "silent (MembershipRepo_CountTenantOwners c tenantID)"
  unfolding MembershipRepo_CountTenantOwners_def Let_def by (intro quiet)

lemma silent_InvitationRepo_CreateInvitation [quiet]: "silent (InvitationRepo_CreateInvitation c i tokenHash)"
  unfolding InvitationRepo_CreateInvitation_def Let_def by (intro quiet)

lemma silent_InvitationRepo_ListOpenInvitations [quiet]: "silent (InvitationRepo_ListOpenInvitations c tenantID now)"
  unfolding InvitationRepo_ListOpenInvitations_def Let_def by (intro quiet)

lemma silent_InvitationRepo_findInvitation [quiet]: "silent (InvitationRepo_findInvitation c p)"
  unfolding InvitationRepo_findInvitation_def Let_def by (intro quiet)

lemma silent_InvitationRepo_FindInvitationForUpdate [quiet]: "silent (InvitationRepo_FindInvitationForUpdate c tenantID publicID)"
  unfolding InvitationRepo_FindInvitationForUpdate_def Let_def by (intro quiet)

lemma silent_InvitationRepo_FindInvitationByTokenForUpdate [quiet]: "silent (InvitationRepo_FindInvitationByTokenForUpdate c tenantID tokenHash)"
  unfolding InvitationRepo_FindInvitationByTokenForUpdate_def Let_def by (intro quiet)

lemma silent_InvitationRepo_MarkInvitationAccepted [quiet]: "silent (InvitationRepo_MarkInvitationAccepted c invitationID userID at)"
  unfolding InvitationRepo_MarkInvitationAccepted_def Let_def by (intro quiet)

lemma silent_InvitationRepo_MarkInvitationRevoked [quiet]: "silent (InvitationRepo_MarkInvitationRevoked c invitationID at)"
  unfolding InvitationRepo_MarkInvitationRevoked_def Let_def by (intro quiet)

lemma silent_Authorizer_CurrentRole [quiet]: "silent (Authorizer_CurrentRole c tenantID)"
  unfolding Authorizer_CurrentRole_def Let_def by (intro quiet)

lemma silent_Authorizer_Allowed [quiet]: "silent (Authorizer_Allowed c tenantID scope)"
  unfolding Authorizer_Allowed_def Let_def by (intro quiet)

lemma silent_Authorizer_Require [quiet]: "silent (Authorizer_Require c tenantID scope)"
  unfolding Authorizer_Require_def Let_def by (intro quiet)

lemma silent_WithinTransaction [quiet]:
  "(\<And>c. silent (fn c)) \<Longrightarrow> silent (TenantRepo_WithinTransaction c fn)"
  "(\<And>c. silent (fn c)) \<Longrightarrow> silent (MembershipRepo_WithinTransaction c fn)"
  by (simp_all add: TenantRepo_WithinTransaction_def MembershipRepo_WithinTransaction_def silent_RunInTransaction)

section \<open>The use cases\<close>

lemma silent_RelationService_resolveTenant [quiet]: "silent (RelationService_resolveTenant c tenantPublicID)"
  unfolding RelationService_resolveTenant_def Let_def by (intro quiet)

lemma silent_RelationService_writableTenant [quiet]: "silent (RelationService_writableTenant c tenantPublicID)"
  unfolding RelationService_writableTenant_def Let_def by (intro quiet)

lemma silent_RelationService_writableEvent [quiet]: "silent (RelationService_writableEvent c eventPublicID)"
  unfolding RelationService_writableEvent_def Let_def by (intro quiet)

lemma silent_RelationService_keepAnotherOwner [quiet]: "silent (RelationService_keepAnotherOwner c tenantID userID)"
  unfolding RelationService_keepAnotherOwner_def Let_def by (intro quiet)

lemma silent_RelationService_AddTenantMember [quiet]: "silent (RelationService_AddTenantMember c tenantPublicID userID r displayName)"
  unfolding RelationService_AddTenantMember_def Let_def by (intro quiet)

lemma silent_withCurrentPermission [quiet]:
  "(\<And>c. silent (fn c)) \<Longrightarrow> silent (RelationService_withCurrentPermission c t fn)"
  unfolding RelationService_withCurrentPermission_def by (intro quiet)

lemma silent_writeMembership [quiet]:
  "(\<And>c. silent (fn c)) \<Longrightarrow> silent (RelationService_writeMembership c t fn)"
  unfolding RelationService_writeMembership_def by (intro quiet)

lemma silent_RelationService_ChangeTenantRole [quiet]: "silent (RelationService_ChangeTenantRole c tenantPublicID userID r)"
  unfolding RelationService_ChangeTenantRole_def Let_def by (intro quiet)

lemma silent_RelationService_GrantEventRole [quiet]: "silent (RelationService_GrantEventRole c eventPublicID userID r)"
  unfolding RelationService_GrantEventRole_def Let_def by (intro quiet)

lemma silent_RelationService_RevokeRole [quiet]: "silent (RelationService_RevokeRole c input)"
  unfolding RelationService_RevokeRole_def Let_def by (intro quiet)

lemma silent_RelationService_ListMemberships [quiet]: "silent (RelationService_ListMemberships c tenantPublicID userID)"
  unfolding RelationService_ListMemberships_def Let_def by (intro quiet)

lemma silent_RelationService_CreateTenantInvitation [quiet]: "silent (RelationService_CreateTenantInvitation s c tenantPublicID r displayName)"
  unfolding RelationService_CreateTenantInvitation_def Let_def by (intro quiet)

lemma silent_RelationService_ListTenantInvitations [quiet]: "silent (RelationService_ListTenantInvitations c tenantPublicID)"
  unfolding RelationService_ListTenantInvitations_def Let_def by (intro quiet)

lemma silent_revoke_invitation_tx [quiet]: "silent (revoke_invitation_tx tenantID invitationID c)"
  unfolding revoke_invitation_tx_def Let_def by (intro quiet)

lemma silent_RelationService_RevokeTenantInvitation [quiet]: "silent (RelationService_RevokeTenantInvitation c tenantPublicID invitationID)"
  unfolding RelationService_RevokeTenantInvitation_def Let_def by (intro quiet)

lemma silent_accept_invitation_tx [quiet]: "silent (accept_invitation_tx t token subject c)"
  unfolding accept_invitation_tx_def Let_def by (intro quiet)

lemma silent_RelationService_AcceptTenantInvitation [quiet]: "silent (RelationService_AcceptTenantInvitation c tenantPublicID token)"
  unfolding RelationService_AcceptTenantInvitation_def Let_def by (intro quiet)

text \<open>The tenant's use cases are silent whenever their ports to the relation model are.\<close>

locale silent_ports =
  fixes s :: tenant_service
  assumes AddOwner: "silent (ts_AddOwner s c t u n)"
    and GrantEventRole: "silent (ts_GrantEventRole s c e u r)"
    and Allowed: "silent (ts_Allowed s c t x)"
    and CurrentRole: "silent (ts_CurrentRole s c t)"
begin

lemma silent_TenantService_StartTenantRegistration [quiet]: "silent (TenantService_StartTenantRegistration s c input)"
  unfolding TenantService_StartTenantRegistration_def Let_def by (intro quiet AddOwner GrantEventRole Allowed CurrentRole)

lemma silent_claim_tx [quiet]: "silent (claim_tx s input sub displayName subject c)"
  unfolding claim_tx_def Let_def by (intro quiet AddOwner GrantEventRole Allowed CurrentRole)

lemma silent_TenantService_ClaimTenantOwnership [quiet]: "silent (TenantService_ClaimTenantOwnership s c input)"
  unfolding TenantService_ClaimTenantOwnership_def Let_def by (intro quiet AddOwner GrantEventRole Allowed CurrentRole)

lemma silent_TenantService_ResolveTenantSubdomain [quiet]: "silent (TenantService_ResolveTenantSubdomain s c sub)"
  unfolding TenantService_ResolveTenantSubdomain_def Let_def by (intro quiet AddOwner GrantEventRole Allowed CurrentRole)

lemma silent_administer_tx [quiet]: "silent (administer_tx s tenantPublicID mutate c)"
  unfolding administer_tx_def Let_def by (intro quiet AddOwner GrantEventRole Allowed CurrentRole)

lemma silent_TenantService_administerTenant [quiet]: "silent (TenantService_administerTenant s c tenantPublicID mutate)"
  unfolding TenantService_administerTenant_def Let_def by (intro quiet AddOwner GrantEventRole Allowed CurrentRole)

lemma silent_TenantService_ChangeTenantContract [quiet]: "silent (TenantService_ChangeTenantContract s c tenantPublicID contractPlan)"
  unfolding TenantService_ChangeTenantContract_def Let_def by (intro quiet AddOwner GrantEventRole Allowed CurrentRole)

lemma silent_TenantService_ArchiveTenant [quiet]: "silent (TenantService_ArchiveTenant s c tenantPublicID)"
  unfolding TenantService_ArchiveTenant_def Let_def by (intro quiet AddOwner GrantEventRole Allowed CurrentRole)

lemma silent_TenantService_resolveTenant [quiet]: "silent (TenantService_resolveTenant s c tenantPublicID)"
  unfolding TenantService_resolveTenant_def Let_def by (intro quiet AddOwner GrantEventRole Allowed CurrentRole)

lemma silent_TenantService_resolveEvent [quiet]: "silent (TenantService_resolveEvent s c eventPublicID)"
  unfolding TenantService_resolveEvent_def Let_def by (intro quiet AddOwner GrantEventRole Allowed CurrentRole)

lemma silent_create_event_tx [quiet]: "silent (create_event_tx s tenantID e subject c)"
  unfolding create_event_tx_def Let_def by (intro quiet AddOwner GrantEventRole Allowed CurrentRole)

lemma silent_TenantService_CreateEvent [quiet]: "silent (TenantService_CreateEvent s c tenantPublicID name)"
  unfolding TenantService_CreateEvent_def Let_def by (intro quiet AddOwner GrantEventRole Allowed CurrentRole)

lemma silent_TenantService_TransitionEventStatus [quiet]: "silent (TenantService_TransitionEventStatus s c eventPublicID to)"
  unfolding TenantService_TransitionEventStatus_def Let_def by (intro quiet AddOwner GrantEventRole Allowed CurrentRole)

lemma silent_TenantService_GetEvent [quiet]: "silent (TenantService_GetEvent s c eventPublicID)"
  unfolding TenantService_GetEvent_def Let_def by (intro quiet AddOwner GrantEventRole Allowed CurrentRole)

lemma silent_TenantService_ListEvents [quiet]: "silent (TenantService_ListEvents s c tenantPublicID includeArchived)"
  unfolding TenantService_ListEvents_def Let_def by (intro quiet AddOwner GrantEventRole Allowed CurrentRole)

end

interpretation silent_wiring: silent_ports "NewTenantService ttl" for ttl
  by unfold_locales (simp_all add: NewTenantService_def silent_MembershipRepo_AddOwner
    silent_MembershipRepo_GrantEventRole silent_Authorizer_Allowed silent_Authorizer_CurrentRole)

section \<open>The transports\<close>

definition internal_reply :: "reply \<Rightarrow> bool" where
  "internal_reply rep = (case rep of
      ErrorReply ce \<Rightarrow> ce_Code ce = CodeInternal
    | HttpReply (Some r) \<Rightarrow> hr_Status r = 500
    | _ \<Rightarrow> False)"

definition fixed_messages :: "client_error list \<Rightarrow> string set" where
  "fixed_messages table = cle_Message ` set table \<union> {''canceled'', ''deadline exceeded'', ''internal error''}"

context client_errors begin

lemma reply_logs:
  assumes "silent call" and "\<And>y. \<not> internal_reply (f y)" and "reply f (answer table call convert E w) = (rep, w')"
  shows "w_log w' \<noteq> w_log w \<longleftrightarrow> internal_reply rep"
proof (cases "call E w")
  case (Pair r w1)
  have log: "w_log w1 = w_log w" by (rule silentD [OF assms(1) Pair])
  show ?thesis
  proof (cases r)
    case (Inl err)
    with Pair assms(3) For_logs_iff_internal [of err w1] log show ?thesis
      by (cases "ClientErrors_For table err w1") (simp add: answer_def reply_def internal_reply_def, auto)
  qed (use Pair assms(2,3) log in \<open>auto simp: answer_def reply_def\<close>)
qed

lemma reply_message:
  assumes "\<And>y ce. f y \<noteq> ErrorReply ce" and "reply f (answer table call convert E w) = (ErrorReply ce, w')"
  shows "ce_Message ce \<in> fixed_messages table"
proof (cases "call E w")
  case (Pair r w1)
  show ?thesis
  proof (cases r)
    case (Inl err)
    with Pair assms(2) For_message_known [of err w1] show ?thesis
      by (cases "ClientErrors_For table err w1") (simp add: answer_def reply_def fixed_messages_def)
  qed (use Pair assms in \<open>auto simp: answer_def reply_def\<close>)
qed

end

lemma silent_http:
  assumes "http_listMemberships c t u E w = (r, w')"
  shows "w_log w' \<noteq> w_log w \<longleftrightarrow> internal_reply (HttpReply r)"
proof (cases "RelationService_ListMemberships (WithTenantPublicID c (TrimSpace t)) [] (TrimSpace u) E w")
  case (Pair x w1)
  have "w_log w1 = w_log w" by (rule silentD [OF silent_RelationService_ListMemberships Pair])
  with assms Pair show ?thesis
    by (auto simp: http_listMemberships_def writeJSON_def writeError_def internal_reply_def slog_ErrorContext_def Let_def
        split: sum.splits if_splits)
qed

lemmas tenant_transport_defs = TenantConnect_StartTenantRegistration_def TenantConnect_ClaimTenantOwnership_def
  TenantConnect_ResolveTenantSubdomain_def TenantConnect_ChangeTenantContract_def TenantConnect_ArchiveTenant_def
  TenantConnect_CreateEvent_def TenantConnect_TransitionEventStatus_def TenantConnect_GetEvent_def TenantConnect_ListEvents_def

lemmas relation_transport_defs = RelationConnect_CreateTenantInvitation_def RelationConnect_ListTenantInvitations_def
  RelationConnect_RevokeTenantInvitation_def RelationConnect_AcceptTenantInvitation_def RelationConnect_AddTenantMember_def
  RelationConnect_ChangeTenantRole_def RelationConnect_GrantEventRole_def RelationConnect_RevokeRole_def
  RelationConnect_ListMemberships_def

lemma internal_reply_simps [simp]:
  "\<not> internal_reply (RegistrationReply a)" "\<not> internal_reply (TenantReply b)" "\<not> internal_reply (SubdomainReply d)"
  "\<not> internal_reply (EventReply e)" "\<not> internal_reply (EventsReply f)" "\<not> internal_reply (InvitationReply g)"
  "\<not> internal_reply (CreatedInvitationReply h)" "\<not> internal_reply (InvitationsReply i)"
  "\<not> internal_reply (MembershipReply j)" "\<not> internal_reply (MembershipsReply k)" "\<not> internal_reply EmptyReply"
  by (simp_all add: internal_reply_def)

lemma serve_logs:
  assumes run: "serve c req E w = (rep, w')"
  shows "w_log w' \<noteq> w_log w \<longleftrightarrow> internal_reply rep"
proof -
  note quiet_tenant = silent_wiring.silent_TenantService_StartTenantRegistration
    silent_wiring.silent_TenantService_ClaimTenantOwnership silent_wiring.silent_TenantService_ResolveTenantSubdomain
    silent_wiring.silent_TenantService_ChangeTenantContract silent_wiring.silent_TenantService_ArchiveTenant
    silent_wiring.silent_TenantService_CreateEvent silent_wiring.silent_TenantService_TransitionEventStatus
    silent_wiring.silent_TenantService_GetEvent silent_wiring.silent_TenantService_ListEvents
  note quiet_reply = tenant_errors.reply_logs [rotated 2] relation_errors.reply_logs [rotated 2]
  show ?thesis
  proof (cases req)
    case (HttpMemberships tid u)
    with run silent_http [of c tid u E w] show ?thesis by (auto split: prod.splits)
  qed (insert run, (simp only: serve.simps tenant_transport_defs relation_transport_defs wired_tenantService_def,
      erule quiet_reply, (rule quiet_tenant quiet)+, simp)+)
qed

lemma serve_messages:
  assumes run: "serve c req E w = (ErrorReply ce, w')"
  shows "ce_Message ce \<in> fixed_messages tenant_clientErrors \<union> fixed_messages relation_clientErrors"
proof -
  note known = tenant_errors.reply_message [rotated 1, THEN UnI1] relation_errors.reply_message [rotated 1, THEN UnI2]
  show ?thesis
  proof (cases req)
    case (HttpMemberships tid u)
    with run show ?thesis by (auto split: prod.splits)
  qed (insert run, (simp only: serve.simps tenant_transport_defs relation_transport_defs, erule known, simp)+)
qed

end
