(* ===== verification/ListingProperties.thy ===== *)
theory ListingProperties
  imports InvitationProperties Silent
begin

text \<open>
  The properties of what the relation model answers to readers: the listings of invitations and of
  memberships through the use cases, and the HTTP API.
\<close>

lemma sorted_middle:
  fixes f :: "'a \<Rightarrow> 'b::linorder" and g :: "'a \<Rightarrow> 'c::linorder" and h :: "'a \<Rightarrow> 'd::linorder"
  assumes "sorted (map (\<lambda>m. (f m, g m, h m)) xs)" and "\<And>m. m \<in> set xs \<Longrightarrow> f m = v"
  shows "sorted (map g xs)"
  using assms by (induction xs) (auto simp: less_eq_prod_def)

text \<open>
  Listing invitations answers, for the caller's own tenant, exactly its open invitations at one
  reading of the clock, oldest first, and changes nothing.
\<close>

theorem ListTenantInvitations_effect:
  assumes i: "integrity (w_db w)" and c: "\<not> ctx_tx c"
    and run: "RelationService_ListTenantInvitations c pid E w = (Inr xs, w')"
  shows "\<exists>row now is. row \<in> set (tenants (w_db w)) \<and> tr_public_id row = pid \<and> TenantPublicIDFromContext c = Some pid
    \<and> w_db w' = w_db w \<and> xs = map (invitation_of (w_db w)) is \<and> distinct is
    \<and> sorted (map (\<lambda>j. (ir_created_at j, ir_id j)) is)
    \<and> set is = {j \<in> set (invitations (w_db w)). ir_tenant_id j = tr_id row
         \<and> ir_accepted_at j = None \<and> ir_revoked_at j = None \<and> now < ir_expires_at j}"
proof -
  from runs_db [OF runs_ListTenantInvitations [OF i] c refl run]
  obtain row k where row: "row \<in> set (tenants (w_db w))" "tr_public_id row = pid" "TenantPublicIDFromContext c = Some pid"
    "w_db w' = w_db w" and xs: "xs = open_invitations (w_db w) (tr_id row) (e_clock E k)" by auto
  let ?is = "sort_key (\<lambda>j. (ir_created_at j, ir_id j)) (filter (\<lambda>j. ir_tenant_id j = tr_id row
    \<and> invitation_row_open (pg_time (e_clock E k)) j) (invitations (w_db w)))"
  have "distinct (invitations (w_db w))"
    using integrity_schema(1) [OF i] by (simp add: schema_ok_def invitations_ok_iff distinct_map)
  then have "distinct ?is" by simp
  moreover have "set ?is = {j \<in> set (invitations (w_db w)). ir_tenant_id j = tr_id row
       \<and> ir_accepted_at j = None \<and> ir_revoked_at j = None \<and> pg_time (e_clock E k) < ir_expires_at j}"
    by (auto simp: invitation_row_open_def)
  moreover have "sorted (map (\<lambda>j. (ir_created_at j, ir_id j)) ?is)" by (rule sorted_sort_key)
  ultimately show ?thesis using row xs unfolding open_invitations_def by blast
qed

theorem ListTenantInvitations_effect_witness:
  "\<exists>xs w'. RelationService_ListTenantInvitations (sample_ctx ''alice'') ''0123456789abcdef'' sample_env sample_world
      = (Inr xs, w') \<and> w_db w' = sample_db"
proof -
  have "is_Inr (fst (RelationService_ListTenantInvitations (sample_ctx ''alice'') ''0123456789abcdef'' sample_env
      sample_world))"
    by (simp add: RelationService_ListTenantInvitations_def InvitationRepo_ListOpenInvitations_def
        sql_select_open_invitations_def invitation_run_simps pg_time_def eval_simps)
  then obtain xs w' where run: "RelationService_ListTenantInvitations (sample_ctx ''alice'') ''0123456789abcdef''
      sample_env sample_world = (Inr xs, w')" using succeeds by blast
  from ListTenantInvitations_effect [OF sample_sound run] run show ?thesis by auto
qed

text \<open>
  C29: Listing memberships needs exactly one filter and answers inside the caller's own tenant only:
  all its members, or the one that is named, ordered by joining, each with exactly the event roles
  that are stored for that member; nothing changes.
\<close>

theorem ListMemberships_effect:
  assumes i: "integrity (w_db w)" and c: "\<not> ctx_tx c"
    and run: "RelationService_ListMemberships c pid u E w = (Inr xs, w')"
  shows "\<exists>row ms. row \<in> set (tenants (w_db w)) \<and> TenantPublicIDFromContext c = Some (tr_public_id row)
    \<and> (pid = [] \<longleftrightarrow> u \<noteq> []) \<and> (pid = [] \<or> pid = tr_public_id row) \<and> w_db w' = w_db w
    \<and> xs = map (membership_of (w_db w)) ms \<and> distinct ms \<and> sorted (map mr_joined_at ms)
    \<and> set ms = {m \<in> set (memberships (w_db w)). mr_tenant_id m = tr_id row \<and> (u = [] \<or> mr_user_id m = u)}
    \<and> list_all (\<lambda>m. set (map (\<lambda>r. (er_eventID r, er_role r)) (m_eventRoles (membership_of (w_db w) m)))
         = {(rr_event_id r, role_of (rr_role r)) | r. r \<in> set (event_roles (w_db w))
              \<and> rr_tenant_id r = tr_id row \<and> rr_user_id r = mr_user_id m}) ms"
proof -
  from runs_db [OF runs_ListMemberships [OF i] c refl run]
  obtain row where row: "row \<in> set (tenants (w_db w))" "TenantPublicIDFromContext c = Some (tr_public_id row)"
      "pid \<noteq> [] \<longrightarrow> tr_public_id row = pid" and one: "(pid = []) \<noteq> (u = [])" and same: "w_db w' = w_db w"
    and xs: "xs = members_of (w_db w) (\<lambda>m. mr_tenant_id m = tr_id row \<and> (u \<noteq> [] \<longrightarrow> mr_user_id m = u))" by auto
  let ?ms = "sort_key (\<lambda>m. (mr_tenant_id m, mr_joined_at m, mr_user_id m))
    (filter (\<lambda>m. mr_tenant_id m = tr_id row \<and> (u \<noteq> [] \<longrightarrow> mr_user_id m = u)) (memberships (w_db w)))"
  have rows: "set ?ms = {m \<in> set (memberships (w_db w)). mr_tenant_id m = tr_id row \<and> (u = [] \<or> mr_user_id m = u)}" by auto
  have "distinct (memberships (w_db w))"
    using schema_keys(5) [OF integrity_schema(1) [OF i]] by (simp add: distinct_map)
  then have d: "distinct ?ms" by simp
  have "sorted (map (\<lambda>m. (mr_tenant_id m, mr_joined_at m, mr_user_id m)) ?ms)" by (rule sorted_sort_key)
  then have s: "sorted (map mr_joined_at ?ms)"
    by (rule sorted_middle) auto
  have roles: "list_all (\<lambda>m. set (map (\<lambda>r. (er_eventID r, er_role r)) (m_eventRoles (membership_of (w_db w) m)))
       = {(rr_event_id r, role_of (rr_role r)) | r. r \<in> set (event_roles (w_db w))
            \<and> rr_tenant_id r = tr_id row \<and> rr_user_id r = mr_user_id m}) ?ms"
    unfolding list_all_iff by (auto simp: membership_of_def NewMembership_def roles_of_member_def NewEventRole_def)
  show ?thesis
    by (rule exI [of _ row], rule exI [of _ ?ms])
      (use row one same xs rows d s roles in \<open>auto simp: members_of_def\<close>)
qed

lemma distinct_singleton:
  assumes "distinct xs" and "set xs = {x}"
  shows "xs = [x]"
proof -
  have "length xs = 1" using assms distinct_card [OF assms(1)] by simp
  with assms(2) show ?thesis by (cases xs) auto
qed

theorem ListMemberships_effect_witness:
  "\<exists>x w'. RelationService_ListMemberships (sample_ctx ''alice'') [] ''bob'' sample_env sample_world = (Inr [x], w')
    \<and> m_userID x = ''bob''"
proof -
  have "is_Inr (fst (RelationService_ListMemberships (sample_ctx ''alice'') [] ''bob'' sample_env sample_world))"
    by (simp add: RelationService_ListMemberships_def eval_simps)
  then obtain xs w' where run: "RelationService_ListMemberships (sample_ctx ''alice'') [] ''bob'' sample_env sample_world
      = (Inr xs, w')" using succeeds by blast
  from ListMemberships_effect [OF sample_sound run] obtain row ms where o: "row \<in> set (tenants (w_db sample_world))"
      "TenantPublicIDFromContext (sample_ctx ''alice'') = Some (tr_public_id row)" "xs = map (membership_of (w_db sample_world)) ms"
      "distinct ms" "set ms = {m \<in> set (memberships (w_db sample_world)). mr_tenant_id m = tr_id row
         \<and> (''bob'' = [] \<or> mr_user_id m = ''bob'')}"
    by (elim exE conjE) (rule that)
  then have xs: "xs = map (membership_of sample_db) ms" and d: "distinct ms"
    and row: "row \<in> set (tenants sample_db)" "tr_public_id row = ''0123456789abcdef''"
    and ms: "set ms = {m \<in> set (memberships sample_db). mr_tenant_id m = tr_id row \<and> mr_user_id m = ''bob''}"
    by simp_all
  from row have t: "tr_id row = ''t1''" by (auto simp: sample_db_def sample_rows)
  have "filter (\<lambda>m. mr_tenant_id m = ''t1'' \<and> mr_user_id m = ''bob'') (memberships sample_db)
      = [sample_member ''t1'' ''bob'' ''staff'']" by (simp add: sample_db_def sample_member_def)
  then have "set ms = set [sample_member ''t1'' ''bob'' ''staff'']" unfolding ms t set_filter [symmetric] by simp
  then have "set ms = {sample_member ''t1'' ''bob'' ''staff''}" by simp
  with d have "ms = [sample_member ''t1'' ''bob'' ''staff'']" by (rule distinct_singleton)
  with run xs show ?thesis by (simp add: membership_of_def NewMembership_def sample_member_def)
qed

section \<open>The HTTP API\<close>

text \<open>
  C30: A caller without a token is answered by a healthy service what the specification
  \<open>memberships_answer\<close> says: 400 for a blank tenant or user, 404 for a tenant that does not exist, and
  otherwise 200 with the named user's membership of the named tenant, if any; nothing changes.
\<close>

theorem http_listMemberships_spec:
  assumes i: "integrity (w_db w)" and c: "ctx_claims c = None" "\<not> ctx_tx c" and E: "healthy E"
    and run: "http_listMemberships c tenant_id user_id E w = (res, w')"
  shows "res = Some (memberships_answer (w_db w) tenant_id user_id) \<and> w_db w' = w_db w"
  by (rule http_listMemberships_answers [OF i c E run])

theorem http_listMemberships_spec_witness:
  "fst (http_listMemberships anonymous_ctx ''00000000000000bb'' ''bob'' sample_env sample_world)
    = Some (memberships_answer sample_db ''00000000000000bb'' ''bob'')"
proof -
  obtain res w' where run: "http_listMemberships anonymous_ctx ''00000000000000bb'' ''bob'' sample_env sample_world = (res, w')"
    by (cases "http_listMemberships anonymous_ctx ''00000000000000bb'' ''bob'' sample_env sample_world")
  from http_listMemberships_spec [OF sample_sound(1) _ _ healthy_sample run] run show ?thesis by simp
qed

text \<open>
  Whatever fails, the HTTP API changes nothing and answers one of five statuses; it logs exactly
  what it answers with 500, so that a request it leaves unanswered is not logged.
\<close>

theorem http_listMemberships_failures:
  assumes i: "integrity (w_db w)" and c: "\<not> ctx_tx c"
    and run: "http_listMemberships c tenant_id user_id E w = (res, w')"
  shows "w_db w' = w_db w \<and> (case res of
      None \<Rightarrow> w_log w' = w_log w
    | Some r \<Rightarrow> hr_Status r \<in> {200, 400, 404, 500, 504} \<and> (w_log w' \<noteq> w_log w \<longleftrightarrow> hr_Status r = 500))"
proof -
  note log = silent_http [OF run]
  show ?thesis using http_listMemberships_reads [OF i c run] log
    by (cases res) (auto simp: internal_reply_def)
qed

theorem http_listMemberships_failures_witness:
  "w_db (snd (http_listMemberships anonymous_ctx ''0123456789abcdef'' ''bob'' (sample_env\<lparr>e_fault := \<lambda>_. Some (FaultDeadline, False)\<rparr>)
     sample_world)) = sample_db"
proof -
  let ?E = "sample_env\<lparr>e_fault := \<lambda>_. Some (FaultDeadline, False)\<rparr>"
  obtain res w' where run: "http_listMemberships anonymous_ctx ''0123456789abcdef'' ''bob'' ?E sample_world = (res, w')"
    by (cases "http_listMemberships anonymous_ctx ''0123456789abcdef'' ''bob'' ?E sample_world")
  from http_listMemberships_failures [OF sample_sound(1) _ run] run show ?thesis by simp
qed

end
