(* ===== verification/Procedures.thy ===== *)
theory Procedures
  imports System
begin

text \<open>
  The generated code under gen/: the procedures of the two services, the policy that each
  declares in its proto, and the registration of the services with a connect server.  An adapter
  receives the message of its own method, answers the error of receiving it as it is, and otherwise
  calls the method of the service and sends what that answers.
\<close>

section \<open>Procedure names\<close>

definition TenantServiceStartTenantRegistrationProcedure :: string where
  "TenantServiceStartTenantRegistrationProcedure = ''/tolo.tenant.v1.TenantService/StartTenantRegistration''"

definition TenantServiceClaimTenantOwnershipProcedure :: string where
  "TenantServiceClaimTenantOwnershipProcedure = ''/tolo.tenant.v1.TenantService/ClaimTenantOwnership''"

definition TenantServiceResolveTenantSubdomainProcedure :: string where
  "TenantServiceResolveTenantSubdomainProcedure = ''/tolo.tenant.v1.TenantService/ResolveTenantSubdomain''"

definition TenantServiceChangeTenantContractProcedure :: string where
  "TenantServiceChangeTenantContractProcedure = ''/tolo.tenant.v1.TenantService/ChangeTenantContract''"

definition TenantServiceArchiveTenantProcedure :: string where
  "TenantServiceArchiveTenantProcedure = ''/tolo.tenant.v1.TenantService/ArchiveTenant''"

definition TenantServiceCreateEventProcedure :: string where
  "TenantServiceCreateEventProcedure = ''/tolo.tenant.v1.TenantService/CreateEvent''"

definition TenantServiceTransitionEventStatusProcedure :: string where
  "TenantServiceTransitionEventStatusProcedure = ''/tolo.tenant.v1.TenantService/TransitionEventStatus''"

definition TenantServiceGetEventProcedure :: string where
  "TenantServiceGetEventProcedure = ''/tolo.tenant.v1.TenantService/GetEvent''"

definition TenantServiceListEventsProcedure :: string where
  "TenantServiceListEventsProcedure = ''/tolo.tenant.v1.TenantService/ListEvents''"

definition RelationAdminServiceCreateTenantInvitationProcedure :: string where
  "RelationAdminServiceCreateTenantInvitationProcedure = ''/tolo.relation.v1.RelationAdminService/CreateTenantInvitation''"

definition RelationAdminServiceListTenantInvitationsProcedure :: string where
  "RelationAdminServiceListTenantInvitationsProcedure = ''/tolo.relation.v1.RelationAdminService/ListTenantInvitations''"

definition RelationAdminServiceRevokeTenantInvitationProcedure :: string where
  "RelationAdminServiceRevokeTenantInvitationProcedure = ''/tolo.relation.v1.RelationAdminService/RevokeTenantInvitation''"

definition RelationAdminServiceAcceptTenantInvitationProcedure :: string where
  "RelationAdminServiceAcceptTenantInvitationProcedure = ''/tolo.relation.v1.RelationAdminService/AcceptTenantInvitation''"

definition RelationAdminServiceAddTenantMemberProcedure :: string where
  "RelationAdminServiceAddTenantMemberProcedure = ''/tolo.relation.v1.RelationAdminService/AddTenantMember''"

definition RelationAdminServiceChangeTenantRoleProcedure :: string where
  "RelationAdminServiceChangeTenantRoleProcedure = ''/tolo.relation.v1.RelationAdminService/ChangeTenantRole''"

definition RelationAdminServiceGrantEventRoleProcedure :: string where
  "RelationAdminServiceGrantEventRoleProcedure = ''/tolo.relation.v1.RelationAdminService/GrantEventRole''"

definition RelationAdminServiceRevokeRoleProcedure :: string where
  "RelationAdminServiceRevokeRoleProcedure = ''/tolo.relation.v1.RelationAdminService/RevokeRole''"

definition RelationAdminServiceListMembershipsProcedure :: string where
  "RelationAdminServiceListMembershipsProcedure = ''/tolo.relation.v1.RelationAdminService/ListMemberships''"

lemmas procedure_defs = TenantServiceStartTenantRegistrationProcedure_def TenantServiceClaimTenantOwnershipProcedure_def TenantServiceResolveTenantSubdomainProcedure_def
  TenantServiceChangeTenantContractProcedure_def TenantServiceArchiveTenantProcedure_def
  TenantServiceCreateEventProcedure_def TenantServiceTransitionEventStatusProcedure_def
  TenantServiceGetEventProcedure_def TenantServiceListEventsProcedure_def
  RelationAdminServiceCreateTenantInvitationProcedure_def RelationAdminServiceListTenantInvitationsProcedure_def
  RelationAdminServiceRevokeTenantInvitationProcedure_def RelationAdminServiceAcceptTenantInvitationProcedure_def
  RelationAdminServiceAddTenantMemberProcedure_def RelationAdminServiceChangeTenantRoleProcedure_def
  RelationAdminServiceGrantEventRoleProcedure_def RelationAdminServiceRevokeRoleProcedure_def
  RelationAdminServiceListMembershipsProcedure_def

section \<open>Policies\<close>

datatype authz_level = LevelPublic | LevelAuthenticated | LevelInternal

record policy =
  pol_Level :: authz_level
  pol_RequiredScopes :: "string list"
  pol_TokenUses :: "string list"

type_synonym policies = "(string \<times> policy) list"

definition TenantServicePolicies :: policies where
  "TenantServicePolicies =
    [(TenantServiceStartTenantRegistrationProcedure, \<lparr>pol_Level = LevelPublic, pol_RequiredScopes = [], pol_TokenUses = []\<rparr>),
     (TenantServiceClaimTenantOwnershipProcedure, \<lparr>pol_Level = LevelAuthenticated, pol_RequiredScopes = [''tenant.join''], pol_TokenUses = [''registration'']\<rparr>),
     (TenantServiceResolveTenantSubdomainProcedure, \<lparr>pol_Level = LevelPublic, pol_RequiredScopes = [], pol_TokenUses = []\<rparr>),
     (TenantServiceChangeTenantContractProcedure, \<lparr>pol_Level = LevelAuthenticated, pol_RequiredScopes = [''tenant.write''], pol_TokenUses = [''tenant_access'']\<rparr>),
     (TenantServiceArchiveTenantProcedure, \<lparr>pol_Level = LevelAuthenticated, pol_RequiredScopes = [''tenant.write''], pol_TokenUses = [''tenant_access'']\<rparr>),
     (TenantServiceCreateEventProcedure, \<lparr>pol_Level = LevelAuthenticated, pol_RequiredScopes = [''events.manage''], pol_TokenUses = [''tenant_access'']\<rparr>),
     (TenantServiceTransitionEventStatusProcedure, \<lparr>pol_Level = LevelAuthenticated, pol_RequiredScopes = [''events.manage''], pol_TokenUses = [''tenant_access'']\<rparr>),
     (TenantServiceGetEventProcedure, \<lparr>pol_Level = LevelInternal, pol_RequiredScopes = [], pol_TokenUses = []\<rparr>),
     (TenantServiceListEventsProcedure, \<lparr>pol_Level = LevelAuthenticated, pol_RequiredScopes = [''events.read''], pol_TokenUses = [''tenant_access'']\<rparr>)]"

definition RelationAdminServicePolicies :: policies where
  "RelationAdminServicePolicies =
    [(RelationAdminServiceCreateTenantInvitationProcedure, \<lparr>pol_Level = LevelAuthenticated, pol_RequiredScopes = [''tenant.write''], pol_TokenUses = [''tenant_access'']\<rparr>),
     (RelationAdminServiceListTenantInvitationsProcedure, \<lparr>pol_Level = LevelAuthenticated, pol_RequiredScopes = [''tenant.write''], pol_TokenUses = [''tenant_access'']\<rparr>),
     (RelationAdminServiceRevokeTenantInvitationProcedure, \<lparr>pol_Level = LevelAuthenticated, pol_RequiredScopes = [''tenant.write''], pol_TokenUses = [''tenant_access'']\<rparr>),
     (RelationAdminServiceAcceptTenantInvitationProcedure, \<lparr>pol_Level = LevelAuthenticated, pol_RequiredScopes = [''tenant.join''], pol_TokenUses = [''registration'']\<rparr>),
     (RelationAdminServiceAddTenantMemberProcedure, \<lparr>pol_Level = LevelInternal, pol_RequiredScopes = [], pol_TokenUses = []\<rparr>),
     (RelationAdminServiceChangeTenantRoleProcedure, \<lparr>pol_Level = LevelAuthenticated, pol_RequiredScopes = [''tenant.write''], pol_TokenUses = [''tenant_access'']\<rparr>),
     (RelationAdminServiceGrantEventRoleProcedure, \<lparr>pol_Level = LevelAuthenticated, pol_RequiredScopes = [''tenant.write''], pol_TokenUses = [''tenant_access'']\<rparr>),
     (RelationAdminServiceRevokeRoleProcedure, \<lparr>pol_Level = LevelAuthenticated, pol_RequiredScopes = [''tenant.write''], pol_TokenUses = [''tenant_access'']\<rparr>),
     (RelationAdminServiceListMembershipsProcedure, \<lparr>pol_Level = LevelAuthenticated, pol_RequiredScopes = [''tenant.read''], pol_TokenUses = [''tenant_access'']\<rparr>)]"

section \<open>Adapters and registration\<close>

type_synonym received = "connect_error + rpc"
type_synonym rpc_method = "ctx \<Rightarrow> received \<Rightarrow> env \<Rightarrow> world \<Rightarrow> reply \<times> world"

text \<open>A message that is not one of the method's request type is refused by the decoder.\<close>

definition undecodable :: connect_error where
  "undecodable = \<lparr>ce_Code = CodeInvalidArgument, ce_Message = ''unmarshal message'', ce_Cause = None\<rparr>"

definition unary :: "(rpc \<Rightarrow> (env \<Rightarrow> world \<Rightarrow> reply \<times> world) option) \<Rightarrow> received \<Rightarrow> env \<Rightarrow> world \<Rightarrow> reply \<times> world" where
  "unary svc received E w = (case received of
      Inl err \<Rightarrow> (ErrorReply err, w)
    | Inr req \<Rightarrow> (case svc req of None \<Rightarrow> (ErrorReply undecodable, w) | Some run \<Rightarrow> run E w))"

definition tenantServiceHandler_startTenantRegistration :: rpc_method where
  "tenantServiceHandler_startTenantRegistration c = unary (\<lambda>m. case m of
      StartTenantRegistration name plan \<Rightarrow> Some (\<lambda>E w. reply RegistrationReply (TenantConnect_StartTenantRegistration wired_tenantService c name plan E w))
    | _ \<Rightarrow> None)"

definition tenantServiceHandler_claimTenantOwnership :: rpc_method where
  "tenantServiceHandler_claimTenantOwnership c = unary (\<lambda>m. case m of
      ClaimTenantOwnership req \<Rightarrow> Some (\<lambda>E w. reply TenantReply (TenantConnect_ClaimTenantOwnership wired_tenantService c req E w))
    | _ \<Rightarrow> None)"

definition tenantServiceHandler_resolveTenantSubdomain :: rpc_method where
  "tenantServiceHandler_resolveTenantSubdomain c = unary (\<lambda>m. case m of
      ResolveTenantSubdomain sub \<Rightarrow> Some (\<lambda>E w. reply SubdomainReply (TenantConnect_ResolveTenantSubdomain wired_tenantService c sub E w))
    | _ \<Rightarrow> None)"

definition tenantServiceHandler_changeTenantContract :: rpc_method where
  "tenantServiceHandler_changeTenantContract c = unary (\<lambda>m. case m of
      ChangeTenantContract tid plan \<Rightarrow> Some (\<lambda>E w. reply TenantReply (TenantConnect_ChangeTenantContract wired_tenantService c tid plan E w))
    | _ \<Rightarrow> None)"

definition tenantServiceHandler_archiveTenant :: rpc_method where
  "tenantServiceHandler_archiveTenant c = unary (\<lambda>m. case m of
      ArchiveTenant tid \<Rightarrow> Some (\<lambda>E w. reply TenantReply (TenantConnect_ArchiveTenant wired_tenantService c tid E w))
    | _ \<Rightarrow> None)"

definition tenantServiceHandler_createEvent :: rpc_method where
  "tenantServiceHandler_createEvent c = unary (\<lambda>m. case m of
      CreateEvent tid name \<Rightarrow> Some (\<lambda>E w. reply EventReply (TenantConnect_CreateEvent wired_tenantService c tid name E w))
    | _ \<Rightarrow> None)"

definition tenantServiceHandler_transitionEventStatus :: rpc_method where
  "tenantServiceHandler_transitionEventStatus c = unary (\<lambda>m. case m of
      TransitionEventStatus eid to \<Rightarrow> Some (\<lambda>E w. reply EventReply (TenantConnect_TransitionEventStatus wired_tenantService c eid to E w))
    | _ \<Rightarrow> None)"

definition tenantServiceHandler_getEvent :: rpc_method where
  "tenantServiceHandler_getEvent c = unary (\<lambda>m. case m of
      GetEvent eid \<Rightarrow> Some (\<lambda>E w. reply EventReply (TenantConnect_GetEvent wired_tenantService c eid E w))
    | _ \<Rightarrow> None)"

definition tenantServiceHandler_listEvents :: rpc_method where
  "tenantServiceHandler_listEvents c = unary (\<lambda>m. case m of
      ListEvents tid arch \<Rightarrow> Some (\<lambda>E w. reply EventsReply (TenantConnect_ListEvents wired_tenantService c tid arch E w))
    | _ \<Rightarrow> None)"

definition relationAdminServiceHandler_createTenantInvitation :: rpc_method where
  "relationAdminServiceHandler_createTenantInvitation c = unary (\<lambda>m. case m of
      CreateTenantInvitation tid r name \<Rightarrow> Some (\<lambda>E w. reply CreatedInvitationReply (RelationConnect_CreateTenantInvitation wired_relationService c tid r name E w))
    | _ \<Rightarrow> None)"

definition relationAdminServiceHandler_listTenantInvitations :: rpc_method where
  "relationAdminServiceHandler_listTenantInvitations c = unary (\<lambda>m. case m of
      ListTenantInvitations tid \<Rightarrow> Some (\<lambda>E w. reply InvitationsReply (RelationConnect_ListTenantInvitations c tid E w))
    | _ \<Rightarrow> None)"

definition relationAdminServiceHandler_revokeTenantInvitation :: rpc_method where
  "relationAdminServiceHandler_revokeTenantInvitation c = unary (\<lambda>m. case m of
      RevokeTenantInvitation tid iid \<Rightarrow> Some (\<lambda>E w. reply InvitationReply (RelationConnect_RevokeTenantInvitation c tid iid E w))
    | _ \<Rightarrow> None)"

definition relationAdminServiceHandler_acceptTenantInvitation :: rpc_method where
  "relationAdminServiceHandler_acceptTenantInvitation c = unary (\<lambda>m. case m of
      AcceptTenantInvitation tid token \<Rightarrow> Some (\<lambda>E w. reply MembershipReply (RelationConnect_AcceptTenantInvitation c tid token E w))
    | _ \<Rightarrow> None)"

definition relationAdminServiceHandler_addTenantMember :: rpc_method where
  "relationAdminServiceHandler_addTenantMember c = unary (\<lambda>m. case m of
      AddTenantMember tid u r name \<Rightarrow> Some (\<lambda>E w. reply MembershipReply (RelationConnect_AddTenantMember c tid u r name E w))
    | _ \<Rightarrow> None)"

definition relationAdminServiceHandler_changeTenantRole :: rpc_method where
  "relationAdminServiceHandler_changeTenantRole c = unary (\<lambda>m. case m of
      ChangeTenantRole tid u r \<Rightarrow> Some (\<lambda>E w. reply MembershipReply (RelationConnect_ChangeTenantRole c tid u r E w))
    | _ \<Rightarrow> None)"

definition relationAdminServiceHandler_grantEventRole :: rpc_method where
  "relationAdminServiceHandler_grantEventRole c = unary (\<lambda>m. case m of
      GrantEventRole eid u r \<Rightarrow> Some (\<lambda>E w. reply MembershipReply (RelationConnect_GrantEventRole c eid u r E w))
    | _ \<Rightarrow> None)"

definition relationAdminServiceHandler_revokeRole :: rpc_method where
  "relationAdminServiceHandler_revokeRole c = unary (\<lambda>m. case m of
      RevokeRole req \<Rightarrow> Some (\<lambda>E w. reply (\<lambda>_. EmptyReply) (RelationConnect_RevokeRole c req E w))
    | _ \<Rightarrow> None)"

definition relationAdminServiceHandler_listMemberships :: rpc_method where
  "relationAdminServiceHandler_listMemberships c = unary (\<lambda>m. case m of
      ListMemberships tid u \<Rightarrow> Some (\<lambda>E w. reply MembershipsReply (RelationConnect_ListMemberships c tid u E w))
    | _ \<Rightarrow> None)"

definition RegisterTenantServiceHandler :: "(string \<times> rpc_method) list" where
  "RegisterTenantServiceHandler =
    [(TenantServiceStartTenantRegistrationProcedure, tenantServiceHandler_startTenantRegistration),
     (TenantServiceClaimTenantOwnershipProcedure, tenantServiceHandler_claimTenantOwnership),
     (TenantServiceResolveTenantSubdomainProcedure, tenantServiceHandler_resolveTenantSubdomain),
     (TenantServiceChangeTenantContractProcedure, tenantServiceHandler_changeTenantContract),
     (TenantServiceArchiveTenantProcedure, tenantServiceHandler_archiveTenant),
     (TenantServiceCreateEventProcedure, tenantServiceHandler_createEvent),
     (TenantServiceTransitionEventStatusProcedure, tenantServiceHandler_transitionEventStatus),
     (TenantServiceGetEventProcedure, tenantServiceHandler_getEvent),
     (TenantServiceListEventsProcedure, tenantServiceHandler_listEvents)]"

definition RegisterRelationAdminServiceHandler :: "(string \<times> rpc_method) list" where
  "RegisterRelationAdminServiceHandler =
    [(RelationAdminServiceCreateTenantInvitationProcedure, relationAdminServiceHandler_createTenantInvitation),
     (RelationAdminServiceListTenantInvitationsProcedure, relationAdminServiceHandler_listTenantInvitations),
     (RelationAdminServiceRevokeTenantInvitationProcedure, relationAdminServiceHandler_revokeTenantInvitation),
     (RelationAdminServiceAcceptTenantInvitationProcedure, relationAdminServiceHandler_acceptTenantInvitation),
     (RelationAdminServiceAddTenantMemberProcedure, relationAdminServiceHandler_addTenantMember),
     (RelationAdminServiceChangeTenantRoleProcedure, relationAdminServiceHandler_changeTenantRole),
     (RelationAdminServiceGrantEventRoleProcedure, relationAdminServiceHandler_grantEventRole),
     (RelationAdminServiceRevokeRoleProcedure, relationAdminServiceHandler_revokeRole),
     (RelationAdminServiceListMembershipsProcedure, relationAdminServiceHandler_listMemberships)]"

lemmas adapter_defs = tenantServiceHandler_startTenantRegistration_def
  tenantServiceHandler_claimTenantOwnership_def
  tenantServiceHandler_resolveTenantSubdomain_def
  tenantServiceHandler_changeTenantContract_def
  tenantServiceHandler_archiveTenant_def
  tenantServiceHandler_createEvent_def
  tenantServiceHandler_transitionEventStatus_def
  tenantServiceHandler_getEvent_def
  tenantServiceHandler_listEvents_def
  relationAdminServiceHandler_createTenantInvitation_def
  relationAdminServiceHandler_listTenantInvitations_def
  relationAdminServiceHandler_revokeTenantInvitation_def
  relationAdminServiceHandler_acceptTenantInvitation_def
  relationAdminServiceHandler_addTenantMember_def
  relationAdminServiceHandler_changeTenantRole_def
  relationAdminServiceHandler_grantEventRole_def
  relationAdminServiceHandler_revokeRole_def
  relationAdminServiceHandler_listMemberships_def

text \<open>The path a request arrives at.\<close>

definition ListMembershipsPattern :: string where
  "ListMembershipsPattern = ''GET /tenants/{tenant_id}/users/{user_id}/memberships''"

fun path_of :: "rpc \<Rightarrow> string" where
  "path_of (StartTenantRegistration _ _) = TenantServiceStartTenantRegistrationProcedure"
| "path_of (ClaimTenantOwnership _) = TenantServiceClaimTenantOwnershipProcedure"
| "path_of (ResolveTenantSubdomain _) = TenantServiceResolveTenantSubdomainProcedure"
| "path_of (ChangeTenantContract _ _) = TenantServiceChangeTenantContractProcedure"
| "path_of (ArchiveTenant _) = TenantServiceArchiveTenantProcedure"
| "path_of (CreateEvent _ _) = TenantServiceCreateEventProcedure"
| "path_of (TransitionEventStatus _ _) = TenantServiceTransitionEventStatusProcedure"
| "path_of (GetEvent _) = TenantServiceGetEventProcedure"
| "path_of (ListEvents _ _) = TenantServiceListEventsProcedure"
| "path_of (CreateTenantInvitation _ _ _) = RelationAdminServiceCreateTenantInvitationProcedure"
| "path_of (ListTenantInvitations _) = RelationAdminServiceListTenantInvitationsProcedure"
| "path_of (RevokeTenantInvitation _ _) = RelationAdminServiceRevokeTenantInvitationProcedure"
| "path_of (AcceptTenantInvitation _ _) = RelationAdminServiceAcceptTenantInvitationProcedure"
| "path_of (AddTenantMember _ _ _ _) = RelationAdminServiceAddTenantMemberProcedure"
| "path_of (ChangeTenantRole _ _ _) = RelationAdminServiceChangeTenantRoleProcedure"
| "path_of (GrantEventRole _ _ _) = RelationAdminServiceGrantEventRoleProcedure"
| "path_of (RevokeRole _) = RelationAdminServiceRevokeRoleProcedure"
| "path_of (ListMemberships _ _) = RelationAdminServiceListMembershipsProcedure"
| "path_of (HttpMemberships _ _) = ListMembershipsPattern"

lemma distinct_procedures:
  "distinct (ListMembershipsPattern # map fst RegisterTenantServiceHandler @ map fst RegisterRelationAdminServiceHandler)"
  by (simp add: RegisterTenantServiceHandler_def RegisterRelationAdminServiceHandler_def procedure_defs ListMembershipsPattern_def)

lemma registered_policies:
  "map fst TenantServicePolicies = map fst RegisterTenantServiceHandler"
  "map fst RelationAdminServicePolicies = map fst RegisterRelationAdminServiceHandler"
  by (simp_all add: TenantServicePolicies_def RegisterTenantServiceHandler_def RelationAdminServicePolicies_def
      RegisterRelationAdminServiceHandler_def)

lemma adapter_serves:
  assumes "(path_of req, m) \<in> set (RegisterTenantServiceHandler @ RegisterRelationAdminServiceHandler)"
  shows "m c (Inr req) E w = serve c req E w"
  using assms
  by (cases req) (auto simp: RegisterTenantServiceHandler_def RegisterRelationAdminServiceHandler_def procedure_defs
      ListMembershipsPattern_def adapter_defs unary_def)

end
