(* ===== verification/Server.thy ===== *)
theory Server
  imports Procedures
begin

text \<open>
  internal/infra/connect/server.go and the Mount functions of the three transports: how a request
  reaches its handler.  What the third-party libraries answer is a parameter: \<open>interceptor_New\<close>
  builds, from a policy table, the verdict on a procedure and a token (an error with its cause, or
  the claims for the context), \<open>otel\<close> is the tracing interceptor.  A token is of any type \<open>'tok\<close>.
  The patterns of \<open>http.ServeMux\<close> that the service registers are distinct and exact here, so a lookup
  by pattern stands for the matching.
\<close>

section \<open>Interceptors\<close>

type_synonym 'tok verdict = "string \<Rightarrow> 'tok option \<Rightarrow> (connect_error \<times> gerr) + claims option"
type_synonym 'tok interceptor = "string \<Rightarrow> 'tok option \<Rightarrow> ctx \<Rightarrow> world \<Rightarrow> (connect_error + ctx) \<times> world"

text \<open>The log of the model keeps message and error of an entry; the procedure is an attribute besides.\<close>

definition reportAuthRejection :: "string \<Rightarrow> gerr \<Rightarrow> world \<Rightarrow> world" where
  "reportAuthRejection procedure err w = w\<lparr>w_log := w_log w @ [(''internal JWT rejected'', err)]\<rparr>"

definition auth_interceptor :: "'tok verdict \<Rightarrow> 'tok interceptor" where
  "auth_interceptor verdict procedure tok c w = (case verdict procedure tok of
      Inl (ce, cause) \<Rightarrow> (Inl ce, reportAuthRejection procedure cause w)
    | Inr claims \<Rightarrow> (Inr (c\<lparr>ctx_claims := claims\<rparr>), w))"

fun run_interceptors :: "'tok interceptor list \<Rightarrow> 'tok interceptor" where
  "run_interceptors [] procedure tok c w = (Inr c, w)"
| "run_interceptors (i # is) procedure tok c w = (case i procedure tok c w of
      (Inl ce, w1) \<Rightarrow> (Inl ce, w1)
    | (Inr c1, w1) \<Rightarrow> run_interceptors is procedure tok c1 w1)"

section \<open>The mux and the mounts\<close>

datatype 'tok route =
    HealthzRoute
  | MembershipsRoute
  | ConnectRoute "'tok interceptor list" rpc_method

type_synonym 'tok mux = "(string \<times> 'tok route) list"
type_synonym 'tok auth = "policies \<Rightarrow> gerr + 'tok interceptor"
type_synonym 'tok mount = "'tok mux \<Rightarrow> 'tok auth \<Rightarrow> 'tok interceptor list \<Rightarrow> gerr + 'tok mux"

text \<open>A connect server runs its interceptors, in order, before each of its methods.\<close>

definition connect_routes :: "'tok interceptor list \<Rightarrow> (string \<times> rpc_method) list \<Rightarrow> 'tok mux" where
  "connect_routes chain methods = map (\<lambda>(procedure, m). (procedure, ConnectRoute chain m)) methods"

definition TenantConnect_Mount :: "'tok mount" where
  "TenantConnect_Mount mux auth interceptors = (case auth TenantServicePolicies of
      Inl err \<Rightarrow> Inl (Wrap ''create TenantService authentication interceptor'' err)
    | Inr tenantAuth \<Rightarrow> Inr (mux @ connect_routes (interceptors @ [tenantAuth]) RegisterTenantServiceHandler))"

definition RelationConnect_Mount :: "'tok mount" where
  "RelationConnect_Mount mux auth interceptors = (case auth RelationAdminServicePolicies of
      Inl err \<Rightarrow> Inl (Wrap ''create RelationAdminService authentication interceptor'' err)
    | Inr relationAuth \<Rightarrow> Inr (mux @ connect_routes (interceptors @ [relationAuth]) RegisterRelationAdminServiceHandler))"

definition HttpApi_Mount :: "'tok mount" where
  "HttpApi_Mount mux auth interceptors = Inr (mux @ [(ListMembershipsPattern, MembershipsRoute)])"

fun mount_all :: "'tok auth \<Rightarrow> 'tok interceptor list \<Rightarrow> 'tok mount list \<Rightarrow> 'tok mux \<Rightarrow> gerr + 'tok mux" where
  "mount_all auth interceptors [] mux = Inr mux"
| "mount_all auth interceptors (m # ms) mux = (case m mux auth interceptors of
      Inl err \<Rightarrow> Inl (Wrap ''mount service'' err)
    | Inr mux1 \<Rightarrow> mount_all auth interceptors ms mux1)"

definition healthzPattern :: string where
  "healthzPattern = ''GET /healthz''"

definition NewHandlerWithVerifier ::
    "(policies \<Rightarrow> gerr + 'tok verdict) \<Rightarrow> gerr + 'tok interceptor \<Rightarrow> 'tok mount list \<Rightarrow> gerr + 'tok mux" where
  "NewHandlerWithVerifier interceptor_New otel mounts = (case otel of
      Inl err \<Rightarrow> Inl (Wrap ''create tracing interceptor'' err)
    | Inr tracing \<Rightarrow>
        mount_all (\<lambda>policies. map_sum id auth_interceptor (interceptor_New policies)) [tracing] mounts
          [(healthzPattern, HealthzRoute)])"

section \<open>Settings\<close>

definition DefaultInternalJWKSURL :: string where
  "DefaultInternalJWKSURL = ''http://gateway:8080/.well-known/jwks.json''"
definition DefaultInternalJWTIssuer :: string where
  "DefaultInternalJWTIssuer = ''service-gateway''"
definition DefaultInternalJWTAudience :: string where
  "DefaultInternalJWTAudience = ''tolo-tenant-management''"

record jwt_settings =
  JWKSURL :: string
  Issuer :: string
  Audience :: string

definition DefaultJWTSettings :: jwt_settings where
  "DefaultJWTSettings = \<lparr>JWKSURL = DefaultInternalJWKSURL, Issuer = DefaultInternalJWTIssuer, Audience = DefaultInternalJWTAudience\<rparr>"

text \<open>The key cache and the verifier are built by the JWT library.\<close>

definition NewHandlerWithJWTSettings ::
    "(string \<Rightarrow> gerr + 'cache) \<Rightarrow> (string \<Rightarrow> string \<Rightarrow> 'cache \<Rightarrow> gerr + 'ver)
     \<Rightarrow> ('ver \<Rightarrow> policies \<Rightarrow> gerr + 'tok verdict) \<Rightarrow> gerr + 'tok interceptor
     \<Rightarrow> jwt_settings \<Rightarrow> 'tok mount list \<Rightarrow> gerr + 'tok mux" where
  "NewHandlerWithJWTSettings jwks_New verifier_New interceptor_New otel settings mounts =
     (case jwks_New (JWKSURL settings) of
        Inl err \<Rightarrow> Inl (Wrap ''create JWKS cache'' err)
      | Inr cache \<Rightarrow> (case verifier_New (Issuer settings) (Audience settings) cache of
          Inl err \<Rightarrow> Inl (Wrap ''create internal JWT verifier'' err)
        | Inr tokenVerifier \<Rightarrow> NewHandlerWithVerifier (interceptor_New tokenVerifier) otel mounts))"

section \<open>Handling a request\<close>

datatype response = NotFound | Healthz "nat \<times> string" | Answer reply

text \<open>\<open>write_err\<close> is what writing the body answers.\<close>

definition handleHealthz :: "gerr option \<Rightarrow> world \<Rightarrow> response \<times> world" where
  "handleHealthz write_err w = (Healthz (200, ''ok''), (case write_err of
      None \<Rightarrow> w | Some err \<Rightarrow> slog_ErrorContext ''healthz response write failed'' err w))"

definition background :: ctx where
  "background = \<lparr>ctx_claims = None, ctx_binding = None, ctx_tx = False\<rparr>"

text \<open>
  A request at a path of the mux.  A connect route runs its interceptors and then its method on what
  receiving the message answers; the memberships route reads the tenant and the user from the path.
\<close>

definition handle ::
    "'tok mux \<Rightarrow> gerr option \<Rightarrow> string \<Rightarrow> 'tok option \<Rightarrow> received \<Rightarrow> env \<Rightarrow> world \<Rightarrow> response \<times> world" where
  "handle mux write_err path tok received E w = (case map_of mux path of
      None \<Rightarrow> (NotFound, w)
    | Some HealthzRoute \<Rightarrow> handleHealthz write_err w
    | Some MembershipsRoute \<Rightarrow> (case received of
          Inr (HttpMemberships tenant_id user_id) \<Rightarrow>
            (case http_listMemberships background tenant_id user_id E w of (r, w1) \<Rightarrow> (Answer (HttpReply r), w1))
        | _ \<Rightarrow> (NotFound, w))
    | Some (ConnectRoute chain m) \<Rightarrow> (case run_interceptors chain path tok background w of
          (Inl ce, w1) \<Rightarrow> (Answer (ErrorReply ce), w1)
        | (Inr c, w1) \<Rightarrow> (case m c received E w1 of (rep, w2) \<Rightarrow> (Answer rep, w2))))"

definition wired_mounts :: "'tok mount list" where
  "wired_mounts = [TenantConnect_Mount, RelationConnect_Mount, HttpApi_Mount]"

section \<open>What the interceptor libraries promise\<close>

text \<open>
  docs/internal_jwt.md: a verified token has a use, scopes and claims.  The interceptor admits a call
  of a procedure of its table only, a public one with any or no token, an authenticated one with a
  verified token of one of the uses (any use when the policy names none) that has all the required
  scopes, an internal one with a verified token of use \<open>service\<close>; the claims it puts into the
  context are those of the token.  Tracing only observes.
\<close>

record verified_token =
  vt_Use :: string
  vt_Scopes :: "string list"
  vt_Claims :: claims

definition admitted :: "policy \<Rightarrow> verified_token option \<Rightarrow> claims option \<Rightarrow> bool" where
  "admitted pol vt cl = (case pol_Level pol of
      LevelPublic \<Rightarrow> cl = None \<or> cl = map_option vt_Claims vt
    | LevelAuthenticated \<Rightarrow> (case vt of None \<Rightarrow> False
        | Some t \<Rightarrow> cl = Some (vt_Claims t) \<and> (pol_TokenUses pol = [] \<or> vt_Use t \<in> set (pol_TokenUses pol))
            \<and> set (pol_RequiredScopes pol) \<subseteq> set (vt_Scopes t))
    | LevelInternal \<Rightarrow> (case vt of None \<Rightarrow> False | Some t \<Rightarrow> cl = Some (vt_Claims t) \<and> vt_Use t = ''service''))"

definition interceptor_contract :: "('tok \<Rightarrow> verified_token option) \<Rightarrow> (policies \<Rightarrow> gerr + 'tok verdict) \<Rightarrow> bool" where
  "interceptor_contract verify interceptor_New \<longleftrightarrow>
     (\<forall>policies verdict procedure tok cl. interceptor_New policies = Inr verdict \<longrightarrow> verdict procedure tok = Inr cl
        \<longrightarrow> (\<exists>pol. map_of policies procedure = Some pol \<and> admitted pol (Option.bind tok verify) cl))"

definition transparent :: "'tok interceptor \<Rightarrow> bool" where
  "transparent i \<longleftrightarrow> (\<forall>procedure tok c w. i procedure tok c w = (Inr c, w))"

definition policy_of :: "rpc \<Rightarrow> policy option" where
  "policy_of req = map_of (TenantServicePolicies @ RelationAdminServicePolicies) (path_of req)"

end
