(* ===== verification/Access.thy ===== *)
theory Access
  imports Server RelationProperties
begin

text \<open>
  Who reaches which operation: the owner behind every administrative write, as the database says at
  the time of the write, and the verdict of the interceptor in front of every procedure.
\<close>

section \<open>Administrative writes\<close>

text \<open>The requests that re-check the caller's current permission (docs/tenant_management_spec.md).\<close>

fun rechecked :: "rpc \<Rightarrow> bool" where
  "rechecked (ArchiveTenant _) = True"
| "rechecked (ChangeTenantContract _ _) = True"
| "rechecked (CreateTenantInvitation _ _ _) = True"
| "rechecked (ChangeTenantRole _ _ _) = True"
| "rechecked (GrantEventRole _ _ _) = True"
| "rechecked (RevokeRole _) = True"
| "rechecked _ = False"

lemma changed_call:
  assumes "runs E c (w_db w) call Q R" and "\<not> ctx_tx c"
    and "\<And>x d'. Q x d' \<Longrightarrow> d' \<noteq> w_db w \<Longrightarrow> P" and "\<And>e d'. R e d' \<Longrightarrow> d' \<noteq> w_db w \<Longrightarrow> P"
    and "w_db (snd (reply f (answer table call convert E w))) \<noteq> w_db w"
  shows P
proof (cases "call E w")
  case (Pair r w1)
  have "w_db (snd (reply f p)) = w_db (snd p)" for f and p :: "'b rpc_result"
    by (auto simp: reply_def split: prod.split sum.split)
  then have "w_db w1 \<noteq> w_db w" using assms(5) Pair answer_db(1) [of table call convert E w] by simp
  with runs_db [OF assms(1,2) refl Pair] assms(3,4) show P by (cases r) auto
qed

lemma administrative_owner:
  assumes i: "integrity (w_db w)" and c: "\<not> ctx_tx c" and six: "rechecked req"
    and run: "serve c req E w = (rep, w')" and changed: "w_db w' \<noteq> w_db w"
  shows "\<exists>row. own_open_tenant (w_db w) c (tr_public_id row) row \<and> caller_is_owner (w_db w) c (tr_id row)"
proof -
  let ?P = "\<exists>row. own_open_tenant (w_db w) c (tr_public_id row) row \<and> caller_is_owner (w_db w) c (tr_id row)"
  note own = own_open_tenant_def caller_is_owner_holds is_owned_def
  from run changed have ch: "w_db (snd (serve c req E w)) \<noteq> w_db w" by simp
  show ?thesis
  proof (cases req)
    case (ArchiveTenant tid)
    show ?thesis using ch unfolding ArchiveTenant serve.simps TenantConnect_ArchiveTenant_def wired_tenantService_def
      by (rule changed_call [OF production.runs_ArchiveTenant [OF i c] c, rotated 2])
        (auto simp: administered_def own Ensure_None_iff)
  next
    case (ChangeTenantContract tid plan)
    show ?thesis using ch unfolding ChangeTenantContract serve.simps TenantConnect_ChangeTenantContract_def wired_tenantService_def
      by (rule changed_call [OF production.runs_ChangeTenantContract [OF i c] c, rotated 2])
        (auto simp: administered_def own Ensure_None_iff)
  next
    case (CreateTenantInvitation tid r name)
    show ?thesis using ch unfolding CreateTenantInvitation serve.simps RelationConnect_CreateTenantInvitation_def
      by (rule changed_call [OF runs_CreateTenantInvitation [OF i c] c, rotated 2])
        (auto simp: invited_def writable_row_def own)
  next
    case (ChangeTenantRole tid u r)
    show ?thesis using ch unfolding ChangeTenantRole serve.simps RelationConnect_ChangeTenantRole_def
      by (rule changed_call [OF runs_ChangeTenantRole [OF i c] c, rotated 2]) (auto simp: role_changed_def own)
  next
    case (GrantEventRole eid u r)
    show ?thesis using ch unfolding GrantEventRole serve.simps RelationConnect_GrantEventRole_def
      by (rule changed_call [OF runs_GrantEventRole [OF i c] c, rotated 2])
        (auto simp: granted_event_role_def writable_event_def own)
  next
    case (RevokeRole input)
    show ?thesis using ch unfolding RevokeRole serve.simps RelationConnect_RevokeRole_def
      by (rule changed_call [OF runs_RevokeRole [OF i c] c, rotated 2])
        (auto simp: role_revoked_def membership_revoked_def event_role_revoked_def writable_event_def own split: if_splits)
  qed (use six in simp_all)
qed

section \<open>The routes of the process\<close>

lemma wired_mux:
  assumes "NewHandlerWithVerifier interceptor_New (Inr tracing) wired_mounts = Inr mux"
  obtains v1 v2 where "interceptor_New TenantServicePolicies = Inr v1" "interceptor_New RelationAdminServicePolicies = Inr v2"
    "mux = (healthzPattern, HealthzRoute)
       # connect_routes [tracing, auth_interceptor v1] RegisterTenantServiceHandler
       @ connect_routes [tracing, auth_interceptor v2] RegisterRelationAdminServiceHandler
       @ [(ListMembershipsPattern, MembershipsRoute)]"
  using assms
  by (auto simp: NewHandlerWithVerifier_def wired_mounts_def TenantConnect_Mount_def RelationConnect_Mount_def HttpApi_Mount_def
      map_sum_def split: sum.splits)

lemma map_of_connect_routes:
  "map_of (connect_routes chain methods) p = map_option (ConnectRoute chain) (map_of methods p)"
  by (induction methods) (auto simp: connect_routes_def)

lemmas registrations = RegisterTenantServiceHandler_def RegisterRelationAdminServiceHandler_def TenantServicePolicies_def
  RelationAdminServicePolicies_def procedure_defs

lemma path_of_distinct:
  "path_of req \<noteq> healthzPattern" "path_of req = ListMembershipsPattern \<longleftrightarrow> (\<exists>t u. req = HttpMemberships t u)"
  by (cases req; simp add: procedure_defs healthzPattern_def ListMembershipsPattern_def)+

lemmas procedures_differ =
  distinct_procedures [simplified RegisterTenantServiceHandler_def RegisterRelationAdminServiceHandler_def, simplified]
  distinct_procedures [THEN distinct_rev [THEN iffD2], simplified RegisterTenantServiceHandler_def RegisterRelationAdminServiceHandler_def, simplified]

lemma policy_of_simps [simp]:
  "policy_of (StartTenantRegistration x1a x1b) = Some \<lparr>pol_Level = LevelPublic, pol_RequiredScopes = [], pol_TokenUses = []\<rparr>"
  "policy_of (ClaimTenantOwnership x2a) = Some \<lparr>pol_Level = LevelAuthenticated, pol_RequiredScopes = [''tenant.join''], pol_TokenUses = [''registration'']\<rparr>"
  "policy_of (ResolveTenantSubdomain x3a) = Some \<lparr>pol_Level = LevelPublic, pol_RequiredScopes = [], pol_TokenUses = []\<rparr>"
  "policy_of (ChangeTenantContract x4a x4b) = Some \<lparr>pol_Level = LevelAuthenticated, pol_RequiredScopes = [''tenant.write''], pol_TokenUses = [''tenant_access'']\<rparr>"
  "policy_of (ArchiveTenant x5a) = Some \<lparr>pol_Level = LevelAuthenticated, pol_RequiredScopes = [''tenant.write''], pol_TokenUses = [''tenant_access'']\<rparr>"
  "policy_of (CreateEvent x6a x6b) = Some \<lparr>pol_Level = LevelAuthenticated, pol_RequiredScopes = [''events.manage''], pol_TokenUses = [''tenant_access'']\<rparr>"
  "policy_of (TransitionEventStatus x7a x7b) = Some \<lparr>pol_Level = LevelAuthenticated, pol_RequiredScopes = [''events.manage''], pol_TokenUses = [''tenant_access'']\<rparr>"
  "policy_of (GetEvent x8a) = Some \<lparr>pol_Level = LevelInternal, pol_RequiredScopes = [], pol_TokenUses = []\<rparr>"
  "policy_of (ListEvents x9a x9b) = Some \<lparr>pol_Level = LevelAuthenticated, pol_RequiredScopes = [''events.read''], pol_TokenUses = [''tenant_access'']\<rparr>"
  "policy_of (CreateTenantInvitation x10a x10b x10c) = Some \<lparr>pol_Level = LevelAuthenticated, pol_RequiredScopes = [''tenant.write''], pol_TokenUses = [''tenant_access'']\<rparr>"
  "policy_of (ListTenantInvitations x11a) = Some \<lparr>pol_Level = LevelAuthenticated, pol_RequiredScopes = [''tenant.write''], pol_TokenUses = [''tenant_access'']\<rparr>"
  "policy_of (RevokeTenantInvitation x12a x12b) = Some \<lparr>pol_Level = LevelAuthenticated, pol_RequiredScopes = [''tenant.write''], pol_TokenUses = [''tenant_access'']\<rparr>"
  "policy_of (AcceptTenantInvitation x13a x13b) = Some \<lparr>pol_Level = LevelAuthenticated, pol_RequiredScopes = [''tenant.join''], pol_TokenUses = [''registration'']\<rparr>"
  "policy_of (AddTenantMember x14a x14b x14c x14d) = Some \<lparr>pol_Level = LevelInternal, pol_RequiredScopes = [], pol_TokenUses = []\<rparr>"
  "policy_of (ChangeTenantRole x15a x15b x15c) = Some \<lparr>pol_Level = LevelAuthenticated, pol_RequiredScopes = [''tenant.write''], pol_TokenUses = [''tenant_access'']\<rparr>"
  "policy_of (GrantEventRole x16a x16b x16c) = Some \<lparr>pol_Level = LevelAuthenticated, pol_RequiredScopes = [''tenant.write''], pol_TokenUses = [''tenant_access'']\<rparr>"
  "policy_of (RevokeRole x17a) = Some \<lparr>pol_Level = LevelAuthenticated, pol_RequiredScopes = [''tenant.write''], pol_TokenUses = [''tenant_access'']\<rparr>"
  "policy_of (ListMemberships x18a x18b) = Some \<lparr>pol_Level = LevelAuthenticated, pol_RequiredScopes = [''tenant.read''], pol_TokenUses = [''tenant_access'']\<rparr>"
  "policy_of (HttpMemberships x19a x19b) = None"
  by (simp_all add: policy_of_def TenantServicePolicies_def RelationAdminServicePolicies_def procedures_differ)

lemma registered_method:
  assumes "\<forall>t u. req \<noteq> HttpMemberships t u"
  shows "\<exists>m. map_of RegisterTenantServiceHandler (path_of req) = Some m
        \<and> policy_of req = map_of TenantServicePolicies (path_of req)
      \<or> map_of RegisterTenantServiceHandler (path_of req) = None
        \<and> map_of RegisterRelationAdminServiceHandler (path_of req) = Some m
        \<and> policy_of req = map_of RelationAdminServicePolicies (path_of req)"
  using assms by (cases req) (simp_all add: policy_of_def TenantServicePolicies_def RelationAdminServicePolicies_def
      RegisterTenantServiceHandler_def RegisterRelationAdminServiceHandler_def procedures_differ)

lemma method_serves:
  assumes "map_of RegisterTenantServiceHandler (path_of req) = Some m \<or> map_of RegisterRelationAdminServiceHandler (path_of req) = Some m"
  shows "m c (Inr req) E w = serve c req E w"
  using assms by (intro adapter_serves) (auto dest: map_of_SomeD)

lemma run_wired_interceptors:
  assumes "transparent tracing"
  shows "run_interceptors [tracing, auth_interceptor v] p tok c w = (case v p tok of
      Inl (ce, cause) \<Rightarrow> (Inl ce, reportAuthRejection p cause w) | Inr cl \<Rightarrow> (Inr (c\<lparr>ctx_claims := cl\<rparr>), w))"
  using assms by (simp add: transparent_def auth_interceptor_def split: sum.split prod.split)

text \<open>Where a request over Connect arrives: at its own method, behind the tracing and the guard of its policy table.\<close>

lemma wired_route:
  assumes mux: "NewHandlerWithVerifier interceptor_New (Inr tracing) wired_mounts = Inr mux"
    and "\<nexists>t u. req = HttpMemberships t u"
  shows "\<exists>v meth pols. map_of mux (path_of req) = Some (ConnectRoute [tracing, auth_interceptor v] meth)
      \<and> (\<forall>c E w. meth c (Inr req) E w = serve c req E w) \<and> policy_of req = map_of pols (path_of req) \<and> interceptor_New pols = Inr v"
proof -
  from assms(2) have http: "\<forall>t u. req \<noteq> HttpMemberships t u" by simp
  from mux obtain v1 v2 where v: "interceptor_New TenantServicePolicies = Inr v1" "interceptor_New RelationAdminServicePolicies = Inr v2"
    and m: "mux = (healthzPattern, HealthzRoute)
       # connect_routes [tracing, auth_interceptor v1] RegisterTenantServiceHandler
       @ connect_routes [tracing, auth_interceptor v2] RegisterRelationAdminServiceHandler
       @ [(ListMembershipsPattern, MembershipsRoute)]"
    by (rule wired_mux)
  note routes = m map_of_connect_routes map_add_def path_of_distinct [of req]
  show ?thesis
    using registered_method [OF http]
  proof (elim exE disjE conjE, goal_cases)
    case (1 meth)
    then show ?case using v(1) method_serves [of req meth] http
      by (intro exI [of _ v1] exI [of _ meth] exI [of _ TenantServicePolicies]) (simp add: routes)
  next
    case (2 meth)
    then show ?case using v(2) method_serves [of req meth] http
      by (intro exI [of _ v2] exI [of _ meth] exI [of _ RelationAdminServicePolicies]) (simp add: routes)
  qed
qed

text \<open>
  What a procedure answers behind the guard of its policy table: the rejection of the guard, or, in a
  context with the claims that the guard gives, the request of this procedure; a message that cannot be
  received, or is of another method, reaches no use case.
\<close>

definition guarded :: "'tok verdict \<Rightarrow> string \<Rightarrow> 'tok option \<Rightarrow> received \<Rightarrow> env \<Rightarrow> world \<Rightarrow> response \<times> world" where
  "guarded v p tok received E w = (case v p tok of
      Inl (ce, cause) \<Rightarrow> (Answer (ErrorReply ce), reportAuthRejection p cause w)
    | Inr cl \<Rightarrow> (case received of
        Inl err \<Rightarrow> (Answer (ErrorReply err), w)
      | Inr req \<Rightarrow> if path_of req \<noteq> p then (Answer (ErrorReply undecodable), w)
          else (case serve (background\<lparr>ctx_claims := cl\<rparr>) req E w of (rep, w1) \<Rightarrow> (Answer rep, w1))))"

lemma other_request:
  "path_of req \<noteq> TenantServiceStartTenantRegistrationProcedure \<Longrightarrow> tenantServiceHandler_startTenantRegistration c (Inr req) E w = (ErrorReply undecodable, w)"
  "path_of req \<noteq> TenantServiceClaimTenantOwnershipProcedure \<Longrightarrow> tenantServiceHandler_claimTenantOwnership c (Inr req) E w = (ErrorReply undecodable, w)"
  "path_of req \<noteq> TenantServiceResolveTenantSubdomainProcedure \<Longrightarrow> tenantServiceHandler_resolveTenantSubdomain c (Inr req) E w = (ErrorReply undecodable, w)"
  "path_of req \<noteq> TenantServiceChangeTenantContractProcedure \<Longrightarrow> tenantServiceHandler_changeTenantContract c (Inr req) E w = (ErrorReply undecodable, w)"
  "path_of req \<noteq> TenantServiceArchiveTenantProcedure \<Longrightarrow> tenantServiceHandler_archiveTenant c (Inr req) E w = (ErrorReply undecodable, w)"
  "path_of req \<noteq> TenantServiceCreateEventProcedure \<Longrightarrow> tenantServiceHandler_createEvent c (Inr req) E w = (ErrorReply undecodable, w)"
  "path_of req \<noteq> TenantServiceTransitionEventStatusProcedure \<Longrightarrow> tenantServiceHandler_transitionEventStatus c (Inr req) E w = (ErrorReply undecodable, w)"
  "path_of req \<noteq> TenantServiceGetEventProcedure \<Longrightarrow> tenantServiceHandler_getEvent c (Inr req) E w = (ErrorReply undecodable, w)"
  "path_of req \<noteq> TenantServiceListEventsProcedure \<Longrightarrow> tenantServiceHandler_listEvents c (Inr req) E w = (ErrorReply undecodable, w)"
  "path_of req \<noteq> RelationAdminServiceCreateTenantInvitationProcedure \<Longrightarrow> relationAdminServiceHandler_createTenantInvitation c (Inr req) E w = (ErrorReply undecodable, w)"
  "path_of req \<noteq> RelationAdminServiceListTenantInvitationsProcedure \<Longrightarrow> relationAdminServiceHandler_listTenantInvitations c (Inr req) E w = (ErrorReply undecodable, w)"
  "path_of req \<noteq> RelationAdminServiceRevokeTenantInvitationProcedure \<Longrightarrow> relationAdminServiceHandler_revokeTenantInvitation c (Inr req) E w = (ErrorReply undecodable, w)"
  "path_of req \<noteq> RelationAdminServiceAcceptTenantInvitationProcedure \<Longrightarrow> relationAdminServiceHandler_acceptTenantInvitation c (Inr req) E w = (ErrorReply undecodable, w)"
  "path_of req \<noteq> RelationAdminServiceAddTenantMemberProcedure \<Longrightarrow> relationAdminServiceHandler_addTenantMember c (Inr req) E w = (ErrorReply undecodable, w)"
  "path_of req \<noteq> RelationAdminServiceChangeTenantRoleProcedure \<Longrightarrow> relationAdminServiceHandler_changeTenantRole c (Inr req) E w = (ErrorReply undecodable, w)"
  "path_of req \<noteq> RelationAdminServiceGrantEventRoleProcedure \<Longrightarrow> relationAdminServiceHandler_grantEventRole c (Inr req) E w = (ErrorReply undecodable, w)"
  "path_of req \<noteq> RelationAdminServiceRevokeRoleProcedure \<Longrightarrow> relationAdminServiceHandler_revokeRole c (Inr req) E w = (ErrorReply undecodable, w)"
  "path_of req \<noteq> RelationAdminServiceListMembershipsProcedure \<Longrightarrow> relationAdminServiceHandler_listMemberships c (Inr req) E w = (ErrorReply undecodable, w)"
  by (cases req; simp add: adapter_defs unary_def)+

lemma method_answers:
  assumes "(p, m) \<in> set (RegisterTenantServiceHandler @ RegisterRelationAdminServiceHandler)"
  shows "m c received E w = (case received of
      Inl err \<Rightarrow> (ErrorReply err, w)
    | Inr req \<Rightarrow> if path_of req \<noteq> p then (ErrorReply undecodable, w) else serve c req E w)"
proof (cases received)
  case (Inl err)
  with assms show ?thesis
    by (auto simp: RegisterTenantServiceHandler_def RegisterRelationAdminServiceHandler_def adapter_defs unary_def)
next
  case (Inr req)
  show ?thesis
  proof (cases "path_of req = p")
    case True
    with assms Inr show ?thesis by (simp add: adapter_serves)
  next
    case False
    with assms have "m c (Inr req) E w = (ErrorReply undecodable, w)"
      unfolding RegisterTenantServiceHandler_def RegisterRelationAdminServiceHandler_def
      by (auto simp: other_request)
    with False Inr show ?thesis by simp
  qed
qed

lemma guarded_route:
  assumes "transparent tracing" and "map_of mux p = Some (ConnectRoute [tracing, auth_interceptor v] m)"
    and "(p, m) \<in> set (RegisterTenantServiceHandler @ RegisterRelationAdminServiceHandler)"
  shows "handle mux write_err p tok received E w = guarded v p tok received E w"
proof (cases "v p tok")
  case (Inl x)
  then show ?thesis
    unfolding handle_def assms(2) option.case route.case run_wired_interceptors [OF assms(1)] guarded_def
    by (cases x) simp
next
  case (Inr cl)
  then have "handle mux write_err p tok received E w
      = (case m (background\<lparr>ctx_claims := cl\<rparr>) received E w of (rep, w2) \<Rightarrow> (Answer rep, w2))"
    unfolding handle_def assms(2) option.case route.case run_wired_interceptors [OF assms(1)] by simp
  then show ?thesis
    unfolding method_answers [OF assms(3)] guarded_def Inr sum.case by (cases received) simp_all
qed

lemma registered_paths:
  "map_of RegisterTenantServiceHandler p = None \<longleftrightarrow> map_of TenantServicePolicies p = None"
  "map_of RegisterRelationAdminServiceHandler p = None \<longleftrightarrow> map_of RelationAdminServicePolicies p = None"
  by (simp_all only: map_of_eq_None_iff list.set_map [symmetric] registered_policies)

lemma other_paths:
  "map_of RegisterTenantServiceHandler healthzPattern = None" "map_of RegisterRelationAdminServiceHandler healthzPattern = None"
  "map_of RegisterTenantServiceHandler ListMembershipsPattern = None"
  "map_of RegisterRelationAdminServiceHandler ListMembershipsPattern = None" "ListMembershipsPattern \<noteq> healthzPattern"
  by (simp_all add: registrations ListMembershipsPattern_def healthzPattern_def)

text \<open>
  What the handler of the process answers at any path, when every procedure of the two tables is behind
  its guard, the HTTP listing and the health check are behind none, and nothing else is served.
\<close>

definition guarded_handler ::
    "'tok verdict \<Rightarrow> 'tok verdict \<Rightarrow> gerr option \<Rightarrow> string \<Rightarrow> 'tok option \<Rightarrow> received \<Rightarrow> env \<Rightarrow> world \<Rightarrow> response \<times> world" where
  "guarded_handler v1 v2 write_err p tok received E w =
       (if p = healthzPattern then handleHealthz write_err w
        else if p = ListMembershipsPattern then (case received of
            Inr (HttpMemberships t u) \<Rightarrow> (case http_listMemberships background t u E w of (r, w1) \<Rightarrow> (Answer (HttpReply r), w1))
          | _ \<Rightarrow> (NotFound, w))
        else if map_of TenantServicePolicies p \<noteq> None then guarded v1 p tok received E w
        else if map_of RelationAdminServicePolicies p \<noteq> None then guarded v2 p tok received E w
        else (NotFound, w))"

lemma handler_answers:
  assumes mux: "NewHandlerWithVerifier interceptor_New (Inr tracing) wired_mounts = Inr mux" and tr: "transparent tracing"
  obtains v1 v2 where "interceptor_New TenantServicePolicies = Inr v1" "interceptor_New RelationAdminServicePolicies = Inr v2"
    "\<And>p tok received E w. handle mux write_err p tok received E w =
       guarded_handler v1 v2 write_err p tok received E w"
proof -
  from mux obtain v1 v2 where v: "interceptor_New TenantServicePolicies = Inr v1" "interceptor_New RelationAdminServicePolicies = Inr v2"
    and m: "mux = (healthzPattern, HealthzRoute)
       # connect_routes [tracing, auth_interceptor v1] RegisterTenantServiceHandler
       @ connect_routes [tracing, auth_interceptor v2] RegisterRelationAdminServiceHandler
       @ [(ListMembershipsPattern, MembershipsRoute)]"
    by (rule wired_mux)
  have route: "map_of mux p = (if p = healthzPattern then Some HealthzRoute
      else case map_of RegisterTenantServiceHandler p of Some meth \<Rightarrow> Some (ConnectRoute [tracing, auth_interceptor v1] meth)
        | None \<Rightarrow> (case map_of RegisterRelationAdminServiceHandler p of
            Some meth \<Rightarrow> Some (ConnectRoute [tracing, auth_interceptor v2] meth)
          | None \<Rightarrow> if p = ListMembershipsPattern then Some MembershipsRoute else None))" for p
    by (simp add: m map_of_connect_routes map_add_def split: option.split)
  have "handle mux write_err p tok received E w =
       guarded_handler v1 v2 write_err p tok received E w" for p tok received E w
  proof (cases "p = healthzPattern \<or> p = ListMembershipsPattern")
    case True
    then show ?thesis by (auto simp: guarded_handler_def handle_def route other_paths)
  next
    case False
    show ?thesis
    proof (cases "map_of RegisterTenantServiceHandler p")
      case (Some meth)
      then have "(p, meth) \<in> set (RegisterTenantServiceHandler @ RegisterRelationAdminServiceHandler)" by (simp add: map_of_SomeD)
      from guarded_route [OF tr _ this, of mux v1] Some False registered_paths(1) [of p] show ?thesis by (simp add: route guarded_handler_def)
    next
      case None
      show ?thesis
      proof (cases "map_of RegisterRelationAdminServiceHandler p")
        case (Some meth)
        then have "(p, meth) \<in> set (RegisterTenantServiceHandler @ RegisterRelationAdminServiceHandler)" by (simp add: map_of_SomeD)
        from guarded_route [OF tr _ this, of mux v2] Some None False registered_paths [of p] show ?thesis by (simp add: route guarded_handler_def)
      qed (use None False registered_paths [of p] in \<open>simp add: handle_def route guarded_handler_def\<close>)
    qed
  qed
  with v that show ?thesis by blast
qed

text \<open>
  A request is refused by the interceptor and nothing but the log changes, or it is served in a
  context with the claims that its policy admits.
\<close>

lemma handled_request:
  assumes contract: "interceptor_contract verify interceptor_New" and tr: "transparent tracing"
    and mux: "NewHandlerWithVerifier interceptor_New (Inr tracing) wired_mounts = Inr mux"
    and run: "handle mux write_err (path_of req) tok (Inr req) E w = (resp, w')"
  shows "(\<exists>ce cause. resp = Answer (ErrorReply ce) \<and> w' = reportAuthRejection (path_of req) cause w)
    \<or> (\<exists>c rep. resp = Answer rep \<and> serve c req E w = (rep, w') \<and> \<not> ctx_tx c \<and> ctx_binding c = None
        \<and> (case policy_of req of None \<Rightarrow> ctx_claims c = None
           | Some pol \<Rightarrow> admitted pol (Option.bind tok verify) (ctx_claims c)))"
proof (cases "\<exists>t u. req = HttpMemberships t u")
  case True
  then obtain t u where req: "req = HttpMemberships t u" by blast
  obtain v1 v2 where "mux = (healthzPattern, HealthzRoute)
       # connect_routes [tracing, auth_interceptor v1] RegisterTenantServiceHandler
       @ connect_routes [tracing, auth_interceptor v2] RegisterRelationAdminServiceHandler
       @ [(ListMembershipsPattern, MembershipsRoute)]"
    using mux by (rule wired_mux)
  moreover have "policy_of req = None" "map_of RegisterTenantServiceHandler ListMembershipsPattern = None"
    "map_of RegisterRelationAdminServiceHandler ListMembershipsPattern = None" "ListMembershipsPattern \<noteq> healthzPattern"
    by (simp_all add: req policy_of_def registrations ListMembershipsPattern_def healthzPattern_def)
  ultimately have "handle mux write_err (path_of req) tok (Inr req) E w =
      (case serve background req E w of (rep, w1) \<Rightarrow> (Answer rep, w1))"
    by (simp add: handle_def req map_of_connect_routes map_add_def split: prod.split)
  with run \<open>policy_of req = None\<close> show ?thesis
    by (intro disjI2 exI [of _ background]) (auto simp: background_def split: prod.splits)
next
  case False
  then obtain v meth pols where route: "map_of mux (path_of req) = Some (ConnectRoute [tracing, auth_interceptor v] meth)"
    and serves: "\<And>c. meth c (Inr req) E w = serve c req E w"
    and pol: "policy_of req = map_of pols (path_of req)" "interceptor_New pols = Inr v"
    using wired_route [OF mux] by metis
  show ?thesis
  proof (cases "v (path_of req) tok")
    case (Inl x)
    then show ?thesis using run run_wired_interceptors [OF tr, of v]
      by (cases x) (auto simp: handle_def route simp del: run_interceptors.simps)
  next
    case (Inr cl)
    from contract pol(2) this obtain p where "policy_of req = Some p" "admitted p (Option.bind tok verify) cl"
      unfolding interceptor_contract_def pol(1) by blast
    with run Inr run_wired_interceptors [OF tr, of v] show ?thesis
      by (intro disjI2 exI [of _ "background\<lparr>ctx_claims := cl\<rparr>"])
        (auto simp: handle_def route serves background_def split: prod.splits)
  qed
qed

section \<open>What the policies say\<close>

text \<open>Every request over Connect has a policy; those that carry no tenant scope are the public ones.\<close>

lemma policy_rechecked:
  "rechecked req \<Longrightarrow> policy_of req = Some \<lparr>pol_Level = LevelAuthenticated,
     pol_RequiredScopes = [''tenant.write''], pol_TokenUses = [''tenant_access'']\<rparr>"
  by (cases req) simp_all

lemma policy_open:
  assumes "policy_of req = None \<or> (\<exists>pol. policy_of req = Some pol \<and> pol_Level pol = LevelPublic)"
  shows "(\<exists>name plan. req = StartTenantRegistration name plan) \<or> (\<exists>sub. req = ResolveTenantSubdomain sub)
    \<or> (\<exists>t u. req = HttpMemberships t u)"
  using assms by (cases req) simp_all

lemma unguarded_path: "policy_of req = None \<longleftrightarrow> path_of req = ListMembershipsPattern"
  unfolding path_of_distinct(2) by (cases req) simp_all

lemma policy_scope:
  assumes "policy_of req = Some pol" and "''tenant_access'' \<in> set (pol_TokenUses pol)"
  shows "\<exists>scope. pol_RequiredScopes pol = [scope] \<and> pol_Level pol = LevelAuthenticated \<and> Grants RoleOwner scope
    \<and> (Grants RoleStaff scope \<longleftrightarrow> scope \<noteq> ''tenant.write'')"
proof -
  have "pol_RequiredScopes pol \<in> {[''tenant.write''], [''tenant.read''], [''events.read''], [''events.manage'']}
      \<and> pol_Level pol = LevelAuthenticated"
    using assms by (cases req) auto
  moreover have "Grants RoleOwner s \<and> (Grants RoleStaff s \<longleftrightarrow> s \<noteq> ''tenant.write'')"
    if "s \<in> {''tenant.write'', ''tenant.read'', ''events.read'', ''events.manage''}" for s
    using that by (auto simp: Grants_def scope_defs adminScopes_def memberScopes_def role_defs)
  ultimately show ?thesis by fastforce
qed

text \<open>The open requests other than a registration read only.\<close>

lemma open_request_reads:
  assumes i: "integrity (w_db w)" and c: "\<not> ctx_tx c" and run: "serve c req E w = (rep, w')"
    and "(\<exists>sub. req = ResolveTenantSubdomain sub) \<or> (\<exists>t u. req = HttpMemberships t u)"
  shows "w_db w' = w_db w"
proof (rule ccontr)
  assume "w_db w' \<noteq> w_db w"
  with run have ch: "w_db (snd (serve c req E w)) \<noteq> w_db w" by simp
  from assms(4) show False
  proof (elim disjE exE)
    fix sub assume req: "req = ResolveTenantSubdomain sub"
    show False using ch unfolding req serve.simps TenantConnect_ResolveTenantSubdomain_def wired_tenantService_def
      by (rule changed_call [OF production.runs_ResolveTenantSubdomain c, rotated 2]) auto
  next
    fix t u assume req: "req = HttpMemberships t u"
    obtain r w1 where http: "http_listMemberships c t u E w = (r, w1)" by (cases "http_listMemberships c t u E w")
    have "w_db w1 = w_db w" using http_listMemberships_reads [OF i c http] by (rule conjunct1)
    with ch show False by (simp add: req http)
  qed
qed

section \<open>A sample of the libraries\<close>

text \<open>An interceptor that keeps the contract, for tokens that are their own verified form.\<close>

definition gatekeeper :: "policies \<Rightarrow> gerr + verified_token verdict" where
  "gatekeeper pols = Inr (\<lambda>procedure tok.
     case map_of pols procedure of
       None \<Rightarrow> Inl (undecodable, Errorf ''unknown procedure'' [])
     | Some pol \<Rightarrow>
         if admitted pol tok (map_option vt_Claims tok) then Inr (map_option vt_Claims tok)
         else Inl (\<lparr>ce_Code = CodePermissionDenied, ce_Message = ''denied'', ce_Cause = None\<rparr>, Errorf ''denied'' []))"

definition silent_tracing :: "verified_token interceptor" where
  "silent_tracing procedure tok c w = (Inr c, w)"

lemma gatekeeper_contract: "interceptor_contract Some gatekeeper"
  by (auto simp: interceptor_contract_def gatekeeper_def Let_def split: option.splits if_splits)

lemma silent_tracing_transparent: "transparent silent_tracing"
  by (simp add: transparent_def silent_tracing_def)

lemma gatekeeper_mux: "\<exists>mux. NewHandlerWithVerifier gatekeeper (Inr silent_tracing) wired_mounts = Inr mux"
  by (simp add: NewHandlerWithVerifier_def wired_mounts_def TenantConnect_Mount_def RelationConnect_Mount_def HttpApi_Mount_def
      gatekeeper_def)

lemma gatekeeper_handles:
  assumes mux: "NewHandlerWithVerifier gatekeeper (Inr silent_tracing) wired_mounts = Inr mux"
    and "policy_of req = Some pol" "admitted pol tok (map_option vt_Claims tok)"
    and c: "c = background\<lparr>ctx_claims := map_option vt_Claims tok\<rparr>" and E: "snd (serve c req E w) = w'"
  shows "handle mux write_err (path_of req) tok (Inr req) E w = (Answer (fst (serve c req E w)), w')"
proof -
  have "\<nexists>t u. req = HttpMemberships t u" using assms(2) by auto
  from wired_route [OF mux this] obtain v meth pols
    where route: "map_of mux (path_of req) = Some (ConnectRoute [silent_tracing, auth_interceptor v] meth)"
      and serves: "\<And>c. meth c (Inr req) E w = serve c req E w"
      and pol: "policy_of req = map_of pols (path_of req)" "gatekeeper pols = Inr v" by metis
  have "map_of pols (path_of req) = Some pol" using pol(1) assms(2) by simp
  then have "v (path_of req) tok = Inr (map_option vt_Claims tok)" using pol(2) assms(3) by (auto simp: gatekeeper_def)
  then show ?thesis using E run_wired_interceptors [OF silent_tracing_transparent, of v]
    by (auto simp: handle_def route serves c simp del: run_interceptors.simps split: prod.split)
qed

definition founder_token :: verified_token where
  "founder_token = \<lparr>vt_Use = ''tenant_access'', vt_Scopes = [''tenant.write''],
     vt_Claims = \<lparr>cl_Subject = ''alice'', cl_TenantPublicID = ''0707070707070707''\<rparr>\<rparr>"

lemma founder_admitted:
  "admitted \<lparr>pol_Level = LevelAuthenticated, pol_RequiredScopes = [''tenant.write''], pol_TokenUses = [''tenant_access'']\<rparr>
     (Some founder_token) (map_option vt_Claims (Some founder_token))"
  by (simp add: admitted_def founder_token_def)

end
