(* ===== verification/GoSlog.thy ===== *)
theory GoSlog
  imports GoStrings Enums
begin

text \<open>
  The part of Go's standard library that internal/logging is written against: decimal numbers and
  the RFC 3339 layout of package time, \<open>strings.ToLower\<close> as far as a comparison with ASCII names
  sees it, and the levels, attributes and records of package log/slog.  The values of attributes
  are resolved ones (slog resolves a \<open>LogValuer\<close> before it formats it), and the text of the
  entry is kept as the JSON value that is written, with the keys in their order.
\<close>

section \<open>Decimal numbers\<close>

definition Itoa :: "int \<Rightarrow> string" where
  "Itoa n = (if n < 0 then ''-'' @ FormatNat (nat (- n)) else FormatNat (nat n))"

text \<open>At least \<open>w\<close> digits, zeros in front.\<close>

definition padded :: "nat \<Rightarrow> nat \<Rightarrow> string" where
  "padded w n = replicate (w - length (FormatNat n)) CHR ''0'' @ FormatNat n"

section \<open>Times (package time)\<close>

text \<open>An instant in a location: nanoseconds since the Unix epoch, and the offset of the location in seconds.\<close>

record go_time =
  gt_UnixNano :: int
  gt_Offset :: int

definition time_UTC :: "go_time \<Rightarrow> go_time" where
  "time_UTC t = t\<lparr>gt_Offset := 0\<rparr>"

text \<open>The proleptic Gregorian date of a day counted from 1970-01-01.\<close>

definition civil_of_days :: "int \<Rightarrow> int \<times> nat \<times> nat" where
  "civil_of_days d =
     (let z = d + 719468; era = z div 146097; doe = z mod 146097;
          yoe = (doe - doe div 1460 + doe div 36524 - doe div 146096) div 365;
          doy = doe - (365 * yoe + yoe div 4 - yoe div 100);
          mp = (5 * doy + 2) div 153; m = (if mp < 10 then mp + 3 else mp - 9)
      in (yoe + era * 400 + (if m \<le> 2 then 1 else 0), nat m, nat (doy - (153 * mp + 2) div 5 + 1)))"

text \<open>A fraction of nine digits without its trailing zeros, and without the point when it is zero.\<close>

definition fraction_nano :: "nat \<Rightarrow> string" where
  "fraction_nano ns = (if ns = 0 then [] else CHR ''.'' # rev (dropWhile (\<lambda>c. c = CHR ''0'') (rev (padded 9 ns))))"

definition zone_colon :: "int \<Rightarrow> string" where
  "zone_colon offset =
     (if offset = 0 then ''Z''
      else let m = nat (\<bar>offset\<bar> div 60)
           in (if offset \<le> - 60 then ''-'' else ''+'') @ padded 2 (m div 60) @ '':'' @ padded 2 (m mod 60))"

definition Format_RFC3339Nano :: "go_time \<Rightarrow> string" where
  "Format_RFC3339Nano t =
     (let local = gt_UnixNano t + gt_Offset t * 1000000000;
          secs = local div 1000000000; ns = nat (local mod 1000000000); s = nat (secs mod 86400);
          (y, m, d) = civil_of_days (secs div 86400)
      in (if y < 0 then ''-'' @ padded 4 (nat (- y)) else padded 4 (nat y)) @ ''-'' @ padded 2 m @ ''-'' @ padded 2 d
         @ ''T'' @ padded 2 (s div 3600) @ '':'' @ padded 2 (s mod 3600 div 60) @ '':'' @ padded 2 (s mod 60)
         @ fraction_nano ns @ zone_colon (gt_Offset t))"

section \<open>Case folding (strings.ToLower)\<close>

text \<open>
  The result as runes.  Besides the capitals of ASCII two code points have a lower case in ASCII,
  the dotted capital I and the Kelvin sign; no other letter is mapped into ASCII, so for a
  comparison with an ASCII name the remaining letters may be left as they are.
\<close>

definition lower_rune :: "nat \<Rightarrow> nat" where
  "lower_rune r = (if 65 \<le> r \<and> r \<le> 90 then r + 32 else if r = 304 then 105 else if r = 8490 then 107 else r)"

definition ToLower :: "string \<Rightarrow> nat list" where
  "ToLower s = map lower_rune (runes s)"

section \<open>Levels, values, attributes and records (package log/slog)\<close>

type_synonym slog_level = int

definition LevelDebug :: slog_level where "LevelDebug = - 4"
definition LevelInfo :: slog_level where "LevelInfo = 0"
definition LevelWarn :: slog_level where "LevelWarn = 4"
definition LevelError :: slog_level where "LevelError = 8"

lemmas slog_level_defs = LevelDebug_def LevelInfo_def LevelWarn_def LevelError_def

definition Level_String :: "slog_level \<Rightarrow> string" where
  "Level_String l =
     (let str = (\<lambda>base v. if v = 0 then base else base @ (if v < 0 then [] else ''+'') @ Itoa v)
      in if l < LevelInfo then str ''DEBUG'' (l - LevelDebug)
         else if l < LevelWarn then str ''INFO'' (l - LevelInfo)
         else if l < LevelError then str ''WARN'' (l - LevelWarn)
         else str ''ERROR'' (l - LevelError))"

record slog_source =
  src_Function :: string
  src_File :: string
  src_Line :: int

datatype json =
  JNull
| JString string
| JNumber int
| JBool bool
| JObject "(string \<times> json) list"
| JRaw string

text \<open>
  \<open>AnyLevel\<close>, \<open>AnySource\<close> and \<open>AnyNil\<close> are the values of kind Any that the handlers look into.  A
  value of any other kind (a float, a duration, an error, a struct) stands for its text, which
  \<open>Value.String\<close> answers, and its JSON, which the JSON handler writes; a time carries its own text
  besides the instant, because that names the location.
\<close>

datatype slog_value =
  KindString string
| KindInt64 int
| KindBool bool
| KindTime go_time string
| KindGroup "slog_attr list"
| AnyLevel slog_level
| AnySource slog_source
| AnyNil
| OtherValue string json
and slog_attr = Attr (attr_Key: string) (attr_Value: slog_value)

definition join_with :: "string \<Rightarrow> string list \<Rightarrow> string" where
  "join_with sep xs = concat (case xs of [] \<Rightarrow> [] | x # r \<Rightarrow> x # map (\<lambda>y. sep @ y) r)"

primrec Value_String :: "slog_value \<Rightarrow> string" and Attr_String :: "slog_attr \<Rightarrow> string" where
  "Value_String (KindString s) = s"
| "Value_String (KindInt64 n) = Itoa n"
| "Value_String (KindBool b) = (if b then ''true'' else ''false'')"
| "Value_String (KindTime t txt) = txt"
| "Value_String (KindGroup as) = ''['' @ join_with '' '' (map Attr_String as) @ '']''"
| "Value_String (AnyLevel l) = Level_String l"
| "Value_String (AnySource s) = ''&{Function:'' @ src_Function s @ '' File:'' @ src_File s @ '' Line:'' @ Itoa (src_Line s) @ ''}''"
| "Value_String AnyNil = ''<nil>''"
| "Value_String (OtherValue txt js) = txt"
| "Attr_String (Attr k v) = k @ ''='' @ Value_String v"

definition empty_group :: "slog_attr \<Rightarrow> bool" where
  "empty_group a \<longleftrightarrow> attr_Value a = KindGroup []"

record slog_record =
  rec_Time :: "go_time option"
  rec_Level :: slog_level
  rec_Message :: string
  rec_Source :: "slog_source option"
  rec_Attrs :: "slog_attr list"

text \<open>\<open>NewRecord\<close> and \<open>AddAttrs\<close>; a zero time is \<open>None\<close>, and empty groups are not added.\<close>

definition NewRecord :: "go_time option \<Rightarrow> slog_level \<Rightarrow> string \<Rightarrow> slog_source option \<Rightarrow> slog_record" where
  "NewRecord t l msg pc = \<lparr>rec_Time = t, rec_Level = l, rec_Message = msg, rec_Source = pc, rec_Attrs = []\<rparr>"

definition AddAttrs :: "slog_attr list \<Rightarrow> slog_record \<Rightarrow> slog_record" where
  "AddAttrs as r = r\<lparr>rec_Attrs := rec_Attrs r @ filter (\<lambda>a. \<not> empty_group a) as\<rparr>"

end
