(* ===== verification/Logging.thy ===== *)
theory Logging
  imports GoSlog
begin

text \<open>
  internal/logging/handler.go: the handler every record of the service is logged through.  It wraps
  the JSON handler of log/slog, which is written out here for the options that \<open>NewHandler\<close> gives
  it.  An entry is the list of its top-level fields in the order they are written.
\<close>

section \<open>Keys and severities\<close>

definition LevelCritical :: slog_level where "LevelCritical = LevelError + 4"

definition cloudLoggingPrefix :: string where "cloudLoggingPrefix = ''logging.googleapis.com/''"
definition keyTime :: string where "keyTime = ''time''"
definition keySeverity :: string where "keySeverity = ''severity''"
definition keyMessage :: string where "keyMessage = ''message''"
definition keySourceLocation :: string where "keySourceLocation = cloudLoggingPrefix @ ''sourceLocation''"
definition keyTrace :: string where "keyTrace = cloudLoggingPrefix @ ''trace''"
definition keySpanID :: string where "keySpanID = cloudLoggingPrefix @ ''spanId''"
definition keyTraceSampled :: string where "keyTraceSampled = cloudLoggingPrefix @ ''trace_sampled''"
definition reservedPrefix :: string where "reservedPrefix = ''attr_''"

text \<open>The constants \<open>TimeKey\<close>, \<open>LevelKey\<close>, \<open>MessageKey\<close> and \<open>SourceKey\<close> of log/slog.\<close>

definition slog_TimeKey :: string where "slog_TimeKey = ''time''"
definition slog_LevelKey :: string where "slog_LevelKey = ''level''"
definition slog_MessageKey :: string where "slog_MessageKey = ''msg''"
definition slog_SourceKey :: string where "slog_SourceKey = ''source''"

lemmas logging_keys = cloudLoggingPrefix_def keyTime_def keySeverity_def keyMessage_def keySourceLocation_def
  keyTrace_def keySpanID_def keyTraceSampled_def reservedPrefix_def slog_TimeKey_def slog_LevelKey_def
  slog_MessageKey_def slog_SourceKey_def

definition reservedKeys :: "string list" where
  "reservedKeys = [keyTime, keySeverity, keyMessage, slog_LevelKey, slog_MessageKey, slog_SourceKey]"

definition ParseLevel :: "string \<Rightarrow> gerr + slog_level" where
  "ParseLevel s =
     (let name = ToLower s; is_name = (\<lambda>n. name = bytes_of n)
      in if is_name ''debug'' then Inr LevelDebug
         else if is_name ''info'' then Inr LevelInfo
         else if is_name ''warn'' \<or> is_name ''warning'' then Inr LevelWarn
         else if is_name ''error'' then Inr LevelError
         else if is_name ''critical'' then Inr LevelCritical
         else Inl (Errorf ''unknown log level %q'' [s]))"

definition severityOf :: "slog_level \<Rightarrow> string" where
  "severityOf level =
     (if level < LevelInfo then ''DEBUG''
      else if level < LevelWarn then ''INFO''
      else if level < LevelError then ''WARNING''
      else if level < LevelCritical then ''ERROR''
      else ''CRITICAL'')"

section \<open>Attributes on the way to the entry\<close>

definition replaceAttr :: "string list \<Rightarrow> slog_attr \<Rightarrow> slog_attr" where
  "replaceAttr groups a =
     (if groups \<noteq> [] then a
      else if attr_Key a = slog_TimeKey then
        (case attr_Value a of
           KindTime t _ \<Rightarrow> Attr keyTime (KindString (Format_RFC3339Nano (time_UTC t)))
         | _ \<Rightarrow> a)
      else if attr_Key a = slog_LevelKey then
        (case attr_Value a of AnyLevel level \<Rightarrow> Attr keySeverity (KindString (severityOf level)) | _ \<Rightarrow> a)
      else if attr_Key a = slog_MessageKey then Attr keyMessage (KindString (Value_String (attr_Value a)))
      else if attr_Key a = slog_SourceKey then
        (case attr_Value a of
           AnySource s \<Rightarrow> Attr keySourceLocation (KindGroup
             [Attr ''file'' (KindString (src_File s)), Attr ''line'' (KindString (Itoa (src_Line s))),
              Attr ''function'' (KindString (src_Function s))])
         | _ \<Rightarrow> a)
      else a)"

definition HasPrefix :: "string \<Rightarrow> string \<Rightarrow> bool" where
  "HasPrefix s p \<longleftrightarrow> take (length p) s = p"

definition isReserved :: "string \<Rightarrow> bool" where
  "isReserved key \<longleftrightarrow> (if HasPrefix key cloudLoggingPrefix then True else key \<in> set reservedKeys)"

definition renameReserved :: "slog_attr \<Rightarrow> slog_attr" where
  "renameReserved a = (if \<not> isReserved (attr_Key a) then a else Attr (reservedPrefix @ attr_Key a) (attr_Value a))"

definition renameReservedAttrs :: "slog_attr list \<Rightarrow> slog_attr list" where
  "renameReservedAttrs attrs =
     (if \<not> list_ex (\<lambda>a. isReserved (attr_Key a)) attrs then attrs else map renameReserved attrs)"

definition renameReservedRecord :: "slog_record \<Rightarrow> slog_record" where
  "renameReservedRecord record =
     (if \<not> list_ex (\<lambda>a. isReserved (attr_Key a)) (rec_Attrs record) then record
      else AddAttrs (map renameReserved (rec_Attrs record))
        (NewRecord (rec_Time record) (rec_Level record) (rec_Message record) (rec_Source record)))"

section \<open>The JSON handler of log/slog with these options\<close>

text \<open>A source that was not renamed becomes a group of its fields that are set.\<close>

definition source_group :: "slog_value \<Rightarrow> slog_value" where
  "source_group v = (case v of
      AnySource s \<Rightarrow> KindGroup
        ((if src_Function s \<noteq> [] then [Attr ''function'' (KindString (src_Function s))] else [])
         @ (if src_File s \<noteq> [] then [Attr ''file'' (KindString (src_File s))] else [])
         @ (if src_Line s \<noteq> 0 then [Attr ''line'' (KindInt64 (src_Line s))] else []))
    | _ \<Rightarrow> v)"

fun json_value :: "slog_value \<Rightarrow> json" where
  "json_value (KindString s) = JString s"
| "json_value (KindInt64 n) = JNumber n"
| "json_value (KindBool b) = JBool b"
| "json_value (KindTime t _) = JString (Format_RFC3339Nano t)"
| "json_value (AnyLevel l) = JString (Level_String l)"
| "json_value (OtherValue _ js) = js"
| "json_value _ = JNull"

definition replaced :: "string list \<Rightarrow> slog_attr \<Rightarrow> slog_attr" where
  "replaced groups a =
     (let a1 = (case attr_Value a of KindGroup _ \<Rightarrow> a | _ \<Rightarrow> replaceAttr groups a)
      in Attr (attr_Key a1) (source_group (attr_Value a1)))"

text \<open>
  \<open>appendAttr\<close> answers whether the attribute counts as output and the fields it writes.  A weight
  that counts a source for its three fields decreases at every nested attribute.
\<close>

primrec value_weight :: "slog_value \<Rightarrow> nat" and attr_weight :: "slog_attr \<Rightarrow> nat" where
  "value_weight (KindString s) = 1"
| "value_weight (KindInt64 n) = 1"
| "value_weight (KindBool b) = 1"
| "value_weight (KindTime t txt) = 1"
| "value_weight (KindGroup as) = Suc (sum_list (map attr_weight as))"
| "value_weight (AnyLevel l) = 1"
| "value_weight (AnySource s) = 9"
| "value_weight AnyNil = 1"
| "value_weight (OtherValue txt js) = 1"
| "attr_weight (Attr k v) = Suc (value_weight v)"

lemma attr_weight_eq: "attr_weight a = Suc (value_weight (attr_Value a))"
  by (cases a) simp

lemma value_weight_source_group: "value_weight (source_group v) \<le> value_weight v"
  by (cases v) (simp_all add: source_group_def)

lemma attr_weight_replaceAttr: "attr_weight (replaceAttr groups a) \<le> attr_weight a"
  by (cases "attr_Value a") (simp_all add: attr_weight_eq replaceAttr_def)

lemma attr_weight_replaced: "attr_weight (replaced groups a) \<le> attr_weight a"
proof -
  have "attr_weight (case attr_Value a of KindGroup _ \<Rightarrow> a | _ \<Rightarrow> replaceAttr groups a) \<le> attr_weight a"
    using attr_weight_replaceAttr [of groups a] by (simp split: slog_value.split)
  then show ?thesis
    using value_weight_source_group [of "attr_Value (case attr_Value a of KindGroup _ \<Rightarrow> a | _ \<Rightarrow> replaceAttr groups a)"]
    by (simp add: replaced_def Let_def attr_weight_eq)
qed

function appendAttr :: "string list \<Rightarrow> slog_attr \<Rightarrow> bool \<times> (string \<times> json) list"
  and appendAttrs :: "string list \<Rightarrow> slog_attr list \<Rightarrow> bool \<times> (string \<times> json) list" where
  "appendAttr groups a =
     (let a' = replaced groups a; key = attr_Key a'
      in if key = [] \<and> attr_Value a' = AnyNil then (False, [])
         else case attr_Value a' of
             KindGroup as \<Rightarrow>
               if as = [] then (True, [])
               else (case appendAttrs (if key = [] then groups else groups @ [key]) as of
                   (False, _) \<Rightarrow> (False, [])
                 | (True, fs) \<Rightarrow> (True, if key = [] then fs else [(key, JObject fs)]))
           | v \<Rightarrow> (True, [(key, json_value v)]))"
| "appendAttrs groups [] = (False, [])"
| "appendAttrs groups (a # as) =
     (case appendAttr groups a of (n1, fs1) \<Rightarrow> case appendAttrs groups as of (n2, fs2) \<Rightarrow> (n1 \<or> n2, fs1 @ fs2))"
  by pat_completeness auto
termination
proof (relation "measure (\<lambda>x. case x of Inl (_, a) \<Rightarrow> 2 * attr_weight a | Inr (_, as) \<Rightarrow> Suc (2 * sum_list (map attr_weight as)))",
    goal_cases)
  case (2 groups a a' key as)
  then show ?case using attr_weight_replaced [of groups a] by (simp add: attr_weight_eq)
qed (simp_all add: attr_weight_eq)

declare appendAttr.simps [simp del]

text \<open>
  The handler: the fields written before a group was opened, the groups that are open with the fields
  written into them, outermost first, and the groups that \<open>WithGroup\<close> added since, which are opened by
  the next attribute only.
\<close>

record json_handler =
  jh_Level :: slog_level
  jh_AddSource :: bool
  jh_Fields :: "(string \<times> json) list"
  jh_Open :: "(string \<times> (string \<times> json) list) list"
  jh_Pending :: "string list"

definition jh_groups :: "json_handler \<Rightarrow> string list" where
  "jh_groups h = map fst (jh_Open h) @ jh_Pending h"

definition NewJSONHandler :: "slog_level \<Rightarrow> bool \<Rightarrow> json_handler" where
  "NewJSONHandler level addSource =
     \<lparr>jh_Level = level, jh_AddSource = addSource, jh_Fields = [], jh_Open = [], jh_Pending = []\<rparr>"

text \<open>Opens the pending groups and writes fields into the innermost group.\<close>

definition jh_write :: "(string \<times> json) list \<Rightarrow> json_handler \<Rightarrow> json_handler" where
  "jh_write fs h =
     (let opened = jh_Open h @ map (\<lambda>g. (g, [])) (jh_Pending h)
      in if opened = [] then h\<lparr>jh_Fields := jh_Fields h @ fs\<rparr>
         else h\<lparr>jh_Open := butlast opened @ [(fst (List.last opened), snd (List.last opened) @ fs)], jh_Pending := []\<rparr>)"

definition jh_WithAttrs :: "slog_attr list \<Rightarrow> json_handler \<Rightarrow> json_handler" where
  "jh_WithAttrs as h =
     (if list_all empty_group as then h
      else case appendAttrs (jh_groups h) as of (False, _) \<Rightarrow> h | (True, fs) \<Rightarrow> jh_write fs h)"

definition jh_WithGroup :: "string \<Rightarrow> json_handler \<Rightarrow> json_handler" where
  "jh_WithGroup name h = (if name = [] then h else h\<lparr>jh_Pending := jh_Pending h @ [name]\<rparr>)"

definition jh_Enabled :: "json_handler \<Rightarrow> slog_level \<Rightarrow> bool" where
  "jh_Enabled h level \<longleftrightarrow> jh_Level h \<le> level"

fun nest_groups :: "(string \<times> (string \<times> json) list) list \<Rightarrow> (string \<times> json) list" where
  "nest_groups [] = []"
| "nest_groups ((g, fs) # rest) = [(g, JObject (fs @ nest_groups rest))]"

definition builtin_attrs :: "json_handler \<Rightarrow> slog_record \<Rightarrow> slog_attr list" where
  "builtin_attrs h r =
     (case rec_Time r of None \<Rightarrow> [] | Some t \<Rightarrow> [Attr slog_TimeKey (KindTime t [])])
     @ [Attr slog_LevelKey (AnyLevel (rec_Level r))]
     @ (if jh_AddSource h
        then [Attr slog_SourceKey (AnySource (case rec_Source r of
          None \<Rightarrow> \<lparr>src_Function = [], src_File = [], src_Line = 0\<rparr> | Some s \<Rightarrow> s))] else [])
     @ [Attr slog_MessageKey (KindString (rec_Message r))]"

definition jh_Handle :: "json_handler \<Rightarrow> slog_record \<Rightarrow> (string \<times> json) list" where
  "jh_Handle h r =
     (let h1 = (if rec_Attrs r = [] then h
          else case appendAttrs (jh_groups h) (rec_Attrs r) of (False, _) \<Rightarrow> h | (True, fs) \<Rightarrow> jh_write fs h)
      in snd (appendAttrs [] (builtin_attrs h r)) @ jh_Fields h1 @ nest_groups (jh_Open h1))"

section \<open>The handler of the service\<close>

record handlerOp =
  op_attrs :: "slog_attr list"
  op_group :: string

definition op_apply :: "handlerOp \<Rightarrow> json_handler \<Rightarrow> json_handler" where
  "op_apply op handler =
     (if op_group op \<noteq> [] then jh_WithGroup (op_group op) handler else jh_WithAttrs (op_attrs op) handler)"

record traceHandler =
  th_base :: json_handler
  th_inner :: json_handler
  th_ops :: "handlerOp list"
  th_projectID :: string
  th_grouped :: bool

definition newTraceHandler :: "json_handler \<Rightarrow> handlerOp list \<Rightarrow> string \<Rightarrow> traceHandler" where
  "newTraceHandler base ops projectID =
     (let (inner, grouped) = foldl (\<lambda>(inner, grouped) op. (op_apply op inner, grouped \<or> op_group op \<noteq> [])) (base, False) ops
      in \<lparr>th_base = base, th_inner = inner, th_ops = ops, th_projectID = projectID, th_grouped = grouped\<rparr>)"

record logging_options =
  lo_Level :: "slog_level option"
  lo_AddSource :: bool
  lo_ProjectID :: string

definition NewHandler :: "logging_options \<Rightarrow> traceHandler" where
  "NewHandler opts =
     newTraceHandler (NewJSONHandler (case lo_Level opts of None \<Rightarrow> LevelInfo | Some l \<Rightarrow> l) (lo_AddSource opts)) []
       (lo_ProjectID opts)"

definition th_Enabled :: "traceHandler \<Rightarrow> slog_level \<Rightarrow> bool" where
  "th_Enabled h level \<longleftrightarrow> jh_Enabled (th_inner h) level"

definition traceResourceName :: "traceHandler \<Rightarrow> string \<Rightarrow> string" where
  "traceResourceName h traceID =
     (if th_projectID h = [] then traceID else ''projects/'' @ th_projectID h @ ''/traces/'' @ traceID)"

text \<open>
  What the context's span answers when it is valid: the trace ID and the span ID as text, and whether
  the trace is sampled.  The tracing library is not part of the repository.
\<close>

record span_context =
  sc_TraceID :: string
  sc_SpanID :: string
  sc_Sampled :: bool

definition trace_attrs :: "traceHandler \<Rightarrow> span_context \<Rightarrow> slog_attr list" where
  "trace_attrs h sc =
     [Attr keyTrace (KindString (traceResourceName h (sc_TraceID sc))), Attr keySpanID (KindString (sc_SpanID sc)),
      Attr keyTraceSampled (KindBool (sc_Sampled sc))]"

definition th_Handle :: "traceHandler \<Rightarrow> span_context option \<Rightarrow> slog_record \<Rightarrow> (string \<times> json) list" where
  "th_Handle h span record =
     (let record1 = (if \<not> th_grouped h then renameReservedRecord record else record)
      in case span of
          None \<Rightarrow> jh_Handle (th_inner h) record1
        | Some sc \<Rightarrow> jh_Handle (fold op_apply (th_ops h) (jh_WithAttrs (trace_attrs h sc) (th_base h))) record1)"

definition appendOp :: "traceHandler \<Rightarrow> handlerOp \<Rightarrow> handlerOp list" where
  "appendOp h op = th_ops h @ [op]"

definition th_WithAttrs :: "traceHandler \<Rightarrow> slog_attr list \<Rightarrow> traceHandler" where
  "th_WithAttrs h attrs =
     (if attrs = [] then h
      else let attrs1 = (if \<not> th_grouped h then renameReservedAttrs attrs else attrs)
           in newTraceHandler (th_base h) (appendOp h \<lparr>op_attrs = attrs1, op_group = []\<rparr>) (th_projectID h))"

definition th_WithGroup :: "traceHandler \<Rightarrow> string \<Rightarrow> traceHandler" where
  "th_WithGroup h name =
     (if name = [] then h else newTraceHandler (th_base h) (appendOp h \<lparr>op_attrs = [], op_group = name\<rparr>) (th_projectID h))"

end
