(* ===== verification/LoggingProperties.thy ===== *)
theory LoggingProperties
  imports Logging
begin

text \<open>
  What an entry of the service's log holds: the severities and their names, the fields that the
  handler writes itself, the fields of the trace, and the names of the attributes of the callers.
\<close>

section \<open>Severities\<close>

lemma ToLower_ascii: "\<forall>c \<in> set s. of_char c < (128 :: nat) \<Longrightarrow> ToLower s = map lower_rune (bytes_of s)"
  by (simp add: ToLower_def runes_ascii)

lemma ParseLevel_severities:
  "ParseLevel ''DEBUG'' = Inr LevelDebug" "ParseLevel ''INFO'' = Inr LevelInfo" "ParseLevel ''WARNING'' = Inr LevelWarn"
  "ParseLevel ''ERROR'' = Inr LevelError" "ParseLevel ''CRITICAL'' = Inr LevelCritical"
  by (simp_all add: ParseLevel_def ToLower_ascii bytes_of_def lower_rune_def)

definition covering_level :: "slog_level \<Rightarrow> slog_level" where
  "covering_level l = (if l < LevelInfo then LevelDebug else if l < LevelWarn then LevelInfo
     else if l < LevelError then LevelWarn else if l < LevelCritical then LevelError else LevelCritical)"

text \<open>
  Every severity that is written names a level that can be configured: reading it back gives the
  level whose severity it is, the highest one not above the record's, or debug; so a handler that is
  configured with the severity of a record logs this record, unless it is below debug.
\<close>

theorem severity_roundtrip:
  "ParseLevel (severityOf l) = Inr (covering_level l) \<and> severityOf (covering_level l) = severityOf l
   \<and> (LevelDebug \<le> l \<longrightarrow> th_Enabled (NewHandler \<lparr>lo_Level = Some (covering_level l), lo_AddSource = a, lo_ProjectID = p\<rparr>) l)
   \<and> (severityOf l = severityOf m \<longleftrightarrow> covering_level l = covering_level m)"
proof -
  have "ParseLevel (severityOf l) = Inr (covering_level l)" and "severityOf (covering_level l) = severityOf l"
    by (simp_all add: severityOf_def covering_level_def ParseLevel_severities slog_level_defs LevelCritical_def)
  moreover have "th_Enabled (NewHandler \<lparr>lo_Level = Some (covering_level l), lo_AddSource = a, lo_ProjectID = p\<rparr>) l"
    if "LevelDebug \<le> l"
    using that by (simp add: th_Enabled_def jh_Enabled_def NewHandler_def newTraceHandler_def NewJSONHandler_def
        covering_level_def slog_level_defs LevelCritical_def)
  moreover have "severityOf l = severityOf m \<longleftrightarrow> covering_level l = covering_level m"
    by (simp add: severityOf_def covering_level_def slog_level_defs LevelCritical_def)
  ultimately show ?thesis by blast
qed

theorem severity_roundtrip_witness:
  "th_Enabled (NewHandler \<lparr>lo_Level = Some LevelWarn, lo_AddSource = False, lo_ProjectID = []\<rparr>) 5"
  using severity_roundtrip [of 5 False "[]" 5] by (simp add: covering_level_def slog_level_defs LevelCritical_def)

section \<open>The fields the handler writes\<close>

definition header_fields :: "bool \<Rightarrow> slog_record \<Rightarrow> (string \<times> json) list" where
  "header_fields addSource r =
     (case rec_Time r of None \<Rightarrow> [] | Some t \<Rightarrow> [(keyTime, JString (Format_RFC3339Nano (time_UTC t)))])
     @ [(keySeverity, JString (severityOf (rec_Level r)))]
     @ (if addSource then [(keySourceLocation, JObject (case rec_Source r of
          None \<Rightarrow> [(''file'', JString []), (''line'', JString ''0''), (''function'', JString [])]
        | Some s \<Rightarrow> [(''file'', JString (src_File s)), (''line'', JString (Itoa (src_Line s))),
            (''function'', JString (src_Function s))]))] else [])
     @ [(keyMessage, JString (rec_Message r))]"

lemmas append_simps = appendAttr.simps replaced_def replaceAttr_def source_group_def Let_def

lemma Itoa_0: "Itoa 0 = ''0''"
  by code_simp

lemma appendAttrs_builtin: "snd (appendAttrs [] (builtin_attrs h r)) = header_fields (jh_AddSource h) r"
  by (cases "rec_Time r"; cases "rec_Source r"; cases "jh_AddSource h")
    (simp_all add: builtin_attrs_def header_fields_def append_simps logging_keys Itoa_0)

definition trace_fields :: "traceHandler \<Rightarrow> span_context \<Rightarrow> (string \<times> json) list" where
  "trace_fields h sc =
     [(keyTrace, JString (traceResourceName h (sc_TraceID sc))), (keySpanID, JString (sc_SpanID sc)),
      (keyTraceSampled, JBool (sc_Sampled sc))]"

lemma appendAttrs_trace: "appendAttrs [] (trace_attrs h sc) = (True, trace_fields h sc)"
  by (simp add: trace_attrs_def trace_fields_def append_simps logging_keys)

section \<open>Handlers derived from the one the service builds\<close>

text \<open>The calls of \<open>WithAttrs\<close> and \<open>WithGroup\<close>, in the order they are made.\<close>

definition derive :: "logging_options \<Rightarrow> handlerOp list \<Rightarrow> traceHandler" where
  "derive opts calls = foldl (\<lambda>h op. if op_group op \<noteq> [] then th_WithGroup h (op_group op)
     else th_WithAttrs h (op_attrs op)) (NewHandler opts) calls"

lemma foldl_inner_grouped:
  "foldl (\<lambda>(inner, grouped) op. (op_apply op inner, grouped \<or> op_group op \<noteq> [])) (h, g) ops
     = (fold op_apply ops h, g \<or> (\<exists>op \<in> set ops. op_group op \<noteq> []))"
  by (induction ops arbitrary: h g) auto

lemma newTraceHandler_simps [simp]:
  "th_base (newTraceHandler base ops p) = base" "th_ops (newTraceHandler base ops p) = ops"
  "th_inner (newTraceHandler base ops p) = fold op_apply ops base" "th_projectID (newTraceHandler base ops p) = p"
  "th_grouped (newTraceHandler base ops p) \<longleftrightarrow> (\<exists>op \<in> set ops. op_group op \<noteq> [])"
  by (simp_all add: newTraceHandler_def foldl_inner_grouped)

lemma jh_WithAttrs_empty [simp]: "jh_WithAttrs [] h = h"
  by (simp add: jh_WithAttrs_def)

lemma op_apply_AddSource [simp]: "jh_AddSource (op_apply op h) = jh_AddSource h"
  by (auto simp: op_apply_def jh_WithGroup_def jh_WithAttrs_def jh_write_def Let_def split: prod.split bool.split)

lemma fold_op_apply_AddSource [simp]: "jh_AddSource (fold op_apply ops h) = jh_AddSource h"
  by (induction ops arbitrary: h) simp_all

text \<open>Fields put on the base before the calls are replayed stay in front.\<close>

definition on_top :: "(string \<times> json) list \<Rightarrow> json_handler \<Rightarrow> json_handler" where
  "on_top fs h = h\<lparr>jh_Fields := fs @ jh_Fields h\<rparr>"

lemma on_top_simps [simp]:
  "jh_groups (on_top fs h) = jh_groups h" "jh_AddSource (on_top fs h) = jh_AddSource h"
  "jh_Fields (on_top fs h) = fs @ jh_Fields h" "jh_Open (on_top fs h) = jh_Open h"
  by (simp_all add: on_top_def jh_groups_def)

lemma jh_write_on_top: "jh_write gs (on_top fs h) = on_top fs (jh_write gs h)"
  by (simp add: jh_write_def on_top_def Let_def)

lemma op_apply_on_top: "op_apply op (on_top fs h) = on_top fs (op_apply op h)"
  by (simp add: op_apply_def jh_WithGroup_def jh_WithAttrs_def jh_write_on_top split: prod.split bool.split)
    (simp add: on_top_def)

lemma fold_on_top: "fold op_apply ops (on_top fs h) = on_top fs (fold op_apply ops h)"
  by (induction ops arbitrary: h) (simp_all add: op_apply_on_top)

definition entry_rest :: "json_handler \<Rightarrow> slog_record \<Rightarrow> (string \<times> json) list" where
  "entry_rest h r =
     (let h1 = (if rec_Attrs r = [] then h
          else case appendAttrs (jh_groups h) (rec_Attrs r) of (False, _) \<Rightarrow> h | (True, fs) \<Rightarrow> jh_write fs h)
      in jh_Fields h1 @ nest_groups (jh_Open h1))"

lemma jh_Handle_entry: "jh_Handle h r = header_fields (jh_AddSource h) r @ entry_rest h r"
  by (simp add: jh_Handle_def entry_rest_def appendAttrs_builtin Let_def)

lemma entry_rest_on_top: "entry_rest (on_top fs h) r = fs @ entry_rest h r"
  by (auto simp: entry_rest_def Let_def jh_write_on_top split: prod.split bool.split)

lemma jh_WithAttrs_trace: "jh_WithAttrs (trace_attrs h sc) (NewJSONHandler l a) = on_top (trace_fields h sc) (NewJSONHandler l a)"
proof -
  have "\<not> list_all empty_group (trace_attrs h sc)" by (simp add: trace_attrs_def empty_group_def)
  then show ?thesis
    by (simp add: jh_WithAttrs_def jh_groups_def NewJSONHandler_def appendAttrs_trace jh_write_def on_top_def)
qed


section \<open>Names of the callers' attributes\<close>

lemma isReserved_iff: "isReserved k \<longleftrightarrow> HasPrefix k cloudLoggingPrefix
    \<or> k \<in> {''time'', ''severity'', ''message'', ''level'', ''msg'', ''source''}"
  by (simp add: isReserved_def reservedKeys_def logging_keys)

lemma not_isReserved_renamed: "\<not> isReserved (reservedPrefix @ k)"
  by (simp add: isReserved_iff HasPrefix_def logging_keys)

text \<open>An attribute that slog writes into the surrounding object: a group without a name.\<close>

definition inlined :: "slog_attr \<Rightarrow> bool" where
  "inlined a \<longleftrightarrow> attr_Key a = [] \<and> (case attr_Value a of KindGroup _ \<Rightarrow> True | _ \<Rightarrow> False)"

lemma appendAttr_names:
  assumes "\<not> isReserved (attr_Key a)" and "\<not> inlined a"
  shows "list_all (\<lambda>(k, v). \<not> isReserved k) (snd (appendAttr [] a))"
proof -
  have same: "replaceAttr [] a = a"
    using assms(1) by (auto simp: replaceAttr_def isReserved_iff logging_keys)
  show ?thesis
  proof (cases "attr_Key a = []")
    case False
    then show ?thesis using assms(1) same
      by (cases "attr_Value a") (auto simp: append_simps split: prod.split bool.split)
  next
    case True
    with assms(2) have "\<And>as. attr_Value a \<noteq> KindGroup as" by (auto simp: inlined_def)
    then show ?thesis using True same
      by (cases "attr_Value a") (auto simp: append_simps isReserved_iff HasPrefix_def logging_keys)
  qed
qed

lemma appendAttrs_names:
  assumes "\<forall>a \<in> set as. \<not> isReserved (attr_Key a) \<and> \<not> inlined a"
  shows "list_all (\<lambda>(k, v). \<not> isReserved k) (snd (appendAttrs [] as))"
  using assms
proof (induction as)
  case (Cons a as)
  then show ?case using appendAttr_names [of a] by (auto split: prod.split)
qed simp

lemma renamed_names:
  assumes "\<forall>a \<in> set as. \<not> inlined a" and "a \<in> set (renameReservedAttrs as)"
  shows "\<not> isReserved (attr_Key a) \<and> \<not> inlined a"
  using assms not_isReserved_renamed
  by (auto simp: renameReservedAttrs_def renameReserved_def list_ex_iff inlined_def reservedPrefix_def split: if_splits)

lemma renameReservedRecord_simps [simp]:
  "rec_Time (renameReservedRecord r) = rec_Time r" "rec_Level (renameReservedRecord r) = rec_Level r"
  "rec_Message (renameReservedRecord r) = rec_Message r" "rec_Source (renameReservedRecord r) = rec_Source r"
  by (simp_all add: renameReservedRecord_def AddAttrs_def NewRecord_def)

lemma renamed_record_names:
  assumes "\<forall>a \<in> set (rec_Attrs r). \<not> inlined a" and "a \<in> set (rec_Attrs (renameReservedRecord r))"
  shows "\<not> isReserved (attr_Key a) \<and> \<not> inlined a"
  using renamed_names [OF assms(1), of a] assms(2)
  by (auto simp: renameReservedRecord_def renameReservedAttrs_def AddAttrs_def NewRecord_def split: if_splits)

lemma header_fields_rename [simp]: "header_fields b (renameReservedRecord r) = header_fields b r"
  by (simp add: header_fields_def)

text \<open>What the calls leave in the handler: no reserved name at the top level.\<close>

definition clean :: "json_handler \<Rightarrow> bool" where
  "clean h \<longleftrightarrow> list_all (\<lambda>(k, v). \<not> isReserved k) (jh_Fields h) \<and> list_all (\<lambda>g. \<not> isReserved g) (jh_groups h)"

lemma map_fst_last: "xs \<noteq> [] \<Longrightarrow> map fst (butlast xs @ [(fst (List.last xs), y)]) = map fst xs"
  by (cases xs rule: rev_cases) simp_all

lemma jh_write_groups: "jh_groups (jh_write fs h) = jh_groups h"
proof -
  let ?opened = "jh_Open h @ map (\<lambda>g. (g, [])) (jh_Pending h)"
  have groups: "jh_groups h = map fst ?opened" by (simp add: jh_groups_def comp_def)
  show ?thesis
  proof (cases "?opened = []")
    case False
    then have "jh_groups (jh_write fs h) = map fst (butlast ?opened @ [(fst (List.last ?opened), snd (List.last ?opened) @ fs)])"
      unfolding jh_write_def Let_def by (simp add: jh_groups_def)
    with map_fst_last [OF False] groups show ?thesis by simp
  qed (simp add: jh_write_def jh_groups_def)
qed

lemma clean_write:
  assumes "clean h" and "jh_groups h = [] \<Longrightarrow> list_all (\<lambda>(k, v). \<not> isReserved k) fs"
  shows "clean (jh_write fs h)"
  using assms unfolding clean_def jh_write_groups by (auto simp: jh_write_def jh_groups_def Let_def)

lemma clean_WithAttrs:
  assumes "clean h" and "jh_groups h = [] \<Longrightarrow> \<forall>a \<in> set as. \<not> isReserved (attr_Key a) \<and> \<not> inlined a"
  shows "clean (jh_WithAttrs as h)"
  using assms appendAttrs_names [of as]
  by (auto simp: jh_WithAttrs_def intro: clean_write split: prod.split bool.split)

lemma jh_groups_WithAttrs: "jh_groups (jh_WithAttrs as h) = jh_groups h"
  by (simp add: jh_WithAttrs_def jh_write_groups split: prod.split bool.split)

lemma jh_groups_op_apply: "jh_groups (op_apply op h) = jh_groups h @ (if op_group op = [] then [] else [op_group op])"
  by (simp add: op_apply_def jh_groups_WithAttrs) (simp add: jh_WithGroup_def jh_groups_def)

lemma jh_groups_fold: "jh_groups (fold op_apply ops h) = jh_groups h @ filter (\<lambda>g. g \<noteq> []) (map op_group ops)"
  by (induction ops arbitrary: h) (auto simp: jh_groups_op_apply)

lemma jh_groups_new [simp]: "jh_groups (NewJSONHandler l a) = []"
  by (simp add: jh_groups_def NewJSONHandler_def)

lemma derive_snoc:
  "derive opts (calls @ [op]) = (if op_group op \<noteq> [] then th_WithGroup (derive opts calls) (op_group op)
     else th_WithAttrs (derive opts calls) (op_attrs op))"
  by (simp add: derive_def)

lemma derive_state:
  "th_base (derive opts calls) = NewJSONHandler (case lo_Level opts of None \<Rightarrow> LevelInfo | Some l \<Rightarrow> l) (lo_AddSource opts)
   \<and> th_inner (derive opts calls) = fold op_apply (th_ops (derive opts calls)) (th_base (derive opts calls))
   \<and> (th_grouped (derive opts calls) \<longleftrightarrow> jh_groups (th_inner (derive opts calls)) \<noteq> [])
   \<and> th_projectID (derive opts calls) = lo_ProjectID opts"
proof (induction calls rule: rev_induct)
  case (snoc op calls)
  then show ?case
    by (auto simp: derive_snoc th_WithGroup_def th_WithAttrs_def Let_def appendOp_def jh_groups_fold jh_groups_op_apply filter_empty_conv)
qed (simp add: derive_def NewHandler_def)

lemmas derive_base = derive_state [THEN conjunct1]
  and derive_inner = derive_state [THEN conjunct2, THEN conjunct1]
  and derive_grouped = derive_state [THEN conjunct2, THEN conjunct2, THEN conjunct1]

definition calls_ok :: "handlerOp list \<Rightarrow> bool" where
  "calls_ok calls \<longleftrightarrow> list_all (\<lambda>op. \<not> isReserved (op_group op) \<and> list_all (\<lambda>a. \<not> inlined a) (op_attrs op)) calls"

lemma clean_derive: "calls_ok calls \<Longrightarrow> clean (th_inner (derive opts calls))"
proof (induction calls rule: rev_induct)
  case Nil
  show ?case by (simp add: derive_def NewHandler_def clean_def jh_groups_def NewJSONHandler_def)
next
  case (snoc op calls)
  let ?h = "derive opts calls"
  from snoc have IH: "clean (th_inner ?h)" and op: "\<not> isReserved (op_group op)" "\<forall>a \<in> set (op_attrs op). \<not> inlined a"
    by (simp_all add: calls_ok_def list_all_iff)
  have step: "fold op_apply (appendOp ?h c) (th_base ?h) = op_apply c (th_inner ?h)" for c
    using derive_inner [of opts calls] by (simp add: appendOp_def)
  show ?case
  proof (cases "op_group op = []")
    case False
    then show ?thesis using IH op(1)
      by (simp add: derive_snoc th_WithGroup_def step op_apply_def jh_WithGroup_def)
        (simp add: clean_def jh_groups_def)
  next
    case True
    have "clean (jh_WithAttrs (if th_grouped ?h then op_attrs op else renameReservedAttrs (op_attrs op)) (th_inner ?h))"
      by (rule clean_WithAttrs [OF IH]) (use renamed_names [OF op(2)] derive_grouped [of opts calls] in auto)
    then show ?thesis using True IH
      by (auto simp: derive_snoc th_WithAttrs_def step op_apply_def Let_def split: if_splits)
  qed
qed

lemma filter_reserved_none: "list_all (\<lambda>(k, v). \<not> isReserved k) fs \<Longrightarrow> filter (\<lambda>f. isReserved (fst f)) fs = []"
  by (auto simp: list_all_iff filter_empty_conv)

lemma reserved_header: "filter (\<lambda>f. isReserved (fst f)) (header_fields b r) = header_fields b r"
  "filter (\<lambda>f. isReserved (fst f)) (trace_fields h sc) = trace_fields h sc"
  by (auto simp: header_fields_def trace_fields_def isReserved_iff HasPrefix_def logging_keys split: option.split)

lemma clean_entry_rest:
  assumes "clean h" and "jh_groups h = [] \<Longrightarrow> \<forall>a \<in> set (rec_Attrs r). \<not> isReserved (attr_Key a) \<and> \<not> inlined a"
  shows "filter (\<lambda>f. isReserved (fst f)) (entry_rest h r) = []"
proof -
  have flat: "filter (\<lambda>f. isReserved (fst f)) (jh_Fields g @ nest_groups (jh_Open g)) = []" if "clean g" for g
    using that by (cases "jh_Open g")
      (auto simp: clean_def jh_groups_def filter_reserved_none)
  have "clean (jh_write fs h)" if "appendAttrs (jh_groups h) (rec_Attrs r) = (True, fs)" for fs
    using assms appendAttrs_names [of "rec_Attrs r"] that by (intro clean_write) auto
  then show ?thesis using flat assms(1) by (auto simp: entry_rest_def Let_def split: prod.split bool.split)
qed

section \<open>The entry of a record\<close>

definition given_record :: "traceHandler \<Rightarrow> slog_record \<Rightarrow> slog_record" where
  "given_record h r = (if th_grouped h then r else renameReservedRecord r)"

lemma th_Handle_derived:
  "th_Handle (derive opts calls) span r =
     header_fields (lo_AddSource opts) r
     @ (case span of None \<Rightarrow> [] | Some sc \<Rightarrow> trace_fields (derive opts calls) sc)
     @ entry_rest (th_inner (derive opts calls)) (given_record (derive opts calls) r)"
proof -
  let ?h = "derive opts calls"
  have source: "jh_AddSource (th_inner ?h) = lo_AddSource opts"
    using derive_inner [of opts calls] derive_base [of opts calls] by (simp add: NewJSONHandler_def)
  have header: "header_fields b (given_record ?h r) = header_fields b r" for b by (simp add: given_record_def)
  have "fold op_apply (th_ops ?h) (jh_WithAttrs (trace_attrs ?h sc) (th_base ?h)) = on_top (trace_fields ?h sc) (th_inner ?h)" for sc
    using derive_inner [of opts calls] by (simp add: derive_base jh_WithAttrs_trace fold_on_top)
  then show ?thesis
    using header by (cases span; cases "th_grouped ?h")
      (simp_all add: th_Handle_def given_record_def jh_Handle_entry source entry_rest_on_top Let_def)
qed

text \<open>
  C32: Whatever calls of \<open>WithAttrs\<close> and \<open>WithGroup\<close> a logger went through, a record of a traced
  request gets the three trace fields at the top level of its entry, right after the fields of the
  record itself, and is otherwise the entry it would be without a trace; the trace is named after the
  project when there is one.
\<close>

theorem trace_at_top_level:
  "\<exists>header rest. th_Handle (derive opts calls) None r = header @ rest
    \<and> th_Handle (derive opts calls) (Some sc) r = header
        @ [(''logging.googleapis.com/trace'', JString (if lo_ProjectID opts = [] then sc_TraceID sc
              else ''projects/'' @ lo_ProjectID opts @ ''/traces/'' @ sc_TraceID sc)),
           (''logging.googleapis.com/spanId'', JString (sc_SpanID sc)),
           (''logging.googleapis.com/trace_sampled'', JBool (sc_Sampled sc))] @ rest
    \<and> map fst header = (if rec_Time r = None then [] else [''time'']) @ [''severity'']
        @ (if lo_AddSource opts then [''logging.googleapis.com/sourceLocation''] else []) @ [''message'']
    \<and> (''severity'', JString (severityOf (rec_Level r))) \<in> set header \<and> (''message'', JString (rec_Message r)) \<in> set header"
proof -
  have "th_projectID (derive opts calls) = lo_ProjectID opts" using derive_state by blast
  then show ?thesis
    by (intro exI [of _ "header_fields (lo_AddSource opts) r"]
        exI [of _ "entry_rest (th_inner (derive opts calls)) (given_record (derive opts calls) r)"])
      (simp add: th_Handle_derived trace_fields_def traceResourceName_def header_fields_def logging_keys split: option.split)
qed

section \<open>What becomes of the attributes\<close>

text \<open>Where a field lies in an entry: the names of the groups around it, the outermost first.\<close>

primrec lies_at :: "string list \<Rightarrow> string \<times> json \<Rightarrow> (string \<times> json) list \<Rightarrow> bool" where
  "lies_at [] f entry \<longleftrightarrow> f \<in> set entry"
| "lies_at (g # gs) f entry \<longleftrightarrow>
     list_ex (\<lambda>(k, v). k = g \<and> (case v of JObject fs \<Rightarrow> lies_at gs f fs | _ \<Rightarrow> False)) entry"

lemma lies_at_more: "lies_at gs f fs \<Longrightarrow> lies_at gs f (xs @ fs @ ys)"
  by (cases gs) auto

text \<open>The same place while the handler is still written to.\<close>

definition stored :: "json_handler \<Rightarrow> string list \<Rightarrow> string \<times> json \<Rightarrow> bool" where
  "stored h gs f \<longleftrightarrow> gs = [] \<and> f \<in> set (jh_Fields h)
     \<or> (\<exists>xs g fs ys. jh_Open h = xs @ (g, fs) # ys \<and> gs = map fst xs @ [g] \<and> f \<in> set fs)"

lemma lies_at_nest: "f \<in> set fs \<Longrightarrow> lies_at (map fst xs @ [g]) f (nest_groups (xs @ (g, fs) # ys))"
proof (induction xs)
  case (Cons x xs)
  from lies_at_more [OF Cons.IH [OF Cons.prems], of "snd x" "[]"] show ?case by (cases x) simp
qed simp

lemma stored_lies: "stored h gs f \<Longrightarrow> lies_at gs f (xs @ jh_Fields h @ nest_groups (jh_Open h))"
  unfolding stored_def
proof (elim disjE exE conjE)
  fix ys g fs zs
  assume "jh_Open h = ys @ (g, fs) # zs" "gs = map fst ys @ [g]" "f \<in> set fs"
  then show ?thesis using lies_at_more [where xs = "xs @ jh_Fields h" and ys = "[]"] lies_at_nest by simp
qed simp

lemma stored_write_new:
  assumes "f \<in> set fs"
  shows "stored (jh_write fs h) (jh_groups h) f"
proof -
  let ?opened = "jh_Open h @ map (\<lambda>g. (g, [])) (jh_Pending h)"
  have groups: "jh_groups h = map fst ?opened" by (simp add: jh_groups_def comp_def)
  show ?thesis
  proof (cases ?opened rule: rev_cases)
    case Nil
    with assms groups show ?thesis by (simp add: stored_def jh_write_def)
  next
    case (snoc ys y)
    then have "jh_Open (jh_write fs h) = ys @ [(fst y, snd y @ fs)]" "jh_groups h = map fst ys @ [fst y]"
      unfolding groups by (simp_all add: jh_write_def Let_def)
    with assms show ?thesis unfolding stored_def by fastforce
  qed
qed

lemma stored_write:
  assumes "stored h gs f"
  shows "stored (jh_write fs' h) gs f"
proof -
  let ?opened = "jh_Open h @ map (\<lambda>g. (g, [])) (jh_Pending h)"
  show ?thesis
  proof (cases ?opened rule: rev_cases)
    case Nil
    with assms show ?thesis by (auto simp: stored_def jh_write_def)
  next
    case (snoc zs z)
    then have opened: "jh_Open (jh_write fs' h) = zs @ [(fst z, snd z @ fs')]" "jh_Fields (jh_write fs' h) = jh_Fields h"
      by (simp_all add: jh_write_def Let_def)
    show ?thesis using assms unfolding stored_def opened
    proof (elim disjE exE conjE)
      fix xs g fs ys
      assume h: "jh_Open h = xs @ (g, fs) # ys" and gs: "gs = map fst xs @ [g]" and f: "f \<in> set fs"
      obtain us vs where us: "zs @ [(fst z, snd z @ fs')] = xs @ (g, us) # vs" and fs: "f \<in> set us"
      proof (cases "ys @ map (\<lambda>g. (g, [])) (jh_Pending h)" rule: rev_cases)
        case Nil
        with snoc h have "zs = xs" "z = (g, fs)" by simp_all
        with f that [of "fs @ fs'" "[]"] show ?thesis by simp
      next
        case (snoc vs v)
        with \<open>?opened = zs @ [z]\<close> h have "zs = xs @ (g, fs) # vs" by (metis append.assoc append_Cons butlast_snoc)
        with f that [of fs "vs @ [(fst z, snd z @ fs')]"] show ?thesis by simp
      qed
      with gs show "gs = [] \<and> f \<in> set (jh_Fields h) \<or> (\<exists>xs g fs ys. zs @ [(fst z, snd z @ fs')] = xs @ (g, fs) # ys
          \<and> gs = map fst xs @ [g] \<and> f \<in> set fs)" by blast
    qed simp
  qed
qed

lemma stored_WithGroup: "stored h gs f \<Longrightarrow> stored (jh_WithGroup g h) gs f"
  by (simp add: stored_def jh_WithGroup_def)

lemma stored_WithAttrs: "stored h gs f \<Longrightarrow> stored (jh_WithAttrs as h) gs f"
  by (simp add: jh_WithAttrs_def stored_write split: prod.split bool.split)

lemma stored_op_apply: "stored h gs f \<Longrightarrow> stored (op_apply op h) gs f"
  by (simp add: op_apply_def stored_WithGroup stored_WithAttrs)

text \<open>An attribute list that counts as no output has no fields.\<close>

lemma no_output_attr: "appendAttr gs a = (False, fs) \<Longrightarrow> fs = []"
  by (auto simp: appendAttr.simps [of gs a] Let_def split: if_splits slog_value.splits prod.splits bool.splits)

lemma no_output: "appendAttrs gs as = (False, fs) \<Longrightarrow> fs = []"
  by (induction as arbitrary: fs) (auto split: prod.splits dest: no_output_attr)

lemma appendAttrs_fields: "set (snd (appendAttrs gs as)) = (\<Union>a \<in> set as. set (snd (appendAttr gs a)))"
  by (induction as) (auto split: prod.split)

lemma empty_group_fields: "empty_group a \<Longrightarrow> snd (appendAttr gs a) = []"
  by (simp add: empty_group_def append_simps)

lemma appendAttrs_has:
  assumes "a \<in> set as" and "f \<in> set (snd (appendAttr gs a))"
  obtains fs where "appendAttrs gs as = (True, fs)" and "f \<in> set fs"
proof -
  obtain b fs where run: "appendAttrs gs as = (b, fs)" by (cases "appendAttrs gs as")
  from assms have "f \<in> set (snd (appendAttrs gs as))" by (auto simp: appendAttrs_fields)
  with run have f: "f \<in> set fs" by simp
  with run have b using no_output [of gs as fs] by (cases b) auto
  with run f that show ?thesis by simp
qed

lemma stored_attrs:
  assumes "a \<in> set as" and "f \<in> set (snd (appendAttr (jh_groups h) a))"
  shows "stored (jh_WithAttrs as h) (jh_groups h) f"
proof -
  obtain fs where "appendAttrs (jh_groups h) as = (True, fs)" "f \<in> set fs" by (rule appendAttrs_has [OF assms])
  moreover have "\<not> list_all empty_group as"
  proof
    assume "list_all empty_group as"
    with assms(1) have "empty_group a" by (simp add: list_all_iff)
    with assms(2) empty_group_fields [of a] show False by simp
  qed
  ultimately show ?thesis by (simp add: jh_WithAttrs_def stored_write_new)
qed

lemma entry_rest_keeps: "stored h gs f \<Longrightarrow> lies_at gs f (xs @ entry_rest h r)"
  by (auto simp: entry_rest_def Let_def intro: stored_lies stored_write split: prod.split bool.split)

lemma entry_rest_attrs:
  assumes "a \<in> set (rec_Attrs r)" and "f \<in> set (snd (appendAttr (jh_groups h) a))"
  shows "lies_at (jh_groups h) f (xs @ entry_rest h r)"
proof -
  obtain fs where "appendAttrs (jh_groups h) (rec_Attrs r) = (True, fs)" "f \<in> set fs" by (rule appendAttrs_has [OF assms])
  with assms(1) stored_lies [OF stored_write_new, of f fs h xs] show ?thesis by (auto simp: entry_rest_def Let_def)
qed

text \<open>
  An attribute is given to the logger inside the groups opened before it, by one of the calls or by
  the record; outside of all groups it gets a name of its own when its name is reserved.
\<close>

definition open_groups :: "handlerOp list \<Rightarrow> string list" where
  "open_groups calls = filter (\<lambda>g. g \<noteq> []) (map op_group calls)"

definition given_at :: "handlerOp list \<Rightarrow> slog_record \<Rightarrow> string list \<Rightarrow> slog_attr \<Rightarrow> bool" where
  "given_at calls r gs a \<longleftrightarrow>
     (\<exists>before op after. calls = before @ op # after \<and> op_group op = [] \<and> a \<in> set (op_attrs op) \<and> gs = open_groups before)
     \<or> a \<in> set (rec_Attrs r) \<and> gs = open_groups calls"

definition own_name :: "string list \<Rightarrow> slog_attr \<Rightarrow> slog_attr" where
  "own_name gs a = (if gs = [] \<and> isReserved (attr_Key a) then Attr (''attr_'' @ attr_Key a) (attr_Value a) else a)"

lemma own_name_eq: "own_name [] = renameReserved" "gs \<noteq> [] \<Longrightarrow> own_name gs a = a"
  by (auto simp: own_name_def renameReserved_def reservedPrefix_def)

lemma own_name_key: "attr_Key (own_name gs a) = (if gs = [] \<and> isReserved (attr_Key a) then ''attr_'' @ attr_Key a else attr_Key a)"
  by (simp add: own_name_def)

lemma own_name_given: "a \<in> set as \<Longrightarrow> own_name gs a \<in> set (if gs = [] then renameReservedAttrs as else as)"
  by (auto simp: own_name_eq renameReservedAttrs_def list_ex_iff) (auto simp: renameReserved_def)

lemma derive_groups: "jh_groups (th_inner (derive opts calls)) = open_groups calls"
proof (induction calls rule: rev_induct)
  case Nil
  show ?case by (simp add: derive_def NewHandler_def open_groups_def)
next
  case (snoc op calls)
  have step: "fold op_apply (appendOp (derive opts calls) c) (th_base (derive opts calls)) = op_apply c (th_inner (derive opts calls))" for c
    using derive_inner [of opts calls] by (simp add: appendOp_def)
  from snoc show ?case
    by (auto simp: derive_snoc th_WithGroup_def th_WithAttrs_def Let_def step jh_groups_op_apply open_groups_def)
qed

lemma derive_stores:
  assumes "op_group op = []" and "a \<in> set (op_attrs op)"
    and "f \<in> set (snd (appendAttr (open_groups before) (own_name (open_groups before) a)))"
  shows "stored (th_inner (derive opts (before @ op # after))) (open_groups before) f"
proof (induction after rule: rev_induct)
  case Nil
  let ?h = "derive opts before"
  have step: "fold op_apply (appendOp ?h c) (th_base ?h) = op_apply c (th_inner ?h)" for c
    using derive_inner [of opts before] by (simp add: appendOp_def)
  have "th_inner (derive opts (before @ [op])) = jh_WithAttrs (if open_groups before = [] then renameReservedAttrs (op_attrs op)
      else op_attrs op) (th_inner ?h)"
    using assms(1,2) derive_grouped [of opts before] derive_groups [of opts before]
    by (auto simp: derive_snoc th_WithAttrs_def Let_def step op_apply_def)
  with stored_attrs [OF own_name_given [OF assms(2)], of f "th_inner ?h"] assms(3) show ?case by (simp add: derive_groups)
next
  case (snoc x xs)
  let ?h = "derive opts (before @ op # xs)"
  have step: "fold op_apply (appendOp ?h c) (th_base ?h) = op_apply c (th_inner ?h)" for c
    using derive_inner [of opts "before @ op # xs"] by (simp add: appendOp_def)
  from snoc have "stored (op_apply c (th_inner ?h)) (open_groups before) f" for c by (rule stored_op_apply)
  with snoc show ?case
    using derive_snoc [of opts "before @ op # xs" x]
    by (auto simp: th_WithGroup_def th_WithAttrs_def Let_def step)
qed

lemma given_record_has:
  assumes "a \<in> set (rec_Attrs r)" and "f \<in> set (snd (appendAttr gs (own_name gs a)))"
    and "gs = [] \<longleftrightarrow> \<not> th_grouped h"
  shows "own_name gs a \<in> set (rec_Attrs (given_record h r))"
proof -
  have "\<not> empty_group (own_name gs a)" using assms(2) empty_group_fields by fastforce
  with own_name_given [OF assms(1), of gs] assms(3) show ?thesis
    by (auto simp: given_record_def renameReservedRecord_def renameReservedAttrs_def AddAttrs_def NewRecord_def split: if_splits)
qed

lemma attribute_survives:
  assumes "given_at calls r gs a" and "f \<in> set (snd (appendAttr gs (own_name gs a)))"
  shows "lies_at gs f (th_Handle (derive opts calls) span r)"
  using assms(1) unfolding given_at_def
proof (elim disjE exE conjE)
  fix before op after
  assume "calls = before @ op # after" "op_group op = []" "a \<in> set (op_attrs op)" "gs = open_groups before"
  with derive_stores [of op a f before opts after] assms(2) show ?thesis
    unfolding th_Handle_derived append_assoc [symmetric] by (intro entry_rest_keeps) simp
next
  assume a: "a \<in> set (rec_Attrs r)" and gs: "gs = open_groups calls"
  then have "gs = [] \<longleftrightarrow> \<not> th_grouped (derive opts calls)"
    using derive_grouped [of opts calls] derive_groups [of opts calls] by simp
  from entry_rest_attrs [OF given_record_has [OF a assms(2) this], of f "th_inner (derive opts calls)"] assms(2) gs
  have "lies_at gs f (xs @ entry_rest (th_inner (derive opts calls)) (given_record (derive opts calls) r))" for xs
    by (simp add: derive_groups)
  then show ?thesis unfolding th_Handle_derived append_assoc [symmetric] .
qed

text \<open>A value that is written as one JSON value, not as a group of fields.\<close>

definition single_value :: "slog_value \<Rightarrow> bool" where
  "single_value v = (case v of KindGroup _ \<Rightarrow> False | AnySource _ \<Rightarrow> False | _ \<Rightarrow> True)"

lemma own_name_fields:
  assumes "attr_Key a \<noteq> []" and "single_value (attr_Value a)"
  shows "snd (appendAttr gs (own_name gs a)) = [(attr_Key (own_name gs a), json_value (attr_Value a))]"
proof -
  have "attr_Key (own_name gs a) \<noteq> []" "attr_Value (own_name gs a) = attr_Value a" using assms(1) by (simp_all add: own_name_def)
  moreover have "replaceAttr gs (own_name gs a) = own_name gs a"
  proof (cases "gs = []")
    case True
    then have "\<not> isReserved (attr_Key (own_name gs a))"
      using not_isReserved_renamed [of "attr_Key a"] by (simp add: own_name_def reservedPrefix_def)
    then show ?thesis by (auto simp: replaceAttr_def isReserved_iff logging_keys)
  qed (simp add: replaceAttr_def)
  ultimately show ?thesis using assms(2)
    by (cases "attr_Value a") (simp_all add: appendAttr.simps replaced_def source_group_def single_value_def Let_def)
qed

text \<open>
  C31: When a logger is given no unnamed group and no group with a reserved name, no attribute takes the
  place of a field that the handler writes: of the names that the log backend reads, an entry has exactly
  the handler's own, each once.  And no attribute is lost: whatever groups are open when it is given,
  by an earlier call or by the record, the fields it stands for are in the entry, inside exactly these
  groups; a single value is there under its own key, or, outside of all groups and when the key is a
  reserved name, under that name with a prefix.
\<close>

theorem reserved_names_safe:
  assumes "calls_ok calls" and "\<forall>a \<in> set (rec_Attrs r). \<not> inlined a"
  shows "filter (\<lambda>f. isReserved (fst f)) (th_Handle (derive opts calls) span r)
      = header_fields (lo_AddSource opts) r @ (case span of None \<Rightarrow> [] | Some sc \<Rightarrow> trace_fields (derive opts calls) sc)
    \<and> distinct (map fst (filter (\<lambda>f. isReserved (fst f)) (th_Handle (derive opts calls) span r)))
    \<and> (\<forall>gs a f. given_at calls r gs a \<longrightarrow> f \<in> set (snd (appendAttr gs (own_name gs a)))
        \<longrightarrow> lies_at gs f (th_Handle (derive opts calls) span r))
    \<and> (\<forall>gs a. given_at calls r gs a \<longrightarrow> attr_Key a \<noteq> [] \<longrightarrow> single_value (attr_Value a)
        \<longrightarrow> lies_at gs (if gs = [] \<and> isReserved (attr_Key a) then ''attr_'' @ attr_Key a else attr_Key a,
              json_value (attr_Value a)) (th_Handle (derive opts calls) span r))"
proof -
  have rest: "filter (\<lambda>f. isReserved (fst f)) (entry_rest (th_inner (derive opts calls)) (given_record (derive opts calls) r)) = []"
    by (rule clean_entry_rest [OF clean_derive [OF assms(1)]])
      (use renamed_record_names [OF assms(2)] derive_grouped [of opts calls] in \<open>auto simp: given_record_def\<close>)
  have "distinct (map fst (header_fields b r @ (case span of None \<Rightarrow> [] | Some sc \<Rightarrow> trace_fields h sc)))" for b h
    by (auto simp: header_fields_def trace_fields_def logging_keys split: option.split)
  moreover have "filter (\<lambda>f. isReserved (fst f)) (th_Handle (derive opts calls) span r)
      = header_fields (lo_AddSource opts) r @ (case span of None \<Rightarrow> [] | Some sc \<Rightarrow> trace_fields (derive opts calls) sc)"
    by (cases span) (simp_all add: th_Handle_derived rest reserved_header)
  moreover have "lies_at gs (if gs = [] \<and> isReserved (attr_Key a) then ''attr_'' @ attr_Key a else attr_Key a,
      json_value (attr_Value a)) (th_Handle (derive opts calls) span r)"
    if "given_at calls r gs a" "attr_Key a \<noteq> []" "single_value (attr_Value a)" for gs a
    using attribute_survives [OF that(1), of _ opts span] own_name_fields [OF that(2,3), of gs]
    unfolding own_name_key [symmetric] by simp
  ultimately show ?thesis using attribute_survives by simp
qed

definition sample_options :: logging_options where
  "sample_options = \<lparr>lo_Level = None, lo_AddSource = False, lo_ProjectID = ''tolo''\<rparr>"

definition sample_calls :: "handlerOp list" where
  "sample_calls = [\<lparr>op_attrs = [Attr ''time'' (KindInt64 1)], op_group = []\<rparr>, \<lparr>op_attrs = [], op_group = ''request''\<rparr>]"

definition sample_record :: slog_record where
  "sample_record = \<lparr>rec_Time = None, rec_Level = LevelError, rec_Message = ''internal error'', rec_Source = None,
     rec_Attrs = [Attr ''message'' (KindString ''x''), Attr ''error'' (OtherValue ''boom'' (JString ''boom''))]\<rparr>"

text \<open>
  An attribute of an earlier call under a reserved name, and one that the record adds inside a group.
\<close>

theorem reserved_names_safe_witness:
  "filter (\<lambda>f. isReserved (fst f)) (th_Handle (derive sample_options sample_calls) None sample_record)
     = [(keySeverity, JString ''ERROR''), (keyMessage, JString ''internal error'')]
   \<and> lies_at [] (''attr_time'', JNumber 1) (th_Handle (derive sample_options sample_calls) None sample_record)
   \<and> lies_at [''request''] (''message'', JString ''x'') (th_Handle (derive sample_options sample_calls) None sample_record)"
proof -
  have "given_at sample_calls sample_record [] (Attr ''time'' (KindInt64 1))"
    "given_at sample_calls sample_record [''request''] (Attr ''message'' (KindString ''x''))"
    by (force simp: given_at_def sample_calls_def sample_record_def open_groups_def)+
  moreover have "calls_ok sample_calls" "\<forall>a \<in> set (rec_Attrs sample_record). \<not> inlined a"
    by (simp_all add: calls_ok_def inlined_def isReserved_iff HasPrefix_def sample_calls_def sample_record_def logging_keys)
  note safe = reserved_names_safe [OF this, of sample_options None]
  ultimately have "lies_at [] (''attr_time'', JNumber 1) (th_Handle (derive sample_options sample_calls) None sample_record)"
    "lies_at [''request''] (''message'', JString ''x'') (th_Handle (derive sample_options sample_calls) None sample_record)"
    using safe [THEN conjunct2, THEN conjunct2, THEN conjunct2, rule_format, of "[]" "Attr ''time'' (KindInt64 1)"]
      safe [THEN conjunct2, THEN conjunct2, THEN conjunct2, rule_format, of "[''request'']" "Attr ''message'' (KindString ''x'')"]
    by (simp_all add: single_value_def isReserved_iff logging_keys)
  with safe [THEN conjunct1] show ?thesis
    by (simp add: sample_record_def sample_options_def header_fields_def severityOf_def slog_level_defs LevelCritical_def)
qed

text \<open>Both exceptions are real: an unnamed group, and a group with a reserved name.\<close>

lemma unnamed_group_takes_message:
  "map fst (th_Handle (NewHandler sample_options) None
     (sample_record\<lparr>rec_Attrs := [Attr [] (KindGroup [Attr ''msg'' (KindString ''x'')])]\<rparr>)) = [''severity'', ''message'', ''message'']"
  using th_Handle_derived [of sample_options "[]" None
      "sample_record\<lparr>rec_Attrs := [Attr [] (KindGroup [Attr ''msg'' (KindString ''x'')])]\<rparr>"]
  by (simp add: derive_def header_fields_def sample_record_def sample_options_def entry_rest_def NewHandler_def
      NewJSONHandler_def given_record_def renameReservedRecord_def isReserved_iff HasPrefix_def append_simps logging_keys jh_write_def jh_groups_def)

lemma group_name_takes_message:
  "map fst (th_Handle (th_WithGroup (NewHandler sample_options) ''message'') None sample_record) = [''severity'', ''message'', ''message'']"
  using th_Handle_derived [of sample_options "[\<lparr>op_attrs = [], op_group = ''message''\<rparr>]" None sample_record]
  by (simp add: derive_def header_fields_def sample_record_def sample_options_def entry_rest_def NewHandler_def th_WithGroup_def
      NewJSONHandler_def given_record_def append_simps logging_keys jh_write_def jh_groups_def appendOp_def op_apply_def jh_WithGroup_def)

end
