(* ===== verification/Process.thy ===== *)
theory Process
  imports Server LoggingProperties
begin

text \<open>
  cmd/server/main.go, internal/telemetry and internal/infra/db/open.go: how the process starts, serves
  and stops.  A run is the sequence of its effects on the outside and the error \<open>run\<close> returns.  The
  environment variables are a function that is empty where a variable is unset; what the libraries,
  the network and the signals answer is the record \<open>libraries\<close>.
\<close>

section \<open>Effects\<close>

datatype effect =
    SetDefaultLogger traceHandler
  | NotifySignals
  | StopSignals
  | SetTelemetryLogging
  | SetTextMapPropagator
  | SetTracerProvider bool
  | ShutdownTracing
  | OpenDatabase
  | CloseDatabase
  | Listen string
  | ServeReturned
  | ShutdownServer
  | LogEntry slog_level string

datatype serve_end = ListenFailed gerr | ServerClosed | Signalled

record ('cache, 'ver, 'tok) libraries =
  lib_Resource :: "gerr option"
  lib_Exporter :: "gerr option"
  lib_TracingShutdown :: "gerr option"
  lib_DatabaseOpen :: "gerr option"
  lib_DatabasePing :: "gerr option"
  lib_DatabaseClose :: "gerr option"
  lib_jwks_New :: "string \<Rightarrow> gerr + 'cache"
  lib_verifier_New :: "string \<Rightarrow> string \<Rightarrow> 'cache \<Rightarrow> gerr + 'ver"
  lib_interceptor_New :: "'ver \<Rightarrow> policies \<Rightarrow> gerr + 'tok verdict"
  lib_otel :: "gerr + 'tok interceptor"
  lib_Serve :: serve_end
  lib_ServerShutdown :: "gerr option"

section \<open>Environment variables\<close>

definition getenv :: "(string \<Rightarrow> string) \<Rightarrow> string \<Rightarrow> string \<Rightarrow> string" where
  "getenv os_Getenv key fallback = (if os_Getenv key \<noteq> [] then os_Getenv key else fallback)"

definition defaultAddr :: string where "defaultAddr = '':8080''"
definition defaultLogLevel :: string where "defaultLogLevel = ''info''"

definition newLogger :: "(string \<Rightarrow> string) \<Rightarrow> gerr + traceHandler" where
  "newLogger os_Getenv = (case ParseLevel (getenv os_Getenv ''LOG_LEVEL'' defaultLogLevel) of
      Inl err \<Rightarrow> Inl (Wrap ''read LOG_LEVEL'' err)
    | Inr level \<Rightarrow> Inr (NewHandler \<lparr>lo_Level = Some level, lo_AddSource = False,
        lo_ProjectID = os_Getenv ''GOOGLE_CLOUD_PROJECT''\<rparr>))"

section \<open>Telemetry (internal/telemetry/telemetry.go)\<close>

definition DefaultServiceName :: string where "DefaultServiceName = ''tolo-tenant-management''"
definition envServiceName :: string where "envServiceName = ''OTEL_SERVICE_NAME''"
definition envOTLPEndpoint :: string where "envOTLPEndpoint = ''OTEL_EXPORTER_OTLP_ENDPOINT''"
definition envOTLPTracesPoint :: string where "envOTLPTracesPoint = ''OTEL_EXPORTER_OTLP_TRACES_ENDPOINT''"

definition ServiceName :: "(string \<Rightarrow> string) \<Rightarrow> string" where
  "ServiceName os_Getenv = (if os_Getenv envServiceName \<noteq> [] then os_Getenv envServiceName else DefaultServiceName)"

definition endpointConfigured :: "(string \<Rightarrow> string) \<Rightarrow> bool" where
  "endpointConfigured os_Getenv = list_ex (\<lambda>key. os_Getenv key \<noteq> []) [envOTLPTracesPoint, envOTLPEndpoint]"

definition telemetry_Enabled :: "(string \<Rightarrow> string) \<Rightarrow> bool" where
  "telemetry_Enabled os_Getenv = endpointConfigured os_Getenv"

definition setupInternalLogging :: "effect list" where
  "setupInternalLogging = [SetTelemetryLogging]"

definition newResource :: "('cache, 'ver, 'tok) libraries \<Rightarrow> gerr option" where
  "newResource L = map_option (Wrap ''build telemetry resource'') (lib_Resource L)"

text \<open>The shutdown function that \<open>Setup\<close> returns, as what it answers; a no-op provider's is \<open>None\<close>.\<close>

definition telemetry_Setup :: "(string \<Rightarrow> string) \<Rightarrow> ('cache, 'ver, 'tok) libraries \<Rightarrow> effect list \<times> (gerr + gerr option)" where
  "telemetry_Setup os_Getenv L =
     (if \<not> endpointConfigured os_Getenv
      then (setupInternalLogging @ [SetTextMapPropagator, SetTracerProvider False], Inr None)
      else case newResource L of
        Some err \<Rightarrow> (setupInternalLogging @ [SetTextMapPropagator], Inl err)
      | None \<Rightarrow> (case lib_Exporter L of
          Some err \<Rightarrow> (setupInternalLogging @ [SetTextMapPropagator], Inl (Wrap ''create OTLP trace exporter'' err))
        | None \<Rightarrow> (setupInternalLogging @ [SetTextMapPropagator, SetTracerProvider True], Inr (lib_TracingShutdown L))))"

section \<open>The database pool (internal/infra/db/open.go)\<close>

text \<open>A close that fails after a failed ping only adds to the text of the error, which is not kept.\<close>

definition infradb_Open :: "('cache, 'ver, 'tok) libraries \<Rightarrow> effect list \<times> gerr option" where
  "infradb_Open L = (case lib_DatabaseOpen L of
      Some err \<Rightarrow> ([], Some (Wrap ''open database'' err))
    | None \<Rightarrow> (case lib_DatabasePing L of
        Some err \<Rightarrow> ([OpenDatabase, CloseDatabase], Some (Wrap ''ping database'' err))
      | None \<Rightarrow> ([OpenDatabase], None)))"

section \<open>The run (cmd/server/main.go)\<close>

definition shutdownTracingWithTimeout :: "gerr option \<Rightarrow> effect list" where
  "shutdownTracingWithTimeout shutdown = ShutdownTracing # (case shutdown of
      None \<Rightarrow> [] | Some err \<Rightarrow> [LogEntry LevelError ''shutdown tracing failed''])"

definition closeDatabase :: "('cache, 'ver, 'tok) libraries \<Rightarrow> effect list" where
  "closeDatabase L = CloseDatabase # (case lib_DatabaseClose L of
      None \<Rightarrow> [] | Some err \<Rightarrow> [LogEntry LevelError ''close database failed''])"

text \<open>
  The listener runs beside the select that waits for it or for a signal; the effects are in the order
  in which the process reaches them when the listener starts before a signal arrives.  \<open>ServeReturned\<close> is
  the return of \<open>ListenAndServe\<close> that the select sees: the listener, if there was one, is closed by then.
\<close>

definition listen_and_wait :: "('cache, 'ver, 'tok) libraries \<Rightarrow> string \<Rightarrow> effect list \<times> gerr option" where
  "listen_and_wait L addr = (case lib_Serve L of
      ListenFailed err \<Rightarrow> ([LogEntry LevelInfo ''server listening'', Listen addr, ServeReturned], Some err)
    | ServerClosed \<Rightarrow> ([LogEntry LevelInfo ''server listening'', Listen addr, ServeReturned], None)
    | Signalled \<Rightarrow> ([LogEntry LevelInfo ''server listening'', Listen addr, LogEntry LevelInfo ''server shutting down'', ShutdownServer],
        lib_ServerShutdown L))"

definition process_handler :: "('cache, 'ver, 'tok) libraries \<Rightarrow> jwt_settings \<Rightarrow> gerr + 'tok mux" where
  "process_handler L jwtSettings =
     NewHandlerWithJWTSettings (lib_jwks_New L) (lib_verifier_New L) (lib_interceptor_New L) (lib_otel L) jwtSettings wired_mounts"

definition serve_process :: "('cache, 'ver, 'tok) libraries \<Rightarrow> jwt_settings \<Rightarrow> string \<Rightarrow> effect list \<times> gerr option" where
  "serve_process L jwtSettings addr = (case process_handler L jwtSettings of
      Inl err \<Rightarrow> ([], Some (Wrap ''build handler'' err))
    | Inr handler \<Rightarrow> listen_and_wait L addr)"

definition run_settings :: "(string \<Rightarrow> string) \<Rightarrow> jwt_settings" where
  "run_settings os_Getenv = \<lparr>JWKSURL = getenv os_Getenv ''INTERNAL_JWKS_URL'' DefaultInternalJWKSURL,
     Issuer = getenv os_Getenv ''INTERNAL_JWT_ISSUER'' DefaultInternalJWTIssuer,
     Audience = getenv os_Getenv ''INTERNAL_JWT_AUDIENCE'' DefaultInternalJWTAudience\<rparr>"

text \<open>
  The signals are caught from the second statement on.  The deferred calls run on every way out, the
  last one deferred first, so the signals are given back at the very end.
\<close>

definition run :: "(string \<Rightarrow> string) \<Rightarrow> ('cache, 'ver, 'tok) libraries \<Rightarrow> effect list \<times> gerr option" where
  "run os_Getenv L = (case newLogger os_Getenv of
      Inl err \<Rightarrow> ([], Some err)
    | Inr logger \<Rightarrow>
        let notified = [SetDefaultLogger logger, NotifySignals];
            addr = getenv os_Getenv ''SERVER_ADDR'' defaultAddr; jwtSettings = run_settings os_Getenv;
            databaseURL = os_Getenv ''DATABASE_URL''
        in if databaseURL = [] then (notified @ [StopSignals], Some (Errorf ''DATABASE_URL is required'' []))
           else case telemetry_Setup os_Getenv L of
               (fx, Inl err) \<Rightarrow> (notified @ fx @ [StopSignals], Some (Wrap ''setup tracing'' err))
             | (fx, Inr shutdownTracing) \<Rightarrow>
                 let started = notified @ fx
                       @ (if telemetry_Enabled os_Getenv then [LogEntry LevelInfo ''tracing enabled''] else [])
                 in case infradb_Open L of
                     (ox, Some err) \<Rightarrow> (started @ ox @ shutdownTracingWithTimeout shutdownTracing @ [StopSignals], Some err)
                   | (ox, None) \<Rightarrow> (case serve_process L jwtSettings addr of (sx, res) \<Rightarrow>
                       (started @ ox @ sx @ closeDatabase L @ shutdownTracingWithTimeout shutdownTracing @ [StopSignals], res)))"

text \<open>\<open>main\<close>: the exit status, and what is logged about a run that failed.\<close>

definition main :: "(string \<Rightarrow> string) \<Rightarrow> ('cache, 'ver, 'tok) libraries \<Rightarrow> effect list \<times> nat" where
  "main os_Getenv L = (case run os_Getenv L of
      (fx, Some err) \<Rightarrow> (fx @ [LogEntry LevelError ''server failed''], 1)
    | (fx, None) \<Rightarrow> (fx, 0))"

section \<open>What a run leaves behind\<close>

text \<open>
  What is held open after some effects, the last one acquired first: the signals, the tracer provider,
  the pool of the database, the listener.  Releasing anything but the last one acquired is an error, and
  so is listening without the database.
\<close>

fun held :: "effect list \<Rightarrow> effect list \<Rightarrow> effect list option" where
  "held [] stack = Some stack"
| "held (NotifySignals # fx) stack = held fx (NotifySignals # stack)"
| "held (SetTracerProvider b # fx) stack = held fx (SetTracerProvider b # stack)"
| "held (OpenDatabase # fx) stack = held fx (OpenDatabase # stack)"
| "held (Listen addr # fx) stack = (case stack of OpenDatabase # _ \<Rightarrow> held fx (Listen addr # stack) | _ \<Rightarrow> None)"
| "held (ServeReturned # fx) stack = (case stack of Listen _ # rest \<Rightarrow> held fx rest | _ \<Rightarrow> None)"
| "held (ShutdownServer # fx) stack = (case stack of Listen _ # rest \<Rightarrow> held fx rest | _ \<Rightarrow> None)"
| "held (CloseDatabase # fx) stack = (case stack of OpenDatabase # rest \<Rightarrow> held fx rest | _ \<Rightarrow> None)"
| "held (ShutdownTracing # fx) stack = (case stack of SetTracerProvider b # rest \<Rightarrow> held fx rest | _ \<Rightarrow> None)"
| "held (StopSignals # fx) stack = (case stack of NotifySignals # rest \<Rightarrow> held fx rest | _ \<Rightarrow> None)"
| "held (_ # fx) stack = held fx stack"

lemmas run_defs = run_def Let_def telemetry_Setup_def infradb_Open_def serve_process_def listen_and_wait_def
  shutdownTracingWithTimeout_def closeDatabase_def setupInternalLogging_def

lemma run_held: "held (fst (run os_Getenv L)) [] = Some []"
  by (simp add: run_defs split: sum.split option.split serve_end.split)

lemma run_listens:
  "Listen addr \<in> set (fst (run os_Getenv L)) \<longleftrightarrow>
     is_Inr (newLogger os_Getenv) \<and> os_Getenv ''DATABASE_URL'' \<noteq> [] \<and> is_Inr (snd (telemetry_Setup os_Getenv L))
     \<and> snd (infradb_Open L) = None \<and> is_Inr (process_handler L (run_settings os_Getenv))
     \<and> addr = getenv os_Getenv ''SERVER_ADDR'' defaultAddr"
  by (auto simp: run_defs split: sum.split option.split serve_end.split)

lemma run_shuts_down:
  "ShutdownServer \<in> set (fst (run os_Getenv L)) \<longleftrightarrow>
     (\<exists>addr. Listen addr \<in> set (fst (run os_Getenv L))) \<and> lib_Serve L = Signalled"
  by (auto simp: run_defs split: sum.split option.split serve_end.split)

lemma run_result:
  "if \<exists>addr. Listen addr \<in> set (fst (run os_Getenv L))
   then snd (run os_Getenv L) = (case lib_Serve L of ListenFailed err \<Rightarrow> Some err | ServerClosed \<Rightarrow> None
     | Signalled \<Rightarrow> lib_ServerShutdown L)
   else snd (run os_Getenv L) \<noteq> None"
  by (auto simp: run_defs split: sum.split option.split serve_end.split)

lemma main_status: "snd (main os_Getenv L) = 0 \<longleftrightarrow> snd (run os_Getenv L) = None"
  by (simp add: main_def split: prod.split option.split)

text \<open>
  C33: However a run of the process ends, by a wrong configuration, a library that cannot be set up, a
  listener that fails or a signal, everything it acquired is released, the last first: the listener,
  the database, the tracing and the signals.  It listens exactly when everything before has been set
  up, it shuts the server down exactly when it listens and a signal arrives, and then its error is that
  of the shutdown, otherwise that of the listener; a run that does not get as far has an error, and
  the process exits with 0 exactly when the run had none.
\<close>

theorem run_releases_all:
  "held (fst (run os_Getenv L)) [] = Some []
   \<and> (snd (main os_Getenv L) = 0 \<longleftrightarrow> snd (run os_Getenv L) = None)
   \<and> (Listen addr \<in> set (fst (run os_Getenv L)) \<longleftrightarrow>
        is_Inr (newLogger os_Getenv) \<and> os_Getenv ''DATABASE_URL'' \<noteq> [] \<and> is_Inr (snd (telemetry_Setup os_Getenv L))
        \<and> snd (infradb_Open L) = None \<and> is_Inr (process_handler L (run_settings os_Getenv))
        \<and> addr = getenv os_Getenv ''SERVER_ADDR'' defaultAddr)
   \<and> (ShutdownServer \<in> set (fst (run os_Getenv L)) \<longleftrightarrow>
        (\<exists>a. Listen a \<in> set (fst (run os_Getenv L))) \<and> lib_Serve L = Signalled)
   \<and> (if \<exists>a. Listen a \<in> set (fst (run os_Getenv L))
      then snd (run os_Getenv L) = (case lib_Serve L of ListenFailed err \<Rightarrow> Some err | ServerClosed \<Rightarrow> None
        | Signalled \<Rightarrow> lib_ServerShutdown L)
      else snd (run os_Getenv L) \<noteq> None)"
  by (intro conjI run_held main_status run_listens run_shuts_down run_result)

end
