(* ===== verification/Interleaving.thy ===== *)
theory Interleaving
  imports Sample Silent
begin

text \<open>
  Requests that interleave.  A use case that writes first reads and decides, and then makes one
  write: a statement of its own, or a transaction.  Here the two parts are separate steps, between
  which anything else may happen.  A transaction is one step, which is what the locks in it are for.
  The claim and the two administrative requests of the tenant side have no first part: what they read,
  they read in their transaction.
\<close>

section \<open>The first parts\<close>

text \<open>What a request has decided to write: the arguments of the last part of its use case.\<close>

datatype pending =
    StoreTenant tenant ownership_claim
  | StoreEvent string event string
  | StoreStatus event
  | StoreMember string string role display_name
  | StoreRole string string role
  | StoreEventRole string string string role
  | DropMember string string
  | DropEventRole string string string
  | StoreInvitation invitation "byte list"
  | CloseInvitation string string
  | Admit tenant string string

definition registration_check :: "tenant_service \<Rightarrow> ctx \<Rightarrow> start_registration_input \<Rightarrow> pending go" where
  "registration_check s c input =
     and_then (guard (sri_Name input \<noteq> []) (Sentinel (TenantApp ErrTenantNameRequired))) (\<lambda>_.
     and_then (guard (sri_ContractPlan input \<noteq> []) (Sentinel (TenantApp ErrTenantContractPlanRequired))) (\<lambda>_.
     and_then now_go (\<lambda>now.
     and_then (wrap_err ''sweep expired pending tenants'' (TenantRepo_DeleteExpiredPendingTenants c now)) (\<lambda>_.
     and_then NewUUIDv7 (\<lambda>tenantID.
     and_then NewPublicID (\<lambda>publicID.
     and_then onetimetoken_New (\<lambda>(claimToken, tokenHash).
       ret (StoreTenant (NewTenant tenantID publicID (sri_Name input) (sri_ContractPlan input)
                TenantOwnershipStatePendingOwner (Subdomain []) False)
              \<lparr>oc_TokenHash = tokenHash, oc_ExpiresAt = now + ts_ownershipClaimTTL s\<rparr>))))))))"

definition create_event_check :: "tenant_service \<Rightarrow> ctx \<Rightarrow> string \<Rightarrow> string \<Rightarrow> pending go" where
  "create_event_check s c tenantPublicID name =
     and_then (guard (name \<noteq> []) (Sentinel (TenantApp ErrEventNameRequired))) (\<lambda>_.
     and_then (TenantService_resolveTenant s c tenantPublicID) (\<lambda>t.
     and_then (guard (\<not> t_archived t) (Sentinel (TenantRepo ErrTenantArchived))) (\<lambda>_.
       case SubjectFromContext c of
         None \<Rightarrow> fail (Sentinel (TenantCtx ErrSubjectMissing))
       | Some subject \<Rightarrow>
           and_then NewUUIDv7 (\<lambda>eventID.
           and_then NewPublicID (\<lambda>publicID.
             ret (StoreEvent (t_id t) (NewEvent eventID publicID (t_id t) (t_publicID t) name EventStatusDraft) subject))))))"

definition transition_check :: "tenant_service \<Rightarrow> ctx \<Rightarrow> string \<Rightarrow> event_status \<Rightarrow> pending go" where
  "transition_check s c eventPublicID to =
     and_then (guard (eventPublicID \<noteq> []) (Sentinel (TenantApp TA_ErrEventIDRequired))) (\<lambda>_.
     and_then (guard (to \<noteq> EventStatusUnspecified) (Sentinel (TenantApp ErrEventStatusRequired))) (\<lambda>_.
     and_then (TenantService_resolveEvent s c eventPublicID) (\<lambda>e.
     and_then (of_result (TransitionTo e to)) (\<lambda>updated. ret (StoreStatus updated)))))"

definition add_member_check :: "ctx \<Rightarrow> string \<Rightarrow> string \<Rightarrow> role \<Rightarrow> string \<Rightarrow> pending go" where
  "add_member_check c tenantPublicID userID r displayName =
     and_then (guard (userID \<noteq> []) (Sentinel (RelationApp ErrUserIDRequired))) (\<lambda>_.
     and_then (require (Grantable r)) (\<lambda>_.
     and_then (of_result (ParseDisplayName displayName)) (\<lambda>name.
     and_then (RelationService_writableTenant c tenantPublicID) (\<lambda>t. ret (StoreMember (t_id t) userID r name)))))"

definition change_role_check :: "ctx \<Rightarrow> string \<Rightarrow> string \<Rightarrow> role \<Rightarrow> pending go" where
  "change_role_check c tenantPublicID userID r =
     and_then (guard (userID \<noteq> []) (Sentinel (RelationApp ErrUserIDRequired))) (\<lambda>_.
     and_then (require (Grantable r)) (\<lambda>_.
     and_then (RelationService_writableTenant c tenantPublicID) (\<lambda>t. ret (StoreRole (t_id t) userID r))))"

definition grant_event_role_check :: "ctx \<Rightarrow> string \<Rightarrow> string \<Rightarrow> role \<Rightarrow> pending go" where
  "grant_event_role_check c eventPublicID userID r =
     and_then (guard (userID \<noteq> []) (Sentinel (RelationApp ErrUserIDRequired))) (\<lambda>_.
     and_then (require (Grantable r)) (\<lambda>_.
     and_then (RelationService_writableEvent c eventPublicID) (\<lambda>e. ret (StoreEventRole (ev_tenantID e) (ev_id e) userID r))))"

definition revoke_role_check :: "ctx \<Rightarrow> revoke_role_input \<Rightarrow> pending go" where
  "revoke_role_check c input =
     and_then (guard (rri_UserID input \<noteq> []) (Sentinel (RelationApp ErrUserIDRequired))) (\<lambda>_.
       if rri_TenantPublicID input \<noteq> [] \<and> rri_EventPublicID input \<noteq> []
       then fail (Sentinel (RelationApp ErrScopeAmbiguous))
       else if rri_TenantPublicID input \<noteq> []
       then and_then (RelationService_writableTenant c (rri_TenantPublicID input)) (\<lambda>t. ret (DropMember (t_id t) (rri_UserID input)))
       else if rri_EventPublicID input \<noteq> []
       then and_then (RelationService_writableEvent c (rri_EventPublicID input)) (\<lambda>e.
         ret (DropEventRole (ev_tenantID e) (ev_id e) (rri_UserID input)))
       else fail (Sentinel (RelationApp ErrScopeRequired)))"

definition invite_check :: "relation_service \<Rightarrow> ctx \<Rightarrow> string \<Rightarrow> role \<Rightarrow> string \<Rightarrow> pending go" where
  "invite_check s c tenantPublicID r displayName =
     and_then (require (Invitable r)) (\<lambda>_.
     and_then (of_result (ParseDisplayName displayName)) (\<lambda>name.
     and_then (RelationService_writableTenant c tenantPublicID) (\<lambda>t.
     and_then NewUUIDv7 (\<lambda>id.
     and_then NewPublicID (\<lambda>publicID.
     and_then onetimetoken_New (\<lambda>(token, tokenHash).
     and_then now_go (\<lambda>now.
       ret (StoreInvitation (NewInvitation id publicID (t_id t) (t_publicID t) r name (now + rs_invitationTTL s) InvitationPending)
         tokenHash))))))))"

definition revoke_invitation_check :: "ctx \<Rightarrow> string \<Rightarrow> string \<Rightarrow> pending go" where
  "revoke_invitation_check c tenantPublicID invitationID =
     and_then (guard (invitationID \<noteq> []) (Sentinel (RelationApp ErrInvitationIDRequired))) (\<lambda>_.
     and_then (RelationService_writableTenant c tenantPublicID) (\<lambda>t. ret (CloseInvitation (t_id t) invitationID)))"

definition accept_check :: "ctx \<Rightarrow> string \<Rightarrow> string \<Rightarrow> pending go" where
  "accept_check c tenantPublicID token =
     and_then (guard (tenantPublicID \<noteq> []) (Sentinel (RelationApp RA_ErrTenantIDRequired))) (\<lambda>_.
     and_then (guard (token \<noteq> []) (Sentinel (RelationApp ErrInvitationTokenRequired))) (\<lambda>_.
       case SubjectFromContext c of
         None \<Rightarrow> fail (Sentinel (TenantCtx ErrSubjectMissing))
       | Some subject \<Rightarrow>
           and_then (TenantRepo_FindTenantByPublicID c tenantPublicID) (\<lambda>t. ret (Admit t token subject))))"

section \<open>The writes\<close>

definition discard :: "'a go \<Rightarrow> unit go" where
  "discard m = and_then m (\<lambda>_. ret ())"

fun write_pending :: "ctx \<Rightarrow> pending \<Rightarrow> unit go" where
  "write_pending c (StoreTenant t claim) = TenantRepo_CreatePendingTenant c t claim"
| "write_pending c (StoreEvent tid e subject) = TenantRepo_WithinTransaction c (create_event_tx wired_tenantService tid e subject)"
| "write_pending c (StoreStatus updated) = TenantRepo_UpdateEvent c updated"
| "write_pending c (StoreMember tid u r n) = discard (MembershipRepo_AddTenantMember c tid u r n)"
| "write_pending c (StoreRole tid u r) = discard (RelationService_writeMembership c tid (\<lambda>c.
     and_then (if r \<noteq> RoleOwner then RelationService_keepAnotherOwner c tid u else ret ()) (\<lambda>_.
       MembershipRepo_ChangeTenantRole c tid u r)))"
| "write_pending c (StoreEventRole tid eid u r) = discard (RelationService_writeMembership c tid (\<lambda>c.
     MembershipRepo_GrantEventRole c eid u r))"
| "write_pending c (DropMember tid u) = RelationService_withCurrentPermission c tid (\<lambda>c.
     and_then (RelationService_keepAnotherOwner c tid u) (\<lambda>_. MembershipRepo_RevokeTenantMembership c tid u))"
| "write_pending c (DropEventRole tid eid u) = RelationService_withCurrentPermission c tid (\<lambda>c.
     MembershipRepo_RevokeEventRole c eid u)"
| "write_pending c (StoreInvitation i h) = RelationService_withCurrentPermission c (i_tenantID i) (\<lambda>c.
     InvitationRepo_CreateInvitation c i h)"
| "write_pending c (CloseInvitation tid iid) = discard (TenantRepo_WithinTransaction c (revoke_invitation_tx tid iid))"
| "write_pending c (Admit t token subject) = discard (TenantRepo_WithinTransaction c (accept_invitation_tx t token subject))"

text \<open>The first part of a request, for those that have one.\<close>

fun first_part :: "ctx \<Rightarrow> rpc \<Rightarrow> pending go option" where
  "first_part c (StartTenantRegistration name plan) =
     Some (registration_check wired_tenantService c \<lparr>sri_Name = name, sri_ContractPlan = plan\<rparr>)"
| "first_part c (CreateEvent tid name) = Some (create_event_check wired_tenantService c tid name)"
| "first_part c (TransitionEventStatus eid to) = Some (transition_check wired_tenantService c eid (eventStatusDomain to))"
| "first_part c (CreateTenantInvitation tid r name) = Some (invite_check wired_relationService c tid (roleDomain r) name)"
| "first_part c (RevokeTenantInvitation tid iid) = Some (revoke_invitation_check c tid iid)"
| "first_part c (AcceptTenantInvitation tid token) = Some (accept_check c tid token)"
| "first_part c (AddTenantMember tid u r name) = Some (add_member_check c tid u (roleDomain r) name)"
| "first_part c (ChangeTenantRole tid u r) = Some (change_role_check c tid u (roleDomain r))"
| "first_part c (GrantEventRole eid u r) = Some (grant_event_role_check c eid u (roleDomain r))"
| "first_part c (RevokeRole input) = Some (revoke_role_check c input)"
| "first_part c _ = None"

section \<open>Unbroken, the two parts are the request\<close>

lemma and_then_assoc: "and_then (and_then m f) g = and_then m (\<lambda>x. and_then (f x) g)"
  by (intro ext) (simp add: and_then_def split: prod.split sum.split)

lemma and_then_ret: "and_then (ret x) f = f x"
  by (intro ext) (simp add: and_then_def ret_def)

lemma and_then_last: "and_then m ret = m"
  by (intro ext) (simp add: and_then_def ret_def split: prod.split sum.split)

lemma and_then_fail: "and_then (fail e) f = fail e"
  by (intro ext) (simp add: and_then_def fail_def)

lemma and_then_case_prod: "and_then (case p of (x, y) \<Rightarrow> h x y) f = (case p of (x, y) \<Rightarrow> and_then (h x y) f)"
  by (simp split: prod.split)

lemma and_then_case_option:
  "and_then (case x of None \<Rightarrow> m | Some y \<Rightarrow> h y) f = (case x of None \<Rightarrow> and_then m f | Some y \<Rightarrow> and_then (h y) f)"
  by (simp split: option.split)

lemma and_then_if: "and_then (if b then m else n) f = (if b then and_then m f else and_then n f)"
  by simp

lemmas sequence = and_then_assoc and_then_ret and_then_last and_then_fail and_then_case_prod and_then_case_option and_then_if

lemma snd_discard: "snd (discard m E w) = snd (m E w)"
  by (simp add: discard_def and_then_def ret_def split: prod.split sum.split)

lemma discard_unit [simp]: "discard (m :: unit go) = m"
  by (intro ext) (simp add: discard_def and_then_def ret_def split: prod.split sum.split)

lemma halves:
  "discard (TenantService_StartTenantRegistration s c input) = and_then (registration_check s c input) (write_pending c)"
  "discard (TenantService_CreateEvent wired_tenantService c tid name) = and_then (create_event_check wired_tenantService c tid name) (write_pending c)"
  "discard (TenantService_TransitionEventStatus s c eid to) = and_then (transition_check s c eid to) (write_pending c)"
  "discard (RelationService_AddTenantMember c tid u r name) = and_then (add_member_check c tid u r name) (write_pending c)"
  "discard (RelationService_ChangeTenantRole c tid u r) = and_then (change_role_check c tid u r) (write_pending c)"
  "discard (RelationService_GrantEventRole c eid u r) = and_then (grant_event_role_check c eid u r) (write_pending c)"
  "RelationService_RevokeRole c req = and_then (revoke_role_check c req) (write_pending c)"
  "discard (RelationService_CreateTenantInvitation rs c tid r name) = and_then (invite_check rs c tid r name) (write_pending c)"
  "discard (RelationService_RevokeTenantInvitation c tid iid) = and_then (revoke_invitation_check c tid iid) (write_pending c)"
  "discard (RelationService_AcceptTenantInvitation c tid token) = and_then (accept_check c tid token) (write_pending c)"
  by (simp_all add: discard_def sequence Let_def TenantService_StartTenantRegistration_def registration_check_def
      TenantService_CreateEvent_def create_event_check_def TenantService_TransitionEventStatus_def transition_check_def
      RelationService_AddTenantMember_def add_member_check_def RelationService_ChangeTenantRole_def change_role_check_def
      RelationService_GrantEventRole_def grant_event_role_check_def RelationService_RevokeRole_def revoke_role_check_def
      RelationService_CreateTenantInvitation_def invite_check_def RelationService_RevokeTenantInvitation_def
      revoke_invitation_check_def RelationService_AcceptTenantInvitation_def accept_check_def NewInvitation_def
      cong: option.case_cong)

text \<open>What a request does to the database is what its parts do, one after the other.\<close>

lemma unbroken:
  assumes "first_part c req = Some m"
  shows "w_db (snd (serve c req E w)) = w_db (snd (and_then m (write_pending c) E w))
    \<and> w_tx (snd (serve c req E w)) = w_tx (snd (and_then m (write_pending c) E w))"
proof -
  have "w_db (snd (reply f (answer table call convert E w))) = w_db (snd (discard call E w))
      \<and> w_tx (snd (reply f (answer table call convert E w))) = w_tx (snd (discard call E w))"
    for f :: "'x \<Rightarrow> reply" and table and call :: "'a go" and convert
    using answer_db [of table call convert E w]
    by (cases "answer table call convert E w") (simp add: reply_def snd_discard split: sum.split)
  note call = this [unfolded halves]
  show ?thesis
    using assms by (cases req)
      (auto simp del: write_pending.simps simp: tenant_transport_defs relation_transport_defs halves call)
qed

section \<open>What stays\<close>

text \<open>
  Events keep their identity, owned tenants everything but what an owner changes, invitations their token,
  and closed ones everything; what a request has decided on is therefore still there when it writes.
\<close>

definition same_event :: "event_row \<Rightarrow> event_row \<Rightarrow> bool" where
  "same_event e e' \<longleftrightarrow> evr_id e' = evr_id e \<and> evr_public_id e' = evr_public_id e
     \<and> evr_tenant_id e' = evr_tenant_id e \<and> evr_tenant_public_id e' = evr_tenant_public_id e"

definition stays :: "db \<Rightarrow> db \<Rightarrow> bool" where
  "stays d d' \<longleftrightarrow>
     (\<forall>t \<in> set (tenants d). is_owned t \<longrightarrow> (\<exists>t' \<in> set (tenants d'). tenant_lasts t t'))
     \<and> (\<forall>e \<in> set (events d). \<exists>e' \<in> set (events d'). same_event e e')
     \<and> (\<forall>i \<in> set (invitations d). \<exists>i' \<in> set (invitations d'). invitation_lasts i i')"

definition kept :: "db \<Rightarrow> db \<Rightarrow> bool" where
  "kept d d' \<longleftrightarrow> integrity d' \<and> stays d d'"

lemma same_event_refl [simp]: "same_event e e"
  by (simp add: same_event_def)

lemma stays_lasts: "lasts d d' \<Longrightarrow> stays d d'"
  unfolding lasts_def stays_def same_event_def event_lasts_def by blast

lemma stays_refl [simp]: "stays d d"
  by (rule stays_lasts) simp

lemma kept_refl: "integrity d \<Longrightarrow> kept d d"
  by (simp add: kept_def)

lemma stays_trans: "stays d d' \<Longrightarrow> stays d' d'' \<Longrightarrow> stays d d''"
proof -
  assume 1: "stays d d'" and 2: "stays d' d''"
  have "\<exists>t''\<in>set (tenants d''). tenant_lasts t t''" if t: "t \<in> set (tenants d)" "is_owned t" for t
  proof -
    from 1 t obtain t1 where "t1 \<in> set (tenants d')" "tenant_lasts t t1" by (auto simp: stays_def)
    moreover with 2 obtain t2 where "t2 \<in> set (tenants d'')" "tenant_lasts t1 t2"
      by (auto simp: stays_def tenant_lasts_def)
    ultimately show ?thesis by (intro bexI [of _ t2]) (auto simp: tenant_lasts_def)
  qed
  moreover have "\<exists>e''\<in>set (events d''). same_event e e''" if "e \<in> set (events d)" for e
  proof -
    from 1 that obtain e1 where "e1 \<in> set (events d')" "same_event e e1" by (auto simp: stays_def)
    moreover with 2 obtain e2 where "e2 \<in> set (events d'')" "same_event e1 e2" by (auto simp: stays_def)
    ultimately show ?thesis by (intro bexI [of _ e2]) (auto simp: same_event_def)
  qed
  moreover have "\<exists>i''\<in>set (invitations d''). invitation_lasts i i''" if "i \<in> set (invitations d)" for i
  proof -
    from 1 that obtain i1 where "i1 \<in> set (invitations d')" "invitation_lasts i i1" by (auto simp: stays_def)
    moreover with 2 obtain i2 where "i2 \<in> set (invitations d'')" "invitation_lasts i1 i2" by (auto simp: stays_def)
    ultimately show ?thesis by (intro bexI [of _ i2]) (auto simp: invitation_lasts_def)
  qed
  ultimately show ?thesis unfolding stays_def by blast
qed

text \<open>A write that touches memberships and event roles only, or adds rows, or updates events.\<close>

lemma stays_same:
  "tenants d' = tenants d \<Longrightarrow> events d' = events d \<Longrightarrow> invitations d' = invitations d \<Longrightarrow> stays d d'"
  by (auto simp: stays_def tenant_lasts_def intro: bexI_refl)

lemma stays_more:
  "set (tenants d) \<subseteq> set (tenants d') \<Longrightarrow> set (events d) \<subseteq> set (events d') \<Longrightarrow> set (invitations d) \<subseteq> set (invitations d')
     \<Longrightarrow> stays d d'"
  unfolding stays_def by (meson in_mono same_event_refl tenant_lasts_refl invitation_lasts_refl)

section \<open>What a pending write relies on\<close>

definition owned_at :: "db \<Rightarrow> string \<Rightarrow> bool" where
  "owned_at d tid \<longleftrightarrow> (\<exists>t \<in> set (tenants d). tr_id t = tid \<and> is_owned t)"

fun relies :: "db \<Rightarrow> ctx \<Rightarrow> pending \<Rightarrow> bool" where
  "relies d c (StoreTenant t claim) \<longleftrightarrow> (\<exists>tid bs name plan tok x. List.length bs = 8
     \<and> t = NewTenant tid (public_id_of bs) name plan TenantOwnershipStatePendingOwner (Subdomain []) False
     \<and> claim = \<lparr>oc_TokenHash = HashOf tok, oc_ExpiresAt = x\<rparr>)"
| "relies d c (StoreEvent tid e u) \<longleftrightarrow> (\<exists>t \<in> set (tenants d). \<exists>eid bs name. tr_id t = tid \<and> is_owned t
     \<and> e = NewEvent eid (public_id_of bs) (tr_id t) (tr_public_id t) name EventStatusDraft)"
| "relies d c (StoreStatus x) \<longleftrightarrow> ev_status x \<le> EventStatusArchived \<and> (\<exists>e \<in> set (events d). evr_id e = ev_id x)"
| "relies d c (StoreMember tid u r n) \<longleftrightarrow> display_name_ok (dn_value n) \<and> owned_at d tid"
| "relies d c (StoreRole tid u r) \<longleftrightarrow> (r = RoleOwner \<or> r = RoleStaff)
     \<and> (\<exists>t \<in> set (tenants d). tr_id t = tid \<and> is_owned t \<and> VerifyOwnership c (tr_public_id t) = None)"
| "relies d c (DropMember tid u) \<longleftrightarrow> owned_at d tid"
| "relies d c (StoreInvitation i h) \<longleftrightarrow> (\<exists>t \<in> set (tenants d). \<exists>iid bs n name pid x. is_owned t \<and> ParseDisplayName name = Inr n
     \<and> List.length bs = 8 \<and> i = NewInvitation iid (public_id_of bs) (tr_id t) pid RoleStaff n x InvitationPending)"
| "relies d c (Admit t token u) \<longleftrightarrow> (Owned t \<longrightarrow> owned_at d (t_id t))"
| "relies d c _ \<longleftrightarrow> True"

lemma owned_at_stays: "owned_at d tid \<Longrightarrow> stays d d' \<Longrightarrow> owned_at d' tid"
  unfolding owned_at_def stays_def tenant_lasts_def by metis

lemma relies_stays:
  assumes "relies d c p" and s: "stays d d'"
  shows "relies d' c p"
proof (cases p)
  case (StoreEvent tid e u)
  with assms(1) obtain t eid bs name where "t \<in> set (tenants d)" "is_owned t" "tr_id t = tid"
    "e = NewEvent eid (public_id_of bs) (tr_id t) (tr_public_id t) name EventStatusDraft" by auto
  moreover with s obtain t' where "t' \<in> set (tenants d')" "tenant_lasts t t'" by (auto simp: stays_def)
  ultimately show ?thesis unfolding StoreEvent relies.simps
    by (intro bexI [of _ t'] exI [of _ eid] exI [of _ bs] exI [of _ name]) (auto simp: tenant_lasts_def)
next
  case (StoreStatus x)
  with assms show ?thesis by (fastforce simp: stays_def same_event_def)
next
  case (StoreRole tid u r)
  with assms(1) obtain t where "t \<in> set (tenants d)" "is_owned t" "tr_id t = tid" "VerifyOwnership c (tr_public_id t) = None" by auto
  moreover with s obtain t' where "t' \<in> set (tenants d')" "tenant_lasts t t'" by (auto simp: stays_def)
  ultimately show ?thesis using StoreRole assms(1) by (auto simp: tenant_lasts_def intro!: bexI [of _ t'])
next
  case (StoreInvitation i h)
  with assms(1) obtain t iid bs n name pid x where "t \<in> set (tenants d)" "is_owned t" "ParseDisplayName name = Inr n"
    "List.length bs = 8" "i = NewInvitation iid (public_id_of bs) (tr_id t) pid RoleStaff n x InvitationPending"
    by auto
  moreover with s obtain t' where "t' \<in> set (tenants d')" "tenant_lasts t t'" by (auto simp: stays_def)
  ultimately show ?thesis unfolding StoreInvitation relies.simps
    by (intro bexI [of _ t'] exI [of _ iid] exI [of _ bs] exI [of _ n] exI [of _ name] exI [of _ pid] exI [of _ x])
      (auto simp: tenant_lasts_def)
qed (use assms owned_at_stays [OF _ s] in auto)

section \<open>A first part changes nothing that stays and decides on what is there\<close>

lemma registration_check_relies:
  assumes i: "integrity d"
  shows "runs E c d (registration_check s c input) (\<lambda>p d'. kept d d' \<and> relies d' c p) (\<lambda>_ d'. kept d d')"
proof -
  have swept: "kept d (sweep now d)" for now
    using integrity_swept [OF i] evolves_sweep [OF i] stays_lasts by (auto simp: kept_def evolves_def)
  have sweep: "runs E c d (TenantRepo_DeleteExpiredPendingTenants c now) Q R"
    if "\<And>n. Q n (sweep now d)" "\<And>e. R e d" "\<And>e. R e (sweep now d)" for now Q R
    unfolding TenantRepo_DeleteExpiredPendingTenants_def by (intro tri) (use that in \<open>auto simp: sweep_run\<close>)
  show ?thesis
    unfolding registration_check_def
  proof (intro tri sweep, goal_cases)
    case (1 k n m tid bs raw tok hash)
    from \<open>token_of raw = (tok, hash)\<close> have "hash = HashOf tok" using snd_token_of [of raw] by simp
    with 1 swept show ?case by auto
  qed (use swept kept_refl [OF i] in auto)
qed

lemma create_event_check_relies:
  assumes i: "integrity d"
  shows "runs E c d (create_event_check wired_tenantService c pid name) (\<lambda>p d'. kept d d' \<and> relies d' c p) (\<lambda>_ d'. kept d d')"
  unfolding create_event_check_def wired_tenantService_def
  by (intro tri production.runs_resolveTenant [OF i]) (use kept_refl [OF i] in \<open>fastforce+\<close>)

lemma transition_check_relies:
  assumes i: "integrity d"
  shows "runs E c d (transition_check wired_tenantService c epid to) (\<lambda>p d'. kept d d' \<and> relies d' c p) (\<lambda>_ d'. kept d d')"
  unfolding transition_check_def wired_tenantService_def
proof (intro tri production.runs_resolveEvent [OF i], goal_cases)
  case (1 r x)
  then have "event_step (status_of (evr_status r)) to" and x: "x = (event_of r)\<lparr>ev_status := to\<rparr>"
    by (auto simp: TransitionTo_Inr_iff)
  then have "to \<le> EventStatusArchived" using event_step_declared by blast
  with 1 x kept_refl [OF i] show ?case by auto
qed (use kept_refl [OF i] in auto)

lemma owned_atI: "t \<in> set (tenants d) \<Longrightarrow> is_owned t \<Longrightarrow> owned_at d (tr_id t)"
  by (auto simp: owned_at_def)

lemma accept_check_relies:
  assumes i: "integrity d"
  shows "runs E c d (accept_check c pid token) (\<lambda>p d'. kept d d' \<and> relies d' c p) (\<lambda>_ d'. kept d d')"
  unfolding accept_check_def
proof (intro tri, goal_cases)
  case (2 u row t)
  then have "t = tenant_of row" "row \<in> set (tenants d)" using read_tenant [OF i] by auto
  with kept_refl [OF i] show ?case
    by (auto simp: Owned_def tenant_of_def ownership_state_defs owned_at_def split: if_splits)
qed (use kept_refl [OF i] in auto)

lemma relation_checks_relies:
  assumes i: "integrity d"
  shows "runs E c d (add_member_check c pid u r name) (\<lambda>p d'. kept d d' \<and> relies d' c p) (\<lambda>_ d'. kept d d')"
    and "runs E c d (change_role_check c pid u r) (\<lambda>p d'. kept d d' \<and> relies d' c p) (\<lambda>_ d'. kept d d')"
    and "runs E c d (grant_event_role_check c epid u r) (\<lambda>p d'. kept d d' \<and> relies d' c p) (\<lambda>_ d'. kept d d')"
    and "runs E c d (revoke_role_check c input) (\<lambda>p d'. kept d d' \<and> relies d' c p) (\<lambda>_ d'. kept d d')"
    and "runs E c d (revoke_invitation_check c pid iid) (\<lambda>p d'. kept d d' \<and> relies d' c p) (\<lambda>_ d'. kept d d')"
  unfolding add_member_check_def change_role_check_def grant_event_role_check_def revoke_role_check_def revoke_invitation_check_def
  by (intro tri runs_writableTenant [OF i] runs_writableEvent [OF i];
      use kept_refl [OF i] Ensure_VerifyOwnership in \<open>force simp: owned_at_def Grantable_None_iff intro: display_name_ok_parsed\<close>)+

lemma invite_check_relies:
  assumes i: "integrity d"
  shows "runs E c d (invite_check s c pid r name) (\<lambda>p d'. kept d d' \<and> relies d' c p) (\<lambda>_ d'. kept d d')"
  unfolding invite_check_def
proof (intro tri runs_writableTenant [OF i], goal_cases)
  case (1 n row m iid bs raw tok hash k)
  then have "r = RoleStaff" by (simp add: Invitable_def split: if_splits)
  with 1 kept_refl [OF i] show ?case unfolding relies.simps tenant_of_simps
    by (intro conjI bexI [of _ row] exI [of _ iid] exI [of _ bs] exI [of _ n] exI [of _ name] exI [of _ pid]
        exI [of _ "e_clock E k + rs_invitationTTL s"]) auto
qed (use kept_refl [OF i] in auto)

lemma first_part_relies:
  assumes "integrity d" and "first_part c req = Some m"
  shows "runs E c d m (\<lambda>p d'. kept d d' \<and> relies d' c p) (\<lambda>_ d'. kept d d')"
  using assms by (cases req) (auto simp: registration_check_relies create_event_check_relies transition_check_relies
      accept_check_relies relation_checks_relies invite_check_relies)

section \<open>A write keeps the integrity and what stays\<close>

text \<open>A write of the environment as it is now; the outcome of the request does not matter.\<close>

definition keeps :: "env \<Rightarrow> ctx \<Rightarrow> db \<Rightarrow> 'a go \<Rightarrow> bool" where
  "keeps E c d m \<longleftrightarrow> runs E c d m (\<lambda>_ d'. kept d d') (\<lambda>_ d'. kept d d')"

lemma keeps_discard: "keeps E c d m \<Longrightarrow> keeps E c d (discard m)"
  unfolding keeps_def discard_def by (rule runs_and_then, erule runs_conseq) (auto intro: runs_ret)

lemma keeps_atomic:
  assumes i: "integrity d" and c: "\<not> ctx_tx c"
    and body: "runs E (c\<lparr>ctx_tx := True\<rparr>) d (fn (c\<lparr>ctx_tx := True\<rparr>)) (\<lambda>_ d'. kept d d') (\<lambda>_ _. True)"
  shows "keeps E c d (RunInTransaction c fn)"
  unfolding keeps_def
  by (rule runs_conseq [OF runs_atomic [where fn = fn, OF c body]]) (use kept_refl [OF i] in \<open>auto simp: all_or_nothing_def\<close>)

lemma keeps_permitted:
  assumes i: "integrity d" and c: "\<not> ctx_tx c"
    and body: "runs E (c\<lparr>ctx_tx := True\<rparr>) d (fn (c\<lparr>ctx_tx := True\<rparr>)) (\<lambda>_ d'. kept d d') (\<lambda>_ _. True)"
  shows "keeps E c d (RelationService_withCurrentPermission c tid fn)"
  unfolding keeps_def
  by (rule runs_withCurrentPermission [OF i c, where Q = "\<lambda>_ d'. kept d d'" and Z = "\<lambda>_. True"])
    (use body kept_refl [OF i] in auto)

lemma keeps_StoreTenant:
  assumes i: "integrity d" and r: "relies d c (StoreTenant t claim)"
  shows "keeps E c d (write_pending c (StoreTenant t claim))"
proof -
  from r obtain tid bs name plan tok x where bs: "List.length bs = 8"
    and t: "t = NewTenant tid (public_id_of bs) name plan TenantOwnershipStatePendingOwner (Subdomain []) False"
    and claim: "claim = \<lparr>oc_TokenHash = HashOf tok, oc_ExpiresAt = x\<rparr>" by auto
  show ?thesis unfolding keeps_def write_pending.simps t claim
    by (rule production.runs_CreatePendingTenant [OF i bs]) (use kept_refl [OF i] in \<open>auto simp: kept_def intro!: stays_more\<close>)
qed

lemma keeps_StoreStatus:
  assumes i: "integrity d" and r: "relies d c (StoreStatus x)"
  shows "keeps E c d (write_pending c (StoreStatus x))"
proof -
  from r obtain e where e: "e \<in> set (events d)" "ev_id x = evr_id e" "ev_status x \<le> EventStatusArchived" by auto
  have "stays d (d\<lparr>events := update_where p (\<lambda>e. e\<lparr>evr_name := nm, evr_status := st\<rparr>) (events d)\<rparr>)" for p nm st
  proof -
    have "\<exists>e' \<in> set (update_where p (\<lambda>e. e\<lparr>evr_name := nm, evr_status := st\<rparr>) (events d)). same_event e e'"
      if "e \<in> set (events d)" for e
      using that by (cases "p e") (auto simp: set_update_where same_event_def intro: bexI_refl)
    then show ?thesis by (auto simp: stays_def tenant_lasts_def intro: bexI_refl)
  qed
  then show ?thesis unfolding keeps_def write_pending.simps
    by (intro runs_UpdateEvent [OF i e]) (use kept_refl [OF i] in \<open>auto simp: kept_def\<close>)
qed

lemma keeps_StoreMember:
  assumes i: "integrity d" and r: "relies d c (StoreMember tid u r n)"
  shows "keeps E c d (write_pending c (StoreMember tid u r n))"
proof -
  from r obtain t where t: "t \<in> set (tenants d)" "tid = tr_id t" "is_owned t" and n: "display_name_ok (dn_value n)"
    by (auto simp: owned_at_def)
  have added: "kept d d'" if "sql_insert_membership at (tr_id t) u (Role_String r) (dn_value n) d = Inr d'" for at d'
  proof -
    from that obtain m where "d' = d\<lparr>memberships := memberships d @ [m]\<rparr>" by (rule insert_membership_rows)
    with integrity_member [OF i t(1,3) n that] show ?thesis by (simp add: kept_def stays_same)
  qed
  have "keeps E c d (MembershipRepo_AddTenantMember c tid u r n)"
    unfolding keeps_def t(2) by (rule runs_AddTenantMember [OF i t(1) n]) (assumption | erule added | rule kept_refl [OF i])+
  then show ?thesis unfolding write_pending.simps by (rule keeps_discard)
qed

lemma keeps_StoreRole:
  assumes i: "integrity d" and c: "\<not> ctx_tx c" and rel: "relies d c (StoreRole tid u r)"
  shows "keeps E c d (write_pending c (StoreRole tid u r))"
proof -
  let ?c = "c\<lparr>ctx_tx := True\<rparr>"
  from rel obtain t where r: "r = RoleOwner \<or> r = RoleStaff" and t: "t \<in> set (tenants d)" "tid = tr_id t" "is_owned t"
    and seen: "VerifyOwnership ?c (tr_public_id t) = None" by auto
  have own: "has_owner d (tr_id t)" by (rule integrityD(2) [OF i [unfolded integrity_def] t(1,3)])
  have changed: "runs E ?c d (MembershipRepo_ChangeTenantRole ?c (tr_id t) u r) (\<lambda>_ d'. kept d d') (\<lambda>_ _. True)"
    if "r = RoleOwner \<or> owner_besides d (tr_id t) u"
    by (rule runs_ChangeTenantRole_repo [OF i t(1) seen r that]) (auto simp: kept_def intro!: stays_same)
  show ?thesis
    unfolding write_pending.simps RelationService_writeMembership_def t(2)
    by (intro keeps_discard keeps_permitted [OF i c] tri runs_keepAnotherOwner [OF i own]) (use changed in auto)
qed

lemma keeps_StoreEventRole:
  assumes i: "integrity d" and c: "\<not> ctx_tx c"
  shows "keeps E c d (write_pending c (StoreEventRole tid eid u r))"
proof -
  have "kept d d'" if "event_role_granted d eid u r d'" for d'
  proof -
    from that obtain x where up: "sql_upsert_event_role eid u (Role_String r) d = Inr (x, d')"
      by (auto simp: event_role_granted_def)
    then have "stays d d'"
      by (auto simp: sql_upsert_event_role_def bind_result_Inr_iff Let_def put_Inr intro!: stays_same)
    with integrity_upsert_event_role [OF i up] show ?thesis by (simp add: kept_def)
  qed
  then show ?thesis
    unfolding write_pending.simps RelationService_writeMembership_def
    by (intro keeps_discard keeps_permitted [OF i c] runs_GrantEventRole_effect [OF i]) auto
qed

lemma keeps_DropMember:
  assumes i: "integrity d" and c: "\<not> ctx_tx c" and rel: "relies d c (DropMember tid u)"
  shows "keeps E c d (write_pending c (DropMember tid u))"
proof -
  from rel obtain t where t: "t \<in> set (tenants d)" "tid = tr_id t" "is_owned t" by (auto simp: owned_at_def)
  have own: "has_owner d tid" unfolding t(2) by (rule integrityD(2) [OF i [unfolded integrity_def] t(1,3)])
  have "kept d d'" if run: "sql_delete_membership tid u d = Inr (n, d')" and o: "owner_besides d tid u" for n d'
  proof -
    have "integrity d'" by (rule integrity_delete_membership [OF i run]) (use o in simp)
    with run show ?thesis by (auto simp: kept_def sql_delete_membership_def intro!: stays_same)
  qed
  then show ?thesis
    unfolding write_pending.simps MembershipRepo_RevokeTenantMembership_def expectOneRow_def
    by (intro keeps_permitted [OF i c] tri runs_keepAnotherOwner [OF i own]) auto
qed

lemma keeps_DropEventRole:
  assumes i: "integrity d" and c: "\<not> ctx_tx c"
  shows "keeps E c d (write_pending c (DropEventRole tid eid u))"
proof -
  have "kept d d'" if run: "sql_delete_event_role eid u d = Inr (n, d')" for n d'
    using integrity_delete_event_role [OF i run] run by (auto simp: kept_def sql_delete_event_role_def intro!: stays_same)
  then show ?thesis
    unfolding write_pending.simps MembershipRepo_RevokeEventRole_def expectOneRow_def
    by (intro keeps_permitted [OF i c] tri) auto
qed

lemma keeps_StoreInvitation:
  assumes i: "integrity d" and c: "\<not> ctx_tx c" and rel: "relies d c (StoreInvitation j h)"
  shows "keeps E c d (write_pending c (StoreInvitation j h))"
proof -
  from rel obtain t iid bs n name pid x where t: "t \<in> set (tenants d)" "is_owned t" and n: "ParseDisplayName name = Inr n"
    and bs: "List.length bs = 8" and j: "j = NewInvitation iid (public_id_of bs) (tr_id t) pid RoleStaff n x InvitationPending"
    by auto
  show ?thesis
    unfolding write_pending.simps j
    by (intro keeps_permitted [OF i c] runs_CreateInvitation [OF i t n bs]) (auto simp: kept_def intro!: stays_more)
qed

lemma stays_closed:
  assumes "integrity d" and "j \<in> set (invitations d)" and "invitation_row_open now j"
    and "tenants d' = tenants d" and "events d' = events d"
    and "invitations d' = update_where (\<lambda>i. ir_id i = ir_id j) f (invitations d)"
    and "\<And>i. f i = i\<lparr>ir_accepted_at := a i, ir_accepted_by := b i, ir_revoked_at := v i\<rparr>"
  shows "stays d d'"
  unfolding stays_def using invitation_closed [OF assms(1-3,7)] assms(4-6)
  by (auto simp: tenant_lasts_def intro: bexI_refl)

lemma keeps_CloseInvitation:
  assumes i: "integrity d" and c: "\<not> ctx_tx c"
  shows "keeps E c d (write_pending c (CloseInvitation tid iid))"
  unfolding write_pending.simps TenantRepo_WithinTransaction_def
proof (intro keeps_discard keeps_atomic [OF i c],
    unfold revoke_invitation_tx_def InvitationRepo_FindInvitationForUpdate_def,
    intro tri runs_findInvitation [OF i] runs_MarkInvitationRevoked, goal_cases)
  case (1 j k x n d')
  have "stays d d'"
    by (rule stays_closed [OF i 1(1), where now = "e_clock E k" and f = "\<lambda>i. i\<lparr>ir_revoked_at := Some (pg_time (e_clock E k))\<rparr>"
          and a = ir_accepted_at and b = ir_accepted_by])
      (use 1 in \<open>auto simp: invitation_Revoke_Inr_iff sql_revoke_invitation_def bind_result_Inr_iff put_Inr\<close>)
  with integrity_revoke_invitation [OF i 1(4)] show ?case by (simp add: kept_def)
qed auto

lemma keeps_StoreEvent:
  assumes i: "integrity d" and c: "\<not> ctx_tx c" and rel: "relies d c (StoreEvent tid e u)"
  shows "keeps E c d (write_pending c (StoreEvent tid e u))"
proof -
  from rel obtain t eid bs name where t: "t \<in> set (tenants d)" "is_owned t" "tr_id t = tid"
    and e: "e = NewEvent eid (public_id_of bs) (tr_id t) (tr_public_id t) name EventStatusDraft" by auto
  have inserted: "kept d d'"
    if run: "sql_insert_event \<lparr>evr_id = eid, evr_public_id = public_id_of bs, evr_tenant_id = tr_id t,
      evr_tenant_public_id = tr_public_id t, evr_name = name, evr_status = ''draft''\<rparr> d = Inr (n, d')" for n d'
  proof -
    have "integrity d'"
      by (rule integrity_insert_event [OF i run _ t(1,2)]) (simp_all add: ParseEventStatus_String
          [of EventStatusDraft, unfolded event_status_defs, simplified])
    with run show ?thesis by (auto simp: kept_def sql_insert_event_def bind_result_Inr_iff Let_def put_Inr intro!: stays_more)
  qed
  have granted: "runs E c' d1 (MembershipRepo_GrantEventRole c' eid u r) (\<lambda>_ d'. kept d d') (\<lambda>_ _. True)" if d1: "kept d d1" for c' d1 r
  proof (rule runs_GrantEventRole_effect)
    fix d' :: db and m :: membership assume "event_role_granted d1 eid u r d'"
    then obtain x where up: "sql_upsert_event_role eid u (Role_String r) d1 = Inr (x, d')" by (auto simp: event_role_granted_def)
    then have "stays d1 d'" by (auto simp: sql_upsert_event_role_def bind_result_Inr_iff Let_def put_Inr intro!: stays_same)
    with integrity_upsert_event_role [OF _ up] d1 show "kept d d'" by (auto simp: kept_def intro: stays_trans)
  qed (use d1 in \<open>auto simp: kept_def\<close>)
  have granted: "runs E c' d1 (MembershipRepo_GrantEventRole c' eid u r)
      (\<lambda>_ d'. runs E c' d' (ret ()) (\<lambda>_. kept d) (\<lambda>_ _. True)) (\<lambda>_ _. True)" if "kept d d1" for c' d1 r
    by (rule runs_conseq [OF granted [OF that]]) (auto intro: runs_ret)
  show ?thesis
    unfolding write_pending.simps TenantRepo_WithinTransaction_def
  proof (intro keeps_atomic [OF i c], unfold create_event_tx_def wired_tenantService_def,
      intro tri production.runs_port_CurrentRole [OF integrity_schema(1) [OF i]], goal_cases)
    case (2 u' r a b)
    show ?case
      unfolding TenantRepo_CreateEvent_def e
      by (intro tri) (use inserted granted in \<open>auto simp: NewEvent_def event_status_defs NewTenantService_def\<close>)
  qed auto
qed

text \<open>What an admission by a token does: it closes the open invitation of the token.\<close>

definition admits :: "db \<Rightarrow> string \<Rightarrow> db \<Rightarrow> bool" where
  "admits d token d' \<longleftrightarrow>
     (\<exists>j \<in> set (invitations d). ir_token_hash j = HashOf token \<and> ir_accepted_at j = None \<and> ir_revoked_at j = None)
     \<and> (\<exists>j \<in> set (invitations d'). ir_token_hash j = HashOf token \<and> ir_accepted_at j \<noteq> None)"

lemma runs_admission:
  assumes i: "integrity d" and c: "\<not> ctx_tx c" and rel: "relies d c (Admit t token u)"
  shows "runs E c d (TenantRepo_WithinTransaction c (accept_invitation_tx t token u))
    (\<lambda>_ d'. kept d d' \<and> admits d token d') (\<lambda>_ d'. d' = d \<or> kept d d' \<and> admits d token d')"
proof -
  have "runs E (c\<lparr>ctx_tx := True\<rparr>) d (accept_invitation_tx t token u (c\<lparr>ctx_tx := True\<rparr>))
      (\<lambda>_ d'. kept d d' \<and> admits d token d') (\<lambda>_ _. True)"
    unfolding accept_invitation_tx_def InvitationRepo_FindInvitationByTokenForUpdate_def
  proof (intro tri runs_LockTenantMemberships runs_findInvitation [OF i], goal_cases)
    case h: (4 j x k y)
    then have x: "x = invitation_of d j" and j: "j \<in> set (invitations d)" "ir_token_hash j = HashOf token"
      and op: "invitation_row_open (e_clock E k) j" by (auto simp: invitation_Accept_Inr_iff)
    from h rel obtain row where row: "row \<in> set (tenants d)" "t_id t = tr_id row" "is_owned row" by (auto simp: owned_at_def)
    have name: "display_name_ok (dn_value (i_displayName x))"
      using integrityD(6) [OF i [unfolded integrity_def] j(1)] x by simp
    show ?case unfolding row(2)
    proof (rule runs_AddTenantMember [OF i row(1) name], goal_cases)
      case ins: (1 at d1 m)
      obtain m' where d1: "d1 = d\<lparr>memberships := memberships d @ [m']\<rparr>" by (rule insert_membership_rows [OF ins(3)])
      have i1: "integrity d1" by (rule integrity_member [OF i row(1,3) name ins(3)])
      show ?case
      proof (intro tri runs_MarkInvitationAccepted, goal_cases)
        case (1 n d2)
        from 1(1) obtain u' where d2: "d2 = d1\<lparr>invitations := update_where (\<lambda>i. ir_id i = ir_id j)
            (\<lambda>i. i\<lparr>ir_accepted_at := Some (pg_time (e_clock E k)), ir_accepted_by := Some u'\<rparr>) (invitations d1)\<rparr>"
          by (auto simp: x sql_accept_invitation_def bind_result_Inr_iff put_Inr)
        have "stays d d2"
          by (rule stays_closed [OF i j(1) op, where v = ir_revoked_at]) (auto simp: d1 d2)
        moreover have "admits d token d2"
          unfolding admits_def using j op
          by (auto simp: d1 d2 set_update_where invitation_row_open_def intro!: bexI [of _ j] rev_bexI [OF UnI1])
        ultimately show ?case using integrity_accept_invitation [OF i1 1(1)] by (simp add: kept_def)
      qed simp
    qed auto
  qed auto
  from runs_atomic [where fn = "accept_invitation_tx t token u", OF c this] show ?thesis
    unfolding TenantRepo_WithinTransaction_def by (rule runs_conseq) (auto simp: all_or_nothing_def)
qed

lemma runs_Admit:
  assumes i: "integrity d" and c: "\<not> ctx_tx c" and rel: "relies d c (Admit t token u)"
  shows "runs E c d (write_pending c (Admit t token u)) (\<lambda>_ d'. kept d d' \<and> admits d token d')
    (\<lambda>_ d'. d' = d \<or> kept d d' \<and> admits d token d')"
  unfolding write_pending.simps discard_def
  by (rule runs_and_then, rule runs_conseq [OF runs_admission [OF assms]]) (auto intro: runs_ret)

lemma keeps_Admit:
  assumes i: "integrity d" and c: "\<not> ctx_tx c" and rel: "relies d c (Admit t token u)"
  shows "keeps E c d (write_pending c (Admit t token u))"
  unfolding keeps_def by (rule runs_conseq [OF runs_Admit [OF assms]]) (use kept_refl [OF i] in auto)

lemma write_pending_keeps:
  assumes i: "integrity d" and c: "\<not> ctx_tx c" and rel: "relies d c p"
  shows "keeps E c d (write_pending c p)"
proof (cases p)
  case StoreTenant
  then show ?thesis using keeps_StoreTenant [OF i] rel by blast
next
  case StoreStatus
  then show ?thesis using keeps_StoreStatus [OF i] rel by blast
next
  case StoreMember
  then show ?thesis using keeps_StoreMember [OF i] rel by blast
qed (insert rel, (hypsubst, (rule keeps_StoreEvent keeps_StoreRole keeps_StoreEventRole keeps_DropMember keeps_DropEventRole
      keeps_StoreInvitation keeps_CloseInvitation keeps_Admit, (rule i c | assumption)+))+)

section \<open>The steps\<close>

type_synonym config = "world \<times> (ctx \<times> pending) list"

text \<open>
  The world and the requests that have decided and not yet written.  A request may be served as a whole,
  finish its first part, fail in it, make its write, or be given up.
\<close>

inductive request_step :: "config \<Rightarrow> config \<Rightarrow> bool" where
  whole: "\<not> ctx_tx c \<Longrightarrow> request_step (w, ps) (snd (serve c req E w), ps)"
| decided: "\<not> ctx_tx c \<Longrightarrow> first_part c req = Some m \<Longrightarrow> m E w = (Inr p, w') \<Longrightarrow> request_step (w, ps) (w', (c, p) # ps)"
| refused: "\<not> ctx_tx c \<Longrightarrow> first_part c req = Some m \<Longrightarrow> m E w = (Inl e, w') \<Longrightarrow> request_step (w, ps) (w', ps)"
| written: "(c, p) \<in> set ps \<Longrightarrow> request_step (w, ps) (snd (write_pending c p E w), remove1 (c, p) ps)"
| given_up: "request_step (w, ps) (w, remove1 (c, p) ps)"

inductive_cases request_step_cases: "request_step (w, ps) (w', ps')"

definition interleaved :: "world \<Rightarrow> (ctx \<times> pending) list \<Rightarrow> bool" where
  "interleaved w ps \<longleftrightarrow> (\<exists>w0. w_db w0 = empty_db \<and> w_tx w0 = None \<and> request_step\<^sup>*\<^sup>* (w0, []) (w, ps))"

definition sound_config :: "config \<Rightarrow> bool" where
  "sound_config cf \<longleftrightarrow> w_tx (fst cf) = None \<and> integrity (w_db (fst cf))
     \<and> (\<forall>(c, p) \<in> set (snd cf). \<not> ctx_tx c \<and> relies (w_db (fst cf)) c p)"

lemma keeps_run:
  assumes "keeps E c (w_db w) m" and "\<not> ctx_tx c" and "w_tx w = None"
  shows "kept (w_db w) (w_db (snd (m E w))) \<and> w_tx (snd (m E w)) = None"
proof -
  obtain r w' where m: "m E w = (r, w')" by (cases "m E w")
  note runs = assms(1) [unfolded keeps_def]
  from runs_db [OF runs assms(2) refl m] runs_tx_None [OF runs assms(2) refl assms(3)] m show ?thesis
    by (simp split: sum.splits)
qed

lemma sound_config_more:
  assumes "sound_config (w, ps)" and "w_tx w' = None" and "kept (w_db w) (w_db w')" and "set ps' \<subseteq> set ps"
  shows "sound_config (w', ps')"
proof -
  have "\<not> ctx_tx c \<and> relies (w_db w') c p" if "(c, p) \<in> set ps'" for c p
    using that assms relies_stays [of "w_db w" c p "w_db w'"] by (auto simp: sound_config_def kept_def)
  with assms(2,3) show ?thesis by (auto simp: sound_config_def kept_def)
qed

lemma first_part_run:
  assumes s: "sound_config (w, ps)" and c: "\<not> ctx_tx c" and fp: "first_part c req = Some m" and m: "m E w = (r, w')"
  shows "w_tx w' = None \<and> kept (w_db w) (w_db w') \<and> (\<forall>p. r = Inr p \<longrightarrow> relies (w_db w') c p)"
proof -
  have i: "integrity (w_db w)" "w_tx w = None" using s by (simp_all add: sound_config_def)
  note runs = first_part_relies [OF i(1) fp]
  from runs_db [OF runs c refl m] runs_tx_None [OF runs c refl i(2), of E] m show ?thesis
    by (auto split: sum.splits)
qed

lemma request_step_sound:
  assumes "request_step (w, ps) (w', ps')" and s: "sound_config (w, ps)"
  shows "sound_config (w', ps') \<and> stays (w_db w) (w_db w')"
  using assms(1)
proof (rule request_step_cases, goal_cases)
  case (1 c req E)
  then have "sound_step c w w'" using s serve_sound by (simp add: sound_config_def)
  then have "w_tx w' = None" "kept (w_db w) (w_db w')" by (auto simp: sound_step_def kept_def evolves_def stays_lasts)
  with sound_config_more [OF s] 1(3) show ?case by (auto simp: kept_def)
next
  case (2 c req m E p)
  from first_part_run [OF s 2(2,3,4)] have "w_tx w' = None" "kept (w_db w) (w_db w')" "relies (w_db w') c p" by auto
  with sound_config_more [OF s this(1,2), of ps] 2(1,2) show ?case by (auto simp: sound_config_def kept_def)
next
  case (3 c req m E e)
  from first_part_run [OF s 3(2,3,4)] have "w_tx w' = None" "kept (w_db w) (w_db w')" by auto
  with sound_config_more [OF s this, of ps'] 3(1) show ?case by (auto simp: kept_def)
next
  case (4 c p E)
  from s 4(1) have i: "integrity (w_db w)" "w_tx w = None" and c: "\<not> ctx_tx c" and "relies (w_db w) c p"
    by (auto simp: sound_config_def)
  from keeps_run [OF write_pending_keeps [OF i(1) c this(4)] c i(2)] 4(2)
  have "w_tx w' = None" "kept (w_db w) (w_db w')" by auto
  with sound_config_more [OF s this, of ps'] set_remove1_subset [of "(c, p)" ps] 4(3) show ?case by (auto simp: kept_def)
next
  case (5 c p)
  then show ?case using s set_remove1_subset [of "(c, p)" ps] by (auto simp: sound_config_def)
qed

lemma request_steps_sound:
  assumes "request_step\<^sup>*\<^sup>* cf cf'" and "sound_config cf"
  shows "sound_config cf' \<and> stays (w_db (fst cf)) (w_db (fst cf'))"
  using assms(1)
proof (induction rule: rtranclp_induct)
  case (step y z)
  with request_step_sound [of "fst y" "snd y" "fst z" "snd z"] show ?case by (auto intro: stays_trans)
qed (use assms(2) in simp)

lemma interleaved_sound: "interleaved w ps \<Longrightarrow> sound_config (w, ps)"
  using request_steps_sound integrity_empty_db by (fastforce simp: interleaved_def sound_config_def)

lemma interleaved_step: "interleaved w ps \<Longrightarrow> request_step (w, ps) (w', ps') \<Longrightarrow> interleaved w' ps'"
  unfolding interleaved_def by (meson rtranclp.rtrancl_into_rtrancl)

text \<open>The worlds without interleaving are among these.\<close>

lemma reachable_interleaved: "reachable w \<Longrightarrow> interleaved w []"
proof (induction rule: reachable.induct)
  case (start w)
  then show ?case by (auto simp: interleaved_def)
next
  case (request w c E req)
  then show ?case using interleaved_step request_step.whole by blast
qed

end
