(* ===== verification/Concurrency.thy ===== *)
theory Concurrency
  imports Interleaving InvitationProperties
begin

text \<open>
  What holds when requests interleave in any way, as theory Interleaving describes it, and what does not.
\<close>

section \<open>Interleaved requests\<close>

text \<open>
  C6: Whatever happens between the decision of a request and its write, other decisions and writes on the
  same tenant included, the database keeps its integrity: no transaction is left open, every
  constraint of the schema holds, and every owned tenant has an owner.
\<close>

theorem concurrent_integrity:
  assumes "interleaved w ps"
  shows "w_tx w = None \<and> integrity (w_db w)"
  using interleaved_sound [OF assms] by (simp add: sound_config_def)

text \<open>
  C15: Interleaving undoes nothing either: a tenant that has an owner stays owned under its identifiers, name
  and subdomain, and unchanged once it is archived; an event keeps its identity; an invitation keeps
  its token, and once it is accepted or revoked it never changes again.
\<close>

theorem concurrent_history:
  assumes "interleaved w ps" and "request_step\<^sup>*\<^sup>* (w, ps) (w', ps')"
  shows "(\<forall>t. t \<in> set (tenants (w_db w)) \<longrightarrow> tr_ownership_state t = ''owned'' \<longrightarrow>
      (\<exists>t' \<in> set (tenants (w_db w')). tr_id t' = tr_id t \<and> tr_public_id t' = tr_public_id t \<and> tr_name t' = tr_name t
        \<and> tr_ownership_state t' = ''owned'' \<and> tr_subdomain t' = tr_subdomain t \<and> (tr_archived t \<longrightarrow> t' = t)))
    \<and> (\<forall>e. e \<in> set (events (w_db w)) \<longrightarrow> (\<exists>e' \<in> set (events (w_db w')). evr_id e' = evr_id e
        \<and> evr_public_id e' = evr_public_id e \<and> evr_tenant_id e' = evr_tenant_id e))
    \<and> (\<forall>i. i \<in> set (invitations (w_db w)) \<longrightarrow> (\<exists>i' \<in> set (invitations (w_db w')). ir_id i' = ir_id i
        \<and> ir_token_hash i' = ir_token_hash i \<and> (ir_accepted_at i \<noteq> None \<or> ir_revoked_at i \<noteq> None \<longrightarrow> i' = i)))"
proof -
  have "stays (w_db w) (w_db w')" using request_steps_sound [OF assms(2)] interleaved_sound [OF assms(1)] by simp
  then show ?thesis
    unfolding stays_def tenant_lasts_def same_event_def invitation_lasts_def is_owned_def by fastforce
qed

lemma write_db:
  assumes "runs E c (w_db w) m (\<lambda>_ d'. P d') (\<lambda>_ d'. d' = w_db w \<or> P d')" and "\<not> ctx_tx c"
  shows "w_db (snd (m E w)) = w_db w \<or> P (w_db (snd (m E w)))"
proof -
  obtain r w' where m: "m E w = (r, w')" by (cases "m E w")
  from runs_db [OF assms refl m] m show ?thesis by (auto split: sum.splits)
qed

text \<open>
  C16: A token admits one person also when any number of people have presented it at the same time and all
  have been let through to the admission: once one of the admissions has changed the database, none of
  the others does.
\<close>

theorem concurrent_admission_once:
  assumes "interleaved w ps" and first: "(c, Admit t token u) \<in> set ps"
    and changed: "w_db (snd (write_pending c (Admit t token u) E w)) \<noteq> w_db w"
    and later: "request_step\<^sup>*\<^sup>* (snd (write_pending c (Admit t token u) E w), remove1 (c, Admit t token u) ps) (w', ps')"
    and other: "(c', Admit t' token u') \<in> set ps'"
  shows "w_db (snd (write_pending c' (Admit t' token u') E' w')) = w_db w'"
proof -
  let ?w1 = "snd (write_pending c (Admit t token u) E w)"
  note s = interleaved_sound [OF assms(1)]
  then have i: "integrity (w_db w)" and c: "\<not> ctx_tx c" and r: "relies (w_db w) c (Admit t token u)"
    using first by (auto simp: sound_config_def)
  have "admits (w_db w) token (w_db ?w1)"
    using write_db [OF runs_Admit [OF i c r] c] changed by blast
  then obtain j where j: "j \<in> set (invitations (w_db ?w1))" "ir_token_hash j = HashOf token" "ir_accepted_at j \<noteq> None"
    by (auto simp: admits_def)
  from request_step_sound [OF request_step.written [OF first] s]
  have s1: "sound_config (?w1, remove1 (c, Admit t token u) ps)" by blast
  from request_steps_sound [OF later s1] have s': "sound_config (w', ps')" and "stays (w_db ?w1) (w_db w')" by simp_all
  with j have j': "j \<in> set (invitations (w_db w'))" by (force simp: stays_def invitation_lasts_def)
  have i': "integrity (w_db w')" and c': "\<not> ctx_tx c'" and r': "relies (w_db w') c' (Admit t' token u')"
    using s' other by (auto simp: sound_config_def)
  have "k = j" if "k \<in> set (invitations (w_db w'))" "ir_token_hash k = HashOf token" for k
    using distinct_map_key_eq [OF schema_keys(8) [OF integrity_schema(1) [OF i']] that(1) j'] that(2) j(2) by simp
  then have "\<not> admits (w_db w') token d'" for d' using j(3) by (auto simp: admits_def)
  with write_db [OF runs_Admit [OF i' c' r'] c'] show ?thesis by blast
qed

text \<open>Two guests with the token of one invitation, both let through before either is admitted.\<close>

definition second_guest_ctx :: ctx where
  "second_guest_ctx = \<lparr>ctx_claims = Some \<lparr>cl_Subject = ''carol'', cl_TenantPublicID = []\<rparr>, ctx_binding = None, ctx_tx = False\<rparr>"

lemma second_guest_ctx_simps [simp]:
  "\<not> ctx_tx second_guest_ctx" "SubjectFromContext second_guest_ctx = Some ''carol''"
  "TenantPublicIDFromContext second_guest_ctx = None"
  by (simp_all add: second_guest_ctx_def SubjectFromContext_def TenantPublicIDFromContext_def bound_tenant_def
      TrimSpace_def [of "[]"])

definition one_waits :: world where
  "one_waits = snd (accept_check second_guest_ctx ''0707070707070707'' sample_token sample_env invited_world)"

definition both_wait :: world where
  "both_wait = snd (accept_check guest_ctx ''0707070707070707'' sample_token sample_env one_waits)"

definition one_admitted :: world where
  "one_admitted = snd (write_pending guest_ctx (Admit (tenant_of claimed_row) sample_token ''bob'') sample_env both_wait)"

lemma let_through:
  "accept_check second_guest_ctx ''0707070707070707'' sample_token sample_env invited_world
     = (Inr (Admit (tenant_of claimed_row) sample_token ''carol''), one_waits)"
  "w_db one_waits = w_db invited_world" "w_tx one_waits = None"
  "accept_check guest_ctx ''0707070707070707'' sample_token sample_env one_waits
     = (Inr (Admit (tenant_of claimed_row) sample_token ''bob''), both_wait)"
  "w_db both_wait = w_db invited_world" "w_tx both_wait = None"
  using reachable_sound [OF invited_reachable]
  by (simp_all add: both_wait_def one_waits_def accept_check_def invited_db claimed_db claimed_row_def registered_row_def
      sample_id_token sample_public_id empty_db_def tenant_of_def is_owned_def eval_simps)

lemma admitted_rows: "map mr_user_id (memberships (w_db one_admitted)) = [''alice'', ''bob'']"
  unfolding one_admitted_def write_pending.simps snd_discard
  by (simp add: let_through accept_invitation_tx_def MembershipRepo_AddTenantMember_def
      invitation_run_simps invited_db invited_row_def claimed_db claimed_row_def registered_row_def
      sample_id_token sample_public_id empty_db_def DefaultInvitationTTL_def pg_time_def tenant_of_def is_owned_def eval_simps)

theorem concurrent_admission_once_witness:
  "map mr_user_id (memberships (w_db one_admitted)) = [''alice'', ''bob'']
   \<and> w_db (snd (write_pending second_guest_ctx (Admit (tenant_of claimed_row) sample_token ''carol'') sample_env one_admitted)) = w_db one_admitted"
proof -
  let ?a = "(guest_ctx, Admit (tenant_of claimed_row) sample_token ''bob'')"
    and ?b = "(second_guest_ctx, Admit (tenant_of claimed_row) sample_token ''carol'')"
  have "interleaved one_waits [?b]"
    by (rule interleaved_step [OF reachable_interleaved [OF invited_reachable] request_step.decided
          [where req = "AcceptTenantInvitation ''0707070707070707'' sample_token" and E = sample_env
           and m = "accept_check second_guest_ctx ''0707070707070707'' sample_token"]])
      (simp_all add: let_through(1))
  then have both: "interleaved both_wait [?a, ?b]"
    by (rule interleaved_step [OF _ request_step.decided
          [where req = "AcceptTenantInvitation ''0707070707070707'' sample_token" and E = sample_env
           and m = "accept_check guest_ctx ''0707070707070707'' sample_token"]])
      (simp_all add: let_through(4))
  have "map mr_user_id (memberships (w_db both_wait)) = [''alice'']"
    by (simp add: let_through invited_db claimed_db sample_member_def)
  then have "w_db one_admitted \<noteq> w_db both_wait" using admitted_rows by auto
  with concurrent_admission_once [OF both, of guest_ctx "tenant_of claimed_row" sample_token "''bob''" sample_env one_admitted "[?b]"
      second_guest_ctx "tenant_of claimed_row" "''carol''" sample_env] admitted_rows
  show ?thesis by (simp del: write_pending.simps add: one_admitted_def guest_ctx_def second_guest_ctx_def)
qed

section \<open>What the missing transactions cost\<close>

text \<open>Two transitions of the same draft: one decides, the other is served as a whole, then the first writes.\<close>

definition opened_draft :: event where
  "opened_draft = \<lparr>ev_id = ''u1'', ev_publicID = ''0707070707070707'', ev_tenantID = ''u1'',
     ev_tenantPublicID = ''0707070707070707'', ev_name = ''Expo'', ev_status = EventStatusOpen\<rparr>"

definition checked_world :: world where
  "checked_world = snd (transition_check wired_tenantService founder_ctx ''0707070707070707'' EventStatusOpen sample_env event_world)"

definition discarded_world :: world where
  "discarded_world = snd (serve founder_ctx (TransitionEventStatus ''0707070707070707'' 5) sample_env checked_world)"

lemma ParseEventStatus_draft [simp]: "ParseEventStatus ''draft'' = Inr EventStatusDraft"
  by (simp add: ParseEventStatus_Inr_iff event_status_defs)

lemma checked_draft:
  "transition_check wired_tenantService founder_ctx ''0707070707070707'' EventStatusOpen sample_env event_world
     = (Inr (StoreStatus opened_draft), checked_world)"
  "w_db checked_world = w_db event_world" "w_tx checked_world = None"
  by (simp_all add: checked_world_def transition_check_def wired_tenantService_def event_world_rows opened_draft_def
      claimed_row_def registered_row_def sample_public_id eval_simps)

lemma discarded_rows:
  "tenants (w_db discarded_world) = [claimed_row]" "w_tx discarded_world = None"
  "events (w_db discarded_world) = [\<lparr>evr_id = ''u1'', evr_public_id = ''0707070707070707'', evr_tenant_id = ''u1'',
     evr_tenant_public_id = ''0707070707070707'', evr_name = ''Expo'', evr_status = ''archived''\<rparr>]"
  by (simp_all add: discarded_world_def TenantConnect_TransitionEventStatus_def TenantService_TransitionEventStatus_def
      wired_tenantService_def checked_draft event_world_rows claimed_row_def registered_row_def sample_public_id eval_simps
      eventStatusDomain_def)

lemma checked_interleaved: "interleaved checked_world [(founder_ctx, StoreStatus opened_draft)]"
  by (rule interleaved_step [OF reachable_interleaved [OF event_reachable] request_step.decided
        [where req = "TransitionEventStatus ''0707070707070707'' 2" and E = sample_env
         and m = "transition_check wired_tenantService founder_ctx ''0707070707070707'' EventStatusOpen"]])
    (simp_all add: checked_draft(1) eventStatusDomain_def)

lemma discarded_step:
  "request_step (checked_world, [(founder_ctx, StoreStatus opened_draft)]) (discarded_world, [(founder_ctx, StoreStatus opened_draft)])"
  unfolding discarded_world_def by (rule request_step.whole) simp

lemma discarded_interleaved: "interleaved discarded_world [(founder_ctx, StoreStatus opened_draft)]"
  by (rule interleaved_step [OF checked_interleaved discarded_step])

lemma reopened_rows:
  "events (w_db (snd (write_pending founder_ctx (StoreStatus opened_draft) sample_env discarded_world))) =
     [\<lparr>evr_id = ''u1'', evr_public_id = ''0707070707070707'', evr_tenant_id = ''u1'',
        evr_tenant_public_id = ''0707070707070707'', evr_name = ''Expo'', evr_status = ''open''\<rparr>]"
  by (simp add: opened_draft_def discarded_rows claimed_row_def registered_row_def sample_public_id eval_simps)

theorem concurrent_integrity_witness:
  "integrity (w_db discarded_world)"
  using concurrent_integrity [OF discarded_interleaved] by simp

theorem concurrent_history_witness:
  "\<exists>t' \<in> set (tenants (w_db discarded_world)). tr_id t' = ''u1'' \<and> tr_subdomain t' = Some ''fresh''"
proof -
  have "claimed_row \<in> set (tenants (w_db checked_world))" "tr_ownership_state claimed_row = ''owned''"
    by (simp_all add: checked_draft event_world_rows claimed_row_def)
  with concurrent_history [OF checked_interleaved r_into_rtranclp [of request_step, OF discarded_step]]
  obtain t' where "t' \<in> set (tenants (w_db discarded_world))" "tr_id t' = tr_id claimed_row" "tr_subdomain t' = tr_subdomain claimed_row"
    by blast
  then show ?thesis by (auto simp: claimed_row_def registered_row_def)
qed

text \<open>
  C21: Two transitions of one event can together do what the lifecycle forbids: while one is between its
  decision and its write, the other archives the draft, and then the first opens the archived event.
\<close>

theorem transitions_race:
  "\<exists>w w' p. interleaved w [p] \<and> request_step (w, [p]) (w', [])
    \<and> map evr_id (events (w_db w')) = map evr_id (events (w_db w))
    \<and> map evr_status (events (w_db w)) = [EventStatus_String EventStatusArchived]
    \<and> map evr_status (events (w_db w')) = [EventStatus_String EventStatusOpen]
    \<and> \<not> event_step EventStatusArchived EventStatusOpen"
proof -
  let ?p = "(founder_ctx, StoreStatus opened_draft)"
  let ?w = "snd (write_pending founder_ctx (StoreStatus opened_draft) sample_env discarded_world)"
  have "request_step (discarded_world, [?p]) (?w, remove1 ?p [?p])" by (rule request_step.written) simp
  moreover have "\<not> event_step EventStatusArchived EventStatusOpen" by (simp add: event_step_iff event_status_defs)
  moreover have "EventStatus_String EventStatusArchived = ''archived''" "EventStatus_String EventStatusOpen = ''open''"
    by code_simp+
  ultimately show ?thesis using discarded_interleaved
    by (intro exI [of _ discarded_world] exI [of _ ?w] exI [of _ ?p])
      (simp del: write_pending.simps add: reopened_rows discarded_rows)
qed

text \<open>A member added while the tenant is archived.\<close>

definition admitted_world :: world where
  "admitted_world = snd (add_member_check founder_ctx ''0707070707070707'' ''dave'' RoleStaff ''Dave'' sample_env event_world)"

definition frozen_world :: world where
  "frozen_world = snd (serve founder_ctx (ArchiveTenant ''0707070707070707'') sample_env admitted_world)"

lemma checked_member:
  "add_member_check founder_ctx ''0707070707070707'' ''dave'' RoleStaff ''Dave'' sample_env event_world
     = (Inr (StoreMember ''u1'' ''dave'' RoleStaff (DisplayName ''Dave'')), admitted_world)"
  "w_db admitted_world = w_db event_world" "w_tx admitted_world = None"
  by (simp_all add: admitted_world_def add_member_check_def event_world_rows RelationService_writableTenant_def
      RelationService_resolveTenant_def Grantable_def claimed_row_def registered_row_def sample_public_id eval_simps)

lemma frozen_rows:
  "tenants (w_db frozen_world) = [claimed_row\<lparr>tr_archived := True\<rparr>]" "w_tx frozen_world = None"
  "memberships (w_db frozen_world) = [(sample_member ''u1'' ''alice'' ''owner'')\<lparr>mr_joined_at := 1000000\<rparr>]"
  "event_roles (w_db frozen_world) = [\<lparr>rr_event_id = ''u1'', rr_tenant_id = ''u1'', rr_user_id = ''alice'', rr_role = ''owner''\<rparr>]"
  by (simp_all add: frozen_world_def event_db TenantConnect_ArchiveTenant_def TenantService_ArchiveTenant_def wired_tenantService_def
      checked_member event_world_rows claimed_row_def registered_row_def sample_public_id eval_simps)

lemma late_member_rows:
  "tenants (w_db (snd (write_pending founder_ctx (StoreMember ''u1'' ''dave'' RoleStaff (DisplayName ''Dave'')) sample_env frozen_world)))
     = [claimed_row\<lparr>tr_archived := True\<rparr>]"
  "map mr_tenant_id (memberships (w_db (snd (write_pending founder_ctx (StoreMember ''u1'' ''dave'' RoleStaff (DisplayName ''Dave''))
     sample_env frozen_world)))) = [''u1'', ''u1'']"
  unfolding write_pending.simps snd_discard
  by (simp_all add: frozen_rows claimed_row_def registered_row_def sample_public_id eval_simps MembershipRepo_AddTenantMember_def
      Grantable_def sql_insert_membership_def put_memberships_def memberships_violation_def)

text \<open>
  The same for an archived tenant: while the request that adds a member is between its decision and its
  write, the tenant is archived, and then the member is added to the archived tenant.
\<close>

theorem archived_tenant_race:
  "\<exists>w w' p t. interleaved w [p] \<and> request_step (w, [p]) (w', []) \<and> t \<in> set (tenants (w_db w)) \<and> tr_archived t
    \<and> t \<in> set (tenants (w_db w'))
    \<and> filter (\<lambda>m. mr_tenant_id m = tr_id t) (memberships (w_db w)) \<noteq> filter (\<lambda>m. mr_tenant_id m = tr_id t) (memberships (w_db w'))"
proof -
  let ?m = "StoreMember ''u1'' ''dave'' RoleStaff (DisplayName ''Dave'')" and ?t = "claimed_row\<lparr>tr_archived := True\<rparr>"
  let ?p = "(founder_ctx, ?m)"
  let ?w = "snd (write_pending founder_ctx ?m sample_env frozen_world)"
  have "interleaved admitted_world [?p]"
    by (rule interleaved_step [OF reachable_interleaved [OF event_reachable] request_step.decided
          [where req = "AddTenantMember ''0707070707070707'' ''dave'' 2 ''Dave''" and E = sample_env
           and m = "add_member_check founder_ctx ''0707070707070707'' ''dave'' RoleStaff ''Dave''"]])
      (simp_all add: checked_member(1) roleDomain_def)
  then have c: "interleaved frozen_world [?p]"
    unfolding frozen_world_def by (rule interleaved_step) (rule request_step.whole, simp)
  have "request_step (frozen_world, [?p]) (?w, remove1 ?p [?p])" by (rule request_step.written) simp
  moreover have "map mr_tenant_id (memberships (w_db ?w)) = [''u1'', ''u1'']" by (rule late_member_rows)
  then have "length (filter (\<lambda>m. mr_tenant_id m = ''u1'') (memberships (w_db ?w))) = 2"
    by (auto simp: map_eq_Cons_conv)
  ultimately show ?thesis using c
    by (intro exI [of _ frozen_world] exI [of _ ?w] exI [of _ ?p] exI [of _ ?t])
      (auto simp del: write_pending.simps simp: frozen_rows late_member_rows claimed_row_def registered_row_def sample_member_def
        dest!: arg_cong [where f = length])
qed

end
