(* ===== verification/Clients.thy ===== *)
theory Clients
  imports Server
begin

text \<open>
  The other half of the generated code under gen/: the specification of every method, the clients that
  call the two services by them, and the stubs for services that implement only some of the methods.
  The connection is a parameter: a client is what sending a message and waiting for the answer does.
\<close>

section \<open>Specifications\<close>

datatype stream_type = StreamTypeUnary

text \<open>The schema of a method is found by the names of its service and its own.\<close>

record spec =
  spec_StreamType :: stream_type
  spec_Schema :: "string \<times> string"
  spec_Procedure :: string

definition tenantServiceStartTenantRegistrationSpec :: spec where
  "tenantServiceStartTenantRegistrationSpec = \<lparr>spec_StreamType = StreamTypeUnary, spec_Schema = (''TenantService'', ''StartTenantRegistration''),
     spec_Procedure = TenantServiceStartTenantRegistrationProcedure\<rparr>"

definition tenantServiceClaimTenantOwnershipSpec :: spec where
  "tenantServiceClaimTenantOwnershipSpec = \<lparr>spec_StreamType = StreamTypeUnary, spec_Schema = (''TenantService'', ''ClaimTenantOwnership''),
     spec_Procedure = TenantServiceClaimTenantOwnershipProcedure\<rparr>"

definition tenantServiceResolveTenantSubdomainSpec :: spec where
  "tenantServiceResolveTenantSubdomainSpec = \<lparr>spec_StreamType = StreamTypeUnary, spec_Schema = (''TenantService'', ''ResolveTenantSubdomain''),
     spec_Procedure = TenantServiceResolveTenantSubdomainProcedure\<rparr>"

definition tenantServiceChangeTenantContractSpec :: spec where
  "tenantServiceChangeTenantContractSpec = \<lparr>spec_StreamType = StreamTypeUnary, spec_Schema = (''TenantService'', ''ChangeTenantContract''),
     spec_Procedure = TenantServiceChangeTenantContractProcedure\<rparr>"

definition tenantServiceArchiveTenantSpec :: spec where
  "tenantServiceArchiveTenantSpec = \<lparr>spec_StreamType = StreamTypeUnary, spec_Schema = (''TenantService'', ''ArchiveTenant''),
     spec_Procedure = TenantServiceArchiveTenantProcedure\<rparr>"

definition tenantServiceCreateEventSpec :: spec where
  "tenantServiceCreateEventSpec = \<lparr>spec_StreamType = StreamTypeUnary, spec_Schema = (''TenantService'', ''CreateEvent''),
     spec_Procedure = TenantServiceCreateEventProcedure\<rparr>"

definition tenantServiceTransitionEventStatusSpec :: spec where
  "tenantServiceTransitionEventStatusSpec = \<lparr>spec_StreamType = StreamTypeUnary, spec_Schema = (''TenantService'', ''TransitionEventStatus''),
     spec_Procedure = TenantServiceTransitionEventStatusProcedure\<rparr>"

definition tenantServiceGetEventSpec :: spec where
  "tenantServiceGetEventSpec = \<lparr>spec_StreamType = StreamTypeUnary, spec_Schema = (''TenantService'', ''GetEvent''),
     spec_Procedure = TenantServiceGetEventProcedure\<rparr>"

definition tenantServiceListEventsSpec :: spec where
  "tenantServiceListEventsSpec = \<lparr>spec_StreamType = StreamTypeUnary, spec_Schema = (''TenantService'', ''ListEvents''),
     spec_Procedure = TenantServiceListEventsProcedure\<rparr>"

definition relationAdminServiceCreateTenantInvitationSpec :: spec where
  "relationAdminServiceCreateTenantInvitationSpec = \<lparr>spec_StreamType = StreamTypeUnary, spec_Schema = (''RelationAdminService'', ''CreateTenantInvitation''),
     spec_Procedure = RelationAdminServiceCreateTenantInvitationProcedure\<rparr>"

definition relationAdminServiceListTenantInvitationsSpec :: spec where
  "relationAdminServiceListTenantInvitationsSpec = \<lparr>spec_StreamType = StreamTypeUnary, spec_Schema = (''RelationAdminService'', ''ListTenantInvitations''),
     spec_Procedure = RelationAdminServiceListTenantInvitationsProcedure\<rparr>"

definition relationAdminServiceRevokeTenantInvitationSpec :: spec where
  "relationAdminServiceRevokeTenantInvitationSpec = \<lparr>spec_StreamType = StreamTypeUnary, spec_Schema = (''RelationAdminService'', ''RevokeTenantInvitation''),
     spec_Procedure = RelationAdminServiceRevokeTenantInvitationProcedure\<rparr>"

definition relationAdminServiceAcceptTenantInvitationSpec :: spec where
  "relationAdminServiceAcceptTenantInvitationSpec = \<lparr>spec_StreamType = StreamTypeUnary, spec_Schema = (''RelationAdminService'', ''AcceptTenantInvitation''),
     spec_Procedure = RelationAdminServiceAcceptTenantInvitationProcedure\<rparr>"

definition relationAdminServiceAddTenantMemberSpec :: spec where
  "relationAdminServiceAddTenantMemberSpec = \<lparr>spec_StreamType = StreamTypeUnary, spec_Schema = (''RelationAdminService'', ''AddTenantMember''),
     spec_Procedure = RelationAdminServiceAddTenantMemberProcedure\<rparr>"

definition relationAdminServiceChangeTenantRoleSpec :: spec where
  "relationAdminServiceChangeTenantRoleSpec = \<lparr>spec_StreamType = StreamTypeUnary, spec_Schema = (''RelationAdminService'', ''ChangeTenantRole''),
     spec_Procedure = RelationAdminServiceChangeTenantRoleProcedure\<rparr>"

definition relationAdminServiceGrantEventRoleSpec :: spec where
  "relationAdminServiceGrantEventRoleSpec = \<lparr>spec_StreamType = StreamTypeUnary, spec_Schema = (''RelationAdminService'', ''GrantEventRole''),
     spec_Procedure = RelationAdminServiceGrantEventRoleProcedure\<rparr>"

definition relationAdminServiceRevokeRoleSpec :: spec where
  "relationAdminServiceRevokeRoleSpec = \<lparr>spec_StreamType = StreamTypeUnary, spec_Schema = (''RelationAdminService'', ''RevokeRole''),
     spec_Procedure = RelationAdminServiceRevokeRoleProcedure\<rparr>"

definition relationAdminServiceListMembershipsSpec :: spec where
  "relationAdminServiceListMembershipsSpec = \<lparr>spec_StreamType = StreamTypeUnary, spec_Schema = (''RelationAdminService'', ''ListMemberships''),
     spec_Procedure = RelationAdminServiceListMembershipsProcedure\<rparr>"

lemmas spec_defs = tenantServiceStartTenantRegistrationSpec_def
  tenantServiceClaimTenantOwnershipSpec_def
  tenantServiceResolveTenantSubdomainSpec_def
  tenantServiceChangeTenantContractSpec_def
  tenantServiceArchiveTenantSpec_def
  tenantServiceCreateEventSpec_def
  tenantServiceTransitionEventStatusSpec_def
  tenantServiceGetEventSpec_def
  tenantServiceListEventsSpec_def
  relationAdminServiceCreateTenantInvitationSpec_def
  relationAdminServiceListTenantInvitationsSpec_def
  relationAdminServiceRevokeTenantInvitationSpec_def
  relationAdminServiceAcceptTenantInvitationSpec_def
  relationAdminServiceAddTenantMemberSpec_def
  relationAdminServiceChangeTenantRoleSpec_def
  relationAdminServiceGrantEventRoleSpec_def
  relationAdminServiceRevokeRoleSpec_def
  relationAdminServiceListMembershipsSpec_def

section \<open>Responses\<close>

text \<open>Reading an answer as the response message of a method.\<close>

definition res_registration :: "reply \<Rightarrow> (start_registration_response) option" where
  "res_registration rep = (case rep of RegistrationReply x \<Rightarrow> Some x | _ \<Rightarrow> None)"

definition res_tenant :: "reply \<Rightarrow> (tenant_proto) option" where
  "res_tenant rep = (case rep of TenantReply x \<Rightarrow> Some x | _ \<Rightarrow> None)"

definition res_subdomain :: "reply \<Rightarrow> (string) option" where
  "res_subdomain rep = (case rep of SubdomainReply x \<Rightarrow> Some x | _ \<Rightarrow> None)"

definition res_event :: "reply \<Rightarrow> (event_proto) option" where
  "res_event rep = (case rep of EventReply x \<Rightarrow> Some x | _ \<Rightarrow> None)"

definition res_events :: "reply \<Rightarrow> (event_proto list) option" where
  "res_events rep = (case rep of EventsReply x \<Rightarrow> Some x | _ \<Rightarrow> None)"

definition res_invitation :: "reply \<Rightarrow> (invitation_proto) option" where
  "res_invitation rep = (case rep of InvitationReply x \<Rightarrow> Some x | _ \<Rightarrow> None)"

definition res_created_invitation :: "reply \<Rightarrow> (invitation_proto \<times> string) option" where
  "res_created_invitation rep = (case rep of CreatedInvitationReply x \<Rightarrow> Some x | _ \<Rightarrow> None)"

definition res_invitations :: "reply \<Rightarrow> (invitation_proto list) option" where
  "res_invitations rep = (case rep of InvitationsReply x \<Rightarrow> Some x | _ \<Rightarrow> None)"

definition res_membership :: "reply \<Rightarrow> (membership_proto) option" where
  "res_membership rep = (case rep of MembershipReply x \<Rightarrow> Some x | _ \<Rightarrow> None)"

definition res_memberships :: "reply \<Rightarrow> (membership_proto list) option" where
  "res_memberships rep = (case rep of MembershipsReply x \<Rightarrow> Some x | _ \<Rightarrow> None)"

definition res_empty :: "reply \<Rightarrow> unit option" where
  "res_empty rep = (case rep of EmptyReply \<Rightarrow> Some () | _ \<Rightarrow> None)"

lemmas res_defs = res_registration_def res_tenant_def res_subdomain_def res_event_def res_events_def
  res_invitation_def res_created_invitation_def res_invitations_def res_membership_def res_memberships_def res_empty_def

section \<open>Clients\<close>

type_synonym 's client = "spec \<Rightarrow> rpc \<Rightarrow> 's \<Rightarrow> (connect_error + reply) \<times> 's"

text \<open>A call of the connect library: the message goes out, and the answer must be one of the response type.\<close>

definition CallUnary :: "'s client \<Rightarrow> spec \<Rightarrow> rpc \<Rightarrow> (reply \<Rightarrow> 'a option) \<Rightarrow> 's \<Rightarrow> (connect_error + 'a) \<times> 's" where
  "CallUnary client sp req res s = (case client sp req s of
      (Inl err, s1) \<Rightarrow> (Inl err, s1)
    | (Inr rep, s1) \<Rightarrow> ((case res rep of None \<Rightarrow> Inl undecodable | Some x \<Rightarrow> Inr x), s1))"

definition tenantServiceClient_StartTenantRegistration :: "'s client \<Rightarrow> string \<Rightarrow> string \<Rightarrow> 's \<Rightarrow> (connect_error + (start_registration_response)) \<times> 's" where
  "tenantServiceClient_StartTenantRegistration client name plan =
     CallUnary client tenantServiceStartTenantRegistrationSpec (StartTenantRegistration name plan) res_registration"

definition tenantServiceClient_ClaimTenantOwnership :: "'s client \<Rightarrow> claim_ownership_input \<Rightarrow> 's \<Rightarrow> (connect_error + (tenant_proto)) \<times> 's" where
  "tenantServiceClient_ClaimTenantOwnership client req =
     CallUnary client tenantServiceClaimTenantOwnershipSpec (ClaimTenantOwnership req) res_tenant"

definition tenantServiceClient_ResolveTenantSubdomain :: "'s client \<Rightarrow> string \<Rightarrow> 's \<Rightarrow> (connect_error + (string)) \<times> 's" where
  "tenantServiceClient_ResolveTenantSubdomain client sub =
     CallUnary client tenantServiceResolveTenantSubdomainSpec (ResolveTenantSubdomain sub) res_subdomain"

definition tenantServiceClient_ChangeTenantContract :: "'s client \<Rightarrow> string \<Rightarrow> string \<Rightarrow> 's \<Rightarrow> (connect_error + (tenant_proto)) \<times> 's" where
  "tenantServiceClient_ChangeTenantContract client tid plan =
     CallUnary client tenantServiceChangeTenantContractSpec (ChangeTenantContract tid plan) res_tenant"

definition tenantServiceClient_ArchiveTenant :: "'s client \<Rightarrow> string \<Rightarrow> 's \<Rightarrow> (connect_error + (tenant_proto)) \<times> 's" where
  "tenantServiceClient_ArchiveTenant client tid =
     CallUnary client tenantServiceArchiveTenantSpec (ArchiveTenant tid) res_tenant"

definition tenantServiceClient_CreateEvent :: "'s client \<Rightarrow> string \<Rightarrow> string \<Rightarrow> 's \<Rightarrow> (connect_error + (event_proto)) \<times> 's" where
  "tenantServiceClient_CreateEvent client tid name =
     CallUnary client tenantServiceCreateEventSpec (CreateEvent tid name) res_event"

definition tenantServiceClient_TransitionEventStatus :: "'s client \<Rightarrow> string \<Rightarrow> enum32 \<Rightarrow> 's \<Rightarrow> (connect_error + (event_proto)) \<times> 's" where
  "tenantServiceClient_TransitionEventStatus client eid to =
     CallUnary client tenantServiceTransitionEventStatusSpec (TransitionEventStatus eid to) res_event"

definition tenantServiceClient_GetEvent :: "'s client \<Rightarrow> string \<Rightarrow> 's \<Rightarrow> (connect_error + (event_proto)) \<times> 's" where
  "tenantServiceClient_GetEvent client eid =
     CallUnary client tenantServiceGetEventSpec (GetEvent eid) res_event"

definition tenantServiceClient_ListEvents :: "'s client \<Rightarrow> string \<Rightarrow> bool \<Rightarrow> 's \<Rightarrow> (connect_error + (event_proto list)) \<times> 's" where
  "tenantServiceClient_ListEvents client tid arch =
     CallUnary client tenantServiceListEventsSpec (ListEvents tid arch) res_events"

definition relationAdminServiceClient_CreateTenantInvitation :: "'s client \<Rightarrow> string \<Rightarrow> enum32 \<Rightarrow> string \<Rightarrow> 's \<Rightarrow> (connect_error + (invitation_proto \<times> string)) \<times> 's" where
  "relationAdminServiceClient_CreateTenantInvitation client tid r name =
     CallUnary client relationAdminServiceCreateTenantInvitationSpec (CreateTenantInvitation tid r name) res_created_invitation"

definition relationAdminServiceClient_ListTenantInvitations :: "'s client \<Rightarrow> string \<Rightarrow> 's \<Rightarrow> (connect_error + (invitation_proto list)) \<times> 's" where
  "relationAdminServiceClient_ListTenantInvitations client tid =
     CallUnary client relationAdminServiceListTenantInvitationsSpec (ListTenantInvitations tid) res_invitations"

definition relationAdminServiceClient_RevokeTenantInvitation :: "'s client \<Rightarrow> string \<Rightarrow> string \<Rightarrow> 's \<Rightarrow> (connect_error + (invitation_proto)) \<times> 's" where
  "relationAdminServiceClient_RevokeTenantInvitation client tid iid =
     CallUnary client relationAdminServiceRevokeTenantInvitationSpec (RevokeTenantInvitation tid iid) res_invitation"

definition relationAdminServiceClient_AcceptTenantInvitation :: "'s client \<Rightarrow> string \<Rightarrow> string \<Rightarrow> 's \<Rightarrow> (connect_error + (membership_proto)) \<times> 's" where
  "relationAdminServiceClient_AcceptTenantInvitation client tid token =
     CallUnary client relationAdminServiceAcceptTenantInvitationSpec (AcceptTenantInvitation tid token) res_membership"

definition relationAdminServiceClient_AddTenantMember :: "'s client \<Rightarrow> string \<Rightarrow> string \<Rightarrow> enum32 \<Rightarrow> string \<Rightarrow> 's \<Rightarrow> (connect_error + (membership_proto)) \<times> 's" where
  "relationAdminServiceClient_AddTenantMember client tid u r name =
     CallUnary client relationAdminServiceAddTenantMemberSpec (AddTenantMember tid u r name) res_membership"

definition relationAdminServiceClient_ChangeTenantRole :: "'s client \<Rightarrow> string \<Rightarrow> string \<Rightarrow> enum32 \<Rightarrow> 's \<Rightarrow> (connect_error + (membership_proto)) \<times> 's" where
  "relationAdminServiceClient_ChangeTenantRole client tid u r =
     CallUnary client relationAdminServiceChangeTenantRoleSpec (ChangeTenantRole tid u r) res_membership"

definition relationAdminServiceClient_GrantEventRole :: "'s client \<Rightarrow> string \<Rightarrow> string \<Rightarrow> enum32 \<Rightarrow> 's \<Rightarrow> (connect_error + (membership_proto)) \<times> 's" where
  "relationAdminServiceClient_GrantEventRole client eid u r =
     CallUnary client relationAdminServiceGrantEventRoleSpec (GrantEventRole eid u r) res_membership"

definition relationAdminServiceClient_RevokeRole :: "'s client \<Rightarrow> revoke_role_input \<Rightarrow> 's \<Rightarrow> (connect_error + (unit)) \<times> 's" where
  "relationAdminServiceClient_RevokeRole client req =
     CallUnary client relationAdminServiceRevokeRoleSpec (RevokeRole req) res_empty"

definition relationAdminServiceClient_ListMemberships :: "'s client \<Rightarrow> string \<Rightarrow> string \<Rightarrow> 's \<Rightarrow> (connect_error + (membership_proto list)) \<times> 's" where
  "relationAdminServiceClient_ListMemberships client tid u =
     CallUnary client relationAdminServiceListMembershipsSpec (ListMemberships tid u) res_memberships"

lemmas client_defs = tenantServiceClient_StartTenantRegistration_def
  tenantServiceClient_ClaimTenantOwnership_def
  tenantServiceClient_ResolveTenantSubdomain_def
  tenantServiceClient_ChangeTenantContract_def
  tenantServiceClient_ArchiveTenant_def
  tenantServiceClient_CreateEvent_def
  tenantServiceClient_TransitionEventStatus_def
  tenantServiceClient_GetEvent_def
  tenantServiceClient_ListEvents_def
  relationAdminServiceClient_CreateTenantInvitation_def
  relationAdminServiceClient_ListTenantInvitations_def
  relationAdminServiceClient_RevokeTenantInvitation_def
  relationAdminServiceClient_AcceptTenantInvitation_def
  relationAdminServiceClient_AddTenantMember_def
  relationAdminServiceClient_ChangeTenantRole_def
  relationAdminServiceClient_GrantEventRole_def
  relationAdminServiceClient_RevokeRole_def
  relationAdminServiceClient_ListMemberships_def

text \<open>The call of a client for a request, with the response as the answer it stands for.\<close>

fun client_calls :: "'s client \<Rightarrow> rpc \<Rightarrow> 's \<Rightarrow> (connect_error + reply) \<times> 's" where
  "client_calls client (StartTenantRegistration name plan) s = apfst (map_sum id RegistrationReply) (tenantServiceClient_StartTenantRegistration client name plan s)"
| "client_calls client (ClaimTenantOwnership req) s = apfst (map_sum id TenantReply) (tenantServiceClient_ClaimTenantOwnership client req s)"
| "client_calls client (ResolveTenantSubdomain sub) s = apfst (map_sum id SubdomainReply) (tenantServiceClient_ResolveTenantSubdomain client sub s)"
| "client_calls client (ChangeTenantContract tid plan) s = apfst (map_sum id TenantReply) (tenantServiceClient_ChangeTenantContract client tid plan s)"
| "client_calls client (ArchiveTenant tid) s = apfst (map_sum id TenantReply) (tenantServiceClient_ArchiveTenant client tid s)"
| "client_calls client (CreateEvent tid name) s = apfst (map_sum id EventReply) (tenantServiceClient_CreateEvent client tid name s)"
| "client_calls client (TransitionEventStatus eid to) s = apfst (map_sum id EventReply) (tenantServiceClient_TransitionEventStatus client eid to s)"
| "client_calls client (GetEvent eid) s = apfst (map_sum id EventReply) (tenantServiceClient_GetEvent client eid s)"
| "client_calls client (ListEvents tid arch) s = apfst (map_sum id EventsReply) (tenantServiceClient_ListEvents client tid arch s)"
| "client_calls client (CreateTenantInvitation tid r name) s = apfst (map_sum id CreatedInvitationReply) (relationAdminServiceClient_CreateTenantInvitation client tid r name s)"
| "client_calls client (ListTenantInvitations tid) s = apfst (map_sum id InvitationsReply) (relationAdminServiceClient_ListTenantInvitations client tid s)"
| "client_calls client (RevokeTenantInvitation tid iid) s = apfst (map_sum id InvitationReply) (relationAdminServiceClient_RevokeTenantInvitation client tid iid s)"
| "client_calls client (AcceptTenantInvitation tid token) s = apfst (map_sum id MembershipReply) (relationAdminServiceClient_AcceptTenantInvitation client tid token s)"
| "client_calls client (AddTenantMember tid u r name) s = apfst (map_sum id MembershipReply) (relationAdminServiceClient_AddTenantMember client tid u r name s)"
| "client_calls client (ChangeTenantRole tid u r) s = apfst (map_sum id MembershipReply) (relationAdminServiceClient_ChangeTenantRole client tid u r s)"
| "client_calls client (GrantEventRole eid u r) s = apfst (map_sum id MembershipReply) (relationAdminServiceClient_GrantEventRole client eid u r s)"
| "client_calls client (RevokeRole req) s = apfst (map_sum id (\<lambda>_. EmptyReply)) (relationAdminServiceClient_RevokeRole client req s)"
| "client_calls client (ListMemberships tid u) s = apfst (map_sum id MembershipsReply) (relationAdminServiceClient_ListMemberships client tid u s)"
| "client_calls client (HttpMemberships _ _) s =
     (Inl \<lparr>ce_Code = CodeUnimplemented, ce_Message = ''not a method of a service'', ce_Cause = None\<rparr>, s)"

section \<open>Unimplemented methods\<close>

text \<open>A service that embeds the stub answers like this to the methods it leaves out.\<close>

definition unimplemented :: "string \<Rightarrow> connect_error" where
  "unimplemented name = \<lparr>ce_Code = CodeUnimplemented, ce_Message = name @ '' is not implemented'', ce_Cause = None\<rparr>"

definition UnimplementedTenantServiceHandler_StartTenantRegistration :: "ctx \<Rightarrow> rpc \<Rightarrow> env \<Rightarrow> world \<Rightarrow> reply \<times> world" where
  "UnimplementedTenantServiceHandler_StartTenantRegistration _ _ _ w = (ErrorReply (unimplemented ''tolo.tenant.v1.TenantService.StartTenantRegistration''), w)"

definition UnimplementedTenantServiceHandler_ClaimTenantOwnership :: "ctx \<Rightarrow> rpc \<Rightarrow> env \<Rightarrow> world \<Rightarrow> reply \<times> world" where
  "UnimplementedTenantServiceHandler_ClaimTenantOwnership _ _ _ w = (ErrorReply (unimplemented ''tolo.tenant.v1.TenantService.ClaimTenantOwnership''), w)"

definition UnimplementedTenantServiceHandler_ResolveTenantSubdomain :: "ctx \<Rightarrow> rpc \<Rightarrow> env \<Rightarrow> world \<Rightarrow> reply \<times> world" where
  "UnimplementedTenantServiceHandler_ResolveTenantSubdomain _ _ _ w = (ErrorReply (unimplemented ''tolo.tenant.v1.TenantService.ResolveTenantSubdomain''), w)"

definition UnimplementedTenantServiceHandler_ChangeTenantContract :: "ctx \<Rightarrow> rpc \<Rightarrow> env \<Rightarrow> world \<Rightarrow> reply \<times> world" where
  "UnimplementedTenantServiceHandler_ChangeTenantContract _ _ _ w = (ErrorReply (unimplemented ''tolo.tenant.v1.TenantService.ChangeTenantContract''), w)"

definition UnimplementedTenantServiceHandler_ArchiveTenant :: "ctx \<Rightarrow> rpc \<Rightarrow> env \<Rightarrow> world \<Rightarrow> reply \<times> world" where
  "UnimplementedTenantServiceHandler_ArchiveTenant _ _ _ w = (ErrorReply (unimplemented ''tolo.tenant.v1.TenantService.ArchiveTenant''), w)"

definition UnimplementedTenantServiceHandler_CreateEvent :: "ctx \<Rightarrow> rpc \<Rightarrow> env \<Rightarrow> world \<Rightarrow> reply \<times> world" where
  "UnimplementedTenantServiceHandler_CreateEvent _ _ _ w = (ErrorReply (unimplemented ''tolo.tenant.v1.TenantService.CreateEvent''), w)"

definition UnimplementedTenantServiceHandler_TransitionEventStatus :: "ctx \<Rightarrow> rpc \<Rightarrow> env \<Rightarrow> world \<Rightarrow> reply \<times> world" where
  "UnimplementedTenantServiceHandler_TransitionEventStatus _ _ _ w = (ErrorReply (unimplemented ''tolo.tenant.v1.TenantService.TransitionEventStatus''), w)"

definition UnimplementedTenantServiceHandler_GetEvent :: "ctx \<Rightarrow> rpc \<Rightarrow> env \<Rightarrow> world \<Rightarrow> reply \<times> world" where
  "UnimplementedTenantServiceHandler_GetEvent _ _ _ w = (ErrorReply (unimplemented ''tolo.tenant.v1.TenantService.GetEvent''), w)"

definition UnimplementedTenantServiceHandler_ListEvents :: "ctx \<Rightarrow> rpc \<Rightarrow> env \<Rightarrow> world \<Rightarrow> reply \<times> world" where
  "UnimplementedTenantServiceHandler_ListEvents _ _ _ w = (ErrorReply (unimplemented ''tolo.tenant.v1.TenantService.ListEvents''), w)"

definition UnimplementedRelationAdminServiceHandler_CreateTenantInvitation :: "ctx \<Rightarrow> rpc \<Rightarrow> env \<Rightarrow> world \<Rightarrow> reply \<times> world" where
  "UnimplementedRelationAdminServiceHandler_CreateTenantInvitation _ _ _ w = (ErrorReply (unimplemented ''tolo.relation.v1.RelationAdminService.CreateTenantInvitation''), w)"

definition UnimplementedRelationAdminServiceHandler_ListTenantInvitations :: "ctx \<Rightarrow> rpc \<Rightarrow> env \<Rightarrow> world \<Rightarrow> reply \<times> world" where
  "UnimplementedRelationAdminServiceHandler_ListTenantInvitations _ _ _ w = (ErrorReply (unimplemented ''tolo.relation.v1.RelationAdminService.ListTenantInvitations''), w)"

definition UnimplementedRelationAdminServiceHandler_RevokeTenantInvitation :: "ctx \<Rightarrow> rpc \<Rightarrow> env \<Rightarrow> world \<Rightarrow> reply \<times> world" where
  "UnimplementedRelationAdminServiceHandler_RevokeTenantInvitation _ _ _ w = (ErrorReply (unimplemented ''tolo.relation.v1.RelationAdminService.RevokeTenantInvitation''), w)"

definition UnimplementedRelationAdminServiceHandler_AcceptTenantInvitation :: "ctx \<Rightarrow> rpc \<Rightarrow> env \<Rightarrow> world \<Rightarrow> reply \<times> world" where
  "UnimplementedRelationAdminServiceHandler_AcceptTenantInvitation _ _ _ w = (ErrorReply (unimplemented ''tolo.relation.v1.RelationAdminService.AcceptTenantInvitation''), w)"

definition UnimplementedRelationAdminServiceHandler_AddTenantMember :: "ctx \<Rightarrow> rpc \<Rightarrow> env \<Rightarrow> world \<Rightarrow> reply \<times> world" where
  "UnimplementedRelationAdminServiceHandler_AddTenantMember _ _ _ w = (ErrorReply (unimplemented ''tolo.relation.v1.RelationAdminService.AddTenantMember''), w)"

definition UnimplementedRelationAdminServiceHandler_ChangeTenantRole :: "ctx \<Rightarrow> rpc \<Rightarrow> env \<Rightarrow> world \<Rightarrow> reply \<times> world" where
  "UnimplementedRelationAdminServiceHandler_ChangeTenantRole _ _ _ w = (ErrorReply (unimplemented ''tolo.relation.v1.RelationAdminService.ChangeTenantRole''), w)"

definition UnimplementedRelationAdminServiceHandler_GrantEventRole :: "ctx \<Rightarrow> rpc \<Rightarrow> env \<Rightarrow> world \<Rightarrow> reply \<times> world" where
  "UnimplementedRelationAdminServiceHandler_GrantEventRole _ _ _ w = (ErrorReply (unimplemented ''tolo.relation.v1.RelationAdminService.GrantEventRole''), w)"

definition UnimplementedRelationAdminServiceHandler_RevokeRole :: "ctx \<Rightarrow> rpc \<Rightarrow> env \<Rightarrow> world \<Rightarrow> reply \<times> world" where
  "UnimplementedRelationAdminServiceHandler_RevokeRole _ _ _ w = (ErrorReply (unimplemented ''tolo.relation.v1.RelationAdminService.RevokeRole''), w)"

definition UnimplementedRelationAdminServiceHandler_ListMemberships :: "ctx \<Rightarrow> rpc \<Rightarrow> env \<Rightarrow> world \<Rightarrow> reply \<times> world" where
  "UnimplementedRelationAdminServiceHandler_ListMemberships _ _ _ w = (ErrorReply (unimplemented ''tolo.relation.v1.RelationAdminService.ListMemberships''), w)"

section \<open>A client of this service\<close>

text \<open>Over the wire go the code and the message of an error, not its cause; a path without a route is 404.\<close>

definition wire_error :: "connect_error \<Rightarrow> connect_error" where
  "wire_error ce = ce\<lparr>ce_Cause := None\<rparr>"

definition connected_to :: "'tok mux \<Rightarrow> gerr option \<Rightarrow> 'tok option \<Rightarrow> env \<Rightarrow> world client" where
  "connected_to mux write_err tok E sp req w = (case handle mux write_err (spec_Procedure sp) tok (Inr req) E w of
      (Answer (ErrorReply ce), w1) \<Rightarrow> (Inl (wire_error ce), w1)
    | (Answer rep, w1) \<Rightarrow> (Inr rep, w1)
    | (_, w1) \<Rightarrow> (Inl \<lparr>ce_Code = CodeUnimplemented, ce_Message = ''404 Not Found'', ce_Cause = None\<rparr>, w1))"

end
