(* ===== verification/Answers.thy ===== *)
theory Answers
  imports Silent Sample
begin

text \<open>
  What every answer of the service has in common: it is of the request's own kind with declared values
  only, it logs what it hides from the caller, and its messages are fixed texts.  Also here: what
  \<open>RunInTransaction\<close> makes of any body.
\<close>

section \<open>The kind of an answer\<close>

definition tenant_wire_ok :: "tenant_proto \<Rightarrow> bool" where
  "tenant_wire_ok t \<longleftrightarrow> tp_OwnershipState t \<le> 2"

definition event_wire_ok :: "event_proto \<Rightarrow> bool" where
  "event_wire_ok e \<longleftrightarrow> ep_Status e \<le> 5"

definition membership_wire_ok :: "membership_proto \<Rightarrow> bool" where
  "membership_wire_ok m \<longleftrightarrow> mp_TenantRole m \<le> 3 \<and> list_all (\<lambda>r. erp_Role r \<le> 3) (mp_EventRoles m)"

definition invitation_wire_ok :: "invitation_proto \<Rightarrow> bool" where
  "invitation_wire_ok i \<longleftrightarrow> ip_TenantRole i \<le> 3"

definition reply_typed :: "rpc \<Rightarrow> reply \<Rightarrow> bool" where
  "reply_typed req rep = (case rep of
      ErrorReply ce \<Rightarrow> (case req of HttpMemberships _ _ \<Rightarrow> False | _ \<Rightarrow> True)
    | RegistrationReply r \<Rightarrow> (case req of StartTenantRegistration _ _ \<Rightarrow> tenant_wire_ok (srr_Tenant r) | _ \<Rightarrow> False)
    | TenantReply t \<Rightarrow> (case req of ClaimTenantOwnership _ \<Rightarrow> tenant_wire_ok t | ChangeTenantContract _ _ \<Rightarrow> tenant_wire_ok t
        | ArchiveTenant _ \<Rightarrow> tenant_wire_ok t | _ \<Rightarrow> False)
    | SubdomainReply _ \<Rightarrow> (case req of ResolveTenantSubdomain _ \<Rightarrow> True | _ \<Rightarrow> False)
    | EventReply e \<Rightarrow> (case req of CreateEvent _ _ \<Rightarrow> event_wire_ok e | TransitionEventStatus _ _ \<Rightarrow> event_wire_ok e
        | GetEvent _ \<Rightarrow> event_wire_ok e | _ \<Rightarrow> False)
    | EventsReply es \<Rightarrow> (case req of ListEvents _ _ \<Rightarrow> list_all event_wire_ok es | _ \<Rightarrow> False)
    | InvitationReply i \<Rightarrow> (case req of RevokeTenantInvitation _ _ \<Rightarrow> invitation_wire_ok i | _ \<Rightarrow> False)
    | CreatedInvitationReply it \<Rightarrow> (case req of CreateTenantInvitation _ _ _ \<Rightarrow> invitation_wire_ok (fst it) | _ \<Rightarrow> False)
    | InvitationsReply is \<Rightarrow> (case req of ListTenantInvitations _ \<Rightarrow> list_all invitation_wire_ok is | _ \<Rightarrow> False)
    | MembershipReply m \<Rightarrow> (case req of AcceptTenantInvitation _ _ \<Rightarrow> membership_wire_ok m
        | AddTenantMember _ _ _ _ \<Rightarrow> membership_wire_ok m | ChangeTenantRole _ _ _ \<Rightarrow> membership_wire_ok m
        | GrantEventRole _ _ _ \<Rightarrow> membership_wire_ok m | _ \<Rightarrow> False)
    | MembershipsReply ms \<Rightarrow> (case req of ListMemberships _ _ \<Rightarrow> list_all membership_wire_ok ms | _ \<Rightarrow> False)
    | EmptyReply \<Rightarrow> (case req of RevokeRole _ \<Rightarrow> True | _ \<Rightarrow> False)
    | HttpReply _ \<Rightarrow> (case req of HttpMemberships _ _ \<Rightarrow> True | _ \<Rightarrow> False))"

lemma wire_ok [simp]:
  "tenant_wire_ok (tenantProto t)" "event_wire_ok (eventProto e)" "membership_wire_ok (membershipProto m)"
  "invitation_wire_ok (invitationProto i)"
  by (simp_all add: tenant_wire_ok_def tenantProto_def tenantOwnershipStateProto_def event_wire_ok_def eventProto_def
      eventStatusProto_def membership_wire_ok_def membershipProto_def roleProto_def invitation_wire_ok_def invitationProto_def
      list_all_iff)

lemma reply_kind:
  assumes "reply f (answer table call convert E w) = (rep, w')"
    and "\<And>ce. P (ErrorReply ce)" and "\<And>x. P (f (convert x))"
  shows "P rep"
  using assms by (auto simp: reply_def answer_def split: prod.splits sum.splits)

lemma serve_kind:
  assumes "serve c req E w = (rep, w')"
  shows "reply_typed req rep"
proof (cases req)
  case (HttpMemberships t u)
  with assms show ?thesis by (auto simp: reply_typed_def split: prod.splits)
qed (insert assms, (simp only: serve.simps tenant_transport_defs relation_transport_defs,
    erule reply_kind, simp add: reply_typed_def, simp add: reply_typed_def list_all_iff split: prod.split)+)

text \<open>
  C35: A request adds to the log exactly when it is answered as an internal error; its cause is logged and
  not told: every error message is one of the fixed texts of the two tables or of the three general
  answers.
\<close>

theorem logged_iff_internal:
  assumes "serve c req E w = (rep, w')"
  shows "(w_log w' \<noteq> w_log w \<longleftrightarrow> internal_reply rep)
    \<and> (rep = ErrorReply ce \<longrightarrow> ce_Message ce \<in> cle_Message ` (set tenant_clientErrors \<union> set relation_clientErrors)
        \<union> {''canceled'', ''deadline exceeded'', ''internal error''})"
  using serve_logs [OF assms] serve_messages [of c req E w ce w'] assms
  by (auto simp: fixed_messages_def)

theorem logged_iff_internal_witness:
  "w_log (snd (serve (sample_ctx ''alice'') (GetEvent []) sample_env sample_world)) = []"
proof -
  obtain rep w' where run: "serve (sample_ctx ''alice'') (GetEvent []) sample_env sample_world = (rep, w')"
    by (cases "serve (sample_ctx ''alice'') (GetEvent []) sample_env sample_world")
  have "\<not> internal_reply rep"
    using run by (auto simp: TenantConnect_GetEvent_def TenantService_GetEvent_def run_simps tenant_clientErrors_def
        NewClientError_def internal_reply_def)
  with logged_iff_internal [OF run] have "w_log w' = w_log sample_world" by blast
  then show ?thesis unfolding run snd_conv by (simp add: sample_world_def)
qed

section \<open>Transactions\<close>

text \<open>
  C36: A transaction takes effect as a whole or not at all: when it succeeds the database becomes what the
  body left in the transaction, when it fails the database is the old one, unless the connection failed,
  and then it is the old one or what a body that had finished left; nothing stays open.
\<close>

theorem RunInTransaction_atomic:
  assumes out: "\<not> ctx_tx c" "w_tx w = None"
    and body: "\<forall>w0. w_tx w0 \<noteq> None \<longrightarrow> w_db (snd (fn (c\<lparr>ctx_tx := True\<rparr>) E w0)) = w_db w0
      \<and> w_tx (snd (fn (c\<lparr>ctx_tx := True\<rparr>) E w0)) \<noteq> None"
    and run: "RunInTransaction c fn E w = (res, w')"
  shows "w_tx w' = None \<and> (let left = snd (fn (c\<lparr>ctx_tx := True\<rparr>) E ((tick w)\<lparr>w_tx := Some (w_db w)\<rparr>)) in case res of
      Inr x \<Rightarrow> fst (fn (c\<lparr>ctx_tx := True\<rparr>) E ((tick w)\<lparr>w_tx := Some (w_db w)\<rparr>)) = Inr x \<and> Some (w_db w') = w_tx left
    | Inl e \<Rightarrow> w_db w' = w_db w \<or> \<not> healthy E \<and> Some (w_db w') = w_tx left
        \<and> is_Inr (fst (fn (c\<lparr>ctx_tx := True\<rparr>) E ((tick w)\<lparr>w_tx := Some (w_db w)\<rparr>))))"
proof (cases "e_fault E (w_step w)")
  case (Some f)
  with run out show ?thesis
    by (cases f) (auto simp: RunInTransaction_def begin_tx_def and_then_def tick_def)
next
  case None
  let ?w0 = "(tick w)\<lparr>w_tx := Some (w_db w)\<rparr>"
  obtain r w1 where fn: "fn (c\<lparr>ctx_tx := True\<rparr>) E ?w0 = (r, w1)" by (cases "fn (c\<lparr>ctx_tx := True\<rparr>) E ?w0")
  with body have kept: "w_db w1 = w_db w" "w_tx w1 \<noteq> None" by (auto simp: tick_def dest!: spec [of _ ?w0])
  then obtain d where d: "w_tx w1 = Some d" by auto
  show ?thesis
  proof (cases r)
    case (Inl err)
    with None fn run out kept show ?thesis
      by (auto simp: RunInTransaction_def begin_tx_def and_then_def rollback_tx_def tick_def Let_def split: option.splits)
  next
    case (Inr x)
    with None fn run out kept d show ?thesis
      by (auto simp: RunInTransaction_def begin_tx_def and_then_def commit_tx_def tick_def Let_def healthy_def
          split: option.splits if_splits)
  qed
qed

theorem RunInTransaction_atomic_witness:
  "w_tx (snd (RunInTransaction (sample_ctx ''alice'') (\<lambda>c. MembershipRepo_LockTenantMemberships c ''t1'') sample_env sample_world)) = None"
proof -
  let ?fn = "\<lambda>c. MembershipRepo_LockTenantMemberships c ''t1''"
  obtain res w' where run: "RunInTransaction (sample_ctx ''alice'') ?fn sample_env sample_world = (res, w')"
    by (cases "RunInTransaction (sample_ctx ''alice'') ?fn sample_env sample_world")
  have body: "\<forall>w0. w_tx w0 \<noteq> None \<longrightarrow> w_db (snd (?fn ((sample_ctx ''alice'')\<lparr>ctx_tx := True\<rparr>) sample_env w0)) = w_db w0
      \<and> w_tx (snd (?fn ((sample_ctx ''alice'')\<lparr>ctx_tx := True\<rparr>) sample_env w0)) \<noteq> None"
    by (auto simp: MembershipRepo_LockTenantMemberships_def run_simps split: sum.split prod.split if_splits)
  from RunInTransaction_atomic [OF _ _ body run] show ?thesis unfolding run snd_conv by simp
qed

end
