(* ===== verification/ClientProperties.thy ===== *)
theory ClientProperties
  imports Clients Access Answers
begin

text \<open>The generated clients against the handler that the process serves.\<close>

section \<open>What a client sends and accepts\<close>

fun spec_of :: "rpc \<Rightarrow> spec" where
  "spec_of (StartTenantRegistration _ _) = tenantServiceStartTenantRegistrationSpec"
| "spec_of (ClaimTenantOwnership _) = tenantServiceClaimTenantOwnershipSpec"
| "spec_of (ResolveTenantSubdomain _) = tenantServiceResolveTenantSubdomainSpec"
| "spec_of (ChangeTenantContract _ _) = tenantServiceChangeTenantContractSpec"
| "spec_of (ArchiveTenant _) = tenantServiceArchiveTenantSpec"
| "spec_of (CreateEvent _ _) = tenantServiceCreateEventSpec"
| "spec_of (TransitionEventStatus _ _) = tenantServiceTransitionEventStatusSpec"
| "spec_of (GetEvent _) = tenantServiceGetEventSpec"
| "spec_of (ListEvents _ _) = tenantServiceListEventsSpec"
| "spec_of (CreateTenantInvitation _ _ _) = relationAdminServiceCreateTenantInvitationSpec"
| "spec_of (ListTenantInvitations _) = relationAdminServiceListTenantInvitationsSpec"
| "spec_of (RevokeTenantInvitation _ _) = relationAdminServiceRevokeTenantInvitationSpec"
| "spec_of (AcceptTenantInvitation _ _) = relationAdminServiceAcceptTenantInvitationSpec"
| "spec_of (AddTenantMember _ _ _ _) = relationAdminServiceAddTenantMemberSpec"
| "spec_of (ChangeTenantRole _ _ _) = relationAdminServiceChangeTenantRoleSpec"
| "spec_of (GrantEventRole _ _ _) = relationAdminServiceGrantEventRoleSpec"
| "spec_of (RevokeRole _) = relationAdminServiceRevokeRoleSpec"
| "spec_of (ListMemberships _ _) = relationAdminServiceListMembershipsSpec"
| "spec_of (HttpMemberships _ _) = relationAdminServiceListMembershipsSpec"

text \<open>The procedure that a client names is the one that the service has registered.\<close>

lemma spec_of_procedure:
  assumes "\<nexists>t u. req = HttpMemberships t u"
  shows "spec_Procedure (spec_of req) = path_of req"
  using assms by (cases req) (simp_all add: spec_defs)

text \<open>An answer of the method's own type is handed on as it is.\<close>

lemma client_hands_on:
  assumes "\<nexists>t u. req = HttpMemberships t u" and "client (spec_of req) req s = (r, s')"
    and "\<And>rep. r = Inr rep \<Longrightarrow> reply_typed req rep \<and> (\<nexists>ce. rep = ErrorReply ce)"
  shows "client_calls client req s = (r, s')"
proof (cases r)
  case (Inl ce)
  with assms(1,2) show ?thesis by (cases req) (simp_all add: client_defs CallUnary_def)
next
  case (Inr rep)
  with assms show ?thesis
    by (cases req; cases rep) (simp_all add: client_defs CallUnary_def res_defs reply_typed_def)
qed

section \<open>Clients of the process\<close>

text \<open>
  C20: A call of a generated client reaches the method it is named after: it is refused by the guard of
  that method with nothing but an entry in the log, or it returns what the service answers to the
  request for a caller whom the policy of the method admits; a response always has the type that
  the client expects, and of an error only code and message arrive.
\<close>

theorem client_reaches_service:
  assumes contract: "interceptor_contract verify interceptor_New" and tr: "transparent tracing"
    and mux: "NewHandlerWithVerifier interceptor_New (Inr tracing) wired_mounts = Inr mux"
    and rpc: "\<nexists>t u. req = HttpMemberships t u"
    and run: "client_calls (connected_to mux write_err tok E) req w = (r, w')"
  shows "(\<exists>ce cause. r = Inl (wire_error ce) \<and> w' = reportAuthRejection (path_of req) cause w)
    \<or> (\<exists>c rep pol. serve c req E w = (rep, w') \<and> policy_of req = Some pol
        \<and> admitted pol (Option.bind tok verify) (ctx_claims c)
        \<and> r = (case rep of ErrorReply ce \<Rightarrow> Inl (wire_error ce) | _ \<Rightarrow> Inr rep))"
proof -
  obtain resp w1 where handled: "handle mux write_err (path_of req) tok (Inr req) E w = (resp, w1)"
    by (cases "handle mux write_err (path_of req) tok (Inr req) E w")
  let ?cl = "connected_to mux write_err tok E"
  from handled_request [OF contract tr mux handled] show ?thesis
  proof (elim disjE exE conjE)
    fix ce cause
    assume a: "resp = Answer (ErrorReply ce)" "w1 = reportAuthRejection (path_of req) cause w"
    then have "?cl (spec_of req) req w = (Inl (wire_error ce), w1)"
      using handled by (simp add: connected_to_def spec_of_procedure [OF rpc])
    from client_hands_on [of req ?cl w "Inl (wire_error ce)", OF rpc this] run a(2) show ?thesis by auto
  next
    fix c rep
    assume a: "resp = Answer rep" "serve c req E w = (rep, w1)"
      "case policy_of req of None \<Rightarrow> ctx_claims c = None | Some pol \<Rightarrow> admitted pol (Option.bind tok verify) (ctx_claims c)"
    let ?r = "case rep of ErrorReply ce \<Rightarrow> Inl (wire_error ce) | _ \<Rightarrow> Inr rep"
    have "?cl (spec_of req) req w = (?r, w1)"
      using handled a(1) by (cases rep) (simp_all add: connected_to_def spec_of_procedure [OF rpc])
    moreover have "reply_typed req x \<and> (\<nexists>ce. x = ErrorReply ce)" if "?r = Inr x" for x
      using that serve_kind [OF a(2)] by (cases rep) auto
    ultimately have "client_calls ?cl req w = (?r, w1)" by (rule client_hands_on [OF rpc])
    with run have "r = ?r" "w' = w1" by simp_all
    moreover obtain pol where "policy_of req = Some pol" using rpc by (cases req) simp_all
    ultimately show ?thesis using a(2,3) by (intro disjI2 exI [of _ c] exI [of _ rep] exI [of _ pol]) simp
  qed
qed

theorem client_reaches_service_witness:
  "\<exists>mux ce. NewHandlerWithVerifier gatekeeper (Inr silent_tracing) wired_mounts = Inr mux
    \<and> fst (tenantServiceClient_ArchiveTenant (connected_to mux None None sample_env) ''0707070707070707'' event_world) = Inl ce"
proof -
  let ?req = "ArchiveTenant ''0707070707070707''"
  obtain mux where mux: "NewHandlerWithVerifier gatekeeper (Inr silent_tracing) wired_mounts = Inr mux"
    using gatekeeper_mux by blast
  let ?cl = "connected_to mux None None sample_env"
  obtain r w' where run: "client_calls ?cl ?req event_world = (r, w')" by (cases "client_calls ?cl ?req event_world")
  from client_reaches_service [OF gatekeeper_contract silent_tracing_transparent mux _ run]
  obtain ce where "r = Inl ce" by (auto simp: admitted_def)
  with run obtain ce' where "fst (tenantServiceClient_ArchiveTenant ?cl ''0707070707070707'' event_world) = Inl ce'"
    by (cases "tenantServiceClient_ArchiveTenant ?cl ''0707070707070707'' event_world"; cases "fst (tenantServiceClient_ArchiveTenant ?cl ''0707070707070707'' event_world)") auto
  with mux show ?thesis by blast
qed

end
