(* ===== verification/Migrations.thy ===== *)
theory Migrations
  imports Schema
begin

text \<open>
  The migrations of migrations/, up and down, on databases that hold rows: a table of every version of the
  schema, the constraints of that version, and each script as a function that fails with the error of
  the first constraint that the rows do not satisfy.  A script is one query of several statements,
  which PostgreSQL carries out as a whole or not at all.  Theory Store has the version after the last one.
\<close>

section \<open>The versions of the schema\<close>

record tenant_v1 =
  t1_id :: string
  t1_public_id :: string
  t1_name :: string
  t1_contract_plan :: string
  t1_archived :: bool

record tenant_v2 =
  t2_id :: string
  t2_public_id :: string
  t2_name :: string
  t2_contract_plan :: string
  t2_archived :: bool
  t2_ownership_state :: string
  t2_claim_hash :: "byte list option"
  t2_claim_expires :: "time option"

record membership_v3 =
  m3_tenant_id :: string
  m3_user_id :: string
  m3_tenant_role :: string
  m3_created_at :: time

record db_v1 =
  tenants_v1 :: "tenant_v1 list"
  events_v1 :: "event_row list"

record db_v2 =
  tenants_v2 :: "tenant_v2 list"
  events_v2 :: "event_row list"

record db_v3 =
  tenants_v3 :: "tenant_v2 list"
  events_v3 :: "event_row list"
  memberships_v3 :: "membership_v3 list"
  event_roles_v3 :: "event_role_row list"

record db_v4 =
  tenants_v4 :: "tenant_row list"
  events_v4 :: "event_row list"
  memberships_v4 :: "membership_v3 list"
  event_roles_v4 :: "event_role_row list"

record db_v5 =
  tenants_v5 :: "tenant_row list"
  events_v5 :: "event_row list"
  memberships_v5 :: "membership_row list"
  event_roles_v5 :: "event_role_row list"

text \<open>A database together with the number of the last script it has seen.\<close>

datatype versioned = V0 | V1 db_v1 | V2 db_v2 | V3 db_v3 | V4 db_v4 | V5 db_v5 | V6 db

section \<open>The constraints of each version\<close>

definition ownership_state_check :: "string \<Rightarrow> bool" where
  "ownership_state_check s \<longleftrightarrow> s \<in> set [''pending_owner'', ''owned'']"

definition ownership_claim_check :: "string \<Rightarrow> byte list option \<Rightarrow> time option \<Rightarrow> bool" where
  "ownership_claim_check s h x \<longleftrightarrow>
     s = ''pending_owner'' \<and> h \<noteq> None \<and> x \<noteq> None \<or> s = ''owned'' \<and> h = None \<and> x = None"

definition tenants_v1_ok :: "tenant_v1 list \<Rightarrow> bool" where
  "tenants_v1_ok ts \<longleftrightarrow> distinct (map t1_id ts) \<and> distinct (map t1_name ts) \<and> distinct (map t1_public_id ts)"

definition tenants_v2_ok :: "tenant_v2 list \<Rightarrow> bool" where
  "tenants_v2_ok ts \<longleftrightarrow> distinct (map t2_id ts) \<and> distinct (map t2_name ts) \<and> distinct (map t2_public_id ts)
     \<and> list_all (\<lambda>t. ownership_state_check (t2_ownership_state t)) ts
     \<and> list_all (\<lambda>t. ownership_claim_check (t2_ownership_state t) (t2_claim_hash t) (t2_claim_expires t)) ts"

definition events_v1_ok :: "string list \<Rightarrow> event_row list \<Rightarrow> bool" where
  "events_v1_ok ids es \<longleftrightarrow> distinct (map evr_id es) \<and> distinct (map evr_public_id es)
     \<and> list_all (\<lambda>e. evr_tenant_id e \<in> set ids) es"

definition memberships_v3_ok :: "string list \<Rightarrow> membership_v3 list \<Rightarrow> bool" where
  "memberships_v3_ok ids ms \<longleftrightarrow> distinct (map (\<lambda>m. (m3_tenant_id m, m3_user_id m)) ms)
     \<and> list_all (\<lambda>m. m3_tenant_role m \<in> set [''owner'', ''staff'']) ms
     \<and> list_all (\<lambda>m. m3_tenant_id m \<in> set ids) ms"

definition event_roles_v3_ok :: "event_row list \<Rightarrow> (string \<times> string) list \<Rightarrow> event_role_row list \<Rightarrow> bool" where
  "event_roles_v3_ok es members rs \<longleftrightarrow> distinct (map (\<lambda>r. (rr_event_id r, rr_user_id r)) rs)
     \<and> list_all (\<lambda>r. rr_role r \<in> set [''owner'', ''staff'']) rs
     \<and> list_all (\<lambda>r. (rr_event_id r, rr_tenant_id r) \<in> set (map (\<lambda>e. (evr_id e, evr_tenant_id e)) es)) rs
     \<and> list_all (\<lambda>r. (rr_tenant_id r, rr_user_id r) \<in> set members) rs"

fun versioned_ok :: "versioned \<Rightarrow> bool" where
  "versioned_ok V0 = True"
| "versioned_ok (V1 d) = (tenants_v1_ok (tenants_v1 d) \<and> events_v1_ok (map t1_id (tenants_v1 d)) (events_v1 d))"
| "versioned_ok (V2 d) = (tenants_v2_ok (tenants_v2 d) \<and> events_v1_ok (map t2_id (tenants_v2 d)) (events_v2 d))"
| "versioned_ok (V3 d) = (tenants_v2_ok (tenants_v3 d) \<and> events_v1_ok (map t2_id (tenants_v3 d)) (events_v3 d)
     \<and> memberships_v3_ok (map t2_id (tenants_v3 d)) (memberships_v3 d)
     \<and> event_roles_v3_ok (events_v3 d) (map (\<lambda>m. (m3_tenant_id m, m3_user_id m)) (memberships_v3 d)) (event_roles_v3 d))"
| "versioned_ok (V4 d) = (tenants_violation (tenants_v4 d) = None \<and> events_violation (tenants_v4 d) (events_v4 d) = None
     \<and> memberships_v3_ok (map tr_id (tenants_v4 d)) (memberships_v4 d)
     \<and> event_roles_v3_ok (events_v4 d) (map (\<lambda>m. (m3_tenant_id m, m3_user_id m)) (memberships_v4 d)) (event_roles_v4 d))"
| "versioned_ok (V5 d) = (tenants_violation (tenants_v5 d) = None \<and> events_violation (tenants_v5 d) (events_v5 d) = None
     \<and> memberships_violation (tenants_v5 d) (memberships_v5 d) = None
     \<and> event_roles_violation (events_v5 d) (memberships_v5 d) (event_roles_v5 d) = None)"
| "versioned_ok (V6 d) = schema_ok d"

section \<open>The scripts\<close>

definition init_up :: db_v1 where
  "init_up = \<lparr>tenants_v1 = [], events_v1 = []\<rparr>"

definition tenant_ownership_up :: "db_v1 \<Rightarrow> gerr + db_v2" where
  "tenant_ownership_up d =
     (let ts = map (\<lambda>t. \<lparr>t2_id = t1_id t, t2_public_id = t1_public_id t, t2_name = t1_name t,
                 t2_contract_plan = t1_contract_plan t, t2_archived = t1_archived t,
                 t2_ownership_state = ''owned'', t2_claim_hash = None, t2_claim_expires = None\<rparr>) (tenants_v1 d)
      in if \<not> list_all (\<lambda>t. ownership_state_check (t2_ownership_state t)) ts
         then Inl (check_violation ''tenants_ownership_state_check'')
         else if \<not> list_all (\<lambda>t. ownership_claim_check (t2_ownership_state t) (t2_claim_hash t) (t2_claim_expires t)) ts
         then Inl (check_violation ''tenants_ownership_claim_check'')
         else Inr \<lparr>tenants_v2 = ts, events_v2 = events_v1 d\<rparr>)"

definition tenant_ownership_down :: "db_v2 \<Rightarrow> db_v1" where
  "tenant_ownership_down d =
     \<lparr>tenants_v1 = map (\<lambda>t. \<lparr>t1_id = t2_id t, t1_public_id = t2_public_id t, t1_name = t2_name t,
        t1_contract_plan = t2_contract_plan t, t1_archived = t2_archived t\<rparr>) (tenants_v2 d),
      events_v1 = events_v2 d\<rparr>"

definition memberships_up :: "db_v2 \<Rightarrow> gerr + db_v3" where
  "memberships_up d =
     (if \<not> distinct (map (\<lambda>e. (evr_id e, evr_tenant_id e)) (events_v2 d))
      then Inl (unique_violation ''events_id_tenant_id_key'')
      else Inr \<lparr>tenants_v3 = tenants_v2 d, events_v3 = events_v2 d, memberships_v3 = [], event_roles_v3 = []\<rparr>)"

definition memberships_down :: "db_v3 \<Rightarrow> db_v2" where
  "memberships_down d = \<lparr>tenants_v2 = tenants_v3 d, events_v2 = events_v3 d\<rparr>"

definition tenant_subdomain_up :: "db_v3 \<Rightarrow> gerr + db_v4" where
  "tenant_subdomain_up d =
     (let ts = map (\<lambda>t. \<lparr>tr_id = t2_id t, tr_public_id = t2_public_id t, tr_name = t2_name t,
                 tr_contract_plan = t2_contract_plan t, tr_ownership_state = t2_ownership_state t, tr_subdomain = None,
                 tr_archived = t2_archived t, tr_claim_hash = t2_claim_hash t, tr_claim_expires = t2_claim_expires t\<rparr>)
               (tenants_v3 d)
      in if \<not> list_all (\<lambda>r. (tr_ownership_state r = ''owned'') = (tr_subdomain r \<noteq> None)) ts
         then Inl (check_violation ''tenants_subdomain_check'')
         else if \<not> distinct (map tr_subdomain (filter (\<lambda>r. tr_subdomain r \<noteq> None) ts))
         then Inl (unique_violation ''tenants_subdomain_key'')
         else Inr \<lparr>tenants_v4 = ts, events_v4 = events_v3 d, memberships_v4 = memberships_v3 d, event_roles_v4 = event_roles_v3 d\<rparr>)"

definition tenant_subdomain_down :: "db_v4 \<Rightarrow> gerr + db_v3" where
  "tenant_subdomain_down d =
     (if \<not> distinct (map tr_name (tenants_v4 d)) then Inl (unique_violation ''tenants_name_key'')
      else Inr \<lparr>tenants_v3 = map (\<lambda>r. \<lparr>t2_id = tr_id r, t2_public_id = tr_public_id r, t2_name = tr_name r,
                 t2_contract_plan = tr_contract_plan r, t2_archived = tr_archived r,
                 t2_ownership_state = tr_ownership_state r, t2_claim_hash = tr_claim_hash r,
                 t2_claim_expires = tr_claim_expires r\<rparr>) (tenants_v4 d),
              events_v3 = events_v4 d, memberships_v3 = memberships_v4 d, event_roles_v3 = event_roles_v4 d\<rparr>)"

text \<open>\<open>LEFT(user_id, 64)\<close> takes characters, not bytes.\<close>

definition membership_display_name_up :: "db_v4 \<Rightarrow> gerr + db_v5" where
  "membership_display_name_up d =
     (let ms = map (\<lambda>m. \<lparr>mr_tenant_id = m3_tenant_id m, mr_user_id = m3_user_id m, mr_tenant_role = m3_tenant_role m,
                 mr_display_name = take_runes 64 (m3_user_id m), mr_joined_at = m3_created_at m\<rparr>) (memberships_v4 d)
      in if \<not> list_all (\<lambda>m. display_name_check (mr_display_name m)) ms
         then Inl (check_violation ''tenant_memberships_display_name_check'')
         else Inr \<lparr>tenants_v5 = tenants_v4 d, events_v5 = events_v4 d, memberships_v5 = ms, event_roles_v5 = event_roles_v4 d\<rparr>)"

definition membership_display_name_down :: "db_v5 \<Rightarrow> db_v4" where
  "membership_display_name_down d =
     \<lparr>tenants_v4 = tenants_v5 d, events_v4 = events_v5 d,
      memberships_v4 = map (\<lambda>m. \<lparr>m3_tenant_id = mr_tenant_id m, m3_user_id = mr_user_id m,
        m3_tenant_role = mr_tenant_role m, m3_created_at = mr_joined_at m\<rparr>) (memberships_v5 d),
      event_roles_v4 = event_roles_v5 d\<rparr>"

definition tenant_invitations_up :: "db_v5 \<Rightarrow> db" where
  "tenant_invitations_up d =
     \<lparr>tenants = tenants_v5 d, events = events_v5 d, memberships = memberships_v5 d, event_roles = event_roles_v5 d,
      invitations = []\<rparr>"

definition tenant_invitations_down :: "db \<Rightarrow> db_v5" where
  "tenant_invitations_down d =
     \<lparr>tenants_v5 = tenants d, events_v5 = events d, memberships_v5 = memberships d, event_roles_v5 = event_roles d\<rparr>"

text \<open>One step up and one step down; at the ends there is no script to run.\<close>

fun migrate_up :: "versioned \<Rightarrow> gerr + versioned" where
  "migrate_up V0 = Inr (V1 init_up)"
| "migrate_up (V1 d) = map_sum id V2 (tenant_ownership_up d)"
| "migrate_up (V2 d) = map_sum id V3 (memberships_up d)"
| "migrate_up (V3 d) = map_sum id V4 (tenant_subdomain_up d)"
| "migrate_up (V4 d) = map_sum id V5 (membership_display_name_up d)"
| "migrate_up (V5 d) = Inr (V6 (tenant_invitations_up d))"
| "migrate_up (V6 d) = Inl (Errorf ''no change'' [])"

fun migrate_down :: "versioned \<Rightarrow> gerr + versioned" where
  "migrate_down V0 = Inl (Errorf ''no change'' [])"
| "migrate_down (V1 d) = Inr V0"
| "migrate_down (V2 d) = Inr (V1 (tenant_ownership_down d))"
| "migrate_down (V3 d) = Inr (V2 (memberships_down d))"
| "migrate_down (V4 d) = map_sum id V3 (tenant_subdomain_down d)"
| "migrate_down (V5 d) = Inr (V4 (membership_display_name_down d))"
| "migrate_down (V6 d) = Inr (V5 (tenant_invitations_down d))"

text \<open>The number of the last script a database has seen.\<close>

fun version :: "versioned \<Rightarrow> nat" where
  "version V0 = 0"
| "version (V1 _) = 1"
| "version (V2 _) = 2"
| "version (V3 _) = 3"
| "version (V4 _) = 4"
| "version (V5 _) = 5"
| "version (V6 _) = 6"

lemma migrate_up_version: "migrate_up s = Inr s' \<Longrightarrow> version s' = Suc (version s)"
  by (cases s) (auto simp: map_sum_def split: sum.splits)

section \<open>What a script keeps\<close>

text \<open>The constraints of the last version, in the form of the earlier ones.\<close>

lemma tenants_violation_v2:
  assumes "tenants_v2_ok ts" and "\<forall>t \<in> set ts. t2_ownership_state t \<noteq> ''owned''"
  shows "tenants_violation (map (\<lambda>t. \<lparr>tr_id = t2_id t, tr_public_id = t2_public_id t, tr_name = t2_name t,
      tr_contract_plan = t2_contract_plan t, tr_ownership_state = t2_ownership_state t, tr_subdomain = None,
      tr_archived = t2_archived t, tr_claim_hash = t2_claim_hash t, tr_claim_expires = t2_claim_expires t\<rparr>) ts) = None"
  using assms unfolding tenants_ok_iff tenants_v2_ok_def
  by (simp add: comp_def tenant_claim_ok_def ownership_claim_check_def ownership_state_check_def list_all_iff)

lemma events_violation_v1: "events_violation ts es = None \<longleftrightarrow> events_v1_ok (map tr_id ts) es"
  by (auto simp: events_ok_iff events_v1_ok_def list_all_iff)

lemma memberships_violation_v3:
  "memberships_violation ts ms = None \<longleftrightarrow> list_all (\<lambda>m. display_name_check (mr_display_name m)) ms
     \<and> memberships_v3_ok (map tr_id ts) (map (\<lambda>m. \<lparr>m3_tenant_id = mr_tenant_id m, m3_user_id = mr_user_id m,
         m3_tenant_role = mr_tenant_role m, m3_created_at = mr_joined_at m\<rparr>) ms)"
  by (auto simp: memberships_ok_iff memberships_v3_ok_def list_all_iff comp_def)

lemma event_roles_violation_v3:
  "event_roles_violation es ms rs = None
     \<longleftrightarrow> event_roles_v3_ok es (map (\<lambda>m. (mr_tenant_id m, mr_user_id m)) ms) rs"
  by (auto simp: event_roles_ok_iff event_roles_v3_ok_def list_all_iff)

lemma events_pin_tenant:
  "distinct (map evr_id es) \<Longrightarrow> distinct (map (\<lambda>e. (evr_id e, evr_tenant_id e)) es)"
  by (auto simp: distinct_map inj_on_def)

lemma ownership_up_Inr:
  "tenant_ownership_up d = Inr d' \<longleftrightarrow> d' = \<lparr>tenants_v2 = map (\<lambda>t. \<lparr>t2_id = t1_id t, t2_public_id = t1_public_id t,
     t2_name = t1_name t, t2_contract_plan = t1_contract_plan t, t2_archived = t1_archived t, t2_ownership_state = ''owned'',
     t2_claim_hash = None, t2_claim_expires = None\<rparr>) (tenants_v1 d), events_v2 = events_v1 d\<rparr>"
  by (auto simp: tenant_ownership_up_def Let_def list_all_iff ownership_state_check_def ownership_claim_check_def)

lemma subdomain_up_fails:
  "tenant_subdomain_up d = Inl e \<longleftrightarrow>
     (\<exists>t \<in> set (tenants_v3 d). t2_ownership_state t = ''owned'') \<and> e = check_violation ''tenants_subdomain_check''"
  by (auto simp: tenant_subdomain_up_def Let_def list_all_iff filter_map comp_def)

lemma subdomain_up_Inr:
  "tenant_subdomain_up d = Inr d' \<longleftrightarrow>
     (\<forall>t \<in> set (tenants_v3 d). t2_ownership_state t \<noteq> ''owned'')
     \<and> d' = \<lparr>tenants_v4 = map (\<lambda>t. \<lparr>tr_id = t2_id t, tr_public_id = t2_public_id t, tr_name = t2_name t,
         tr_contract_plan = t2_contract_plan t, tr_ownership_state = t2_ownership_state t, tr_subdomain = None,
         tr_archived = t2_archived t, tr_claim_hash = t2_claim_hash t, tr_claim_expires = t2_claim_expires t\<rparr>) (tenants_v3 d),
       events_v4 = events_v3 d, memberships_v4 = memberships_v3 d, event_roles_v4 = event_roles_v3 d\<rparr>"
  by (auto simp: tenant_subdomain_up_def Let_def list_all_iff filter_map comp_def)

lemma rows_again [simp]:
  "\<lparr>t1_id = t1_id t, t1_public_id = t1_public_id t, t1_name = t1_name t, t1_contract_plan = t1_contract_plan t,
     t1_archived = t1_archived t\<rparr> = t"
  "\<lparr>t2_id = t2_id u, t2_public_id = t2_public_id u, t2_name = t2_name u, t2_contract_plan = t2_contract_plan u,
     t2_archived = t2_archived u, t2_ownership_state = t2_ownership_state u, t2_claim_hash = t2_claim_hash u,
     t2_claim_expires = t2_claim_expires u\<rparr> = u"
  "\<lparr>m3_tenant_id = m3_tenant_id m, m3_user_id = m3_user_id m, m3_tenant_role = m3_tenant_role m,
     m3_created_at = m3_created_at m\<rparr> = m"
  "\<lparr>tenants_v1 = tenants_v1 d, events_v1 = events_v1 d\<rparr> = d"
  by simp_all

lemma migrate_up_keeps:
  assumes "versioned_ok s" and "migrate_up s = Inr s'"
  shows "versioned_ok s'"
proof (cases s)
  case V0
  with assms(2) show ?thesis by (auto simp: init_up_def tenants_v1_ok_def events_v1_ok_def)
next
  case (V1 d)
  with assms show ?thesis
    by (auto simp: map_sum_def ownership_up_Inr tenants_v1_ok_def tenants_v2_ok_def comp_def list_all_iff
        ownership_state_check_def ownership_claim_check_def split: sum.splits)
next
  case (V2 d)
  with assms show ?thesis
    by (auto simp: map_sum_def memberships_up_def memberships_v3_ok_def event_roles_v3_ok_def split: sum.splits if_splits)
next
  case (V3 d)
  with assms show ?thesis
    by (auto simp: map_sum_def subdomain_up_Inr tenants_violation_v2 events_violation_v1 comp_def split: sum.splits)
next
  case (V4 d)
  with assms show ?thesis
    by (auto simp: map_sum_def membership_display_name_up_def Let_def memberships_violation_v3 event_roles_violation_v3
        comp_def split: sum.splits if_splits)
next
  case (V5 d)
  with assms show ?thesis
    by (auto simp: tenant_invitations_up_def schema_ok_def invitations_ok_iff)
next
  case (V6 d)
  with assms show ?thesis by simp
qed

lemma migrate_down_up:
  assumes "versioned_ok s" and "migrate_up s = Inr s'"
  shows "migrate_down s' = Inr s"
proof (cases s)
  case V0
  with assms(2) show ?thesis by auto
next
  case (V1 d)
  with assms(2) show ?thesis
    by (auto simp: map_sum_def ownership_up_Inr tenant_ownership_down_def comp_def split: sum.splits)
next
  case (V2 d)
  with assms(2) show ?thesis
    by (auto simp: map_sum_def memberships_up_def memberships_down_def split: sum.splits if_splits)
next
  case (V3 d)
  with assms show ?thesis
    by (auto simp: map_sum_def subdomain_up_Inr tenant_subdomain_down_def tenants_v2_ok_def comp_def split: sum.splits)
next
  case (V4 d)
  with assms(2) show ?thesis
    by (auto simp: map_sum_def membership_display_name_up_def Let_def membership_display_name_down_def comp_def
        split: sum.splits if_splits)
next
  case (V5 d)
  with assms(2) show ?thesis by (auto simp: tenant_invitations_up_def tenant_invitations_down_def)
next
  case (V6 d)
  with assms(2) show ?thesis by simp
qed

end
