(* ===== verification/MigrationProperties.thy ===== *)
theory MigrationProperties
  imports Migrations
begin

text \<open>
  What the migrations do to a database that holds rows: which constraints hold after each script, what
  a script undone gives back, and which databases the scripts cannot bring to the current version.
  The tool that runs them and records the version is not under src/, so nothing is said about it.
\<close>

section \<open>One script\<close>

text \<open>
  C38: A script that succeeds on a database with the constraints of its version leaves one with the
  constraints of the next version, the last one with the schema of the service, and its down script
  gives back exactly the rows from before.
\<close>

theorem migration_undone:
  assumes "versioned_ok s" and "migrate_up s = Inr s'"
  shows "versioned_ok s' \<and> version s' = Suc (version s) \<and> migrate_down s' = Inr s
    \<and> (case s' of V6 d \<Rightarrow> schema_ok d \<and> invitations d = [] | _ \<Rightarrow> True)"
proof -
  have "case s' of V6 d \<Rightarrow> schema_ok d \<and> invitations d = [] | _ \<Rightarrow> True"
    using migrate_up_keeps [OF assms] assms(2)
    by (cases s) (auto simp: map_sum_def tenant_invitations_up_def split: sum.splits versioned.splits)
  with migrate_up_keeps [OF assms] migrate_down_up [OF assms] migrate_up_version [OF assms(2)] show ?thesis by simp
qed

text \<open>A tenant with a member before display names, and a tenant from before ownership.\<close>

definition sample_v4 :: db_v4 where
  "sample_v4 = \<lparr>tenants_v4 = [\<lparr>tr_id = ''t1'', tr_public_id = ''p1'', tr_name = ''Acme'', tr_contract_plan = ''free'',
       tr_ownership_state = ''owned'', tr_subdomain = Some ''acme'', tr_archived = False, tr_claim_hash = None,
       tr_claim_expires = None\<rparr>],
     events_v4 = [], memberships_v4 = [\<lparr>m3_tenant_id = ''t1'', m3_user_id = ''alice'', m3_tenant_role = ''owner'',
       m3_created_at = 5000\<rparr>], event_roles_v4 = []\<rparr>"

definition sample_v1 :: db_v1 where
  "sample_v1 = \<lparr>tenants_v1 = [\<lparr>t1_id = ''t1'', t1_public_id = ''p1'', t1_name = ''Acme'', t1_contract_plan = ''free'',
     t1_archived = False\<rparr>], events_v1 = []\<rparr>"

lemma sample_v4_ok: "versioned_ok (V4 sample_v4)"
  by (simp add: sample_v4_def tenants_ok_iff events_ok_iff tenant_claim_ok_def memberships_v3_ok_def event_roles_v3_ok_def)

lemma sample_v1_ok: "versioned_ok (V1 sample_v1)"
  by (simp add: sample_v1_def tenants_v1_ok_def events_v1_ok_def)

lemma alice_cut: "take_runes 64 ''alice'' = ''alice''" "RuneCountInString ''alice'' = 5"
  by code_simp+

lemma sample_v4_up:
  "migrate_up (V4 sample_v4) = Inr (V5 \<lparr>tenants_v5 = tenants_v4 sample_v4, events_v5 = [],
     memberships_v5 = [\<lparr>mr_tenant_id = ''t1'', mr_user_id = ''alice'', mr_tenant_role = ''owner'',
       mr_display_name = ''alice'', mr_joined_at = 5000\<rparr>], event_roles_v5 = []\<rparr>)"
  by (simp add: sample_v4_def membership_display_name_up_def display_name_check_def alice_cut)

theorem migration_undone_witness:
  "migrate_down (V5 \<lparr>tenants_v5 = tenants_v4 sample_v4, events_v5 = [],
     memberships_v5 = [\<lparr>mr_tenant_id = ''t1'', mr_user_id = ''alice'', mr_tenant_role = ''owner'',
       mr_display_name = ''alice'', mr_joined_at = 5000\<rparr>], event_roles_v5 = []\<rparr>) = Inr (V4 sample_v4)"
  using migration_undone [OF sample_v4_ok sample_v4_up] by simp

text \<open>The way back is closed once two tenants have the same name, which the service allows.\<close>

lemma subdomain_down_fails:
  "migrate_down (V4 d) = Inl e \<longleftrightarrow>
     \<not> distinct (map tr_name (tenants_v4 d)) \<and> e = unique_violation ''tenants_name_key''"
  by (auto simp: tenant_subdomain_down_def)

section \<open>All scripts\<close>

lemma fresh_schema:
  "\<exists>d2 d3 d4 d5. migrate_up (V1 init_up) = Inr (V2 d2) \<and> migrate_up (V2 d2) = Inr (V3 d3) \<and> migrate_up (V3 d3) = Inr (V4 d4)
     \<and> migrate_up (V4 d4) = Inr (V5 d5) \<and> migrate_up (V5 d5) = Inr (V6 empty_db)"
  by (simp add: init_up_def tenant_ownership_up_def memberships_up_def tenant_subdomain_up_def
      membership_display_name_up_def tenant_invitations_up_def empty_db_def)

text \<open>
  C40: A database of the first version reaches the current one only without tenants.  Without any, the
  five later scripts succeed one after the other and leave the empty schema of the service.  With a
  tenant the second and the third succeed and the fourth fails: the second makes every tenant owned,
  and the fourth wants a subdomain for every owned tenant but gives none.
\<close>

theorem migrate_rejects_tenants:
  assumes "versioned_ok (V1 d)"
  shows "if tenants_v1 d = []
    then \<exists>d2 d3 d4 d5. migrate_up (V1 d) = Inr (V2 d2) \<and> migrate_up (V2 d2) = Inr (V3 d3) \<and> migrate_up (V3 d3) = Inr (V4 d4)
      \<and> migrate_up (V4 d4) = Inr (V5 d5) \<and> migrate_up (V5 d5) = Inr (V6 empty_db)
    else \<exists>d2 d3. migrate_up (V1 d) = Inr (V2 d2) \<and> migrate_up (V2 d2) = Inr (V3 d3)
      \<and> migrate_up (V3 d3) = Inl (check_violation ''tenants_subdomain_check'')
      \<and> map t2_id (tenants_v3 d3) = map t1_id (tenants_v1 d)"
proof (cases "tenants_v1 d = []")
  case True
  with assms have "d = init_up" by (cases d) (simp add: events_v1_ok_def init_up_def list_all_iff)
  then show ?thesis unfolding if_P [OF True] using fresh_schema by blast
next
  case False
  obtain d2 where up: "tenant_ownership_up d = Inr d2" using ownership_up_Inr by blast
  define d3 where "d3 = \<lparr>tenants_v3 = tenants_v2 d2, events_v3 = events_v2 d2, memberships_v3 = [], event_roles_v3 = []\<rparr>"
  from up have ids: "map t2_id (tenants_v3 d3) = map t1_id (tenants_v1 d)" and owned: "\<forall>t \<in> set (tenants_v3 d3). t2_ownership_state t = ''owned''"
    and ne: "tenants_v3 d3 \<noteq> []"
    using False by (auto simp: ownership_up_Inr d3_def comp_def)
  have "events_v2 d2 = events_v1 d" using up by (simp add: ownership_up_Inr)
  with assms have "memberships_up d2 = Inr d3"
    using events_pin_tenant [of "events_v1 d"] by (simp add: memberships_up_def d3_def events_v1_ok_def)
  moreover from owned ne have "tenant_subdomain_up d3 = Inl (check_violation ''tenants_subdomain_check'')"
    unfolding subdomain_up_fails by (auto simp: neq_Nil_conv)
  ultimately show ?thesis
    unfolding if_not_P [OF False] using up ids by (intro exI [of _ d2] exI [of _ d3]) simp
qed

theorem migrate_rejects_tenants_witness:
  "\<exists>d2 d3. migrate_up (V1 sample_v1) = Inr (V2 d2) \<and> migrate_up (V2 d2) = Inr (V3 d3)
     \<and> migrate_up (V3 d3) = Inl (check_violation ''tenants_subdomain_check'') \<and> map t2_id (tenants_v3 d3) = [''t1'']"
  using migrate_rejects_tenants [OF sample_v1_ok] by (simp add: sample_v1_def)

end
