(* ===== verification/Locks.thy ===== *)
theory Locks
  imports Prelude
begin

text \<open>
  The locks of the transactions.  Every statement of the repositories takes locks, on the rows it selects
  \<open>FOR UPDATE\<close> or \<open>FOR SHARE\<close>, on those it changes, on the keys it adds and, by the foreign keys, on the
  rows it refers to; they are kept until the transaction ends.  A statement whose lock conflicts with one
  that another transaction holds waits.  Here a transaction is the list of its locks in the order in
  which its code asks for them, and transactions take theirs in any order between them.
  The lock modes and their conflicts are those of PostgreSQL's manual.  Two writes of a registration are
  not among the transactions: the sweep of expired tenants, which locks several rows in an order that
  PostgreSQL chooses, and the insertion of a pending tenant, whose keys nobody else names yet.
\<close>

section \<open>Locks\<close>

datatype lock_mode = ForKeyShare | ForShare | ForNoKeyUpdate | ForUpdate

fun conflicts :: "lock_mode \<Rightarrow> lock_mode \<Rightarrow> bool" where
  "conflicts ForUpdate _ = True"
| "conflicts _ ForUpdate = True"
| "conflicts ForNoKeyUpdate m = (m \<noteq> ForKeyShare)"
| "conflicts m ForNoKeyUpdate = (m \<noteq> ForKeyShare)"
| "conflicts _ _ = False"

text \<open>
  A row that exists, or a key that an insertion is about to add, which nobody but another insertion of the
  same key can see.
\<close>

datatype resource =
    Advisory int
  | TenantRow string
  | SubdomainKey string
  | MemberRow string string
  | MemberKey string string
  | EventRow string
  | EventKey string
  | EventRoleRow string string
  | EventRoleKey string string
  | InvitationRow string
  | InvitationKey string

type_synonym locks = "(resource \<times> lock_mode) list"

section \<open>The locks of each statement\<close>

definition locks_LockTenantMemberships :: "(string \<Rightarrow> int) \<Rightarrow> string \<Rightarrow> locks" where
  "locks_LockTenantMemberships hashtext t = [(Advisory (hashtext t), ForUpdate)]"

definition locks_FindTenantRoleForShare :: "string \<Rightarrow> string \<Rightarrow> locks" where
  "locks_FindTenantRoleForShare t u = [(MemberRow t u, ForShare)]"

definition locks_ChangeTenantRole :: "string \<Rightarrow> string \<Rightarrow> locks" where
  "locks_ChangeTenantRole t u = [(MemberRow t u, ForNoKeyUpdate)]"

text \<open>The deletion of a membership takes the event roles \<open>es\<close> of the user in the tenant with it.\<close>

definition locks_RevokeTenantMembership :: "string \<Rightarrow> string \<Rightarrow> string list \<Rightarrow> locks" where
  "locks_RevokeTenantMembership t u es = (MemberRow t u, ForUpdate) # map (\<lambda>e. (EventRoleRow e u, ForUpdate)) es"

text \<open>The upsert changes the role that \<open>exists\<close>, or adds one that refers to its event and its membership.\<close>

definition locks_GrantEventRole :: "string \<Rightarrow> string \<Rightarrow> string \<Rightarrow> bool \<Rightarrow> locks" where
  "locks_GrantEventRole e t u exists =
     (if exists then [(EventRoleRow e u, ForNoKeyUpdate)]
      else [(EventRoleKey e u, ForUpdate), (EventRow e, ForKeyShare), (MemberRow t u, ForKeyShare)])"

definition locks_RevokeEventRole :: "string \<Rightarrow> string \<Rightarrow> locks" where
  "locks_RevokeEventRole e u = [(EventRoleRow e u, ForUpdate)]"

definition locks_AddTenantMember :: "string \<Rightarrow> string \<Rightarrow> locks" where
  "locks_AddTenantMember t u = [(MemberKey t u, ForUpdate), (TenantRow t, ForKeyShare)]"

definition locks_CreateInvitation :: "string \<Rightarrow> string \<Rightarrow> locks" where
  "locks_CreateInvitation t i = [(InvitationKey i, ForUpdate), (TenantRow t, ForKeyShare)]"

definition locks_findInvitation :: "string \<Rightarrow> locks" where
  "locks_findInvitation i = [(InvitationRow i, ForUpdate)]"

definition locks_MarkInvitationAccepted :: "string \<Rightarrow> locks" where
  "locks_MarkInvitationAccepted i = [(InvitationRow i, ForNoKeyUpdate)]"

definition locks_MarkInvitationRevoked :: "string \<Rightarrow> locks" where
  "locks_MarkInvitationRevoked i = [(InvitationRow i, ForNoKeyUpdate)]"

definition locks_FindTenantByPublicIDForUpdate :: "string \<Rightarrow> locks" where
  "locks_FindTenantByPublicIDForUpdate t = [(TenantRow t, ForUpdate)]"

definition locks_UpdateTenant :: "string \<Rightarrow> locks" where
  "locks_UpdateTenant t = [(TenantRow t, ForNoKeyUpdate)]"

text \<open>The subdomain is a key of its own.\<close>

definition locks_MarkTenantOwned :: "string \<Rightarrow> string \<Rightarrow> locks" where
  "locks_MarkTenantOwned t s = [(TenantRow t, ForUpdate), (SubdomainKey s, ForUpdate)]"

definition locks_CreateEvent :: "string \<Rightarrow> string \<Rightarrow> locks" where
  "locks_CreateEvent e t = [(EventKey e, ForUpdate), (TenantRow t, ForKeyShare)]"

definition locks_UpdateEvent :: "string \<Rightarrow> locks" where
  "locks_UpdateEvent e = [(EventRow e, ForNoKeyUpdate)]"

lemmas statement_locks = locks_LockTenantMemberships_def locks_FindTenantRoleForShare_def locks_ChangeTenantRole_def
  locks_RevokeTenantMembership_def locks_GrantEventRole_def locks_RevokeEventRole_def locks_AddTenantMember_def
  locks_CreateInvitation_def locks_findInvitation_def locks_MarkInvitationAccepted_def locks_MarkInvitationRevoked_def
  locks_FindTenantByPublicIDForUpdate_def locks_UpdateTenant_def locks_MarkTenantOwned_def locks_CreateEvent_def
  locks_UpdateEvent_def

section \<open>The locks of each transaction\<close>

text \<open>
  With the tenant, the caller, and what the request names.  The last two are refused after their first
  statement: a claim or an administration for what it finds of the tenant, an acceptance for want of an
  invitation.
\<close>

datatype transaction =
    ChangeRoleTx (tx_tenant: string) (tx_caller: string) string bool
  | RevokeMemberTx (tx_tenant: string) (tx_caller: string) string "string list"
  | GrantRoleTx (tx_tenant: string) (tx_caller: string) string string bool
  | RevokeEventRoleTx (tx_tenant: string) (tx_caller: string) string string
  | InviteTx (tx_tenant: string) (tx_caller: string) string
  | RevokeInvitationTx (tx_tenant: string) string
  | AcceptTx (tx_tenant: string) (tx_caller: string) string
  | AddMemberTx (tx_tenant: string) string
  | CreateEventTx (tx_tenant: string) (tx_caller: string) string
  | UpdateEventTx (tx_tenant: string) string
  | AdministerTx (tx_tenant: string) (tx_caller: string)
  | ClaimTx (tx_tenant: string) (tx_caller: string) string
  | RefusedTenantTx (tx_tenant: string)
  | RefusedAcceptTx (tx_tenant: string)

definition locks_withCurrentPermission :: "(string \<Rightarrow> int) \<Rightarrow> string \<Rightarrow> string \<Rightarrow> locks \<Rightarrow> locks" where
  "locks_withCurrentPermission hashtext t c write =
     locks_LockTenantMemberships hashtext t @ locks_FindTenantRoleForShare t c @ write"

definition locks_keepAnotherOwner :: "string \<Rightarrow> string \<Rightarrow> locks" where
  "locks_keepAnotherOwner t u = locks_FindTenantRoleForShare t u"

text \<open>Each transaction of the use cases, statement by statement.\<close>

definition locks_ChangeTenantRole_tx :: "(string \<Rightarrow> int) \<Rightarrow> string \<Rightarrow> string \<Rightarrow> string \<Rightarrow> bool \<Rightarrow> locks" where
  "locks_ChangeTenantRole_tx h t c u demotion = locks_withCurrentPermission h t c
     ((if demotion then locks_keepAnotherOwner t u else []) @ locks_ChangeTenantRole t u)"

definition locks_RevokeRole_tenant_tx :: "(string \<Rightarrow> int) \<Rightarrow> string \<Rightarrow> string \<Rightarrow> string \<Rightarrow> string list \<Rightarrow> locks" where
  "locks_RevokeRole_tenant_tx h t c u es = locks_withCurrentPermission h t c
     (locks_keepAnotherOwner t u @ locks_RevokeTenantMembership t u es)"

definition locks_GrantEventRole_tx :: "(string \<Rightarrow> int) \<Rightarrow> string \<Rightarrow> string \<Rightarrow> string \<Rightarrow> string \<Rightarrow> bool \<Rightarrow> locks" where
  "locks_GrantEventRole_tx h t c e u exists = locks_withCurrentPermission h t c (locks_GrantEventRole e t u exists)"

definition locks_RevokeRole_event_tx :: "(string \<Rightarrow> int) \<Rightarrow> string \<Rightarrow> string \<Rightarrow> string \<Rightarrow> string \<Rightarrow> locks" where
  "locks_RevokeRole_event_tx h t c e u = locks_withCurrentPermission h t c (locks_RevokeEventRole e u)"

definition locks_CreateTenantInvitation_tx :: "(string \<Rightarrow> int) \<Rightarrow> string \<Rightarrow> string \<Rightarrow> string \<Rightarrow> locks" where
  "locks_CreateTenantInvitation_tx h t c i = locks_withCurrentPermission h t c (locks_CreateInvitation t i)"

definition locks_RevokeTenantInvitation_tx :: "string \<Rightarrow> locks" where
  "locks_RevokeTenantInvitation_tx i = locks_findInvitation i @ locks_MarkInvitationRevoked i"

definition locks_AcceptTenantInvitation_tx :: "(string \<Rightarrow> int) \<Rightarrow> string \<Rightarrow> string \<Rightarrow> string \<Rightarrow> locks" where
  "locks_AcceptTenantInvitation_tx h t c i = locks_LockTenantMemberships h t @ locks_findInvitation i
     @ locks_AddTenantMember t c @ locks_MarkInvitationAccepted i"

definition locks_CreateEvent_tx :: "string \<Rightarrow> string \<Rightarrow> string \<Rightarrow> locks" where
  "locks_CreateEvent_tx t c e = locks_FindTenantRoleForShare t c @ locks_CreateEvent e t @ locks_GrantEventRole e t c False"

definition locks_administerTenant_tx :: "string \<Rightarrow> string \<Rightarrow> locks" where
  "locks_administerTenant_tx t c = locks_FindTenantByPublicIDForUpdate t @ locks_FindTenantRoleForShare t c @ locks_UpdateTenant t"

definition locks_ClaimTenantOwnership_tx :: "string \<Rightarrow> string \<Rightarrow> string \<Rightarrow> locks" where
  "locks_ClaimTenantOwnership_tx t c s =
     locks_FindTenantByPublicIDForUpdate t @ locks_AddTenantMember t c @ locks_MarkTenantOwned t s"

fun locks_of :: "(string \<Rightarrow> int) \<Rightarrow> transaction \<Rightarrow> locks" where
  "locks_of h (ChangeRoleTx t c u demotion) = locks_ChangeTenantRole_tx h t c u demotion"
| "locks_of h (RevokeMemberTx t c u es) = locks_RevokeRole_tenant_tx h t c u es"
| "locks_of h (GrantRoleTx t c e u exists) = locks_GrantEventRole_tx h t c e u exists"
| "locks_of h (RevokeEventRoleTx t c e u) = locks_RevokeRole_event_tx h t c e u"
| "locks_of h (InviteTx t c i) = locks_CreateTenantInvitation_tx h t c i"
| "locks_of h (RevokeInvitationTx t i) = locks_RevokeTenantInvitation_tx i"
| "locks_of h (AcceptTx t c i) = locks_AcceptTenantInvitation_tx h t c i"
| "locks_of h (AddMemberTx t u) = locks_AddTenantMember t u"
| "locks_of h (CreateEventTx t c e) = locks_CreateEvent_tx t c e"
| "locks_of h (UpdateEventTx t e) = locks_UpdateEvent e"
| "locks_of h (AdministerTx t c) = locks_administerTenant_tx t c"
| "locks_of h (ClaimTx t c s) = locks_ClaimTenantOwnership_tx t c s"
| "locks_of h (RefusedTenantTx t) = locks_FindTenantByPublicIDForUpdate t"
| "locks_of h (RefusedAcceptTx t) = locks_LockTenantMemberships h t"

section \<open>Transactions that run at the same time\<close>

text \<open>A transaction with the number of locks it has taken.\<close>

type_synonym lock_state = "transaction \<times> nat"

definition held :: "(string \<Rightarrow> int) \<Rightarrow> lock_state \<Rightarrow> locks" where
  "held h s = take (snd s) (locks_of h (fst s))"

definition wants :: "(string \<Rightarrow> int) \<Rightarrow> lock_state \<Rightarrow> (resource \<times> lock_mode) option" where
  "wants h s = (if snd s < length (locks_of h (fst s)) then Some (locks_of h (fst s) ! snd s) else None)"

definition waits_for :: "(string \<Rightarrow> int) \<Rightarrow> lock_state \<Rightarrow> lock_state \<Rightarrow> bool" where
  "waits_for h s b = (case wants h s of None \<Rightarrow> False
     | Some (r, m) \<Rightarrow> list_ex (\<lambda>(r', m'). r' = r \<and> conflicts m m') (held h b))"

text \<open>
  What is known of transactions that run at the same time: \<open>tenant_of\<close> is the tenant of an event, which
  the use cases look up; an event that is being created is named by no other transaction; and a
  tenant that is being claimed is pending, so that of the others only refused ones work on it.
\<close>

fun tx_events :: "transaction \<Rightarrow> string list" where
  "tx_events (RevokeMemberTx t c u es) = es"
| "tx_events (GrantRoleTx t c e u exists) = [e]"
| "tx_events (RevokeEventRoleTx t c e u) = [e]"
| "tx_events (CreateEventTx t c e) = [e]"
| "tx_events (UpdateEventTx t e) = [e]"
| "tx_events _ = []"

fun tx_creates :: "transaction \<Rightarrow> string list" where
  "tx_creates (CreateEventTx t c e) = [e]"
| "tx_creates _ = []"

fun tx_pending :: "transaction \<Rightarrow> bool option" where
  "tx_pending (ClaimTx t c s) = Some True"
| "tx_pending (RefusedTenantTx t) = None"
| "tx_pending (RefusedAcceptTx t) = None"
| "tx_pending _ = Some False"

definition alone_ok :: "(string \<Rightarrow> string) \<Rightarrow> transaction \<Rightarrow> bool" where
  "alone_ok tenant_of x = list_all (\<lambda>e. tenant_of e = tx_tenant x) (tx_events x)"

definition together_ok :: "transaction \<Rightarrow> transaction \<Rightarrow> bool" where
  "together_ok x y \<longleftrightarrow> \<not> (tx_tenant x = tx_tenant y
       \<and> (tx_pending x = Some True \<and> tx_pending y = Some False \<or> tx_pending x = Some False \<and> tx_pending y = Some True))
     \<and> set (tx_creates x) \<inter> set (tx_events y) = {} \<and> set (tx_creates y) \<inter> set (tx_events x) = {}"

inductive locking :: "(string \<Rightarrow> int) \<Rightarrow> (string \<Rightarrow> string) \<Rightarrow> lock_state list \<Rightarrow> bool"
  for h :: "string \<Rightarrow> int" and tenant_of :: "string \<Rightarrow> string" where
  idle: "locking h tenant_of []"
| begins: "locking h tenant_of ss \<Longrightarrow> alone_ok tenant_of x \<Longrightarrow> list_all (\<lambda>s. together_ok x (fst s)) ss
    \<Longrightarrow> locking h tenant_of ((x, 0) # ss)"
| takes: "locking h tenant_of (xs @ (x, n) # ys) \<Longrightarrow> n < length (locks_of h x)
    \<Longrightarrow> list_all (\<lambda>b. \<not> waits_for h (x, n) b) (xs @ ys) \<Longrightarrow> locking h tenant_of (xs @ (x, Suc n) # ys)"
| ends: "locking h tenant_of (xs @ s # ys) \<Longrightarrow> locking h tenant_of (xs @ ys)"

section \<open>Nobody waits in a circle\<close>

text \<open>Two transactions that run at the same time, with what they hold.\<close>

definition beside :: "(string \<Rightarrow> int) \<Rightarrow> (string \<Rightarrow> string) \<Rightarrow> lock_state \<Rightarrow> lock_state \<Rightarrow> bool" where
  "beside h tenant_of s b \<longleftrightarrow> alone_ok tenant_of (fst s) \<and> alone_ok tenant_of (fst b) \<and> together_ok (fst s) (fst b)
     \<and> (\<forall>r m m'. (r, m) \<in> set (held h s) \<longrightarrow> (r, m') \<in> set (held h b) \<longrightarrow> \<not> conflicts m m')"

text \<open>How far a transaction is from its end, by the lock that it wants next.\<close>

definition lock_rank :: "(string \<Rightarrow> int) \<Rightarrow> lock_state \<Rightarrow> nat" where
  "lock_rank h s = (let claim = tx_pending (fst s) = Some True in
     case wants h s of None \<Rightarrow> 0
     | Some (r, m) \<Rightarrow> (case r of
         Advisory _ \<Rightarrow> 6
       | InvitationRow _ \<Rightarrow> if m = ForUpdate then 5 else 0
       | MemberKey _ _ \<Rightarrow> if claim then 0 else 4
       | InvitationKey _ \<Rightarrow> 4
       | TenantRow _ \<Rightarrow> if claim \<and> 0 < snd s then 0 else if m = ForUpdate then 3 else if m = ForKeyShare then 2 else 0
       | MemberRow _ _ \<Rightarrow> if m = ForShare \<or> m = ForKeyShare then 1 else 3
       | EventRow _ \<Rightarrow> 1
       | SubdomainKey _ \<Rightarrow> 1
       | _ \<Rightarrow> 0))"

lemma conflicts_iff:
  "conflicts m m' \<longleftrightarrow> m = ForUpdate \<or> m' = ForUpdate \<or> m = ForNoKeyUpdate \<and> m' \<noteq> ForKeyShare
     \<or> m' = ForNoKeyUpdate \<and> m \<noteq> ForKeyShare"
  by (cases m; cases m') simp_all

text \<open>The administrations of the memberships of a tenant, which begin with its advisory lock.\<close>

fun tx_queued :: "transaction \<Rightarrow> bool" where
  "tx_queued (ChangeRoleTx t c u d) = True"
| "tx_queued (RevokeMemberTx t c u es) = True"
| "tx_queued (GrantRoleTx t c e u x) = True"
| "tx_queued (RevokeEventRoleTx t c e u) = True"
| "tx_queued (InviteTx t c i) = True"
| "tx_queued (AcceptTx t c i) = True"
| "tx_queued (RefusedAcceptTx t) = True"
| "tx_queued _ = False"

lemmas transaction_locks = locks_ChangeTenantRole_tx_def locks_RevokeRole_tenant_tx_def locks_GrantEventRole_tx_def
  locks_RevokeRole_event_tx_def locks_CreateTenantInvitation_tx_def locks_RevokeTenantInvitation_tx_def
  locks_AcceptTenantInvitation_tx_def locks_CreateEvent_tx_def locks_administerTenant_tx_def
  locks_ClaimTenantOwnership_tx_def locks_withCurrentPermission_def locks_keepAnotherOwner_def

lemmas lock_lists = statement_locks transaction_locks

lemma queued_advisory:
  "tx_queued x \<Longrightarrow> 0 < n \<Longrightarrow> (Advisory (h (tx_tenant x)), ForUpdate) \<in> set (held h (x, n))"
  by (cases x) (auto simp: held_def lock_lists take_Cons')

lemma one_queued:
  assumes "beside h tenant_of (x, n) (y, k)" and "tx_queued x" and "tx_queued y" and "0 < n" and "0 < k"
  shows "tx_tenant x \<noteq> tx_tenant y"
  using assms queued_advisory [of x n h] queued_advisory [of y k h] unfolding beside_def by fastforce

end
