(* ===== verification/LockProperties.thy ===== *)
theory LockProperties
  imports Locks
begin

text \<open>
  Why no transactions wait for each other in a circle: every lock that one waits for is held by another
  that is nearer to its end (\<open>lock_rank\<close>).  The administrations of one tenant queue at its advisory lock;
  the creation of events and the administration of tenants only share the membership of their caller.
\<close>

section \<open>Who holds a lock\<close>

lemma held_in: "(r, m) \<in> set (held h (y, k)) \<Longrightarrow> 0 < k"
  by (cases k) (simp_all add: held_def)

lemmas held_simps = held_def lock_lists take_Cons'
lemmas rank_simps = lock_rank_def wants_def lock_lists nth_Cons'

lemma holds_tenant: "(TenantRow t, m) \<in> set (held h (y, k)) \<Longrightarrow> lock_rank h (y, k) \<le> 1"
  by (cases y) (auto simp: held_simps rank_simps Let_def split: if_splits)

lemma holds_event: "(EventRow e, ForNoKeyUpdate) \<in> set (held h (y, k)) \<Longrightarrow> lock_rank h (y, k) = 0"
  by (cases y) (auto simp: held_simps rank_simps Let_def split: if_splits)

lemma holds_subdomain: "(SubdomainKey d, m) \<in> set (held h (y, k)) \<Longrightarrow> lock_rank h (y, k) = 0"
  by (cases y) (auto simp: held_simps rank_simps Let_def split: if_splits)

lemma holds_member_key: "(MemberKey t u, m) \<in> set (held h (y, k)) \<Longrightarrow> lock_rank h (y, k) \<le> 2"
  by (cases y) (auto simp: held_simps rank_simps Let_def split: if_splits)

lemma holds_invitation_key: "(InvitationKey i, m) \<in> set (held h (y, k)) \<Longrightarrow> lock_rank h (y, k) \<le> 2"
  by (cases y) (auto simp: held_simps rank_simps Let_def split: if_splits)

lemma holds_invitation: "(InvitationRow i, m) \<in> set (held h (y, k)) \<Longrightarrow> lock_rank h (y, k) \<le> 4"
  by (cases y) (auto simp: held_simps rank_simps Let_def split: if_splits)

lemma holds_advisory: "(Advisory a, m) \<in> set (held h (y, k)) \<Longrightarrow> lock_rank h (y, k) \<le> 5"
  by (cases y) (auto simp: held_simps rank_simps Let_def split: if_splits)


lemma holds_member_exclusive:
  "(MemberRow t u, m) \<in> set (held h (y, k)) \<Longrightarrow> m = ForNoKeyUpdate \<or> m = ForUpdate \<Longrightarrow> lock_rank h (y, k) = 0"
  by (cases y) (auto simp: held_simps rank_simps Let_def split: if_splits)

lemma holds_member:
  "(MemberRow t u, m) \<in> set (held h (y, k)) \<Longrightarrow> lock_rank h (y, k) \<le> 2 \<or> tx_queued y \<and> tx_tenant y = t"
  by (cases y) (auto simp: held_simps rank_simps Let_def split: if_splits)

text \<open>Who changes or deletes a membership, and who takes or adds an event role.\<close>

lemma wants_member_exclusive:
  "wants h (x, n) = Some (MemberRow t u, m) \<Longrightarrow> m = ForNoKeyUpdate \<or> m = ForUpdate
     \<Longrightarrow> tx_queued x \<and> tx_tenant x = t \<and> 0 < n"
  by (cases x) (auto simp: wants_def lock_lists nth_Cons' split: if_splits)

lemma wants_event_role:
  "wants h (x, n) = Some (EventRoleRow e u, m) \<Longrightarrow> tx_queued x \<and> 0 < n \<and> e \<in> set (tx_events x)"
  by (cases x) (auto simp: wants_def lock_lists nth_Cons' split: if_splits)

lemma holds_event_role:
  "(EventRoleRow e u, m) \<in> set (held h (y, k)) \<Longrightarrow> tx_queued y \<and> 0 < k \<and> e \<in> set (tx_events y)"
  by (cases y) (auto simp: held_simps split: if_splits dest: in_set_takeD)

lemma wants_event_role_key:
  "wants h (x, n) = Some (EventRoleKey e u, m) \<Longrightarrow> e \<in> set (tx_events x) \<and> 0 < n \<and> (tx_queued x \<or> e \<in> set (tx_creates x))"
  by (cases x) (auto simp: wants_def lock_lists nth_Cons' split: if_splits)

lemma holds_event_role_key:
  "(EventRoleKey e u, m) \<in> set (held h (y, k)) \<Longrightarrow> e \<in> set (tx_events y) \<and> 0 < k \<and> (tx_queued y \<or> e \<in> set (tx_creates y))"
  by (cases y) (auto simp: held_simps split: if_splits dest: in_set_takeD)

lemma wants_event_key: "wants h (x, n) = Some (EventKey e, m) \<Longrightarrow> e \<in> set (tx_creates x)"
  by (cases x) (auto simp: wants_def lock_lists nth_Cons' split: if_splits)

lemma holds_event_key: "(EventKey e, m) \<in> set (held h (y, k)) \<Longrightarrow> e \<in> set (tx_events y)"
  by (cases y) (auto simp: held_simps split: if_splits dest: in_set_takeD)

text \<open>A lock on its way from a weaker one or again to the same is not contended.\<close>

lemma wants_invitation_again:
  "wants h (x, n) = Some (InvitationRow i, m) \<Longrightarrow> m \<noteq> ForUpdate \<Longrightarrow> (InvitationRow i, ForUpdate) \<in> set (held h (x, n))"
  by (cases x) (auto simp: wants_def held_simps nth_Cons' split: if_splits)

lemma wants_tenant_again:
  "wants h (x, n) = Some (TenantRow t, m) \<Longrightarrow> m = ForNoKeyUpdate \<or> m = ForShare \<or> tx_pending x = Some True \<and> 0 < n
     \<Longrightarrow> (TenantRow t, ForUpdate) \<in> set (held h (x, n))"
  by (cases x) (auto simp: wants_def held_simps nth_Cons' split: if_splits)

lemma claim_wants_member_key:
  "wants h (x, n) = Some (MemberKey t u, m) \<Longrightarrow> tx_pending x = Some True \<Longrightarrow> tx_tenant x = t \<and> (TenantRow t, ForUpdate) \<in> set (held h (x, n))"
  by (cases x) (auto simp: wants_def held_simps nth_Cons' split: if_splits)

lemma holds_member_key_of:
  "(MemberKey t u, m) \<in> set (held h (y, k)) \<Longrightarrow> tx_tenant y = t
     \<and> (tx_pending y = Some True \<and> (TenantRow t, ForUpdate) \<in> set (held h (y, k)) \<or> tx_pending y = Some False)"
  by (cases y) (auto simp: held_simps split: if_splits dest: in_set_takeD)

lemma waits_lower:
  assumes beside: "beside h tenant_of (x, n) (y, k)" and w: "waits_for h (x, n) (y, k)"
  shows "lock_rank h (y, k) < lock_rank h (x, n)"
proof -
  from w obtain r m m' where want: "wants h (x, n) = Some (r, m)" and hold: "(r, m') \<in> set (held h (y, k))"
    and c: "conflicts m m'"
    by (auto simp: waits_for_def list_ex_iff split: option.splits prod.splits)
  have k: "0 < k" using held_in [OF hold] .
  have apart: False if "(r', m1) \<in> set (held h (x, n))" "(r', m2) \<in> set (held h (y, k))" "m1 = ForUpdate" for r' m1 m2
    using beside that conflicts.simps(1) unfolding beside_def by blast
  have tenants: "tenant_of e = tx_tenant x" if "e \<in> set (tx_events x)" for e
    using beside that by (simp add: beside_def alone_ok_def list_all_iff)
  have tenants': "tenant_of e = tx_tenant y" if "e \<in> set (tx_events y)" for e
    using beside that by (simp add: beside_def alone_ok_def list_all_iff)
  have new: "set (tx_creates x) \<inter> set (tx_events y) = {}" "set (tx_creates y) \<inter> set (tx_events x) = {}"
    using beside by (simp_all add: beside_def together_ok_def)
  note queue = one_queued [OF beside _ _ _ k]
  show ?thesis
  proof (cases r)
    case (Advisory a)
    with want holds_advisory hold show ?thesis by (fastforce simp: lock_rank_def)
  next
    case (TenantRow t)
    show ?thesis
    proof (cases "m = ForNoKeyUpdate \<or> m = ForShare \<or> tx_pending x = Some True \<and> 0 < n")
      case True
      with wants_tenant_again want TenantRow apart hold show ?thesis by blast
    next
      case False
      then have "m = ForUpdate \<or> m = ForKeyShare" by (cases m) auto
      with False want TenantRow holds_tenant [OF hold [unfolded TenantRow]] show ?thesis by (auto simp: lock_rank_def)
    qed
  next
    case (SubdomainKey d)
    with want holds_subdomain hold show ?thesis by (fastforce simp: lock_rank_def)
  next
    case (MemberRow t u)
    show ?thesis
    proof (cases "m = ForNoKeyUpdate \<or> m = ForUpdate")
      case True
      with wants_member_exclusive want MemberRow have "tx_queued x" "tx_tenant x = t" "0 < n" by blast+
      with queue holds_member [OF hold [unfolded MemberRow]] have "lock_rank h (y, k) \<le> 2" by auto
      with True want MemberRow show ?thesis by (auto simp: lock_rank_def)
    next
      case False
      then have "m' = ForNoKeyUpdate \<or> m' = ForUpdate" and "m = ForShare \<or> m = ForKeyShare" using c by (cases m; cases m'; simp)+
      with want MemberRow holds_member_exclusive hold show ?thesis by (fastforce simp: lock_rank_def)
    qed
  next
    case (MemberKey t u)
    show ?thesis
    proof (cases "tx_pending x = Some True")
      case True
      with claim_wants_member_key want MemberKey have x: "tx_tenant x = t" "(TenantRow t, ForUpdate) \<in> set (held h (x, n))" by blast+
      from holds_member_key_of hold MemberKey have "tx_tenant y = t"
        "tx_pending y = Some True \<and> (TenantRow t, ForUpdate) \<in> set (held h (y, k)) \<or> tx_pending y = Some False" by blast+
      with x True apart beside show ?thesis by (auto simp: beside_def together_ok_def)
    next
      case False
      with want MemberKey holds_member_key [OF hold [unfolded MemberKey]] show ?thesis by (simp add: lock_rank_def)
    qed
  next
    case (EventRow e)
    then have "m' = ForNoKeyUpdate" using want hold c
      by (cases x; cases y) (auto simp: wants_def held_simps nth_Cons' split: if_splits dest: in_set_takeD)
    with want EventRow holds_event hold show ?thesis by (fastforce simp: lock_rank_def)
  next
    case (EventKey e)
    with wants_event_key want holds_event_key hold new show ?thesis by blast
  next
    case (EventRoleRow e u)
    with wants_event_role want have x: "tx_queued x" "0 < n" "e \<in> set (tx_events x)" by blast+
    from EventRoleRow holds_event_role hold have "tx_queued y" "e \<in> set (tx_events y)" by blast+
    with x queue tenants tenants' show ?thesis by metis
  next
    case (EventRoleKey e u)
    with wants_event_role_key want have x: "0 < n" "e \<in> set (tx_events x)" "tx_queued x \<or> e \<in> set (tx_creates x)" by blast+
    from EventRoleKey holds_event_role_key hold have "e \<in> set (tx_events y)" "tx_queued y \<or> e \<in> set (tx_creates y)" by blast+
    with x queue tenants tenants' new show ?thesis by (metis disjoint_iff)
  next
    case (InvitationRow i)
    show ?thesis
    proof (cases "m = ForUpdate")
      case True
      with want InvitationRow holds_invitation [OF hold [unfolded InvitationRow]] show ?thesis by (simp add: lock_rank_def)
    next
      case False
      with wants_invitation_again want InvitationRow apart hold show ?thesis by blast
    qed
  next
    case (InvitationKey i)
    with want holds_invitation_key hold show ?thesis by (fastforce simp: lock_rank_def)
  qed
qed


section \<open>Reachable states of the locks\<close>

lemma conflicts_sym: "conflicts m m' \<longleftrightarrow> conflicts m' m"
  by (cases m; cases m') simp_all

lemma beside_sym: "beside h tenant_of s b \<Longrightarrow> beside h tenant_of b s"
  unfolding beside_def together_ok_def by (auto dest: conflicts_sym [THEN iffD1])

lemma sorted_wrt_mid:
  assumes "\<And>a b. P a b \<Longrightarrow> P b a"
  shows "sorted_wrt P (xs @ s # ys) \<longleftrightarrow> sorted_wrt P (xs @ ys) \<and> (\<forall>b \<in> set xs \<union> set ys. P s b)"
  using assms by (auto simp: sorted_wrt_append)

lemma held_Suc:
  "n < length (locks_of h x) \<Longrightarrow> set (held h (x, Suc n)) = insert (locks_of h x ! n) (set (held h (x, n)))"
  by (simp add: held_def take_Suc_conv_app_nth)

lemma waits_iff:
  "n < length (locks_of h x) \<Longrightarrow> waits_for h (x, n) b \<longleftrightarrow>
     (\<exists>m'. (fst (locks_of h x ! n), m') \<in> set (held h b) \<and> conflicts (snd (locks_of h x ! n)) m')"
  by (cases "locks_of h x ! n") (auto simp: waits_for_def wants_def list_ex_iff)

lemma locking_beside:
  assumes "locking h tenant_of ss"
  shows "(\<forall>s \<in> set ss. alone_ok tenant_of (fst s)) \<and> (\<forall>s \<in> set ss. snd s \<le> length (locks_of h (fst s)))
    \<and> sorted_wrt (beside h tenant_of) ss"
  using assms
proof induction
  case idle
  then show ?case by simp
next
  case (begins ss x)
  then have "\<forall>s \<in> set ss. beside h tenant_of (x, 0) s" by (simp add: beside_def held_def list_all_iff)
  with begins show ?case by simp
next
  case (takes xs x n ys)
  have b: "beside h tenant_of (x, n) s" if "s \<in> set xs \<union> set ys" for s
    using takes.IH that by (simp only: sorted_wrt_mid [of "beside h tenant_of", OF beside_sym])
  have "beside h tenant_of (x, Suc n) s" if s: "s \<in> set xs \<union> set ys" for s
  proof -
    have "\<not> waits_for h (x, n) s" using takes.hyps(3) s by (auto simp: list_all_iff)
    with b [OF s] show ?thesis
      unfolding beside_def fst_conv held_Suc [OF takes.hyps(2)] waits_iff [OF takes.hyps(2)] by (metis insert_iff fst_conv snd_conv)
  qed
  with takes.IH takes.hyps(2) show ?case
    by (simp add: sorted_wrt_mid [of "beside h tenant_of", OF beside_sym])
next
  case (ends xs s ys)
  then show ?case by (simp add: sorted_wrt_mid [of "beside h tenant_of", OF beside_sym])
qed

text \<open>The transaction of lowest rank can go on.\<close>

lemma someone_goes:
  assumes "locking h tenant_of ss" and "ss \<noteq> []"
  shows "\<exists>xs x n ys. ss = xs @ (x, n) # ys \<and> list_all (\<lambda>b. \<not> waits_for h (x, n) b) (xs @ ys)"
proof -
  obtain s where s: "s \<in> set ss" "\<forall>b \<in> set ss. lock_rank h s \<le> lock_rank h b"
    using assms(2) ex_min_if_finite [of "lock_rank h ` set ss"] by (fastforce simp: not_less)
  then obtain xs ys where ss: "ss = xs @ s # ys" by (meson split_list)
  have "\<not> waits_for h s b" if "b \<in> set xs \<union> set ys" for b
  proof
    assume "waits_for h s b"
    moreover have "beside h tenant_of s b"
      using locking_beside [OF assms(1)] that unfolding ss by (simp only: sorted_wrt_mid [of "beside h tenant_of", OF beside_sym])
    ultimately have "lock_rank h b < lock_rank h s" by (cases s; cases b) (simp add: waits_lower)
    moreover have "lock_rank h s \<le> lock_rank h b" using s(2) that ss by auto
    ultimately show False by simp
  qed
  then show ?thesis using ss by (cases s) (auto simp: list_all_iff intro!: exI [of _ xs])
qed

text \<open>Runs on which everybody takes all its locks and commits.\<close>

inductive run_out :: "(string \<Rightarrow> int) \<Rightarrow> lock_state list \<Rightarrow> bool" for h :: "string \<Rightarrow> int" where
  nobody: "run_out h []"
| goes_on: "n < length (locks_of h x) \<Longrightarrow> list_all (\<lambda>b. \<not> waits_for h (x, n) b) (xs @ ys)
    \<Longrightarrow> run_out h (xs @ (x, Suc n) # ys) \<Longrightarrow> run_out h (xs @ (x, n) # ys)"
| commits: "run_out h (xs @ ys) \<Longrightarrow> run_out h (xs @ (x, length (locks_of h x)) # ys)"

definition left_over :: "(string \<Rightarrow> int) \<Rightarrow> lock_state list \<Rightarrow> nat" where
  "left_over h ss = sum_list (map (\<lambda>s. Suc (length (locks_of h (fst s)) - snd s)) ss)"

lemma locking_runs_out: "locking h tenant_of ss \<Longrightarrow> run_out h ss"
proof (induction "left_over h ss" arbitrary: ss rule: less_induct)
  case less
  show ?case
  proof (cases "ss = []")
    case True
    then show ?thesis by (simp add: run_out.nobody)
  next
    case False
    with someone_goes [OF less.prems] obtain xs x n ys
      where ss: "ss = xs @ (x, n) # ys" and free: "list_all (\<lambda>b. \<not> waits_for h (x, n) b) (xs @ ys)" by blast
    have "n \<le> length (locks_of h x)" using locking_beside [OF less.prems] by (simp add: ss)
    then consider "n = length (locks_of h x)" | "n < length (locks_of h x)" by linarith
    then show ?thesis
    proof cases
      case 1
      have "locking h tenant_of (xs @ ys)" using less.prems unfolding ss by (rule locking.ends)
      with less.hyps [of "xs @ ys"] have "run_out h (xs @ ys)" by (simp add: left_over_def ss)
      with 1 show ?thesis unfolding ss by (simp add: run_out.commits)
    next
      case 2
      have "locking h tenant_of (xs @ (x, Suc n) # ys)" using less.prems 2 free unfolding ss by (rule locking.takes)
      with less.hyps [of "xs @ (x, Suc n) # ys"] 2 have "run_out h (xs @ (x, Suc n) # ys)"
        by (simp add: left_over_def ss)
      with 2 free show ?thesis unfolding ss by (rule run_out.goes_on)
    qed
  qed
qed

text \<open>
  C17: However the transactions of the use cases run side by side, without the two writes of a
  registration, they never wait for each other in a circle: as long as any is left, one of them can
  take its next lock or commit, and from every state there is a way on which all of them take all their
  locks and commit.
\<close>

theorem locks_never_deadlock:
  assumes "locking h tenant_of ss"
  shows "(ss = [] \<or> (\<exists>xs x n ys. ss = xs @ (x, n) # ys
      \<and> (n = length (locks_of h x) \<or> n < length (locks_of h x) \<and> list_all (\<lambda>b. \<not> waits_for h (x, n) b) (xs @ ys))))
    \<and> run_out h ss"
proof (cases "ss = []")
  case False
  with someone_goes [OF assms] obtain xs x n ys
    where ss: "ss = xs @ (x, n) # ys" "list_all (\<lambda>b. \<not> waits_for h (x, n) b) (xs @ ys)" by blast
  then have "n \<le> length (locks_of h x)" using locking_beside [OF assms] by simp
  with ss have "n = length (locks_of h x) \<or> n < length (locks_of h x) \<and> list_all (\<lambda>b. \<not> waits_for h (x, n) b) (xs @ ys)"
    by linarith
  with ss(1) show ?thesis using locking_runs_out [OF assms] by blast
qed (use locking_runs_out [OF assms] in simp)

text \<open>Two owners who demote each other: the second waits for the first to finish.\<close>

theorem locks_never_deadlock_witness:
  "waits_for (\<lambda>_. 0) (ChangeRoleTx ''t1'' ''bob'' ''alice'' True, 0) (ChangeRoleTx ''t1'' ''alice'' ''bob'' True, 1)
   \<and> run_out (\<lambda>_. 0) [(ChangeRoleTx ''t1'' ''bob'' ''alice'' True, 0), (ChangeRoleTx ''t1'' ''alice'' ''bob'' True, 1)]"
proof -
  let ?a = "ChangeRoleTx ''t1'' ''alice'' ''bob'' True" and ?b = "ChangeRoleTx ''t1'' ''bob'' ''alice'' True"
  have "locking (\<lambda>_. 0) (\<lambda>_. ''t1'') [(?a, 0)]" by (rule locking.begins [OF locking.idle]) (simp_all add: alone_ok_def)
  then have "locking (\<lambda>_. 0) (\<lambda>_. ''t1'') ([] @ (?a, Suc 0) # [])"
    by (intro locking.takes) (simp_all add: lock_lists)
  then have "locking (\<lambda>_. 0) (\<lambda>_. ''t1'') ((?b, 0) # [(?a, 1)])"
    by (intro locking.begins) (simp_all add: alone_ok_def together_ok_def)
  from locks_never_deadlock [OF this] show ?thesis
    by (simp add: waits_for_def wants_def held_def lock_lists)
qed

text \<open>
  Without the advisory lock the two would block each other: each holds a share lock on its own membership
  and wants to change the other's.
\<close>

lemma crossing_demotions:
  assumes "a \<noteq> b"
  shows "let alice = tl (locks_of h (ChangeRoleTx t a b True)); bob = tl (locks_of h (ChangeRoleTx t b a True)) in
    (\<exists>m \<in> set (take 2 bob). fst m = fst (alice ! 2) \<and> conflicts (snd (alice ! 2)) (snd m))
    \<and> (\<exists>m \<in> set (take 2 alice). fst m = fst (bob ! 2) \<and> conflicts (snd (bob ! 2)) (snd m))
    \<and> (\<forall>m \<in> set (take 2 alice). \<forall>m' \<in> set (take 2 bob). \<not> conflicts (snd m) (snd m'))"
  by (simp add: lock_lists)

end
