(* ===== verification/Spec2Isabelle.thy ===== *)
theory Spec2Isabelle
  imports TenantProperties DomainProperties ListingProperties Access LoggingProperties Process Concurrency ClientProperties MigrationProperties LockProperties
begin

text \<open>
  The tenant management service of this repository: tenants with their ownership and their public
  subdomains, the events of a tenant and their lifecycle, memberships, event roles and invitations, over
  PostgreSQL, served over Connect and, for one listing, over plain HTTP.  The development models the
  program from the bytes of its strings up to the process, and this theory holds the properties that
  span its components.  Constants carry the names of the code; a method has its receiver in front, as
  \<open>TenantService_CreateEvent\<close> for \<open>(*TenantService).CreateEvent\<close>.

  \<^bold>\<open>How the parts interact.\<close>  \<open>run\<close> of cmd/server/main.go wires the repositories, the authorizer, the two
  services and the three mounts into one handler.  A request arrives at a path of the mux, passes the
  tracing interceptor and the interceptor that its service's policy table configures, and reaches a
  generated adapter, which calls the transport; the transport converts the message, calls the use case
  and turns its error into a code and a fixed message.  A use case checks the tenant that the context
  is scoped to, reads through the repositories and writes inside \<open>RunInTransaction\<close>, where the
  administrative ones read the caller's current permission again.  The tenant side reaches the relation
  side through two ports only.

  \<^bold>\<open>State and effects.\<close>  A call of the code is a function of an environment and a world (theory Store).
  The world holds the committed database, the database as the open transaction sees it, the number of
  interactions so far and the log.  The environment answers what the service does not control: the two
  clocks, the UUID generator, the random bytes and, for every interaction with the database, whether it
  fails, with which error, and whether the server had carried it out.  A theorem about all environments
  covers every pattern of failures.  A fallible call returns a sum, with the error on the left; errors
  are the trees that \<open>%w\<close> and \<open>errors.Join\<close> build, looked at through \<open>errors.Is\<close> and \<open>errors.As\<close> only.

  \<^bold>\<open>The theories\<close>, in the order of the code's layers:

  \<^item> Prelude, GoStrings, GoErrors, Enums, GoSlog: rows and sums; UTF-8, trimming, hex and base64; error
    trees and the sentinels of each package; String methods, parsers and wire conversions of enums (the
    locales \<open>stringer_enum\<close> and \<open>wire_enum\<close>, interpreted by every enum); times, levels, attributes and
    records of log/slog.
  \<^item> TenantContext (internal/tenantctx), OneTimeToken (internal/onetimetoken and internal/identifier, with
    SHA-256 on 32-bit words), TenantDomain and RelationDomain (internal/tenant/domain,
    internal/relation/domain; the subdomain patterns are regular expressions over runes).
  \<^item> Store, Schema, Hoare: the tables and the constraints of migrations/ with their cascades,
    internal/infra/db/transaction.go, and a program logic (\<open>runs\<close>, with the rules \<open>tri\<close>) in which every
    repository and use case has one lemma about its success and its failures.
  \<^item> TenantDb, MembershipDb, InvitationDb: the PostgreSQL repositories, statement by statement.  Integrity
    states what the service keeps true of its database and shows that every statement preserves it;
    Listings says what the repositories read from such a database.
  \<^item> Authorizer (with the locale \<open>permission_checker\<close>), TenantService, Onboarding (with the locale
    \<open>tenant_ports\<close>, the contract of the two ports, interpreted on the repositories of the wiring),
    TenantUseCases, TenantOperations; RelationService, RelationOperations, InvitationOperations: the use
    cases of internal/tenant/application and internal/relation/application, and what each does.
  \<^item> History: what no use case ever undoes, as relations between databases that every use case is in.
  \<^item> ConnectErrors, TenantConnect, RelationConnect, HttpApi: the transports with their error tables (the
    locale \<open>client_errors\<close>) and wire conversions.  System: requests as values, \<open>serve\<close>, the reachable
    worlds.  Procedures, Server, Process: gen/, internal/infra/connect/server.go, internal/telemetry,
    internal/infra/db/open.go and cmd/server/main.go.  Logging: internal/logging/handler.go over the JSON
    handler of log/slog.
  \<^item> Sample: the concrete world and the reachable worlds at which the witnesses apply the properties.
    TenantProperties, DomainProperties, RelationProperties, InvitationProperties, ListingProperties,
    LoggingProperties, Access, Silent, Answers: the properties of single components, what is logged and who
    reaches which operation.
  \<^item> Migrations, MigrationProperties: every script of migrations/, up and down, on databases that hold rows.
    Clients, ClientProperties: the generated clients, specifications and stubs of gen/, and the clients
    against the handler of the process.
  \<^item> Locks, LockProperties: the locks of every statement and their order in every transaction
    (\<open>locks_of\<close>, with one definition per transaction of the use cases), and transactions that take them side by side (\<open>locking\<close>).
  \<^item> Interleaving, Concurrency: a request split into what it decides before its write and the one write,
    each a step on the shared database (\<open>first_part\<close>, \<open>request_step\<close>, \<open>interleaved\<close>), and what still holds when
    the steps of several requests alternate.

  \<^bold>\<open>What is shown.\<close>  In every reachable world the database satisfies the schema and the integrity of the
  service, interleaved requests included (C1, C2, C6); a request changes nothing of a tenant that its
  scoped context does not name (C3); administrative writes need a current owner in the database and, in front of
  the service, a token of the policy (C4, C5, C18), every procedure is behind the guard of its policy
  table (C19), and a generated client meets the service in the same way (C20); one-time tokens work
  once (C7, C16) and a claim succeeds exactly when it is acceptable (C8); a use case that succeeds
  required, changed and answered what its effect theorem says (C9 to C12, C22 to C25, C37, C39); no
  transactions of the use cases wait for each other in a circle (C17); a rejection does not tell its
  reason (C26); the listings and the permission check implement their specifications (C27 to C30); the
  log keeps its own fields and loses no attribute (C31, C32); a run of the process releases what it
  acquired (C33); the subdomain patterns accept what the documentation says (C34); an error that is
  hidden from the caller is logged (C35); a transaction takes effect as a whole or not at all (C36);
  a migration is undone by its counterpart (C38).  As long as requests are served one after
  another, archived tenants and events have the histories that the documents promise (C13, C14);
  of interleaved requests this holds of owned tenants, the identity of events and closed invitations
  only (C15).  Two results are negative: without a transaction two transitions of an event can break its
  lifecycle (C21; theory Concurrency shows likewise that a write which looked at the archived flag before
  its transaction can still change an archived tenant), and the migrations reject a first database
  that has tenants (C40).

  \<^bold>\<open>Bounds.\<close>  There is no fuel: every function is total, by structural recursion or by a measure (the text
  decoder consumes at least one byte, a base64 group three, the log attributes decrease in weight).  Enums
  are 8-bit words, the wire enums 32-bit words, bytes 8-bit words; times and durations are integers of
  nanoseconds, and PostgreSQL truncates a time to microseconds (\<open>pg_time\<close>).  Go's \<open>int\<close> and
  \<open>time.Duration\<close> are unbounded integers here: the code adds only constants of hours or days to a clock.

  \<^bold>\<open>What is assumed.\<close>  The connection fails with errors of the driver that are none of the service's own
  sentinels; a healthy environment is one without failures whose texts the server's encoding accepts.
  Ordering by a text column compares bytes (the C collation).  Which locks a
  statement takes and which of them conflict is what PostgreSQL's manual says.  \<open>CURRENT_TIMESTAMP\<close> may differ between the
  statements of a transaction, which allows more than PostgreSQL does.  The interceptor library is a
  parameter with the contract of docs/internal_jwt.md (\<open>interceptor_contract\<close>), tracing one that only
  observes; the patterns of the mux are distinct, so matching is a lookup.

  \<^bold>\<open>Not modelled.\<close>  The texts of JSON bodies and log entries (their values are), the attributes of the
  service's own log entries besides the error, a failure to send a response (it is logged and
  changes nothing), the protobuf messages under gen/ and the packages under clients/ (generated data types),
  indexes and the creation times that nothing reads, what the statements of a transaction see of others
  while it runs (when requests interleave, a transaction and a single statement outside one are each
  one step, and theory Locks has the waiting only), the locks of the two writes of a registration (the
  sweep of expired tenants takes them in an order of PostgreSQL's own), the tool that runs the migrations,
  timeouts and buffer sizes handed to libraries, and the order
  in which the listener and a signal race at the start of a process.
\<close>

section \<open>Properties of the whole service\<close>

text \<open>
  C1: Whatever requests the service has served, whoever sent them, whichever database interactions
  failed and whatever the clocks and random sources answered, no transaction is left open and the
  database satisfies every constraint of the schema and the integrity of the service: stored texts
  parse, an owned tenant has an owner, a tenant that waits for its owner has no rows, an event
  carries its tenant's public ID.
\<close>

theorem reachable_integrity:
  assumes "reachable w"
  shows "w_tx w = None \<and> integrity (w_db w)"
  using reachable_sound [OF assms] by simp

theorem reachable_integrity_witness:
  "integrity (w_db (snd (serve anonymous_ctx (StartTenantRegistration ''Acme'' ''free'') sample_env empty_world)))"
  using reachable_integrity [OF registered_reachable [unfolded registered_world_def]] by simp

text \<open>
  C2: In every reachable world a tenant either has an owner among its members, or is pending and has
  neither members, events nor invitations.
\<close>

theorem reachable_tenant_owner:
  assumes "reachable w" and "t \<in> set (tenants (w_db w))"
  shows "if tr_ownership_state t = ''owned''
    then \<exists>m \<in> set (memberships (w_db w)). mr_tenant_id m = tr_id t \<and> mr_tenant_role m = ''owner''
    else tr_ownership_state t = ''pending_owner''
      \<and> (\<forall>m \<in> set (memberships (w_db w)). mr_tenant_id m \<noteq> tr_id t)
      \<and> (\<forall>e \<in> set (events (w_db w)). evr_tenant_id e \<noteq> tr_id t)
      \<and> (\<forall>i \<in> set (invitations (w_db w)). ir_tenant_id i \<noteq> tr_id t)"
proof -
  have i: "integrity (w_db w)" using reachable_sound [OF assms(1)] by simp
  note D = integrityD(2,3) [OF i [unfolded integrity_def] assms(2)]
  from schema_tenant_state [OF integrity_schema(1) [OF i] assms(2)] D show ?thesis
    by (auto simp: is_owned_def has_owner_def no_rows_of_def list_ex_iff list_all_iff)
qed

theorem reachable_tenant_owner_witness:
  "\<exists>m \<in> set (memberships (w_db claimed_world)). mr_tenant_id m = ''u1'' \<and> mr_tenant_role m = ''owner''"
  using reachable_tenant_owner [OF claimed_reachable, of claimed_row]
  by (simp add: claimed_db claimed_row_def registered_row_def)

text \<open>
  In every reachable world an event role names an event and a member of that event's tenant.
\<close>

theorem reachable_event_roles:
  assumes "reachable w" and "r \<in> set (event_roles (w_db w))"
  shows "\<exists>e \<in> set (events (w_db w)). \<exists>m \<in> set (memberships (w_db w)).
    evr_id e = rr_event_id r \<and> mr_user_id m = rr_user_id r
    \<and> mr_tenant_id m = evr_tenant_id e \<and> (rr_role r = ''owner'' \<or> rr_role r = ''staff'')"
proof -
  have "schema_ok (w_db w)" using reachable_sound [OF assms(1)] integrity_schema(1) by blast
  then have role: "rr_role r = ''owner'' \<or> rr_role r = ''staff''"
    and "(rr_event_id r, rr_tenant_id r) \<in> (\<lambda>e. (evr_id e, evr_tenant_id e)) ` set (events (w_db w))"
    and "(rr_tenant_id r, rr_user_id r) \<in> (\<lambda>m. (mr_tenant_id m, mr_user_id m)) ` set (memberships (w_db w))"
    using assms(2) by (simp_all add: schema_ok_def event_roles_ok_iff)
  then obtain e m where "e \<in> set (events (w_db w))" "m \<in> set (memberships (w_db w))"
    "evr_id e = rr_event_id r" "evr_tenant_id e = rr_tenant_id r"
    "mr_tenant_id m = rr_tenant_id r" "mr_user_id m = rr_user_id r" by auto
  with role show ?thesis by metis
qed

theorem reachable_event_roles_witness:
  "\<exists>e \<in> set (events (w_db event_world)). \<exists>m \<in> set (memberships (w_db event_world)).
    evr_id e = ''u1'' \<and> mr_user_id m = ''alice'' \<and> mr_tenant_id m = evr_tenant_id e"
  using reachable_event_roles [OF event_reachable, of "\<lparr>rr_event_id = ''u1'', rr_tenant_id = ''u1'',
      rr_user_id = ''alice'', rr_role = ''owner''\<rparr>"]
  by (simp add: event_db)

section \<open>History\<close>

text \<open>
  A tenant that has an owner is there for good: after any further requests it is still owned, under
  the same identifiers, name and subdomain, and an archived one is unchanged.
\<close>

theorem owned_tenant_lasts:
  assumes "reachable w" and "later w w'" and "t \<in> set (tenants (w_db w))" and "tr_ownership_state t = ''owned''"
  shows "\<exists>t' \<in> set (tenants (w_db w')). tr_id t' = tr_id t \<and> tr_public_id t' = tr_public_id t \<and> tr_name t' = tr_name t
    \<and> tr_ownership_state t' = ''owned'' \<and> tr_subdomain t' = tr_subdomain t \<and> (tr_archived t \<longrightarrow> t' = t)"
proof -
  from later_lasts [OF assms(2,1)] assms(3,4) obtain t' where "t' \<in> set (tenants (w_db w'))" "tenant_lasts t t'"
    unfolding lasts_def is_owned_def by blast
  then show ?thesis by (auto simp: tenant_lasts_def is_owned_def)
qed

theorem owned_tenant_lasts_witness:
  "\<exists>t' \<in> set (tenants (w_db event_world)). tr_id t' = ''u1'' \<and> tr_subdomain t' = Some ''fresh''"
proof -
  have "later claimed_world event_world"
    unfolding event_world_def by (rule later.request_later [OF later.now]) simp
  from owned_tenant_lasts [OF claimed_reachable this, of claimed_row] show ?thesis
    by (auto simp: claimed_db claimed_row_def registered_row_def)
qed

text \<open>
  C13: As long as requests are served one after another: once a tenant is archived, its row and every
  row that belongs to it, members, events, event roles and invitations alike, stay as they are whatever
  is requested.  (Of interleaved requests this does not hold: a write that looked at the tenant before
  it was archived can still change it, \<open>archived_tenant_race\<close> in theory Concurrency.)
\<close>

theorem archived_tenant_frozen:
  assumes "reachable w" and "later w w'" and "t \<in> set (tenants (w_db w))"
    and "tr_ownership_state t = ''owned''" and "tr_archived t"
  shows "t \<in> set (tenants (w_db w'))
    \<and> filter (\<lambda>m. mr_tenant_id m = tr_id t) (memberships (w_db w')) = filter (\<lambda>m. mr_tenant_id m = tr_id t) (memberships (w_db w))
    \<and> filter (\<lambda>e. evr_tenant_id e = tr_id t) (events (w_db w')) = filter (\<lambda>e. evr_tenant_id e = tr_id t) (events (w_db w))
    \<and> filter (\<lambda>r. rr_tenant_id r = tr_id t) (event_roles (w_db w')) = filter (\<lambda>r. rr_tenant_id r = tr_id t) (event_roles (w_db w))
    \<and> filter (\<lambda>i. ir_tenant_id i = tr_id t) (invitations (w_db w')) = filter (\<lambda>i. ir_tenant_id i = tr_id t) (invitations (w_db w))"
proof -
  from later_lasts [OF assms(2,1)] assms(3-5) obtain t' where "t' \<in> set (tenants (w_db w'))" "tenant_lasts t t'"
    "frozen (tr_id t) (w_db w) (w_db w')"
    unfolding lasts_def is_owned_def by blast
  with assms(5) show ?thesis by (simp add: tenant_lasts_def frozen_def)
qed

theorem archived_tenant_frozen_witness:
  "claimed_row\<lparr>tr_archived := True\<rparr> \<in> set (tenants (w_db
     (snd (serve founder_ctx (ChangeTenantContract ''0707070707070707'' ''paid'') sample_env archived_world))))"
proof -
  have "later archived_world
      (snd (serve founder_ctx (ChangeTenantContract ''0707070707070707'' ''paid'') sample_env archived_world))"
    by (rule later.request_later [OF later.now]) simp
  from archived_tenant_frozen [OF archived_reachable this, of "claimed_row\<lparr>tr_archived := True\<rparr>"] show ?thesis
    by (simp add: archived_tenants claimed_row_def)
qed

text \<open>
  C14: As long as requests are served one after another, an event keeps its identifiers and its tenant
  for good and moves along the edges of the lifecycle only; once it has left the draft status it is
  never a draft again.  (Of interleaved requests only the identity remains, C15; two interleaved
  transitions can leave the lifecycle, C21.)
\<close>

theorem event_history:
  assumes "reachable w" and "later w w'" and "e \<in> set (events (w_db w))"
  shows "\<exists>e' \<in> set (events (w_db w')). evr_id e' = evr_id e \<and> evr_public_id e' = evr_public_id e
    \<and> evr_tenant_id e' = evr_tenant_id e \<and> evr_tenant_public_id e' = evr_tenant_public_id e
    \<and> event_step\<^sup>*\<^sup>* (status_of (evr_status e)) (status_of (evr_status e'))
    \<and> (evr_status e \<noteq> ''draft'' \<longrightarrow> evr_status e' \<noteq> ''draft'')"
proof -
  from later_lasts [OF assms(2,1)] assms(3) obtain e' where e': "e' \<in> set (events (w_db w'))" "event_lasts e e'"
    unfolding lasts_def by blast
  have "integrity (w_db w)" "integrity (w_db w')"
    using reachable_sound later_reachable [OF assms(2,1)] assms(1) by blast+
  then have parses: "is_Inr (ParseEventStatus (evr_status e))" "is_Inr (ParseEventStatus (evr_status e'))"
    using integrityD(4) e'(1) assms(3) unfolding integrity_def event_row_ok_def by blast+
  have "status_of s = EventStatusDraft \<longleftrightarrow> s = ''draft''" if "is_Inr (ParseEventStatus s)" for s
    using String_status_of [OF that] status_of_String [of EventStatusDraft] by (auto simp: event_status_defs)
  with parses event_step_never_draft [of "status_of (evr_status e)" "status_of (evr_status e')"] e' show ?thesis
    by (intro bexI [OF _ e'(1)]) (auto simp: event_lasts_def)
qed

theorem event_history_witness:
  "\<exists>e' \<in> set (events (w_db (snd (serve founder_ctx (TransitionEventStatus ''0707070707070707'' 2) sample_env event_world)))).
     evr_id e' = ''u1'' \<and> evr_tenant_id e' = ''u1''"
proof -
  have "later event_world (snd (serve founder_ctx (TransitionEventStatus ''0707070707070707'' 2) sample_env event_world))"
    by (rule later.request_later [OF later.now]) simp
  from event_history [OF event_reachable this, of "\<lparr>evr_id = ''u1'', evr_public_id = ''0707070707070707'',
      evr_tenant_id = ''u1'', evr_tenant_public_id = ''0707070707070707'', evr_name = ''Expo'', evr_status = ''draft''\<rparr>"]
  show ?thesis by (simp add: event_world_rows) blast
qed

text \<open>
  An invitation stays in the database with its token hash, its tenant and its expiry, and once it is
  accepted or revoked it never changes again.
\<close>

theorem invitation_history:
  assumes "reachable w" and "later w w'" and "i \<in> set (invitations (w_db w))"
  shows "\<exists>i' \<in> set (invitations (w_db w')). ir_id i' = ir_id i \<and> ir_tenant_id i' = ir_tenant_id i
    \<and> ir_token_hash i' = ir_token_hash i \<and> ir_expires_at i' = ir_expires_at i
    \<and> (ir_accepted_at i \<noteq> None \<or> ir_revoked_at i \<noteq> None \<longrightarrow> i' = i)"
proof -
  from later_lasts [OF assms(2,1)] assms(3) obtain i' where "i' \<in> set (invitations (w_db w'))" "invitation_lasts i i'"
    unfolding lasts_def by blast
  then show ?thesis by (auto simp: invitation_lasts_def)
qed

theorem invitation_history_witness:
  "\<exists>i' \<in> set (invitations (w_db (snd (serve guest_ctx (AcceptTenantInvitation ''0707070707070707'' sample_token)
     sample_env invited_world)))). ir_id i' = ''u1'' \<and> ir_token_hash i' = HashOf sample_token"
proof -
  have "later invited_world (snd (serve guest_ctx (AcceptTenantInvitation ''0707070707070707'' sample_token)
      sample_env invited_world))" by (rule later.request_later [OF later.now]) simp
  from invitation_history [OF invited_reachable this, of invited_row] show ?thesis
    by (simp add: invited_db) (auto simp: invited_row_def)
qed

section \<open>Who may change what\<close>

text \<open>
  C3: A request changes nothing of a tenant its context is not scoped to: with a token or a binding for
  one tenant, the row of every other owned tenant and all rows that belong to it are the same after
  the request, whatever it is and whatever fails.
\<close>

theorem tenant_isolation:
  assumes "integrity (w_db w)" and "w_tx w = None" and "\<not> ctx_tx c"
    and "serve c req E w = (rep, w')" and "TenantPublicIDFromContext c = Some pid"
    and "t \<in> set (tenants (w_db w))" and "tr_ownership_state t = ''owned''" and "tr_public_id t \<noteq> pid"
  shows "t \<in> set (tenants (w_db w'))
    \<and> filter (\<lambda>m. mr_tenant_id m = tr_id t) (memberships (w_db w')) = filter (\<lambda>m. mr_tenant_id m = tr_id t) (memberships (w_db w))
    \<and> filter (\<lambda>e. evr_tenant_id e = tr_id t) (events (w_db w')) = filter (\<lambda>e. evr_tenant_id e = tr_id t) (events (w_db w))
    \<and> filter (\<lambda>r. rr_tenant_id r = tr_id t) (event_roles (w_db w')) = filter (\<lambda>r. rr_tenant_id r = tr_id t) (event_roles (w_db w))
    \<and> filter (\<lambda>i. ir_tenant_id i = tr_id t) (invitations (w_db w')) = filter (\<lambda>i. ir_tenant_id i = tr_id t) (invitations (w_db w))"
proof -
  have "within c (w_db w) (w_db w')"
    using serve_sound [OF assms(1-3), of req E] assms(4) by (simp add: sound_step_def evolves_def)
  moreover have "VerifyOwnership c (tr_public_id t) \<noteq> None" using assms(5,8) by (simp add: VerifyOwnership_None_iff)
  ultimately show ?thesis using assms(6,7) by (auto simp: within_def is_owned_def frozen_def)
qed

theorem tenant_isolation_witness:
  "sample_archived \<in> set (tenants (w_db (snd (serve (sample_ctx ''alice'') (ArchiveTenant ''00000000000000aa'')
     sample_env sample_world))))"
proof -
  obtain rep w' where run: "serve (sample_ctx ''alice'') (ArchiveTenant ''00000000000000aa'') sample_env sample_world = (rep, w')"
    by (cases "serve (sample_ctx ''alice'') (ArchiveTenant ''00000000000000aa'') sample_env sample_world")
  have "sample_archived \<in> set (tenants (w_db sample_world))" by (simp add: sample_db_def)
  from tenant_isolation [OF sample_sound(1) _ sample_sound(2) run sample_subject(3) this]
  have "sample_archived \<in> set (tenants (w_db w'))" by (simp add: sample_archived_def)
  then show ?thesis unfolding run snd_conv .
qed

text \<open>
  C5: Whatever scopes a token carries, each of the six administrative requests changes the database only
  for a caller who is an owner, by the memberships of that very database, of the tenant the context is
  scoped to, and that tenant is owned and not archived.
\<close>

theorem administrative_writes_need_owner:
  assumes i: "integrity (w_db w)" and c: "\<not> ctx_tx c" and six: "rechecked req"
    and run: "serve c req E w = (rep, w')" and changed: "w_db w' \<noteq> w_db w"
  shows "\<exists>row. own_open_tenant (w_db w) c (tr_public_id row) row \<and> caller_is_owner (w_db w) c (tr_id row)"
  by (rule administrative_owner [OF assms])

theorem administrative_writes_need_owner_witness:
  "\<exists>row. own_open_tenant (w_db event_world) founder_ctx (tr_public_id row) row
    \<and> caller_is_owner (w_db event_world) founder_ctx (tr_id row)"
proof -
  obtain rep w' where run: "serve founder_ctx (ArchiveTenant ''0707070707070707'') sample_env event_world = (rep, w')"
    by (cases "serve founder_ctx (ArchiveTenant ''0707070707070707'') sample_env event_world")
  then have "w' = archived_world" unfolding archived_world_def by (simp only: snd_conv)
  then have "tenants (w_db w') \<noteq> tenants (w_db event_world)"
    by (simp add: archived_tenants event_world_rows claimed_row_def registered_row_def)
  then have "w_db w' \<noteq> w_db event_world" by metis
  moreover have "integrity (w_db event_world)" using reachable_sound [OF event_reachable] by simp
  ultimately show ?thesis
    using administrative_writes_need_owner [OF _ _ _ run] by simp
qed

section \<open>In front of the services\<close>

text \<open>
  C19: Every procedure that is registered has a policy and every policy a procedure, and the paths are
  distinct.  No request reaches a use case past the policies: whatever path is called, with whatever
  token and message, the handler of the process answers the health check, the HTTP listing (the one
  read without a policy), a procedure of one of the two tables behind the guard made of that table, or that
  there is nothing; behind the guard a request is served in a context with the claims that the guard
  gives, and only by the method of its own path.  A procedure for tenant tokens requires one scope,
  one that an owner can be issued and, unless it is \<open>tenant.write\<close>, also staff.
\<close>

theorem every_procedure_has_a_policy:
  assumes mux: "NewHandlerWithVerifier interceptor_New (Inr tracing) wired_mounts = Inr mux" and tr: "transparent tracing"
  shows "map fst TenantServicePolicies = map fst RegisterTenantServiceHandler
   \<and> map fst RelationAdminServicePolicies = map fst RegisterRelationAdminServiceHandler
   \<and> distinct (ListMembershipsPattern # map fst RegisterTenantServiceHandler @ map fst RegisterRelationAdminServiceHandler)
   \<and> (\<exists>v1 v2. interceptor_New TenantServicePolicies = Inr v1 \<and> interceptor_New RelationAdminServicePolicies = Inr v2
      \<and> (\<forall>p tok received E w. handle mux write_err p tok received E w =
           guarded_handler v1 v2 write_err p tok received E w))
   \<and> (\<forall>req. policy_of req = None \<longleftrightarrow> path_of req = ListMembershipsPattern)
   \<and> (\<forall>req pol. policy_of req = Some pol \<longrightarrow> ''tenant_access'' \<in> set (pol_TokenUses pol) \<longrightarrow>
        (\<exists>scope. pol_RequiredScopes pol = [scope] \<and> pol_Level pol = LevelAuthenticated \<and> Grants RoleOwner scope
          \<and> (Grants RoleStaff scope \<longleftrightarrow> scope \<noteq> ''tenant.write'')))"
proof -
  obtain v1 v2 where v: "interceptor_New TenantServicePolicies = Inr v1" "interceptor_New RelationAdminServicePolicies = Inr v2"
    and answers: "\<And>p tok received E w. handle mux write_err p tok received E w =
       guarded_handler v1 v2 write_err p tok received E w"
    using handler_answers [OF mux tr, of write_err] by metis
  show ?thesis
    by (intro conjI registered_policies distinct_procedures exI [of _ v1] exI [of _ v2] v allI answers impI policy_scope
        unguarded_path)
qed

text \<open>
  C4: With the interceptors as documented, an administrative request changes the database only when it
  comes with a verified tenant token that has the scope \<open>tenant.write\<close>, and the subject of that token is,
  in the database as it is at that moment, an owner of the tenant the token names.
\<close>

theorem administrative_defence:
  assumes "interceptor_contract verify interceptor_New" and "transparent tracing"
    and "NewHandlerWithVerifier interceptor_New (Inr tracing) wired_mounts = Inr mux"
    and i: "integrity (w_db w)" and six: "rechecked req"
    and "handle mux write_err (path_of req) tok (Inr req) E w = (resp, w')" and changed: "w_db w' \<noteq> w_db w"
  shows "\<exists>vt row u. Option.bind tok verify = Some vt \<and> vt_Use vt = ''tenant_access'' \<and> ''tenant.write'' \<in> set (vt_Scopes vt)
    \<and> u = TrimSpace (cl_Subject (vt_Claims vt)) \<and> row \<in> set (tenants (w_db w)) \<and> tr_ownership_state row = ''owned''
    \<and> \<not> tr_archived row \<and> tr_public_id row = TrimSpace (cl_TenantPublicID (vt_Claims vt))
    \<and> current_role (w_db w) (tr_id row) u = Some RoleOwner"
proof -
  from handled_request [OF assms(1-3) assms(6)] changed
  obtain c rep where c: "serve c req E w = (rep, w')" "\<not> ctx_tx c" "ctx_binding c = None"
    "case policy_of req of None \<Rightarrow> ctx_claims c = None | Some pol \<Rightarrow> admitted pol (Option.bind tok verify) (ctx_claims c)"
    by (auto simp: reportAuthRejection_def)
  from c(4) obtain vt where vt: "Option.bind tok verify = Some vt" "ctx_claims c = Some (vt_Claims vt)"
    "vt_Use vt = ''tenant_access''" "''tenant.write'' \<in> set (vt_Scopes vt)"
    by (auto simp: policy_rechecked [OF six] admitted_def split: option.splits)
  from administrative_owner [OF i c(2) six c(1) changed] obtain row
    where row: "own_open_tenant (w_db w) c (tr_public_id row) row" "caller_is_owner (w_db w) c (tr_id row)" by blast
  from row vt show ?thesis
    by (auto simp: own_open_tenant_def caller_is_owner_def SubjectFromContext_def TenantPublicIDFromContext_def bound_tenant_def
        c(3) Let_def split: if_splits option.splits)
qed

theorem every_procedure_has_a_policy_witness:
  "\<exists>mux. NewHandlerWithVerifier gatekeeper (Inr silent_tracing) wired_mounts = Inr mux
    \<and> handle mux None RelationAdminServiceListMembershipsProcedure None (Inr (ListMemberships [] [])) sample_env event_world
        = (Answer (ErrorReply \<lparr>ce_Code = CodePermissionDenied, ce_Message = ''denied'', ce_Cause = None\<rparr>),
           reportAuthRejection RelationAdminServiceListMembershipsProcedure (Errorf ''denied'' []) event_world)
    \<and> handle mux None ''/admin'' None (Inr (ListMemberships [] [])) sample_env event_world = (NotFound, event_world)"
proof -
  obtain mux where mux: "NewHandlerWithVerifier gatekeeper (Inr silent_tracing) wired_mounts = Inr mux"
    using gatekeeper_mux by blast
  let ?listing = "RelationAdminServiceListMembershipsProcedure"
  from every_procedure_has_a_policy [OF mux silent_tracing_transparent, of None] obtain v1 v2
    where v2: "gatekeeper RelationAdminServicePolicies = Inr v2"
      and answers: "\<forall>p tok received E w. handle mux None p tok received E w =
       guarded_handler v1 v2 None p tok received E w" by blast
  have table: "map_of TenantServicePolicies ?listing = None" "map_of RelationAdminServicePolicies ?listing = Some
      \<lparr>pol_Level = LevelAuthenticated, pol_RequiredScopes = [''tenant.read''], pol_TokenUses = [''tenant_access'']\<rparr>"
    "?listing \<noteq> healthzPattern" "?listing \<noteq> ListMembershipsPattern"
    "map_of TenantServicePolicies ''/admin'' = None" "map_of RelationAdminServicePolicies ''/admin'' = None"
    by (simp_all add: TenantServicePolicies_def RelationAdminServicePolicies_def procedure_defs healthzPattern_def ListMembershipsPattern_def)
  have "v2 ?listing None = Inl (\<lparr>ce_Code = CodePermissionDenied, ce_Message = ''denied'', ce_Cause = None\<rparr>, Errorf ''denied'' [])"
    using v2 table(2) by (auto simp: gatekeeper_def admitted_def)
  with table mux show ?thesis
    by (intro exI [of _ mux]) (simp add: answers guarded_handler_def guarded_def healthzPattern_def ListMembershipsPattern_def)
qed

theorem administrative_defence_witness:
  "current_role (w_db event_world) ''u1'' ''alice'' = Some RoleOwner"
proof -
  obtain mux where mux: "NewHandlerWithVerifier gatekeeper (Inr silent_tracing) wired_mounts = Inr mux"
    using gatekeeper_mux by blast
  have run: "handle mux None (path_of (ArchiveTenant ''0707070707070707'')) (Some founder_token) (Inr (ArchiveTenant ''0707070707070707''))
      sample_env event_world = (Answer (fst (serve founder_ctx (ArchiveTenant ''0707070707070707'') sample_env event_world)), archived_world)"
    by (rule gatekeeper_handles [OF mux policy_of_simps(5) founder_admitted])
      (simp_all add: founder_token_def founder_ctx_def background_def archived_world_def)
  have "w_db archived_world \<noteq> w_db event_world"
    using archived_tenants event_world_rows(1) by (auto simp: claimed_row_def registered_row_def)
  moreover have "integrity (w_db event_world)" using reachable_sound [OF event_reachable] by simp
  ultimately show ?thesis
    using administrative_defence [OF gatekeeper_contract silent_tracing_transparent mux _ _ run]
    by (auto simp: event_world_rows founder_token_def claimed_row_def registered_row_def TrimSpace_fixed IsSpace_def)
qed

text \<open>
  C18: A caller without a verified token changes the database in one way only, by registering a tenant.
\<close>

theorem anonymous_callers_only_register:
  assumes "interceptor_contract verify interceptor_New" and "transparent tracing"
    and "NewHandlerWithVerifier interceptor_New (Inr tracing) wired_mounts = Inr mux"
    and i: "integrity (w_db w)" and anonymous: "Option.bind tok verify = None"
    and "handle mux write_err (path_of req) tok (Inr req) E w = (resp, w')"
  shows "w_db w' = w_db w \<or> (\<exists>name plan. req = StartTenantRegistration name plan)"
proof (cases "w_db w' = w_db w")
  case False
  with handled_request [OF assms(1-3) assms(6)]
  obtain c rep where c: "serve c req E w = (rep, w')" "\<not> ctx_tx c"
    "case policy_of req of None \<Rightarrow> ctx_claims c = None | Some pol \<Rightarrow> admitted pol (Option.bind tok verify) (ctx_claims c)"
    by (auto simp: reportAuthRejection_def)
  have "policy_of req = None \<or> (\<exists>pol. policy_of req = Some pol \<and> pol_Level pol = LevelPublic)"
    using c(3) anonymous by (auto simp: admitted_def split: option.splits authz_level.splits)
  from policy_open [OF this] open_request_reads [OF i c(2,1)] False show ?thesis by blast
qed simp

theorem anonymous_callers_only_register_witness:
  "\<exists>mux. NewHandlerWithVerifier gatekeeper (Inr silent_tracing) wired_mounts = Inr mux
    \<and> w_db (snd (handle mux None (path_of (ArchiveTenant ''0707070707070707'')) None (Inr (ArchiveTenant ''0707070707070707''))
        sample_env event_world)) = w_db event_world"
proof -
  let ?req = "ArchiveTenant ''0707070707070707''"
  obtain mux where mux: "NewHandlerWithVerifier gatekeeper (Inr silent_tracing) wired_mounts = Inr mux"
    using gatekeeper_mux by blast
  obtain resp w' where run: "handle mux None (path_of ?req) None (Inr ?req) sample_env event_world = (resp, w')"
    by (cases "handle mux None (path_of ?req) None (Inr ?req) sample_env event_world")
  have "integrity (w_db event_world)" using reachable_sound [OF event_reachable] by simp
  from anonymous_callers_only_register [OF gatekeeper_contract silent_tracing_transparent mux this _ run]
  have "w_db w' = w_db event_world" by simp
  then have "w_db (snd (handle mux None (path_of ?req) None (Inr ?req) sample_env event_world)) = w_db event_world"
    unfolding run snd_conv .
  with mux show ?thesis by blast
qed

end
